(* ===== verification/Prelude.thy ===== *)
theory Prelude
  imports Main "HOL-Library.Char_ord" "HOL-Library.List_Lexorder" "HOL-Library.Sublist"
begin

text \<open>
  Shared vocabulary of the development: the parts of Go's \<open>strings\<close>, \<open>bytes\<close>, \<open>path\<close>,
  \<open>strconv\<close> and \<open>fmt\<close> packages that the modelled code calls, over byte strings
  (\<^typ>\<open>string\<close>, one \<^typ>\<open>char\<close> per byte), with the generic lemmas the component
  theories rest on.  Go strings are byte sequences, so \<^const>\<open>length\<close> is Go's \<open>len\<close>.
\<close>

type_synonym bytes = string

named_theorems go_defs \<open>definitions of the Go library functions\<close>
named_theorems policy_simps \<open>characterisations the component proofs rewrite with\<close>

lemma find_SomeD: "find P xs = Some x \<Longrightarrow> x \<in> set xs \<and> P x"
  by (auto simp: find_Some_iff)

lemma find_append: "find P (xs @ ys) = (case find P xs of None \<Rightarrow> find P ys | Some x \<Rightarrow> Some x)"
  by (induction xs) auto

lemma concat_map_Nil [simp]: "concat (map (\<lambda>_. []) xs) = []"
  by (induction xs) auto

lemma map_filter_in: "y \<in> set (List.map_filter f xs) \<longleftrightarrow> (\<exists>x\<in>set xs. f x = Some y)"
  by (induction xs) (auto simp: List.map_filter_simps split: option.splits)

section \<open>Prefixes, suffixes and searching (package strings)\<close>

primrec has_prefix :: "string \<Rightarrow> string \<Rightarrow> bool" where
  "has_prefix s [] = True"
| "has_prefix s (p # ps) = (case s of [] \<Rightarrow> False | c # cs \<Rightarrow> c = p \<and> has_prefix cs ps)"

definition has_suffix :: "string \<Rightarrow> string \<Rightarrow> bool" where
  [go_defs]: "has_suffix s p = has_prefix (rev s) (rev p)"

definition trim_prefix :: "string \<Rightarrow> string \<Rightarrow> string" where
  [go_defs]: "trim_prefix s p = (if has_prefix s p then drop (length p) s else s)"

definition trim_suffix :: "string \<Rightarrow> string \<Rightarrow> string" where
  [go_defs]: "trim_suffix s p = (if has_suffix s p then take (length s - length p) s else s)"

primrec index_byte :: "string \<Rightarrow> char \<Rightarrow> nat option" where
  "index_byte [] b = None"
| "index_byte (c # cs) b = (if c = b then Some 0 else map_option Suc (index_byte cs b))"

primrec str_index :: "string \<Rightarrow> string \<Rightarrow> nat option" where
  "str_index [] p = (if p = [] then Some 0 else None)"
| "str_index (c # cs) p =
     (if has_prefix (c # cs) p then Some 0 else map_option Suc (str_index cs p))"

primrec last_index :: "string \<Rightarrow> string \<Rightarrow> nat option" where
  "last_index [] p = (if p = [] then Some 0 else None)"
| "last_index (c # cs) p =
     (case last_index cs p of
        Some i \<Rightarrow> Some (Suc i)
      | None \<Rightarrow> if has_prefix (c # cs) p then Some 0 else None)"

definition str_contains :: "string \<Rightarrow> string \<Rightarrow> bool" where
  [go_defs]: "str_contains s p = (str_index s p \<noteq> None)"

primrec count_byte :: "string \<Rightarrow> char \<Rightarrow> nat" where
  "count_byte [] b = 0"
| "count_byte (c # cs) b = (if c = b then Suc (count_byte cs b) else count_byte cs b)"

lemma count_byte_append: "count_byte (xs @ ys) b = count_byte xs b + count_byte ys b"
  by (induction xs) auto

lemma has_prefix_Nil_Cons [simp]: "has_prefix [] (p # ps) = False"
  by simp

lemma has_prefix_Cons_Cons [simp]: "has_prefix (c # cs) (p # ps) = (c = p \<and> has_prefix cs ps)"
  by simp

declare has_prefix.simps(2) [simp del]

lemma has_prefix_iff: "has_prefix s p \<longleftrightarrow> take (length p) s = p"
proof (induction p arbitrary: s)
  case (Cons p ps)
  then show ?case by (cases s) auto
qed simp

lemma has_prefix_append [simp]: "has_prefix (p @ s) p"
  by (induction p) auto

lemma has_prefix_exists: "has_prefix s p \<longleftrightarrow> (\<exists>r. s = p @ r)"
  by (metis append_take_drop_id has_prefix_append has_prefix_iff)

lemma has_prefix_self [simp]: "has_prefix p p"
  by (simp add: has_prefix_iff)

lemma has_prefix_length: "has_prefix s p \<Longrightarrow> length p \<le> length s"
  by (auto simp: has_prefix_exists)

lemma has_prefix_trans: "has_prefix s p \<Longrightarrow> has_prefix p q \<Longrightarrow> has_prefix s q"
  by (auto simp: has_prefix_exists)

lemma has_prefix_append_right: "has_prefix p q \<Longrightarrow> has_prefix (p @ s) q"
  by (auto simp: has_prefix_exists)

lemma has_suffix_exists: "has_suffix s p \<longleftrightarrow> (\<exists>r. s = r @ p)"
  by (metis has_prefix_exists has_suffix_def rev_append rev_rev_ident)

lemma trim_prefix_append [simp]: "trim_prefix (p @ s) p = s"
  by (simp add: trim_prefix_def)

lemma index_byte_Some:
  "index_byte s b = Some i \<Longrightarrow> i < length s \<and> s ! i = b \<and> b \<notin> set (take i s)"
  by (induction s arbitrary: i) (auto split: if_splits)

lemma index_byte_None: "index_byte s b = None \<longleftrightarrow> b \<notin> set s"
  by (induction s) auto

lemma index_byte_append:
  "b \<notin> set xs \<Longrightarrow> index_byte (xs @ b # ys) b = Some (length xs)"
  by (induction xs) auto

lemma last_index_Some:
  "last_index s p = Some i \<Longrightarrow> i \<le> length s \<and> has_prefix (drop i s) p"
proof (induction s arbitrary: i)
  case Nil
  then show ?case by (cases p) auto
next
  case (Cons c cs)
  show ?case
  proof (cases "last_index cs p")
    case None
    with Cons.prems have "i = 0" and "has_prefix (c # cs) p"
      by (auto split: if_splits)
    then show ?thesis by simp
  next
    case (Some j)
    with Cons.prems have "i = Suc j" by simp
    with Cons.IH [OF Some] show ?thesis by simp
  qed
qed

lemma last_index_ge:
  "p \<noteq> [] \<Longrightarrow> i \<le> length s \<Longrightarrow> has_prefix (drop i s) p \<Longrightarrow> \<exists>j\<ge>i. last_index s p = Some j"
proof (induction s arbitrary: i)
  case Nil
  then show ?case by (cases p) auto
next
  case (Cons c cs)
  show ?case
  proof (cases i)
    case 0
    with Cons.prems show ?thesis by (auto split: option.splits)
  next
    case (Suc k)
    with Cons.prems Cons.IH [of k] obtain j where "j \<ge> k" "last_index cs p = Some j" by auto
    with Suc show ?thesis by auto
  qed
qed

lemma last_index_None:
  "p \<noteq> [] \<Longrightarrow> last_index s p = None \<Longrightarrow> i \<le> length s \<Longrightarrow> \<not> has_prefix (drop i s) p"
  using last_index_ge by fastforce

section \<open>Splitting and joining\<close>

text \<open>\<open>strings.Split\<close> with a one-byte separator: never empty, one piece more than separators.\<close>

primrec split_on :: "char \<Rightarrow> string \<Rightarrow> string list" where
  "split_on d [] = [[]]"
| "split_on d (c # cs) =
     (if c = d then [] # split_on d cs
      else case split_on d cs of [] \<Rightarrow> [[c]] | w # ws \<Rightarrow> (c # w) # ws)"

fun join_with :: "string \<Rightarrow> string list \<Rightarrow> string" where
  "join_with d [] = []"
| "join_with d [w] = w"
| "join_with d (w # ws) = w @ d @ join_with d ws"

lemma split_on_nonempty [simp]: "split_on d s \<noteq> []"
  by (induction s) (auto split: list.splits)

lemma join_with_Cons: "ws \<noteq> [] \<Longrightarrow> join_with d (w # ws) = w @ d @ join_with d ws"
  by (cases ws) auto

lemma join_split [simp]: "join_with [d] (split_on d s) = s"
proof (induction s)
  case Nil
  then show ?case by simp
next
  case (Cons c cs)
  obtain w ws where eq: "split_on d cs = w # ws"
    by (metis list.exhaust split_on_nonempty)
  with Cons show ?case by (cases ws) auto
qed

lemma split_on_no_sep: "w \<in> set (split_on d s) \<Longrightarrow> d \<notin> set w"
proof (induction s arbitrary: w)
  case Nil
  then show ?case by simp
next
  case (Cons c cs)
  obtain x xs where eq: "split_on d cs = x # xs"
    by (metis list.exhaust split_on_nonempty)
  with Cons show ?case by (auto split: if_splits)
qed

lemma split_on_append:
  "d \<notin> set w \<Longrightarrow> split_on d (w @ d # s) = w # split_on d s"
  by (induction w) auto

lemma split_on_single: "d \<notin> set w \<Longrightarrow> split_on d w = [w]"
  by (induction w) auto

lemma split_join:
  "ws \<noteq> [] \<Longrightarrow> \<forall>w\<in>set ws. d \<notin> set w \<Longrightarrow> split_on d (join_with [d] ws) = ws"
proof (induction ws)
  case Nil
  then show ?case by simp
next
  case (Cons w ws)
  then show ?case
    by (cases "ws = []") (auto simp: split_on_single join_with_Cons split_on_append)
qed

lemma set_split_on: "w \<in> set (split_on d s) \<Longrightarrow> set w \<subseteq> set s"
proof (induction s arbitrary: w)
  case Nil
  then show ?case by simp
next
  case (Cons c cs)
  obtain x xs where eq: "split_on d cs = x # xs"
    by (metis list.exhaust split_on_nonempty)
  with Cons.IH have "set x \<subseteq> set cs" and "\<forall>v\<in>set xs. set v \<subseteq> set cs" by auto
  with Cons.prems eq show ?case by (auto split: if_splits)
qed

section \<open>White space (unicode.IsSpace on UTF-8 bytes)\<close>

text \<open>
  \<open>space_len s\<close> is the number of bytes of the white-space character at the start of \<open>s\<close>, 0 if
  there is none: the ASCII ones and the UTF-8 encodings of U+0085, U+00A0, U+1680, U+2000 to
  U+200A, U+2028, U+2029, U+202F, U+205F and U+3000.  Their lead bytes are never continuation
  bytes, so a scan byte by byte finds the same characters as a scan rune by rune.
\<close>

definition ascii_space :: "char \<Rightarrow> bool" where
  [go_defs]: "ascii_space c =
     (c = CHR 0x20 \<or> c = CHR 0x09 \<or> c = CHR 0x0A \<or> c = CHR 0x0B \<or> c = CHR 0x0C \<or> c = CHR 0x0D)"

fun wide_space :: "string \<Rightarrow> nat" where
  "wide_space (a # b # c # _) =
     (if a = CHR 0xC2 \<and> (b = CHR 0x85 \<or> b = CHR 0xA0) then 2
      else if a = CHR 0xE1 \<and> b = CHR 0x9A \<and> c = CHR 0x80 then 3
      else if a = CHR 0xE2 \<and> b = CHR 0x80 \<and>
        (0x80 \<le> (of_char c :: nat) \<and> (of_char c :: nat) \<le> 0x8A
         \<or> c = CHR 0xA8 \<or> c = CHR 0xA9 \<or> c = CHR 0xAF) then 3
      else if a = CHR 0xE2 \<and> b = CHR 0x81 \<and> c = CHR 0x9F then 3
      else if a = CHR 0xE3 \<and> b = CHR 0x80 \<and> c = CHR 0x80 then 3
      else 0)"
| "wide_space [a, b] = (if a = CHR 0xC2 \<and> (b = CHR 0x85 \<or> b = CHR 0xA0) then 2 else 0)"
| "wide_space _ = 0"

definition space_len :: "string \<Rightarrow> nat" where
  [go_defs]: "space_len s =
     (case s of [] \<Rightarrow> 0 | c # _ \<Rightarrow> if ascii_space c then 1 else wide_space s)"

lemma space_len_Nil [simp]: "space_len [] = 0"
  by (simp add: space_len_def)

text \<open>\<open>strings.TrimLeft\<close> with \<open>unicode.IsSpace\<close>, and \<open>strings.TrimSpace\<close>.\<close>

function trim_left_space :: "string \<Rightarrow> string" where
  "trim_left_space s =
     (if space_len s = 0 then s else trim_left_space (drop (space_len s) s))"
  by pat_completeness auto
termination
  by (relation "measure length") (auto simp: space_len_def split: list.splits)

declare trim_left_space.simps [simp del]

fun trim_right_space :: "string \<Rightarrow> string" where
  "trim_right_space [] = []"
| "trim_right_space (c # cs) =
     (if trim_left_space (c # cs) = [] then [] else c # trim_right_space cs)"

definition trim_space :: "string \<Rightarrow> string" where
  [go_defs]: "trim_space s = trim_right_space (trim_left_space s)"

text \<open>\<open>strings.Fields\<close>: the maximal runs of non-space bytes.\<close>

function fields_from :: "string \<Rightarrow> string \<Rightarrow> string list" where
  "fields_from cur s =
     (case s of
        [] \<Rightarrow> (if cur = [] then [] else [rev cur])
      | c # cs \<Rightarrow>
          (if space_len s = 0 then fields_from (c # cur) cs
           else (if cur = [] then [] else [rev cur]) @ fields_from [] (drop (space_len s) s)))"
  by pat_completeness auto
termination
  by (relation "measure (\<lambda>(cur, s). length s)") auto

declare fields_from.simps [simp del]

definition str_fields :: "string \<Rightarrow> string list" where
  [go_defs]: "str_fields s = fields_from [] s"

lemma fields_from_nonempty: "w \<in> set (fields_from cur s) \<Longrightarrow> w \<noteq> []"
proof (induction cur s rule: fields_from.induct)
  case (1 cur s)
  show ?case
  proof (cases s)
    case Nil
    with "1.prems" show ?thesis by (simp add: fields_from.simps split: if_splits)
  next
    case (Cons c cs)
    show ?thesis
    proof (cases "space_len s = 0")
      case True
      with "1.prems" "1.IH"(1) [OF Cons True] Cons show ?thesis
        by (simp add: fields_from.simps [of cur])
    next
      case False
      with "1.prems" "1.IH"(2) [OF Cons False] Cons show ?thesis
        by (auto simp: fields_from.simps [of cur] split: if_splits)
    qed
  qed
qed

lemma str_fields_nonempty: "w \<in> set (str_fields s) \<Longrightarrow> w \<noteq> []"
  by (simp add: str_fields_def fields_from_nonempty)

section \<open>Case and numbers\<close>

definition is_upper :: "char \<Rightarrow> bool" where
  [go_defs]: "is_upper c = (65 \<le> (of_char c :: nat) \<and> (of_char c :: nat) \<le> 90)"
definition is_lower :: "char \<Rightarrow> bool" where
  [go_defs]: "is_lower c = (97 \<le> (of_char c :: nat) \<and> (of_char c :: nat) \<le> 122)"
definition is_digit :: "char \<Rightarrow> bool" where
  [go_defs]: "is_digit c = (48 \<le> (of_char c :: nat) \<and> (of_char c :: nat) \<le> 57)"

text \<open>\<open>strings.ToLower\<close> and \<open>strings.EqualFold\<close> on ASCII text; other bytes are kept.\<close>

definition lower_char :: "char \<Rightarrow> char" where
  [go_defs]: "lower_char c = (if is_upper c then char_of (of_char c + 32 :: nat) else c)"

definition to_lower :: "string \<Rightarrow> string" where
  [go_defs]: "to_lower s = map lower_char s"

definition equal_fold :: "string \<Rightarrow> string \<Rightarrow> bool" where
  [go_defs]: "equal_fold a b = (to_lower a = to_lower b)"

definition digit_char :: "nat \<Rightarrow> char" where
  [go_defs]: "digit_char n = char_of (48 + n)"

fun show_nat :: "nat \<Rightarrow> string" where
  "show_nat n = (if n < 10 then [digit_char n] else show_nat (n div 10) @ [digit_char (n mod 10)])"

declare show_nat.simps [simp del]

definition show_int :: "int \<Rightarrow> string" where
  [go_defs]: "show_int i = (if i < 0 then CHR ''-'' # show_nat (nat (- i)) else show_nat (nat i))"

primrec read_digits :: "nat \<Rightarrow> string \<Rightarrow> nat option" where
  "read_digits acc [] = Some acc"
| "read_digits acc (c # cs) =
     (if is_digit c then read_digits (acc * 10 + (of_char c - 48)) cs else None)"

text \<open>\<open>strconv.Atoi\<close>: an optional sign, decimal digits, and the 64-bit range.\<close>

definition atoi :: "string \<Rightarrow> int option" where
  [go_defs]: "atoi s =
     (let neg = (case s of c # _ \<Rightarrow> c = CHR ''-'' | [] \<Rightarrow> False);
          ds = (case s of c # cs \<Rightarrow> if c = CHR ''-'' \<or> c = CHR ''+'' then cs else s | [] \<Rightarrow> [])
      in if ds = [] then None
         else case read_digits 0 ds of
           None \<Rightarrow> None
         | Some n \<Rightarrow>
             (let i = (if neg then - int n else int n)
              in if - (2 ^ 63) \<le> i \<and> i < 2 ^ 63 then Some i else None))"

lemma of_char_digit_char: "n < 10 \<Longrightarrow> of_char (digit_char n) = 48 + n"
  by (simp add: digit_char_def of_char_of)

lemma show_nat_digits: "c \<in> set (show_nat n) \<Longrightarrow> is_digit c"
proof (induction n rule: show_nat.induct)
  case (1 n)
  have d: "is_digit (digit_char k)" if "k < 10" for k
    using that by (simp add: is_digit_def of_char_digit_char)
  show ?case
  proof (cases "n < 10")
    case True
    with 1 d show ?thesis by (simp add: show_nat.simps [of n])
  next
    case False
    with 1 d [of "n mod 10"] show ?thesis by (auto simp: show_nat.simps [of n])
  qed
qed

lemma show_nat_nonempty [simp]: "show_nat n \<noteq> []"
  by (simp add: show_nat.simps [of n])

lemma read_digits_append:
  "read_digits acc (xs @ ys) = Option.bind (read_digits acc xs) (\<lambda>a. read_digits a ys)"
  by (induction xs arbitrary: acc) auto

lemma read_show_nat: "read_digits 0 (show_nat n) = Some n"
proof (induction n rule: show_nat.induct)
  case (1 n)
  have d: "is_digit (digit_char k)" if "k < 10" for k
    using that by (simp add: is_digit_def of_char_digit_char)
  show ?case
  proof (cases "n < 10")
    case True
    with d [of n] show ?thesis by (simp add: show_nat.simps [of n] of_char_digit_char)
  next
    case False
    with 1 d [of "n mod 10"] show ?thesis
      by (simp add: show_nat.simps [of n] read_digits_append of_char_digit_char)
  qed
qed

lemma show_nat_inject: "show_nat m = show_nat n \<longleftrightarrow> m = n"
  by (metis option.inject read_show_nat)

section \<open>Runes\<close>

text \<open>
  \<open>utf8_len s\<close> is the number of bytes of the well-formed UTF-8 sequence at the start of \<open>s\<close>, 0 if
  there is none; \<open>runes\<close> is Go's conversion to a rune slice, each rune kept as its encoding, with
  the replacement character for a byte that starts no well-formed sequence.
\<close>

definition byte_in :: "nat \<Rightarrow> nat \<Rightarrow> string \<Rightarrow> nat \<Rightarrow> bool" where
  [go_defs]: "byte_in lo hi s i = (i < length s \<and> lo \<le> of_char (s ! i) \<and> of_char (s ! i) \<le> hi)"

definition utf8_len :: "string \<Rightarrow> nat" where
  [go_defs]: "utf8_len s =
     (let cont = byte_in 0x80 0xBF s in
      if byte_in 0x00 0x7F s 0 then 1
      else if byte_in 0xC2 0xDF s 0 \<and> cont 1 then 2
      else if (byte_in 0xE0 0xE0 s 0 \<and> byte_in 0xA0 0xBF s 1 \<or> byte_in 0xE1 0xEC s 0 \<and> cont 1 \<or>
          byte_in 0xED 0xED s 0 \<and> byte_in 0x80 0x9F s 1 \<or> byte_in 0xEE 0xEF s 0 \<and> cont 1) \<and> cont 2 then 3
      else if (byte_in 0xF0 0xF0 s 0 \<and> byte_in 0x90 0xBF s 1 \<or> byte_in 0xF1 0xF3 s 0 \<and> cont 1 \<or>
          byte_in 0xF4 0xF4 s 0 \<and> byte_in 0x80 0x8F s 1) \<and> cont 2 \<and> cont 3 then 4
      else 0)"

function runes :: "string \<Rightarrow> string list" where
  "runes s =
     (if s = [] then []
      else if utf8_len s = 0 then [CHR 0xEF, CHR 0xBF, CHR 0xBD] # runes (drop 1 s)
      else take (utf8_len s) s # runes (drop (utf8_len s) s))"
  by pat_completeness auto
termination
  by (relation "measure length") auto

declare runes.simps [simp del]

definition trim_left_set :: "string \<Rightarrow> char set \<Rightarrow> string" where
  [go_defs]: "trim_left_set s cs = dropWhile (\<lambda>c. c \<in> cs) s"

definition trim_right_set :: "string \<Rightarrow> char set \<Rightarrow> string" where
  [go_defs]: "trim_right_set s cs = rev (dropWhile (\<lambda>c. c \<in> cs) (rev s))"

primrec index_set :: "string \<Rightarrow> char set \<Rightarrow> nat option" where
  "index_set [] cs = None"
| "index_set (b # bs) cs = (if b \<in> cs then Some 0 else map_option Suc (index_set bs cs))"

definition trim_set :: "string \<Rightarrow> char set \<Rightarrow> string" where
  [go_defs]: "trim_set s cs = trim_right_set (trim_left_set s cs) cs"

text \<open>\<open>strings.Cut\<close>: the text before and after the first separator, and whether there is one.\<close>

definition str_cut :: "string \<Rightarrow> string \<Rightarrow> string \<times> string \<times> bool" where
  "str_cut s sep =
     (case str_index s sep of None \<Rightarrow> (s, [], False) | Some i \<Rightarrow> (take i s, drop (i + length sep) s, True))"

definition to_upper :: "string \<Rightarrow> string" where
  [go_defs]: "to_upper s = map (\<lambda>c. if is_lower c then char_of (of_char c - 32 :: nat) else c) s"

text \<open>\<open>slices.IndexFunc\<close>, and appending what is not there yet.\<close>

primrec index_where :: "('a \<Rightarrow> bool) \<Rightarrow> 'a list \<Rightarrow> nat option" where
  "index_where P [] = None"
| "index_where P (x # xs) = (if P x then Some 0 else map_option Suc (index_where P xs))"

lemma index_where_Some: "index_where P xs = Some i \<Longrightarrow> i < length xs \<and> P (xs ! i)"
  by (induction xs arbitrary: i) (auto split: if_splits)

lemma index_where_None: "index_where P xs = None \<longleftrightarrow> (\<forall>x\<in>set xs. \<not> P x)"
  by (induction xs) auto

definition add_new :: "'a list \<Rightarrow> 'a \<Rightarrow> 'a list" where
  "add_new xs x = (if x \<in> set xs then xs else xs @ [x])"

lemma set_add_new [simp]: "set (add_new xs x) = insert x (set xs)"
  by (auto simp: add_new_def)

lemma distinct_add_new [simp]: "distinct (add_new xs x) = distinct xs"
  by (auto simp: add_new_def)

end
