(* ===== verification/Path_Policy.thy ===== *)
theory Path_Policy
  imports Prelude "HOL-Library.Multiset"
begin

text \<open>
  \<open>internal/policy/path.go\<close>: which paths of a target the host collector may read, which it may
  only stat, and which it may not touch.  The tables are the compiled-in ones; \<open>path.Clean\<close>,
  \<open>path.Base\<close> and \<open>path.Match\<close> are Go's, the last for patterns whose only metacharacter is
  \<open>*\<close>, as every pattern of the tables is.  The Go map \<open>metadataPrefixes\<close> is iterated in an
  unspecified order, so it is a list here and the lookup takes the list as an argument.
\<close>

section \<open>Package path\<close>

abbreviation slash :: char where "slash \<equiv> CHR ''/''"

definition clean_step :: "bool \<Rightarrow> string \<Rightarrow> string list \<Rightarrow> string list" where
  "clean_step rooted c st =
     (if c = [] \<or> c = ''.'' then st
      else if c = ''..'' then
        (case st of
           [] \<Rightarrow> if rooted then [] else [c]
         | t # below \<Rightarrow> if t = ''..'' then c # st else below)
      else c # st)"

definition clean_comps :: "string \<Rightarrow> string list" where
  "clean_comps s = rev (fold (clean_step (has_prefix s ''/'')) (split_on slash s) [])"

definition path_clean :: "string \<Rightarrow> string" where
  "path_clean s =
     (if s = [] then ''.''
      else if has_prefix s ''/'' then slash # join_with ''/'' (clean_comps s)
      else if clean_comps s = [] then ''.''
      else join_with ''/'' (clean_comps s))"

primrec strip_slashes_rev :: "string \<Rightarrow> string" where
  "strip_slashes_rev [] = []"
| "strip_slashes_rev (c # cs) = (if c = slash then strip_slashes_rev cs else c # cs)"

definition path_base :: "string \<Rightarrow> string" where
  "path_base s =
     (if s = [] then ''.''
      else (let t = rev (strip_slashes_rev (rev s)) in
        if t = [] then ''/'' else List.last (split_on slash t)))"

fun glob_match :: "string \<Rightarrow> string \<Rightarrow> bool" where
  "glob_match [] s = (s = [])"
| "glob_match (p # ps) s =
     (if p = CHR ''*'' then
        glob_match ps s \<or> (case s of [] \<Rightarrow> False | c # cs \<Rightarrow> c \<noteq> slash \<and> glob_match (p # ps) cs)
      else (case s of [] \<Rightarrow> False | c # cs \<Rightarrow> c = p \<and> glob_match ps cs))"

section \<open>Decisions and tables\<close>

datatype path_decision = PathDeny | PathAllow | PathMetadataOnly

fun decision_string :: "path_decision \<Rightarrow> string" where
  "decision_string PathAllow = ''allow''"
| "decision_string PathMetadataOnly = ''metadata-only''"
| "decision_string PathDeny = ''deny''"

record path_verdict =
  verdict_decision :: path_decision
  verdict_rule :: string

definition RuleConfigDeny :: string where "RuleConfigDeny = ''path.config_deny''"
definition RuleNotAllowed :: string where "RuleNotAllowed = ''path.not_allowed''"
definition RuleHomeMetadata :: string where "RuleHomeMetadata = ''path.home_metadata''"
definition RuleLogMetadata :: string where "RuleLogMetadata = ''path.log_metadata''"
definition RuleSensitivePrefx :: string where "RuleSensitivePrefx = ''path.sensitive:''"

definition allowedPrefixes :: "string list" where
  "allowedPrefixes =
     [''/etc'', ''/usr/local/etc'', ''/opt/*/etc'', ''/usr/lib/systemd'', ''/lib/systemd'',
      ''/run/systemd'', ''/proc/sys'', ''/Library/LaunchDaemons'', ''/Library/LaunchAgents'',
      ''/Library/Preferences'', ''/System/Library/LaunchDaemons'', ''/System/Library/LaunchAgents'']"

definition metadataPrefixes :: "(string \<times> string) list" where
  "metadataPrefixes =
     [(''/var/log'', RuleLogMetadata), (''/home'', RuleHomeMetadata), (''/root'', RuleHomeMetadata),
      (''/Users'', RuleHomeMetadata), (''/var/root'', RuleHomeMetadata)]"

datatype sensitive_kind = MatchFull | MatchBase | MatchComponent

record sensitive_rule =
  sr_name :: string
  sr_kind :: sensitive_kind
  sr_pattern :: string

abbreviation sr :: "string \<Rightarrow> sensitive_kind \<Rightarrow> string \<Rightarrow> sensitive_rule" where
  "sr n k p \<equiv> \<lparr>sr_name = n, sr_kind = k, sr_pattern = p\<rparr>"

definition sensitiveRules :: "sensitive_rule list" where
  "sensitiveRules =
     [sr ''shadow'' MatchFull ''/etc/shadow'',
      sr ''shadow'' MatchFull ''/etc/shadow-'',
      sr ''shadow'' MatchFull ''/etc/gshadow'',
      sr ''shadow'' MatchFull ''/etc/gshadow-'',
      sr ''master_passwd'' MatchFull ''/etc/master.passwd'',
      sr ''ssh_host_key'' MatchFull ''/etc/ssh/ssh_host_*_key'',
      sr ''ssh_identity'' MatchBase ''id_*'',
      sr ''key_file'' MatchBase ''*.key'',
      sr ''pem_file'' MatchBase ''*.pem'',
      sr ''p12_file'' MatchBase ''*.p12'',
      sr ''pfx_file'' MatchBase ''*.pfx'',
      sr ''keytab'' MatchBase ''*.keytab'',
      sr ''netrc'' MatchBase ''.netrc'',
      sr ''git_credentials'' MatchBase ''.git-credentials'',
      sr ''ssh_dir'' MatchComponent ''.ssh'',
      sr ''aws_dir'' MatchComponent ''.aws'',
      sr ''gnupg_dir'' MatchComponent ''.gnupg'',
      sr ''wireguard'' MatchFull ''/etc/wireguard/*'',
      sr ''sssd_secrets'' MatchFull ''/var/lib/sss/secrets/*'']"

section \<open>The policy\<close>

definition canonical :: "string \<Rightarrow> bool \<Rightarrow> string" where
  "canonical p macOS =
     (if macOS \<and> list_ex (\<lambda>root. p = root \<or> has_prefix p (root @ ''/''))
                   [''/private/etc'', ''/private/var'', ''/private/tmp'']
      then trim_prefix p ''/private'' else p)"

record path_policy =
  extraDeny :: "string list"

definition newPathPolicy :: "string list \<Rightarrow> path_policy" where
  "newPathPolicy denyPaths =
     \<lparr>extraDeny = filter (\<lambda>d. d \<noteq> ''/'' \<and> has_prefix d ''/'') (map path_clean denyPaths)\<rparr>"

definition underPrefix :: "string \<Rightarrow> string \<Rightarrow> bool" where
  "underPrefix p pre = (p = pre \<or> has_prefix p (pre @ ''/''))"

definition underGlobPrefix :: "string \<Rightarrow> string \<Rightarrow> bool" where
  "underGlobPrefix p pattern =
     (let ps = split_on slash (trim_prefix p ''/'');
          gs = split_on slash (trim_prefix pattern ''/'')
      in length gs \<le> length ps \<and> list_all (\<lambda>(g, x). glob_match g x) (zip gs ps))"

definition sensitive_hit :: "string \<Rightarrow> sensitive_rule \<Rightarrow> bool" where
  "sensitive_hit p r =
     (case sr_kind r of
        MatchFull \<Rightarrow> glob_match (sr_pattern r) p
      | MatchBase \<Rightarrow> glob_match (sr_pattern r) (path_base p) \<and>
          \<not> (sr_name r = ''ssh_identity'' \<and> has_suffix (path_base p) ''.pub'')
      | MatchComponent \<Rightarrow>
          sr_pattern r \<in> set (butlast (split_on slash (trim_prefix p ''/''))))"

definition sensitive :: "string \<Rightarrow> string option" where
  "sensitive p = map_option sr_name (find (sensitive_hit p) sensitiveRules)"

definition allowedContent :: "string \<Rightarrow> bool" where
  "allowedContent p = list_ex (underGlobPrefix p) allowedPrefixes"

definition metadataPrefix :: "(string \<times> string) list \<Rightarrow> string \<Rightarrow> string" where
  "metadataPrefix tbl p =
     (case find (\<lambda>(pre, rule). underPrefix p pre) tbl of None \<Rightarrow> [] | Some (_, rule) \<Rightarrow> rule)"

abbreviation verdict :: "path_decision \<Rightarrow> string \<Rightarrow> path_verdict" where
  "verdict d r \<equiv> \<lparr>verdict_decision = d, verdict_rule = r\<rparr>"

definition decide :: "path_policy \<Rightarrow> string \<Rightarrow> path_verdict" where
  "decide pp path =
     (let p = path_clean path in
      if \<not> has_prefix p ''/'' then verdict PathDeny RuleNotAllowed
      else if list_ex (underPrefix p) (extraDeny pp) then verdict PathDeny RuleConfigDeny
      else case sensitive p of
        Some name \<Rightarrow>
          (if allowedContent p \<or> metadataPrefix metadataPrefixes p \<noteq> []
           then verdict PathMetadataOnly (RuleSensitivePrefx @ name)
           else verdict PathDeny RuleNotAllowed)
      | None \<Rightarrow>
          (if allowedContent p then verdict PathAllow []
           else if metadataPrefix metadataPrefixes p \<noteq> []
           then verdict PathMetadataOnly (metadataPrefix metadataPrefixes p)
           else verdict PathDeny RuleNotAllowed))"


section \<open>Cleaned paths are lists of proper components\<close>

definition proper :: "string \<Rightarrow> bool" where
  "proper c = (c \<noteq> [] \<and> c \<noteq> ''.'' \<and> c \<noteq> ''..'' \<and> slash \<notin> set c)"

definition abs_path :: "string list \<Rightarrow> string" where
  "abs_path cs = slash # join_with ''/'' cs"

lemma clean_step_proper:
  "list_all proper st \<Longrightarrow> slash \<notin> set c \<Longrightarrow> list_all proper (clean_step True c st)"
  by (cases st) (auto simp: clean_step_def proper_def)

lemma fold_clean_proper:
  "list_all proper st \<Longrightarrow> \<forall>c\<in>set cs. slash \<notin> set c \<Longrightarrow>
     list_all proper (fold (clean_step True) cs st)"
  by (induction cs arbitrary: st) (auto simp: clean_step_proper)

lemma clean_comps_proper:
  "has_prefix s ''/'' \<Longrightarrow> list_all proper (clean_comps s)"
  using fold_clean_proper [of "[]" "split_on slash s"] split_on_no_sep
  by (auto simp: clean_comps_def)

lemma path_clean_rooted: "has_prefix s ''/'' \<Longrightarrow> path_clean s = abs_path (clean_comps s)"
  by (cases s) (auto simp: path_clean_def abs_path_def)

lemma fold_clean_id:
  "list_all proper cs \<Longrightarrow> fold (clean_step r) cs st = rev cs @ st"
  by (induction cs arbitrary: st) (auto simp: clean_step_def proper_def)

lemma split_abs_path:
  "cs \<noteq> [] \<Longrightarrow> list_all proper cs \<Longrightarrow> split_on slash (join_with ''/'' cs) = cs"
  by (rule split_join) (auto simp: proper_def list_all_iff)

lemma abs_path_rooted [simp]: "has_prefix (abs_path cs) ''/''"
  by (simp add: abs_path_def)

lemma clean_comps_abs_path: "list_all proper cs \<Longrightarrow> clean_comps (abs_path cs) = cs"
proof (cases "cs = []")
  case True
  then show ?thesis by (simp add: clean_comps_def abs_path_def clean_step_def)
next
  case False
  assume ok: "list_all proper cs"
  have "split_on slash (abs_path cs) = [] # cs"
    using split_abs_path [OF False ok] by (simp add: abs_path_def)
  then show ?thesis
    by (simp add: clean_comps_def fold_clean_id [OF ok] clean_step_def)
qed

lemma path_clean_abs_path: "list_all proper cs \<Longrightarrow> path_clean (abs_path cs) = abs_path cs"
  by (simp add: path_clean_rooted clean_comps_abs_path)

lemma set_clean_step: "x \<in> set (clean_step r c st) \<Longrightarrow> x \<in> set st \<or> x = c \<and> c \<noteq> []"
  unfolding clean_step_def by (cases st) (auto split: if_splits)

lemma fold_clean_relative:
  "\<forall>c\<in>set st. c \<noteq> [] \<and> slash \<notin> set c \<Longrightarrow> \<forall>c\<in>set cs. slash \<notin> set c \<Longrightarrow>
     \<forall>c\<in>set (fold (clean_step r) cs st). c \<noteq> [] \<and> slash \<notin> set c"
proof (induction cs arbitrary: st)
  case (Cons x xs)
  from Cons.prems(2) have x: "slash \<notin> set x" and xs: "\<forall>c\<in>set xs. slash \<notin> set c" by simp_all
  have "c \<noteq> [] \<and> slash \<notin> set c" if "c \<in> set (clean_step r x st)" for c
    using set_clean_step [OF that] Cons.prems(1) x by blast
  then have "\<forall>c\<in>set (fold (clean_step r) xs (clean_step r x st)). c \<noteq> [] \<and> slash \<notin> set c"
    by (intro Cons.IH xs) blast
  then show ?case by (simp only: fold_simps)
qed simp

lemma path_clean_relative: "\<not> has_prefix s ''/'' \<Longrightarrow> \<not> has_prefix (path_clean s) ''/''"
proof (cases "clean_comps s")
  case (Cons c cs)
  assume rel: "\<not> has_prefix s ''/''"
  have "\<forall>c\<in>set (split_on slash s). slash \<notin> set c" using split_on_no_sep by blast
  then have "\<forall>c\<in>set (clean_comps s). c \<noteq> [] \<and> slash \<notin> set c"
    unfolding clean_comps_def set_rev by (intro fold_clean_relative) simp_all
  then have "c \<noteq> [] \<and> slash \<notin> set c" using Cons by simp
  then obtain d ds where "c = d # ds" "d \<noteq> slash" by (cases c) auto
  then have "\<not> has_prefix (join_with ''/'' (c # cs)) ''/''" by (cases cs) auto
  with Cons rel show ?thesis by (auto simp: path_clean_def)
qed (auto simp: path_clean_def)

lemma path_clean_prefix_iff: "has_prefix (path_clean s) ''/'' = has_prefix s ''/''"
  using path_clean_relative path_clean_rooted abs_path_rooted by metis

lemma path_clean_idem: "has_prefix s ''/'' \<Longrightarrow> path_clean (path_clean s) = path_clean s"
  using path_clean_rooted path_clean_abs_path clean_comps_proper by presburger

section \<open>Prefix tests are ancestor tests\<close>

lemma join_with_append:
  "xs \<noteq> [] \<Longrightarrow> ys \<noteq> [] \<Longrightarrow> join_with d (xs @ ys) = join_with d xs @ d @ join_with d ys"
proof (induction xs)
  case (Cons x xs)
  then show ?case by (cases "xs = []") (auto simp: join_with_Cons)
qed simp

lemma split_join_append:
  "ds \<noteq> [] \<Longrightarrow> list_all proper ds \<Longrightarrow>
     split_on slash (join_with ''/'' ds @ slash # r) = ds @ split_on slash r"
proof (induction ds)
  case (Cons d ds)
  then show ?case
    by (cases "ds = []") (auto simp: join_with_Cons split_on_append proper_def)
qed simp

lemma abs_path_inject:
  assumes "list_all proper cs" "list_all proper ds"
  shows "abs_path cs = abs_path ds \<longleftrightarrow> cs = ds"
  using clean_comps_abs_path [OF assms(1)] clean_comps_abs_path [OF assms(2)] by metis

lemma underPrefix_abs_path:
  assumes cs: "list_all proper cs" and ds: "list_all proper ds" "ds \<noteq> []"
  shows "underPrefix (abs_path cs) (abs_path ds) \<longleftrightarrow> prefix ds cs"
proof
  assume "underPrefix (abs_path cs) (abs_path ds)"
  then consider "cs = ds" | r where "abs_path cs = abs_path ds @ ''/'' @ r"
    using abs_path_inject [OF cs ds(1)] by (auto simp: underPrefix_def has_prefix_exists)
  then show "prefix ds cs"
  proof cases
    case 2
    from 2 have join: "join_with ''/'' cs = join_with ''/'' ds @ slash # r"
      by (simp add: abs_path_def)
    then have ne: "cs \<noteq> []" by auto
    from split_join_append [OF ds(2,1)] join split_abs_path [OF ne cs] have "cs = ds @ split_on slash r" by simp
    then show ?thesis by simp
  qed simp
next
  assume "prefix ds cs"
  then obtain es where es: "cs = ds @ es" by (auto simp: prefix_def)
  show "underPrefix (abs_path cs) (abs_path ds)"
    using es ds(2) by (cases "es = []")
      (auto simp: underPrefix_def abs_path_def join_with_append has_prefix_exists)
qed

lemma underPrefix_self_append: "underPrefix (p @ slash # r) p"
  by (simp add: underPrefix_def has_prefix_exists)

text \<open>
  The component-level specification: a path is a list of proper components, a prefix covers its
  descendants, and a pattern is matched component by component.
\<close>

definition spec_comps :: "string list \<Rightarrow> string list" where
  "spec_comps cs = (if cs = [] then [[]] else cs)"

definition spec_allowed :: "string list \<Rightarrow> bool" where
  "spec_allowed cs =
     (\<exists>pat\<in>set allowedPrefixes.
        \<exists>lead rest. spec_comps cs = lead @ rest \<and>
          list_all2 glob_match (split_on slash (trim_prefix pat ''/'')) lead)"

lemma underGlobPrefix_iff:
  assumes "list_all proper cs"
  shows "underGlobPrefix (abs_path cs) pat \<longleftrightarrow>
    (\<exists>lead rest. spec_comps cs = lead @ rest \<and>
       list_all2 glob_match (split_on slash (trim_prefix pat ''/'')) lead)"
proof -
  let ?gs = "split_on slash (trim_prefix pat ''/'')"
  have ps: "split_on slash (trim_prefix (abs_path cs) ''/'') = spec_comps cs"
    using split_abs_path [OF _ assms]
    by (cases "cs = []") (auto simp: spec_comps_def abs_path_def trim_prefix_def)
  have "(length gs \<le> length ps \<and> list_all (\<lambda>(g, x). glob_match g x) (zip gs ps)) \<longleftrightarrow>
      (\<exists>lead rest. ps = lead @ rest \<and> list_all2 glob_match gs lead)" for gs ps
  proof (induction gs arbitrary: ps)
    case (Cons g gs)
    show ?case
    proof (cases ps)
      case (Cons x xs)
      then show ?thesis
        using Cons.IH [of xs] by (auto simp: list_all2_Cons1 Cons_eq_append_conv)
    qed (auto simp: list_all2_Cons1)
  qed auto
  then show ?thesis by (simp add: underGlobPrefix_def ps Let_def)
qed


section \<open>Properties of the policy\<close>

lemma allowedContent_iff:
  "list_all proper cs \<Longrightarrow> allowedContent (abs_path cs) = spec_allowed cs"
  by (simp add: allowedContent_def spec_allowed_def underGlobPrefix_iff list_ex_iff)

lemma decide_cases:
  "decide pp p = verdict PathDeny RuleNotAllowed
   \<or> decide pp p = verdict PathDeny RuleConfigDeny
   \<or> decide pp p = verdict PathAllow []
   \<or> (\<exists>r. decide pp p = verdict PathMetadataOnly r)"
  by (auto simp: decide_def Let_def split: option.splits)

lemma decide_allow_iff:
  "verdict_decision (decide pp p) = PathAllow \<longleftrightarrow>
     has_prefix p ''/'' \<and> \<not> list_ex (underPrefix (path_clean p)) (extraDeny pp) \<and>
     sensitive (path_clean p) = None \<and> allowedContent (path_clean p)"
  by (auto simp: decide_def Let_def path_clean_prefix_iff split: option.splits)

text \<open>
  C7: content is read only from a path that is absolute, lies component-wise under an allowed
  prefix, is under no operator denial and is not a sensitive file, and every such path is
  readable.
\<close>

theorem decide_allow_exact:
  "verdict_decision (decide pp p) = PathAllow \<longleftrightarrow>
     has_prefix p ''/'' \<and> spec_allowed (clean_comps p) \<and> sensitive (path_clean p) = None \<and>
     (\<forall>d\<in>set (extraDeny pp). \<not> underPrefix (path_clean p) d)"
proof (cases "has_prefix p ''/''")
  case True
  then show ?thesis
    using allowedContent_iff [OF clean_comps_proper [OF True]] path_clean_rooted [OF True]
    by (auto simp: decide_allow_iff list_ex_iff)
next
  case False
  then show ?thesis by (simp add: decide_allow_iff)
qed

theorem decide_allow_exact_witness:
  "verdict_decision (decide (newPathPolicy [''/etc/secret'']) ''/etc/../etc/./hosts'') = PathAllow
   \<longleftrightarrow> has_prefix ''/etc/../etc/./hosts'' ''/'' \<and> spec_allowed (clean_comps ''/etc/../etc/./hosts'')
     \<and> sensitive (path_clean ''/etc/../etc/./hosts'') = None \<and>
     (\<forall>d\<in>set (extraDeny (newPathPolicy [''/etc/secret''])).
        \<not> underPrefix (path_clean ''/etc/../etc/./hosts'') d)"
  by (rule decide_allow_exact)

fun permissiveness :: "path_decision \<Rightarrow> nat" where
  "permissiveness PathDeny = 0"
| "permissiveness PathMetadataOnly = 1"
| "permissiveness PathAllow = 2"

lemma decide_mono:
  "set (extraDeny pp) \<subseteq> set (extraDeny qq) \<Longrightarrow>
     decide qq p = decide pp p \<or> decide qq p = verdict PathDeny RuleConfigDeny"
  by (auto simp: decide_def Let_def list_ex_iff)

lemma newPathPolicy_denies_below:
  assumes d: "d \<in> set es" "has_prefix d ''/''" "clean_comps d \<noteq> []" and below: "list_all proper below"
  shows "decide (newPathPolicy es) (abs_path (clean_comps d @ below))
    = verdict PathDeny RuleConfigDeny"
proof -
  let ?cs = "clean_comps d"
  have ok: "list_all proper ?cs" by (rule clean_comps_proper [OF d(2)])
  then have all: "list_all proper (?cs @ below)" using below by simp
  have "path_clean d = abs_path ?cs" by (rule path_clean_rooted [OF d(2)])
  moreover have "abs_path ?cs \<noteq> ''/''"
    using abs_path_inject [OF ok, of "[]"] d(3) by (simp add: abs_path_def)
  ultimately have "abs_path ?cs \<in> set (extraDeny (newPathPolicy es))"
    using d(1) by (force simp: newPathPolicy_def)
  moreover have "underPrefix (abs_path (?cs @ below)) (abs_path ?cs)"
    using underPrefix_abs_path [OF all ok d(3)] by simp
  ultimately show ?thesis
    by (simp add: decide_def Let_def path_clean_abs_path [OF all] list_ex_iff) blast
qed

text \<open>
  Operator \<open>deny_paths\<close> can only restrict.  Adding entries never makes a path more
  permissive, and everything at or below an added absolute path other than the root is denied.
\<close>

theorem deny_paths_only_restrict:
  assumes "set ds \<subseteq> set es"
  shows "permissiveness (verdict_decision (decide (newPathPolicy es) p))
       \<le> permissiveness (verdict_decision (decide (newPathPolicy ds) p))
     \<and> (\<forall>d\<in>set es. has_prefix d ''/'' \<longrightarrow> clean_comps d \<noteq> [] \<longrightarrow> list_all proper below \<longrightarrow>
          decide (newPathPolicy es) (abs_path (clean_comps d @ below))
            = verdict PathDeny RuleConfigDeny)"
proof -
  have "set (extraDeny (newPathPolicy ds)) \<subseteq> set (extraDeny (newPathPolicy es))"
    using assms by (auto simp: newPathPolicy_def)
  from decide_mono [OF this, of p]
  show ?thesis by (auto intro: newPathPolicy_denies_below)
qed

theorem deny_paths_only_restrict_witness:
  "permissiveness (verdict_decision (decide (newPathPolicy [''/etc/ssl/'', ''/etc/x'']) ''/etc/ssl/a''))
     \<le> permissiveness (verdict_decision (decide (newPathPolicy [''/etc/x'']) ''/etc/ssl/a''))
   \<and> decide (newPathPolicy [''/etc/ssl/'', ''/etc/x'']) (abs_path [''etc'', ''ssl'', ''a''])
     = verdict PathDeny RuleConfigDeny"
proof -
  have sub: "set [''/etc/x''] \<subseteq> set [''/etc/ssl/'', ''/etc/x'']" by simp
  have c: "clean_comps ''/etc/ssl/'' = [''etc'', ''ssl'']"
    by (simp add: clean_comps_def clean_step_def)
  show ?thesis
    using deny_paths_only_restrict [OF sub, of "''/etc/ssl/a''" "[''a'']"] c
    by (simp add: proper_def)
qed






text \<open>
  a path's verdict is decided on its cleaned form alone, so a \<open>..\<close> component cannot reach
  another verdict than the path it stands for.
\<close>

theorem decide_sees_through_dotdot:
  assumes "list_all proper cs" and "list_all proper ds" and "proper x"
  shows "decide pp (abs_path (cs @ [x, ''..''] @ ds)) = decide pp (abs_path (cs @ ds))"
proof -
  let ?q = "abs_path (cs @ [x, ''..''] @ ds)"
  have no: "\<forall>w\<in>set (cs @ [x, ''..''] @ ds). slash \<notin> set w"
    using assms by (auto simp: list_all_iff proper_def)
  have "split_on slash ?q = [] # (cs @ [x, ''..''] @ ds)"
    using split_join [OF _ no] by (simp add: abs_path_def)
  moreover have "fold (clean_step True) (cs @ [x, ''..''] @ ds) [] = rev ds @ rev cs"
    using fold_clean_id [OF assms(1), of True "[]"] fold_clean_id [OF assms(2), of True "rev cs"] assms(3)
    by (simp add: clean_step_def proper_def)
  ultimately have "clean_comps ?q = cs @ ds"
    by (simp add: clean_comps_def clean_step_def)
  then have "path_clean ?q = path_clean (abs_path (cs @ ds))"
    using assms clean_comps_abs_path [of "cs @ ds"] by (simp add: path_clean_rooted)
  then show ?thesis by (simp only: decide_def)
qed

theorem decide_sees_through_dotdot_witness:
  "decide (newPathPolicy []) (abs_path ([''etc''] @ [''x'', ''..''] @ [''shadow'']))
     = decide (newPathPolicy []) (abs_path ([''etc''] @ [''shadow'']))"
  by (rule decide_sees_through_dotdot) (simp_all add: proper_def)

lemma canonical_private:
  "root \<in> {''/etc'', ''/var'', ''/tmp''} \<Longrightarrow> p = root \<or> has_prefix p (root @ ''/'') \<Longrightarrow>
     canonical (''/private'' @ p) True = p"
  by (auto simp: canonical_def has_prefix_exists trim_prefix_def)

text \<open>
  On macOS the \<open>/private\<close> spelling of a path under \<open>/etc\<close>, \<open>/var\<close> or \<open>/tmp\<close> gets the verdict
  of the plain spelling, so a sensitive file does not escape by its canonical name; on other
  platforms the resolved path is decided as it is.
\<close>

theorem canonical_spelling_same_verdict:
  assumes "root \<in> {''/etc'', ''/var'', ''/tmp''}" and "p = root \<or> has_prefix p (root @ ''/'')"
  shows "decide pp (canonical (''/private'' @ p) True) = decide pp p
    \<and> decide pp (canonical p True) = decide pp p \<and> canonical q False = q"
proof -
  have "canonical p True = p"
    using assms by (auto simp: canonical_def has_prefix_exists)
  with canonical_private [OF assms] show ?thesis by (simp add: canonical_def)
qed

theorem canonical_spelling_same_verdict_witness:
  "decide (newPathPolicy []) (canonical ''/private/etc/master.passwd'' True)
     = decide (newPathPolicy []) ''/etc/master.passwd''"
  using canonical_spelling_same_verdict [of "''/etc''" "''/etc/master.passwd''" "newPathPolicy []"]
  by simp

text \<open>First match in a table where at most one entry matches.\<close>

lemma find_unique:
  assumes "\<And>x y. x \<in> set xs \<Longrightarrow> y \<in> set xs \<Longrightarrow> P x \<Longrightarrow> P y \<Longrightarrow> x = y"
  shows "find P xs = Some x \<longleftrightarrow> x \<in> set xs \<and> P x"
  using assms
proof (induction xs)
  case (Cons a xs)
  then show ?case by (cases "P a") auto
qed simp

lemma underPrefix_has_prefix: "underPrefix p a \<Longrightarrow> has_prefix (p @ ''/'') (a @ ''/'')"
  by (auto simp: underPrefix_def has_prefix_exists)

lemma has_prefix_linear: "has_prefix s a \<Longrightarrow> has_prefix s b \<Longrightarrow> has_prefix a b \<or> has_prefix b a"
  by (auto simp: has_prefix_exists append_eq_append_conv2)

lemma metadataPrefixes_incomparable:
  "\<forall>x\<in>set metadataPrefixes. \<forall>y\<in>set metadataPrefixes.
     has_prefix (fst x @ ''/'') (fst y @ ''/'') \<longrightarrow> x = y"
  by (simp add: metadataPrefixes_def)

lemma metadataPrefixes_unique:
  assumes "x \<in> set metadataPrefixes" "y \<in> set metadataPrefixes"
    and "underPrefix p (fst x)" "underPrefix p (fst y)"
  shows "x = y"
  using has_prefix_linear [OF underPrefix_has_prefix [OF assms(3)] underPrefix_has_prefix [OF assms(4)]]
    metadataPrefixes_incomparable assms(1,2) by metis

text \<open>
  The range over the Go map \<open>metadataPrefixes\<close> has no order, and the answer does not depend
  on it: every permutation of the table gives the same rule.
\<close>

theorem metadataPrefix_order_independent:
  assumes "mset tbl = mset metadataPrefixes"
  shows "metadataPrefix tbl p = metadataPrefix metadataPrefixes p"
proof -
  let ?P = "\<lambda>(pre, rule). underPrefix p pre"
  have set: "set tbl = set metadataPrefixes" using assms by (metis set_mset_mset)
  have uniq: "\<And>x y. x \<in> set metadataPrefixes \<Longrightarrow> y \<in> set metadataPrefixes \<Longrightarrow>
      ?P x \<Longrightarrow> ?P y \<Longrightarrow> x = y"
    using metadataPrefixes_unique by (force simp: case_prod_beta)
  have "find ?P tbl = Some x \<longleftrightarrow> find ?P metadataPrefixes = Some x" for x
    using find_unique [of tbl ?P x] find_unique [of metadataPrefixes ?P x] uniq set by simp
  then have "find ?P tbl = find ?P metadataPrefixes" by (metis option.exhaust)
  then show ?thesis by (simp add: metadataPrefix_def)
qed

theorem metadataPrefix_order_independent_witness:
  "metadataPrefix (rev metadataPrefixes) ''/var/root/x'' = metadataPrefix metadataPrefixes ''/var/root/x''"
  by (rule metadataPrefix_order_independent) simp

end
