(* ===== verification/Ssh_Quote.thy ===== *)
theory Ssh_Quote
  imports Prelude
begin

text \<open>
  \<open>internal/target/ssh/quote.go\<close>: how an argument vector becomes the one command line an SSH
  session runs, and the POSIX shell's reading of that line.  The reader \<open>sh_words\<close> is the
  specification: token recognition and quote removal of a simple command, with \<open>None\<close> for every
  line on which the shell would do anything but split words (an unquoted metacharacter, an
  unclosed quote).
\<close>

section \<open>The quoter\<close>

abbreviation squote :: char where "squote \<equiv> CHR 0x27"
abbreviation bslash :: char where "bslash \<equiv> CHR 0x5C"
abbreviation blank :: char where "blank \<equiv> CHR 0x20"

definition commandPrefix :: string where
  "commandPrefix = ''LC_ALL=C ''"

definition escape_squotes :: "string \<Rightarrow> string" where
  "escape_squotes tok =
     concat (map (\<lambda>c. if c = squote then [squote, bslash, squote, squote] else [c]) tok)"

definition quote_token :: "string \<Rightarrow> string" where
  "quote_token tok = [squote] @ escape_squotes tok @ [squote]"

primrec quote_tokens :: "bool \<Rightarrow> string list \<Rightarrow> string" where
  "quote_tokens first [] = []"
| "quote_tokens first (tok # toks) =
     (if first then [] else [blank]) @ quote_token tok @ quote_tokens False toks"

definition quote :: "string list \<Rightarrow> string" where
  "quote argv = commandPrefix @ quote_tokens True argv"

section \<open>The shell\<close>

definition sh_plain :: "char \<Rightarrow> bool" where
  "sh_plain c = (is_upper c \<or> is_lower c \<or> is_digit c \<or> c \<in> set ''_=./,:+%@-'')"

definition flush_word :: "string option \<Rightarrow> string list" where
  "flush_word cur = (case cur of None \<Rightarrow> [] | Some w \<Rightarrow> [rev w])"

definition word_chars :: "string option \<Rightarrow> string" where
  "word_chars cur = (case cur of None \<Rightarrow> [] | Some w \<Rightarrow> w)"

datatype sh_mode = Unquoted "string option" | Quoted string | Escaped "string option"

fun sh_scan :: "sh_mode \<Rightarrow> string \<Rightarrow> string list option" where
  "sh_scan (Unquoted cur) [] = Some (flush_word cur)"
| "sh_scan (Quoted w) [] = None"
| "sh_scan (Escaped cur) [] = None"
| "sh_scan (Unquoted cur) (c # cs) =
     (if c = blank then map_option ((@) (flush_word cur)) (sh_scan (Unquoted None) cs)
      else if c = squote then sh_scan (Quoted (word_chars cur)) cs
      else if c = bslash then sh_scan (Escaped cur) cs
      else if sh_plain c then sh_scan (Unquoted (Some (c # word_chars cur))) cs
      else None)"
| "sh_scan (Quoted w) (c # cs) =
     (if c = squote then sh_scan (Unquoted (Some w)) cs else sh_scan (Quoted (c # w)) cs)"
| "sh_scan (Escaped cur) (c # cs) =
     (if c = CHR 0x0A then None else sh_scan (Unquoted (Some (c # word_chars cur))) cs)"

definition sh_words :: "string \<Rightarrow> string list option" where
  "sh_words line = sh_scan (Unquoted None) line"

section \<open>Round trip\<close>

lemma escape_squotes_Nil [simp]: "escape_squotes [] = []"
  by (simp add: escape_squotes_def)

lemma escape_squotes_Cons [simp]:
  "escape_squotes (c # cs) =
     (if c = squote then [squote, bslash, squote, squote] else [c]) @ escape_squotes cs"
  by (simp add: escape_squotes_def)

lemma sh_scan_quoted:
  "sh_scan (Quoted w) (escape_squotes tok @ squote # r) = sh_scan (Unquoted (Some (rev tok @ w))) r"
  by (induction tok arbitrary: w) (auto simp: word_chars_def)

lemma sh_scan_token:
  "sh_scan (Unquoted None) (quote_token tok @ r) = sh_scan (Unquoted (Some (rev tok))) r"
  by (simp add: quote_token_def sh_scan_quoted word_chars_def)

lemma sh_scan_tokens:
  "sh_scan (Unquoted (Some w)) (quote_tokens False toks) = Some (rev w # toks)"
proof (induction toks arbitrary: w)
  case Nil
  then show ?case by (simp add: flush_word_def)
next
  case (Cons tok toks)
  then show ?case by (simp add: sh_scan_token flush_word_def)
qed

text \<open>
  C9: the shell reads the quoted command line back as the locale assignment followed by exactly
  the argument vector, for every vector of byte strings: no argument can add a word, a
  redirection or a second command.
\<close>

theorem sh_words_quote: "sh_words (quote argv) = Some (''LC_ALL=C'' # argv)"
proof -
  have "sh_scan (Unquoted None) (commandPrefix @ r)
      = map_option ((#) ''LC_ALL=C'') (sh_scan (Unquoted None) r)" for r
    by (simp add: commandPrefix_def sh_plain_def is_upper_def word_chars_def flush_word_def
        map_option_case split: option.splits)
  moreover have "sh_scan (Unquoted None) (quote_tokens True argv) = Some argv"
    by (cases argv) (simp_all add: flush_word_def sh_scan_token sh_scan_tokens)
  ultimately show ?thesis by (simp add: sh_words_def quote_def)
qed

end
