(* ===== verification/Regexp.thy ===== *)
theory Regexp
  imports Prelude
begin

text \<open>
  Go's \<open>regexp\<close> package, as far as the repository's compiled patterns use it: leftmost-first
  matching with capture groups, greedy and lazy repetition, byte classes, the text anchors and
  the ASCII word boundary.  A pattern is a value of \<open>re\<close>; \<open>re_match\<close> is a backtracking matcher
  in continuation-passing style, \<open>find_submatch\<close> is \<open>FindSubmatchIndex\<close> and \<open>find_all\<close> is
  \<open>FindAllSubmatchIndex\<close>.  Offsets are byte offsets, as in Go.  The last section proves the
  matcher equivalent to a declarative step relation: it fails exactly when no match exists.
\<close>

section \<open>Patterns\<close>

datatype re =
    Eps
  | Cls "(nat \<times> nat) list"
  | Seq re re
  | Alt re re
  | Star bool re
  | Grp nat re
  | TextStart
  | TextEnd
  | WordB

text \<open>
  A matcher state: the byte before the position, the bytes from the position on, the offset, and
  the closed groups, latest first.
\<close>

datatype mstate = St (prev: "char option") (rest: string) (pos: nat) (caps: "(nat \<times> nat \<times> nat) list")

definition in_ranges :: "(nat \<times> nat) list \<Rightarrow> nat \<Rightarrow> bool" where
  "in_ranges rs n = list_ex (\<lambda>(lo, hi). lo \<le> n \<and> n \<le> hi) rs"

definition in_class :: "(nat \<times> nat) list \<Rightarrow> char \<Rightarrow> bool" where
  "in_class rs c = in_ranges rs (of_char c)"

definition word_char :: "char \<Rightarrow> bool" where
  "word_char c = in_class [(97, 122), (65, 90), (48, 57), (95, 95)] c"

definition word_boundary :: "char option \<Rightarrow> string \<Rightarrow> bool" where
  "word_boundary p s =
     ((case p of None \<Rightarrow> False | Some c \<Rightarrow> word_char c) \<noteq>
      (case s of [] \<Rightarrow> False | c # _ \<Rightarrow> word_char c))"

section \<open>The matcher\<close>

text \<open>
  The loop of a repetition.  Every iteration that continues consumes a byte, so the number of
  bytes left bounds the iterations: \<open>re_match\<close> starts it with one more than that.
\<close>

primrec star_loop ::
  "(mstate \<Rightarrow> (mstate \<Rightarrow> 'r option) \<Rightarrow> 'r option) \<Rightarrow> bool \<Rightarrow> nat \<Rightarrow> mstate \<Rightarrow> (mstate \<Rightarrow> 'r option) \<Rightarrow> 'r option"
where
  "star_loop m g 0 st k = k st"
| "star_loop m g (Suc n) st k =
     (if g then
        (case m st (\<lambda>st'. if pos st < pos st' then star_loop m g n st' k else None) of
           Some x \<Rightarrow> Some x
         | None \<Rightarrow> k st)
      else
        (case k st of
           Some x \<Rightarrow> Some x
         | None \<Rightarrow> m st (\<lambda>st'. if pos st < pos st' then star_loop m g n st' k else None)))"

primrec re_match :: "re \<Rightarrow> mstate \<Rightarrow> (mstate \<Rightarrow> 'r option) \<Rightarrow> 'r option" where
  "re_match Eps st k = k st"
| "re_match (Cls rs) st k =
     (case rest st of
        [] \<Rightarrow> None
      | c # cs \<Rightarrow> if in_class rs c then k (St (Some c) cs (Suc (pos st)) (caps st)) else None)"
| "re_match (Seq a b) st k = re_match a st (\<lambda>st'. re_match b st' k)"
| "re_match (Alt a b) st k =
     (case re_match a st k of Some x \<Rightarrow> Some x | None \<Rightarrow> re_match b st k)"
| "re_match (Star g r) st k = star_loop (re_match r) g (Suc (length (rest st))) st k"
| "re_match (Grp n r) st k =
     re_match r st (\<lambda>st'. k (St (prev st') (rest st') (pos st') ((n, pos st, pos st') # caps st')))"
| "re_match TextStart st k = (if pos st = 0 then k st else None)"
| "re_match TextEnd st k = (if rest st = [] then k st else None)"
| "re_match WordB st k = (if word_boundary (prev st) (rest st) then k st else None)"

text \<open>One match: its first byte, the state after it.  Group 0 is the whole match.\<close>

datatype found = Found (found_start: nat) (found_end: mstate)

primrec find_from :: "re \<Rightarrow> char option \<Rightarrow> nat \<Rightarrow> string \<Rightarrow> found option" where
  "find_from r p i [] = map_option (Found i) (re_match r (St p [] i []) Some)"
| "find_from r p i (c # cs) =
     (case re_match r (St p (c # cs) i []) Some of
        Some st \<Rightarrow> Some (Found i st)
      | None \<Rightarrow> find_from r (Some c) (Suc i) cs)"

text \<open>
  \<open>FindAllSubmatchIndex\<close>: successive non-overlapping matches; an empty match right after the
  match before it is dropped, and the scan then moves on by one byte.
\<close>

function find_loop :: "re \<Rightarrow> char option \<Rightarrow> nat \<Rightarrow> string \<Rightarrow> nat option \<Rightarrow> found list" where
  "find_loop r p i s pe =
     (case find_from r p i s of
        None \<Rightarrow> []
      | Some f \<Rightarrow>
          (let st = found_end f in
           if pos st = i then
             (if pe = Some (found_start f) then [] else [f]) @
             (case s of [] \<Rightarrow> [] | c # cs \<Rightarrow> find_loop r (Some c) (Suc i) cs (Some i))
           else if length (rest st) < length s then
             f # find_loop r (prev st) (pos st) (rest st) (Some (pos st))
           else []))"
  by pat_completeness auto
termination
  by (relation "measure (\<lambda>(r, p, i, s, pe). length s)") auto

declare find_loop.simps [simp del]

definition find_all :: "re \<Rightarrow> string \<Rightarrow> found list" where
  "find_all r s = find_loop r None 0 s None"

definition find_submatch :: "re \<Rightarrow> string \<Rightarrow> found option" where
  "find_submatch r s = find_from r None 0 s"

definition match_string :: "re \<Rightarrow> string \<Rightarrow> bool" where
  "match_string r s = (find_submatch r s \<noteq> None)"

text \<open>The byte span of a group, \<open>None\<close> where Go has -1.\<close>

definition group_span :: "found \<Rightarrow> nat \<Rightarrow> (nat \<times> nat) option" where
  "group_span f n =
     (if n = 0 then Some (found_start f, pos (found_end f))
      else map_of (caps (found_end f)) n)"

definition slice :: "string \<Rightarrow> nat \<Rightarrow> nat \<Rightarrow> string" where
  "slice s i j = take (j - i) (drop i s)"

text \<open>\<open>FindStringSubmatch\<close>'s element \<open>n\<close>: the text of a group, empty when it did not take part.\<close>

definition submatch_text :: "string \<Rightarrow> found \<Rightarrow> nat \<Rightarrow> string" where
  "submatch_text s f n = (case group_span f n of None \<Rightarrow> [] | Some (i, j) \<Rightarrow> slice s i j)"

section \<open>Building patterns\<close>

definition byte :: "nat \<Rightarrow> re" where
  "byte n = Cls [(n, n)]"

primrec seqs :: "re list \<Rightarrow> re" where
  "seqs [] = Eps"
| "seqs (r # rs) = (if rs = [] then r else Seq r (seqs rs))"

primrec alts :: "re list \<Rightarrow> re" where
  "alts [] = Cls []"
| "alts (r # rs) = (if rs = [] then r else Alt r (alts rs))"

definition lit :: "string \<Rightarrow> re" where
  "lit s = seqs (map (\<lambda>c. byte (of_char c)) s)"

text \<open>
  Under \<open>(?i)\<close> a letter matches both cases; Unicode folding adds U+017F to \<open>s\<close> and U+212A to \<open>k\<close>.
\<close>

definition long_s :: re where "long_s = Seq (byte 0xC5) (byte 0xBF)"
definition kelvin :: re where "kelvin = Seq (byte 0xE2) (Seq (byte 0x84) (byte 0xAA))"

definition ichar :: "char \<Rightarrow> re" where
  "ichar c =
     (let n = of_char c; l = of_char (lower_char c) in
      if is_upper c \<or> is_lower c then
        (let two = Cls [(l, l), (l - 32, l - 32)] in
         if l = 115 then Alt two long_s else if l = 107 then Alt two kelvin else two)
      else byte n)"

definition ilit :: "string \<Rightarrow> re" where
  "ilit s = seqs (map ichar s)"

definition iclass :: "(nat \<times> nat) list \<Rightarrow> re" where
  "iclass rs = Alt (Cls rs) (Alt long_s kelvin)"

definition plus :: "re \<Rightarrow> re" where "plus r = Seq r (Star True r)"
definition opt :: "re \<Rightarrow> re" where "opt r = Alt r Eps"

primrec times :: "nat \<Rightarrow> re \<Rightarrow> re" where
  "times 0 r = Eps"
| "times (Suc n) r = (if n = 0 then r else Seq r (times n r))"

primrec upto_times :: "nat \<Rightarrow> re \<Rightarrow> re" where
  "upto_times 0 r = Eps"
| "upto_times (Suc n) r = opt (Seq r (upto_times n r))"

definition atleast :: "nat \<Rightarrow> re \<Rightarrow> re" where
  "atleast n r = (if n = 0 then Star True r else Seq (times n r) (Star True r))"

abbreviation az :: "nat \<times> nat" where "az \<equiv> (97, 122)"
abbreviation AZ :: "nat \<times> nat" where "AZ \<equiv> (65, 90)"
abbreviation d09 :: "nat \<times> nat" where "d09 \<equiv> (48, 57)"
abbreviation ch :: "char \<Rightarrow> nat \<times> nat" where "ch c \<equiv> (of_char c, of_char c)"

definition re_space :: re where "re_space = Cls [(9, 10), (12, 13), (32, 32)]"
definition re_nonspace :: re where "re_nonspace = Cls [(0, 8), (11, 11), (14, 31), (33, 255)]"
definition re_any :: re where "re_any = Cls [(0, 255)]"
definition re_not_newline :: re where "re_not_newline = Cls [(0, 9), (11, 255)]"
definition re_digit :: re where "re_digit = Cls [d09]"


section \<open>Evaluation\<close>

text \<open>
  Congruence rules that keep the simplifier out of a continuation until it is applied, and the
  equations that evaluate a match on a concrete input.
\<close>

lemma re_match_cong: "st = st' \<Longrightarrow> re_match r st k = re_match r st' k"
  by simp

lemma star_loop_cong: "st = st' \<Longrightarrow> n = n' \<Longrightarrow> star_loop m g n st k = star_loop m g n' st' k"
  by simp

lemma find_from_cong:
  "p = p' \<Longrightarrow> i = i' \<Longrightarrow> find_from r p i s = find_from r p' i' s"
  by simp

lemma St_cong: "p = p' \<Longrightarrow> i = i' \<Longrightarrow> c = c' \<Longrightarrow> St p s i c = St p' s i' c'"
  by simp

lemma find_loop_cong:
  "p = p' \<Longrightarrow> i = i' \<Longrightarrow> s = s' \<Longrightarrow> e = e' \<Longrightarrow> find_loop r p i s e = find_loop r p' i' s' e'"
  by simp

lemmas re_congs = re_match_cong star_loop_cong St_cong find_from_cong find_loop_cong

lemma star_loop_numeral:
  "star_loop m g (numeral n) st k =
     (if g then
        (case m st (\<lambda>st'. if pos st < pos st' then star_loop m g (pred_numeral n) st' k else None) of
           Some x \<Rightarrow> Some x
         | None \<Rightarrow> k st)
      else
        (case k st of
           Some x \<Rightarrow> Some x
         | None \<Rightarrow> m st (\<lambda>st'. if pos st < pos st' then star_loop m g (pred_numeral n) st' k else None)))"
  by (simp add: numeral_eq_Suc)

lemmas re_eval = find_all_def find_loop.simps find_submatch_def match_string_def group_span_def
  submatch_text_def slice_def in_class_def in_ranges_def word_char_def word_boundary_def Let_def
  star_loop_numeral numeral_2_eq_2 [symmetric]

lemma times_numeral:
  "times (numeral k) r =
     (if pred_numeral k = 0 then r else Seq r (times (pred_numeral k) r))"
  by (simp add: numeral_eq_Suc)

lemma upto_times_numeral:
  "upto_times (numeral k) r = opt (Seq r (upto_times (pred_numeral k) r))"
  by (simp add: numeral_eq_Suc)

lemmas re_build = lit_def ilit_def ichar_def iclass_def byte_def long_s_def kelvin_def plus_def
  opt_def atleast_def re_space_def re_nonspace_def re_any_def re_not_newline_def re_digit_def
  is_upper_def is_lower_def lower_char_def times_numeral upto_times_numeral

section \<open>What a match means\<close>

inductive re_step :: "re \<Rightarrow> mstate \<Rightarrow> mstate \<Rightarrow> bool" where
  eps: "re_step Eps st st"
| cls: "rest st = c # cs \<Longrightarrow> in_class rs c \<Longrightarrow>
     re_step (Cls rs) st (St (Some c) cs (Suc (pos st)) (caps st))"
| seq: "re_step a st st1 \<Longrightarrow> re_step b st1 st2 \<Longrightarrow> re_step (Seq a b) st st2"
| alt_left: "re_step a st st' \<Longrightarrow> re_step (Alt a b) st st'"
| alt_right: "re_step b st st' \<Longrightarrow> re_step (Alt a b) st st'"
| star_stop: "re_step (Star g r) st st"
| star_more: "re_step r st st1 \<Longrightarrow> pos st < pos st1 \<Longrightarrow> re_step (Star g r) st1 st2 \<Longrightarrow>
     re_step (Star g r) st st2"
| grp: "re_step r st st' \<Longrightarrow>
     re_step (Grp n r) st (St (prev st') (rest st') (pos st') ((n, pos st, pos st') # caps st'))"
| text_start: "pos st = 0 \<Longrightarrow> re_step TextStart st st"
| text_end: "rest st = [] \<Longrightarrow> re_step TextEnd st st"
| word_b: "word_boundary (prev st) (rest st) \<Longrightarrow> re_step WordB st st"

inductive_cases eps_E: "re_step Eps st st'"
inductive_cases cls_E: "re_step (Cls rs) st st'"
inductive_cases seq_E: "re_step (Seq a b) st st'"
inductive_cases alt_E: "re_step (Alt a b) st st'"
inductive_cases star_E: "re_step (Star g r) st st'"
inductive_cases grp_E: "re_step (Grp n r) st st'"
inductive_cases start_E: "re_step TextStart st st'"
inductive_cases end_E: "re_step TextEnd st st'"
inductive_cases word_E: "re_step WordB st st'"

lemmas re_step_elims = eps_E cls_E seq_E alt_E grp_E start_E end_E word_E

text \<open>A match consumes a prefix of the rest, and its groups lie inside what was consumed.\<close>

definition caps_ok :: "mstate \<Rightarrow> bool" where
  "caps_ok st = (\<forall>(n, i, j) \<in> set (caps st). i \<le> j \<and> j \<le> pos st)"

lemma re_step_pos:
  "re_step r st st' \<Longrightarrow>
     pos st \<le> pos st' \<and> pos st' + length (rest st') = pos st + length (rest st)"
  by (induction rule: re_step.induct) auto

lemma re_step_caps_ok: "re_step r st st' \<Longrightarrow> caps_ok st \<Longrightarrow> caps_ok st'"
proof (induction rule: re_step.induct)
  case (grp r st st' n)
  then show ?case
    using re_step_pos [OF grp.hyps] by (auto simp: caps_ok_def)
qed (auto simp: caps_ok_def)

lemma star_loop_sound:
  assumes m: "\<And>st k x. m st k = Some x \<Longrightarrow> \<exists>st'. re_step r st st' \<and> k st' = Some x"
  shows "star_loop m g n st k = Some x \<Longrightarrow> \<exists>st'. re_step (Star g r) st st' \<and> k st' = Some x"
proof (induction n arbitrary: st)
  case 0
  then show ?case by (auto intro: re_step.intros)
next
  case (Suc n)
  let ?more = "m st (\<lambda>st'. if pos st < pos st' then star_loop m g n st' k else None)"
  from Suc.prems consider "k st = Some x" | "?more = Some x"
    by (auto split: option.splits if_splits)
  then show ?case
  proof cases
    case 1
    then show ?thesis by (auto intro: re_step.intros)
  next
    case 2
    from m [OF 2] obtain st1 where "re_step r st st1" "pos st < pos st1"
        "star_loop m g n st1 k = Some x"
      by (auto split: if_splits)
    with Suc.IH show ?thesis by (blast intro: re_step.intros)
  qed
qed

lemma re_match_sound:
  "re_match r st k = Some x \<Longrightarrow> \<exists>st'. re_step r st st' \<and> k st' = Some x"
proof (induction r arbitrary: st k x)
  case (Cls rs)
  then show ?case by (auto split: list.splits if_splits intro: re_step.intros)
next
  case (Seq a b)
  from Seq.IH(1) [of st "\<lambda>st'. re_match b st' k"] Seq.prems
  obtain st1 where "re_step a st st1" "re_match b st1 k = Some x" by auto
  with Seq.IH(2) show ?case by (blast intro: re_step.intros)
next
  case (Alt a b)
  then consider "re_match a st k = Some x" | "re_match b st k = Some x"
    by (auto split: option.splits)
  then show ?case by cases (blast dest: Alt.IH intro: re_step.intros)+
next
  case (Star g r)
  have "star_loop (re_match r) g (Suc (length (rest st))) st k = Some x"
    using Star.prems by (simp only: re_match.simps)
  then show ?case by (rule star_loop_sound [rotated]) (rule Star.IH)
next
  case (Grp n r)
  let ?close = "\<lambda>st'. St (prev st') (rest st') (pos st') ((n, pos st, pos st') # caps st')"
  from Grp.prems have "re_match r st (\<lambda>st'. k (?close st')) = Some x" by simp
  from Grp.IH [OF this] obtain st' where "re_step r st st'" "k (?close st') = Some x" by blast
  then show ?case by (blast intro: re_step.intros)
qed (auto intro: re_step.intros split: if_splits)

lemma star_loop_complete:
  assumes m: "\<And>st st' k. re_step r st st' \<Longrightarrow> k st' \<noteq> None \<Longrightarrow> m st k \<noteq> None"
  shows "re_step (Star g r) st st' \<Longrightarrow> length (rest st) < n \<Longrightarrow> k st' \<noteq> None \<Longrightarrow>
    star_loop m g n st k \<noteq> None"
proof (induction n arbitrary: st)
  case 0
  then show ?case by simp
next
  case (Suc n)
  let ?k = "\<lambda>st'. if pos st < pos st' then star_loop m g n st' k else None"
  from Suc.prems(1) consider "st' = st"
    | st1 where "re_step r st st1" "pos st < pos st1" "re_step (Star g r) st1 st'"
    by (auto elim: star_E)
  then show ?case
  proof cases
    case 1
    then have "k st \<noteq> None" using Suc.prems(3) by simp
    then show ?thesis by (auto split: option.splits)
  next
    case (2 st1)
    from re_step_pos [OF 2(1)] 2(2) Suc.prems(2) have "length (rest st1) < n" by auto
    from Suc.IH [OF 2(3) this Suc.prems(3)] 2(2) have "?k st1 \<noteq> None" by simp
    from m [of st st1 ?k, OF 2(1) this] show ?thesis by (auto split: option.splits)
  qed
qed

lemma re_match_complete:
  "re_step r st st' \<Longrightarrow> k st' \<noteq> None \<Longrightarrow> re_match r st k \<noteq> None"
proof (induction r arbitrary: st st' k)
  case (Seq a b)
  from Seq.prems(1) obtain st1 where s1: "re_step a st st1" and s2: "re_step b st1 st'"
    by (auto elim: seq_E)
  from Seq.IH(2) [where k = k, OF s2 Seq.prems(2)] have "re_match b st1 k \<noteq> None" .
  from Seq.IH(1) [where k = "\<lambda>s. re_match b s k", OF s1 this] show ?case by simp
next
  case (Alt a b)
  from Alt.prems(1) consider "re_step a st st'" | "re_step b st st'" by (auto elim: alt_E)
  then have "re_match a st k \<noteq> None \<or> re_match b st k \<noteq> None"
    by cases (use Alt.IH [where k = k] Alt.prems(2) in blast)+
  then show ?case by (auto split: option.splits)
next
  case (Star g r)
  from star_loop_complete [of r "re_match r" g st st' "Suc (length (rest st))" k,
      OF Star.IH Star.prems(1) _ Star.prems(2)]
  show ?case by (simp only: re_match.simps) simp
next
  case (Grp n r)
  let ?k = "\<lambda>st'. k (St (prev st') (rest st') (pos st') ((n, pos st, pos st') # caps st'))"
  from Grp.prems obtain s where s: "re_step r st s" and "?k s \<noteq> None"
    by (auto elim: grp_E)
  from Grp.IH [where k = ?k, OF this] show ?case by simp
qed (auto elim!: re_step_elims split: list.splits)

theorem re_match_None_iff:
  "re_match r st k = None \<longleftrightarrow> (\<forall>st'. re_step r st st' \<longrightarrow> k st' = None)"
  using re_match_sound re_match_complete by (metis option.exhaust)

text \<open>Spans of the matches found are in range.\<close>

lemma find_from_ok:
  "find_from r p i s = Some f \<Longrightarrow>
     i \<le> found_start f \<and> found_start f \<le> pos (found_end f) \<and> caps_ok (found_end f) \<and>
     pos (found_end f) + length (rest (found_end f)) = i + length s"
proof (induction s arbitrary: p i)
  case Nil
  then obtain st where st: "re_match r (St p [] i []) Some = Some st" "f = Found i st"
    by auto
  from re_match_sound [OF st(1)] have "re_step r (St p [] i []) st" by auto
  from re_step_pos [OF this] re_step_caps_ok [OF this] st(2) show ?case
    by (auto simp: caps_ok_def)
next
  case (Cons c cs)
  show ?case
  proof (cases "re_match r (St p (c # cs) i []) Some")
    case None
    with Cons.prems have "find_from r (Some c) (Suc i) cs = Some f" by simp
    from Cons.IH [OF this] show ?thesis by auto
  next
    case (Some st)
    from re_match_sound [OF Some] have "re_step r (St p (c # cs) i []) st" by auto
    from re_step_pos [OF this] re_step_caps_ok [OF this] Some Cons.prems show ?thesis
      by (auto simp: caps_ok_def)
  qed
qed

lemma find_loop_ok:
  "f \<in> set (find_loop r p i s pe) \<Longrightarrow>
     found_start f \<le> pos (found_end f) \<and> caps_ok (found_end f) \<and>
     pos (found_end f) \<le> i + length s"
proof (induction r p i s pe rule: find_loop.induct)
  case (1 r p i s pe)
  show ?case
  proof (cases "find_from r p i s")
    case None
    with "1.prems" show ?thesis by (simp add: find_loop.simps [of r p i s])
  next
    case (Some g)
    note ok = find_from_ok [OF Some]
    consider "f = g" | c cs where "s = c # cs" "pos (found_end g) = i"
        "f \<in> set (find_loop r (Some c) (Suc i) cs (Some i))"
      | "length (rest (found_end g)) < length s" "pos (found_end g) \<noteq> i"
        "f \<in> set (find_loop r (prev (found_end g)) (pos (found_end g)) (rest (found_end g))
                   (Some (pos (found_end g))))"
      using "1.prems" Some
      by (auto simp: find_loop.simps [of r p i s] Let_def split: if_splits list.splits)
    then show ?thesis
    proof cases
      case 1
      with ok show ?thesis by auto
    next
      case (2 c cs)
      from "1.IH"(1) [OF Some refl 2(2) 2(1) 2(3)] 2(1) show ?thesis by auto
    next
      case 3
      from "1.IH"(2) [OF Some refl 3(2) 3(1) 3(3)] ok show ?thesis by auto
    qed
  qed
qed

lemma group_span_ok:
  assumes "f \<in> set (find_all r s)" and "group_span f n = Some (i, j)"
  shows "i \<le> j \<and> j \<le> length s"
  using assms find_loop_ok [of f r None 0 s None]
  by (fastforce simp: find_all_def group_span_def caps_ok_def split: if_splits dest: map_of_SomeD)

section \<open>Anchored patterns\<close>

lemma find_from_TextStart: "0 < i \<Longrightarrow> find_from (Seq TextStart r) p i s = None"
  by (induction s arbitrary: p i) auto

lemma find_submatch_anchored:
  "find_submatch (Seq TextStart r) s = map_option (Found 0) (re_match r (St None s 0 []) Some)"
  by (cases s) (auto simp: find_submatch_def find_from_TextStart split: option.splits)

lemma match_string_anchored:
  "match_string (Seq TextStart r) s \<longleftrightarrow> (\<exists>st'. re_step r (St None s 0 []) st')"
  using re_match_None_iff [of r "St None s 0 []" Some]
  by (auto simp: match_string_def find_submatch_anchored)

text \<open>A run of bytes of a class: what it consumes, and the state it leaves.\<close>

definition consume :: "string \<Rightarrow> mstate \<Rightarrow> mstate" where
  "consume w st =
     St (if w = [] then prev st else Some (last w)) (drop (length w) (rest st)) (pos st + length w) (caps st)"

lemma consume_Nil [simp]: "consume [] st = st"
  by (cases st) (simp add: consume_def)

lemma consume_sel [simp]:
  "rest (consume w st) = drop (length w) (rest st)" "pos (consume w st) = pos st + length w"
  "caps (consume w st) = caps st"
  by (simp_all add: consume_def)

lemma consume_append:
  "rest st = w @ r \<Longrightarrow> consume (w @ v) st = consume v (consume w st)"
  by (auto simp: consume_def add.assoc)

lemma cls_step_iff:
  "re_step (Cls rs) st st' \<longleftrightarrow>
     (\<exists>c r. rest st = c # r \<and> in_class rs c \<and> st' = consume [c] st)"
  by (auto simp: consume_def elim!: cls_E intro: re_step.intros)

lemma star_class_step:
  "re_step (Star g (Cls rs)) st st' \<longleftrightarrow>
     (\<exists>w r. rest st = w @ r \<and> list_all (in_class rs) w \<and> st' = consume w st)"
proof
  assume "re_step (Star g (Cls rs)) st st'"
  then show "\<exists>w r. rest st = w @ r \<and> list_all (in_class rs) w \<and> st' = consume w st"
  proof (induction "Star g (Cls rs)" st st' rule: re_step.induct)
    case (star_more st st1 st2)
    from star_more.hyps(1) obtain c r where c: "rest st = c # r" "in_class rs c" "st1 = consume [c] st"
      by (auto simp: cls_step_iff)
    from star_more.hyps(4) obtain w r' where w: "rest st1 = w @ r'" "list_all (in_class rs) w"
        "st2 = consume w st1" by blast
    have "rest st = (c # w) @ r'" using c w by simp
    moreover have "st2 = consume (c # w) st" using c w consume_append [of st "[c]" r w] by simp
    ultimately show ?case using c(2) w(2) by (intro exI conjI) auto
  qed (auto intro: exI [of _ "[]"])
next
  assume "\<exists>w r. rest st = w @ r \<and> list_all (in_class rs) w \<and> st' = consume w st"
  then obtain w r where "rest st = w @ r" "list_all (in_class rs) w" "st' = consume w st" by blast
  then show "re_step (Star g (Cls rs)) st st'"
  proof (induction w arbitrary: st)
    case Nil
    then show ?case by (auto intro: re_step.star_stop)
  next
    case (Cons c w)
    then have 1: "re_step (Cls rs) st (consume [c] st)" by (auto simp: cls_step_iff)
    have 2: "st' = consume w (consume [c] st)"
      using Cons.prems consume_append [of st "[c]" "w @ r" w] by simp
    have "re_step (Star g (Cls rs)) (consume [c] st) st'"
      using Cons.prems 2 by (intro Cons.IH) auto
    with 1 show ?case by (auto intro: re_step.star_more)
  qed
qed

lemma seq_step_iff: "re_step (Seq a b) st st' \<longleftrightarrow> (\<exists>st1. re_step a st st1 \<and> re_step b st1 st')"
  by (auto elim: seq_E intro: re_step.intros)

lemma end_step_iff: "re_step TextEnd st st' \<longleftrightarrow> rest st = [] \<and> st' = st"
  by (auto elim: end_E intro: re_step.intros)

lemma grp_step_iff:
  "re_step (Grp n r) st st' \<longleftrightarrow>
     (\<exists>s. re_step r st s \<and> st' = St (prev s) (rest s) (pos s) ((n, pos st, pos s) # caps s))"
  by (auto elim: grp_E intro: re_step.intros)

lemma byte_step_iff:
  "re_step (byte n) st st' \<longleftrightarrow> (\<exists>c r. rest st = c # r \<and> of_char c = n \<and> st' = consume [c] st)"
  by (auto simp: byte_def cls_step_iff in_class_def in_ranges_def)

lemmas re_step_iffs = cls_step_iff star_class_step seq_step_iff end_step_iff grp_step_iff byte_step_iff

lemma star_class_end:
  "(\<exists>st'. re_step (Star g (Cls rs)) st st' \<and> rest st' = []) \<longleftrightarrow> list_all (in_class rs) (rest st)"
proof
  assume "\<exists>st'. re_step (Star g (Cls rs)) st st' \<and> rest st' = []"
  then obtain w r where "rest st = w @ r" "list_all (in_class rs) w" "rest (consume w st) = []"
    unfolding star_class_step by blast
  then show "list_all (in_class rs) (rest st)" by simp
next
  assume "list_all (in_class rs) (rest st)"
  then have "re_step (Star g (Cls rs)) st (consume (rest st) st)"
    unfolding star_class_step by (metis append_Nil2)
  then show "\<exists>st'. re_step (Star g (Cls rs)) st st' \<and> rest st' = []" by (metis consume_sel(1) drop_all order_refl)
qed

lemma match_class_star:
  "match_string (seqs [TextStart, Star g (Cls rs), TextEnd]) s \<longleftrightarrow> list_all (in_class rs) s"
  using star_class_end [of g rs "St None s 0 []"]
  by (auto simp: match_string_anchored seq_step_iff end_step_iff)

lemma match_class_plus:
  "match_string (seqs [TextStart, plus (Cls rs), TextEnd]) s \<longleftrightarrow> s \<noteq> [] \<and> list_all (in_class rs) s"
proof (cases s)
  case (Cons c cs)
  have "match_string (seqs [TextStart, plus (Cls rs), TextEnd]) s \<longleftrightarrow> in_class rs c \<and>
      (\<exists>st'. re_step (Star True (Cls rs)) (consume [c] (St None s 0 [])) st' \<and> rest st' = [])"
    by (auto simp: Cons match_string_anchored plus_def seq_step_iff end_step_iff cls_step_iff)
  then show ?thesis by (simp only: star_class_end) (simp add: Cons)
qed (auto simp: match_string_anchored plus_def seq_step_iff cls_step_iff)

text \<open>The bytes a pattern can consume.\<close>

primrec re_chars :: "re \<Rightarrow> char set" where
  "re_chars Eps = {}"
| "re_chars (Cls rs) = {c. in_class rs c}"
| "re_chars (Seq a b) = re_chars a \<union> re_chars b"
| "re_chars (Alt a b) = re_chars a \<union> re_chars b"
| "re_chars (Star g r) = re_chars r"
| "re_chars (Grp n r) = re_chars r"
| "re_chars TextStart = {}"
| "re_chars TextEnd = {}"
| "re_chars WordB = {}"

lemma re_step_chars: "re_step r st st' \<Longrightarrow> \<exists>w. rest st = w @ rest st' \<and> set w \<subseteq> re_chars r"
proof (induction rule: re_step.induct)
  case (cls st c cs rs)
  then show ?case by (intro exI [of _ "[c]"]) auto
next
  case (seq a st st1 b st2)
  then obtain v w where "rest st = v @ rest st1" "rest st1 = w @ rest st2" "set v \<subseteq> re_chars a" "set w \<subseteq> re_chars b"
    by blast
  then show ?case by (intro exI [of _ "v @ w"]) auto
next
  case (star_more r st st1 g st2)
  then obtain v w where "rest st = v @ rest st1" "rest st1 = w @ rest st2" "set v \<subseteq> re_chars r" "set w \<subseteq> re_chars r"
    by auto
  then show ?case by (intro exI [of _ "v @ w"]) auto
qed auto

lemma match_anchored_chars:
  assumes "match_string (Seq TextStart r) s" and "\<And>st st'. re_step r st st' \<Longrightarrow> rest st' = []"
  shows "set s \<subseteq> re_chars r"
proof -
  from assms(1) obtain st' where "re_step r (St None s 0 []) st'" by (auto simp: match_string_anchored)
  with re_step_chars [OF this] assms(2) show ?thesis by fastforce
qed

end
