(* ===== verification/Redact.thy ===== *)
theory Redact
  imports Regexp "HOL-Library.Product_Lexorder"
begin

text \<open>
  \<open>internal/policy/redact.go\<close>, \<open>budgets.go\<close> and \<open>locations.go\<close>: the redactor every byte of a
  target's output goes through, the cut to the output budget, and the credential locations
  history scanning reports.  A rule's pattern is a term of \<^typ>\<open>re\<close> transcribed from its Go
  regular expression.  An operator's \<open>redact_extra\<close> pattern arrives as text, so
  \<open>newRedactor\<close> takes the pattern compiler as an argument.
\<close>

section \<open>Budgets (budgets.go)\<close>

text \<open>Durations in nanoseconds, as \<open>time.Duration\<close> counts them.\<close>

definition second :: int where "second = 1000000000"

record budgets =
  PerCheckSoft :: int
  PerCheckHard :: int
  PerCheckOutput :: int
  AgentChecks :: int
  AgentWallClock :: int
  ModelInputTotal :: int
  MaxIterations :: int
  MaxTokens :: int
  ContextBytes :: int
  RunTimeout :: int

definition defaultBudgets :: budgets where
  "defaultBudgets =
     \<lparr>PerCheckSoft = 5 * second, PerCheckHard = 30 * second, PerCheckOutput = 64 * 1024,
      AgentChecks = 60, AgentWallClock = 120 * second, ModelInputTotal = 256 * 1024,
      MaxIterations = 24, MaxTokens = 32000, ContextBytes = 32 * 1024,
      RunTimeout = 5 * 60 * second\<rparr>"

definition RedactSlack :: nat where "RedactSlack = 4 * 1024"

definition captureLimit :: "budgets \<Rightarrow> int" where
  "captureLimit b = PerCheckOutput b + int RedactSlack"

datatype budget_error = BudgetNotPositive | SoftExceedsHard

definition validateBudgets :: "budgets \<Rightarrow> budget_error option" where
  "validateBudgets b =
     (if PerCheckHard b \<le> 0 \<or> PerCheckOutput b \<le> 0 \<or> RunTimeout b \<le> 0 then Some BudgetNotPositive
      else if PerCheckHard b < PerCheckSoft b then Some SoftExceedsHard
      else None)"

section \<open>Patterns (redact.go)\<close>

definition cls_word :: "(nat \<times> nat) list" where
  "cls_word = [AZ, az, d09, ch CHR ''_'']"
definition cls_b64url :: "(nat \<times> nat) list" where
  "cls_b64url = [AZ, az, d09, ch CHR ''_'', ch CHR ''-'']"
definition cls_alnum :: "(nat \<times> nat) list" where
  "cls_alnum = [AZ, az, d09]"

text \<open>The words both \<open>trivialValue\<close> and the workflow form keep, between optional quotes.\<close>

definition trivial_words :: re where
  "trivial_words =
     seqs [opt (Cls [(34, 34), (39, 39)]),
       Grp 1 (alts (map ilit [''yes'', ''no'', ''true'', ''false'', ''none'', ''null'', ''off'', ''on'',
         ''0'', ''1'', ''-'', ''*'', ''x'', ''required'', ''optional'', ''prompt'', ''ask''])),
       opt (Cls [(34, 34), (39, 39)])]"

definition trivialValue :: re where
  "trivialValue = seqs [TextStart, trivial_words, TextEnd]"

definition jsonTrivialValue :: re where
  "jsonTrivialValue = seqs [TextStart, opt (Grp 1 (Alt (lit ''0'') (lit ''1''))), TextEnd]"

definition sudoersTag :: re where
  "sudoersTag = seqs [TextStart, opt (Grp 1 (ilit ''no'')), ilit ''passwd'', TextEnd]"

definition awsAccessKey :: re where
  "awsAccessKey =
     seqs [WordB, Grp 1 (alts (map lit [''AKIA'', ''ASIA'', ''AGPA'', ''AIDA'', ''AROA'', ''ANPA''])),
       times 16 (Cls [d09, AZ]), WordB]"

definition githubToken :: re where
  "githubToken =
     seqs [WordB, Grp 1 (alts (map lit [''ghp'', ''gho'', ''ghu'', ''ghs'', ''ghr'', ''github_pat''])),
       lit ''_'', atleast 20 (Cls cls_word), WordB]"

definition slackToken :: re where
  "slackToken =
     seqs [WordB, lit ''xox'', Cls [ch CHR ''a'', ch CHR ''b'', ch CHR ''p'', ch CHR ''r'', ch CHR ''s''],
       lit ''-'', atleast 10 (Cls [AZ, az, d09, ch CHR ''-'']), WordB]"

definition bearerToken :: re where
  "bearerToken =
     seqs [WordB, ilit ''bearer'', plus re_space,
       Grp 1 (Seq (atleast 8 (iclass [AZ, az, d09, ch CHR ''-'', ch CHR ''.'', ch CHR ''_'',
                ch CHR ''~'', ch CHR ''+'', ch CHR ''/'']))
              (Star True (lit ''='')))]"

definition jwtToken :: re where
  "jwtToken =
     seqs [WordB, lit ''eyJ'', atleast 8 (Cls cls_b64url), lit ''.'', atleast 8 (Cls cls_b64url),
       lit ''.'', atleast 8 (Cls cls_b64url), WordB]"

definition googleAccessToken :: re where
  "googleAccessToken = seqs [WordB, lit ''ya29.'', atleast 20 (Cls cls_b64url)]"
definition googleRefreshToken :: re where
  "googleRefreshToken = seqs [WordB, lit ''1//'', atleast 20 (Cls cls_b64url)]"
definition googleAPIKey :: re where
  "googleAPIKey = seqs [WordB, lit ''AIza'', times 35 (Cls cls_b64url)]"
definition googleClientSecret :: re where
  "googleClientSecret = seqs [WordB, lit ''GOCSPX-'', atleast 20 (Cls cls_b64url)]"
definition stripeKey :: re where
  "stripeKey = seqs [WordB, Cls [ch CHR ''r'', ch CHR ''s''], lit ''k_live_'', atleast 20 (Cls cls_alnum)]"
definition npmToken :: re where
  "npmToken = seqs [WordB, lit ''npm_'', times 36 (Cls cls_alnum), WordB]"
definition slackWebhook :: re where
  "slackWebhook =
     seqs [lit ''https://hooks.slack.com/'', alts (map lit [''services'', ''workflows'', ''triggers'']),
       lit ''/'', Grp 1 (atleast 16 (Cls [AZ, az, d09, ch CHR ''_'', ch CHR ''/'', ch CHR ''-'']))]"

definition key_chars :: re where
  "key_chars = Star True (iclass [AZ, az, d09, ch CHR ''_'', ch CHR ''.'', ch CHR ''-''])"

definition opt_sep :: re where
  "opt_sep = opt (Cls [ch CHR ''_'', ch CHR ''-''])"

definition secretKey :: re where
  "secretKey =
     seqs [key_chars,
       alts [ilit ''password'', ilit ''passwd'', ilit ''pwd'', ilit ''secret'', ilit ''token'',
         seqs [ilit ''api'', opt_sep, ilit ''key''], seqs [ilit ''access'', opt_sep, ilit ''key''],
         seqs [ilit ''private'', opt_sep, ilit ''key''], seqs [ilit ''client'', opt_sep, ilit ''secret''],
         seqs [ilit ''auth'', opt_sep, ilit ''key'']],
       key_chars]"

definition jsonPlainKey :: re where
  "jsonPlainKey =
     seqs [Grp 1 (alts [ilit ''_url'', ilit ''_uri'', ilit ''_type'', ilit ''_enabled'', ilit ''_at'',
         seqs [ilit ''page'', opt (lit ''_''), ilit ''token'']]), TextEnd]"

definition key_header :: "string \<Rightarrow> nat \<Rightarrow> re" where
  "key_header kind n =
     seqs [lit (''-----'' @ kind @ '' ''), Star True (Cls [AZ, d09, (32, 32)]), lit ''PRIVATE KEY'',
       opt (Grp n (lit '' BLOCK'')), lit ''-----'']"

definition privateKeyBlock :: re where
  "privateKeyBlock = seqs [key_header ''BEGIN'' 1, Star False re_any, key_header ''END'' 2]"

definition privateKeyCut :: re where
  "privateKeyCut = seqs [key_header ''BEGIN'' 1, Star True re_any, TextEnd]"

definition jsonSecret :: re where
  "jsonSecret =
     seqs [byte 34, Grp 1 secretKey, byte 34, Star True re_space, lit '':'', Star True re_space, byte 34,
       Grp 2 (Star True (Alt (Cls [(0, 9), (11, 33), (35, 91), (93, 255)])
                             (Seq (byte 92) re_not_newline))), byte 34]"

definition kv_value :: re where
  "kv_value =
     alts [seqs [byte 34, Star True (Cls [(0, 9), (11, 33), (35, 255)]), byte 34],
       seqs [byte 39, Star True (Cls [(0, 9), (11, 38), (40, 255)]), byte 39],
       plus (Cls [(0, 8), (11, 11), (14, 31), (33, 43), (45, 58), (60, 255)])]"

definition kvSecret :: re where
  "kvSecret =
     seqs [WordB, Grp 1 secretKey, Star True re_space, Cls [ch CHR ''='', ch CHR '':''],
       Star True re_space, Grp 2 kv_value]"

section \<open>Rules and redactors\<close>

record redact_rule =
  rr_name :: string
  rr_re :: re
  rr_group :: nat
  rr_keepIf :: "re option"
  rr_keyGroup :: nat
  rr_skipKey :: "re option"

abbreviation plain_rule :: "string \<Rightarrow> re \<Rightarrow> nat \<Rightarrow> redact_rule" where
  "plain_rule n r g \<equiv>
     \<lparr>rr_name = n, rr_re = r, rr_group = g, rr_keepIf = None, rr_keyGroup = 0, rr_skipKey = None\<rparr>"

definition compiledRules :: "redact_rule list" where
  "compiledRules =
     [plain_rule ''private-key'' privateKeyBlock 0,
      plain_rule ''private-key'' privateKeyCut 0,
      plain_rule ''aws-access-key'' awsAccessKey 0,
      plain_rule ''github-token'' githubToken 0,
      plain_rule ''slack-token'' slackToken 0,
      plain_rule ''google-access-token'' googleAccessToken 0,
      plain_rule ''google-refresh-token'' googleRefreshToken 0,
      plain_rule ''google-api-key'' googleAPIKey 0,
      plain_rule ''google-client-secret'' googleClientSecret 0,
      plain_rule ''stripe-key'' stripeKey 0,
      plain_rule ''npm-token'' npmToken 0,
      plain_rule ''slack-webhook'' slackWebhook 1,
      plain_rule ''bearer'' bearerToken 1,
      plain_rule ''jwt'' jwtToken 0,
      \<lparr>rr_name = ''json-secret'', rr_re = jsonSecret, rr_group = 2, rr_keepIf = Some jsonTrivialValue,
       rr_keyGroup = 1, rr_skipKey = Some jsonPlainKey\<rparr>,
      \<lparr>rr_name = ''kv-secret'', rr_re = kvSecret, rr_group = 2, rr_keepIf = Some trivialValue,
       rr_keyGroup = 1, rr_skipKey = Some sudoersTag\<rparr>]"

record redactor =
  red_rules :: "redact_rule list"

text \<open>An invalid extra pattern is reported with its index.\<close>

fun extra_rules :: "(string \<Rightarrow> re option) \<Rightarrow> nat \<Rightarrow> string list \<Rightarrow> nat + redact_rule list" where
  "extra_rules compile i [] = Inr []"
| "extra_rules compile i (pat # pats) =
     (case compile pat of
        None \<Rightarrow> Inl i
      | Some r \<Rightarrow>
          (case extra_rules compile (Suc i) pats of
             Inl e \<Rightarrow> Inl e
           | Inr rs \<Rightarrow> Inr (plain_rule (''extra:'' @ show_nat i) r 0 # rs)))"

definition newRedactor :: "(string \<Rightarrow> re option) \<Rightarrow> string list \<Rightarrow> nat + redactor" where
  "newRedactor compile extra =
     (case extra_rules compile 0 extra of
        Inl i \<Rightarrow> Inl i
      | Inr rs \<Rightarrow> Inr \<lparr>red_rules = compiledRules @ rs\<rparr>)"

definition withLiteral :: "redactor \<Rightarrow> string \<Rightarrow> string \<Rightarrow> redactor" where
  "withLiteral r name v =
     (if v = [] then r else \<lparr>red_rules = plain_rule name (lit v) 0 # red_rules r\<rparr>)"

definition workflow_reference :: re where
  "workflow_reference =
     seqs [lit ''${{'', upto_times 32 (Cls [(32, 32), (9, 9)]),
       Alt (lit ''github.token'') (lit ''secrets.GITHUB_TOKEN''),
       upto_times 32 (Cls [(32, 32), (9, 9)]), lit ''}}'']"

definition workflow_keep :: re where
  "workflow_keep =
     (let pad = upto_times 32 (Cls [(32, 32), (9, 9)]) in
      seqs [TextStart,
        alts [trivial_words, seqs [workflow_reference, pad],
          seqs [byte 34, workflow_reference, byte 34, pad],
          seqs [byte 39, workflow_reference, byte 39, pad]],
        TextEnd])"

definition workflow_kv :: re where
  "workflow_kv =
     (let line = Star True (Cls [(0, 9), (11, 12), (14, 255)]) in
      seqs [WordB, Grp 1 secretKey, Star True re_space, Cls [ch CHR ''='', ch CHR '':''], Star True re_space,
        Grp 2 (alts [seqs [byte 34, lit ''${{'', line], seqs [byte 39, lit ''${{'', line],
          seqs [lit ''${{'', line], kv_value])])"

definition withWorkflowReferences :: "redactor \<Rightarrow> redactor" where
  "withWorkflowReferences r =
     \<lparr>red_rules = map (\<lambda>rule.
        if rr_name rule = ''kv-secret'' \<and> rr_group rule = 2
        then rule\<lparr>rr_re := workflow_kv, rr_keepIf := Some workflow_keep\<rparr> else rule) (red_rules r)\<rparr>"

definition marker :: "string \<Rightarrow> nat \<Rightarrow> string" where
  "marker rule n = ''[REDACTED:'' @ rule @ '':'' @ show_nat n @ '' bytes]''"

section \<open>Redaction\<close>

record hit =
  hit_rule :: string
  hit_bytes :: nat

record span =
  sp_start :: nat
  sp_end :: nat
  sp_order :: nat
  sp_rule :: string

text \<open>One match of a rule, as the span it redacts; \<open>None\<close> for the ways the loop skips it.\<close>

definition match_span :: "bytes \<Rightarrow> nat \<Rightarrow> redact_rule \<Rightarrow> found \<Rightarrow> span option" where
  "match_span b order rule f =
     (case group_span f (rr_group rule) of
        None \<Rightarrow> None
      | Some (start, end') \<Rightarrow>
          if end' \<le> start then None
          else if (case rr_keepIf rule of None \<Rightarrow> False | Some k \<Rightarrow> match_string k (slice b start end'))
          then None
          else if (case rr_skipKey rule of
                 None \<Rightarrow> False
               | Some k \<Rightarrow>
                   (case group_span f (rr_keyGroup rule) of
                      None \<Rightarrow> False
                    | Some (i, j) \<Rightarrow> match_string k (slice b i j)))
          then None
          else Some \<lparr>sp_start = start, sp_end = end', sp_order = order, sp_rule = rr_name rule\<rparr>)"

definition rule_spans :: "bytes \<Rightarrow> nat \<Rightarrow> redact_rule \<Rightarrow> span list" where
  "rule_spans b order rule = List.map_filter (match_span b order rule) (find_all (rr_re rule) b)"

definition all_spans :: "redactor \<Rightarrow> bytes \<Rightarrow> span list" where
  "all_spans r b = concat (map (\<lambda>(order, rule). rule_spans b order rule) (enumerate 0 (red_rules r)))"

definition sort_spans :: "span list \<Rightarrow> span list" where
  "sort_spans = sort_key (\<lambda>sp. (sp_start sp, sp_order sp))"

primrec emit :: "bytes \<Rightarrow> nat \<Rightarrow> nat \<Rightarrow> span list \<Rightarrow> bytes \<times> hit list" where
  "emit b upTo final [] = (if final < upTo then slice b final upTo else [], [])"
| "emit b upTo final (sp # sps) =
     (if sp_start sp < final then emit b upTo final sps
      else if upTo \<le> sp_start sp then (if final < upTo then slice b final upTo else [], [])
      else
        (let n = sp_end sp - sp_start sp; (out, hits) = emit b upTo (sp_end sp) sps in
         (slice b final (sp_start sp) @ marker (sp_rule sp) n @ out,
          \<lparr>hit_rule = sp_rule sp, hit_bytes = n\<rparr> # hits)))"

definition redactUpTo :: "redactor \<Rightarrow> bytes \<Rightarrow> nat \<Rightarrow> bytes \<times> hit list" where
  "redactUpTo r b upTo =
     (let spans = all_spans r b in
      if spans = [] then (take upTo b, []) else emit b upTo 0 (sort_spans spans))"

definition redact :: "redactor \<Rightarrow> bytes \<Rightarrow> bytes \<times> hit list" where
  "redact r b = redactUpTo r b (length b)"

section \<open>The cut to the budget\<close>

definition open_marker :: string where "open_marker = ''[REDACTED:''"
abbreviation newline :: char where "newline \<equiv> CHR 0x0A"

text \<open>Where the cut falls: moved past the end of a marker it would split.\<close>

definition cut_point :: "bytes \<Rightarrow> nat \<Rightarrow> nat" where
  "cut_point red cutAt =
     (case last_index (take (min (length red) (cutAt + length open_marker - 1)) red) open_marker of
        None \<Rightarrow> cutAt
      | Some i \<Rightarrow>
          if i < cutAt \<and> index_byte (slice red i cutAt) (CHR '']'') = None
          then (case index_byte (drop i red) (CHR '']'') of None \<Rightarrow> cutAt | Some j \<Rightarrow> i + j + 1)
          else cutAt)"

definition Truncate :: "bytes \<Rightarrow> bool \<Rightarrow> nat \<Rightarrow> bytes \<times> bool" where
  "Truncate red sourceTruncated capBytes =
     (if capBytes < length red then
        (let cutAt = cut_point red capBytes; dropped = length red - cutAt in
         (take cutAt red @ [newline] @ ''[TRUNCATED:'' @ show_nat dropped @
            (if sourceTruncated then ''+ bytes]'' else '' bytes]''), True))
      else if sourceTruncated then (red @ [newline] @ ''[TRUNCATED:unknown bytes]'', True)
      else (red, False))"

definition finish :: "redactor \<Rightarrow> bytes \<Rightarrow> bool \<Rightarrow> nat \<Rightarrow> bytes \<times> bool \<times> hit list" where
  "finish r b sourceTruncated capBytes =
     (let upTo = (if sourceTruncated then length b - RedactSlack else length b);
          (red, hits) = redactUpTo r b upTo;
          (out, truncated) = Truncate red sourceTruncated capBytes
      in (out, truncated, hits))"

definition rune_start :: "char \<Rightarrow> bool" where
  "rune_start c = (\<not> (0x80 \<le> (of_char c :: nat) \<and> (of_char c :: nat) < 0xC0))"

primrec rune_cut :: "bytes \<Rightarrow> nat \<Rightarrow> nat" where
  "rune_cut red 0 = 0"
| "rune_cut red (Suc n) = (if rune_start (red ! Suc n) then Suc n else rune_cut red n)"

definition cutLabel :: "bytes \<Rightarrow> nat \<Rightarrow> bytes" where
  "cutLabel red capBytes =
     (if length red \<le> capBytes then red
      else
        (let cutAt = cut_point red (rune_cut red capBytes) in
         if length red \<le> cutAt then red
         else take cutAt red @ ''[TRUNCATED:'' @ show_nat (length red - cutAt) @ '' bytes]''))"

section \<open>Locations (locations.go)\<close>

record secret_location =
  loc_rule :: string
  loc_marker :: string
  loc_line :: nat
  loc_bytes :: nat

definition match_limit :: nat where "match_limit = 10001"

definition location_rules :: "string \<Rightarrow> redact_rule list" where
  "location_rules credential =
     (if credential = [] then compiledRules
      else plain_rule ''credential'' (lit credential) 0 # compiledRules)"

definition location_matches :: "bytes \<Rightarrow> nat \<times> redact_rule \<Rightarrow> span list" where
  "location_matches b = (\<lambda>(order, rule).
     List.map_filter (match_span b order rule) (take match_limit (find_all (rr_re rule) b)))"

primrec locate :: "bytes \<Rightarrow> nat \<Rightarrow> nat \<Rightarrow> nat \<Rightarrow> nat \<Rightarrow> span list \<Rightarrow> secret_location list" where
  "locate b found line prevStart final [] = []"
| "locate b found line prevStart final (m # ms) =
     (if sp_start m < final then locate b found line prevStart final ms
      else
        (let line' = line + count_byte (slice b prevStart (sp_start m)) newline;
             n = sp_end m - sp_start m;
             loc = \<lparr>loc_rule = sp_rule m, loc_marker = marker (sp_rule m) n, loc_line = line', loc_bytes = n\<rparr>
         in if match_limit \<le> Suc found then [loc]
            else loc # locate b (Suc found) line' (sp_start m) (sp_end m) ms))"

definition secretLocations :: "bytes \<Rightarrow> string \<Rightarrow> secret_location list \<times> bool" where
  "secretLocations b credential =
     (let rules = location_rules credential;
          matches = concat (map (location_matches b) (enumerate 0 rules));
          complete = list_all (\<lambda>rule. length (find_all (rr_re rule) b) < match_limit) rules
      in (locate b 0 1 0 0 (sort_spans matches), complete))"

primrec extra_counts :: "nat \<Rightarrow> hit list \<Rightarrow> hit list" where
  "extra_counts n [] = []"
| "extra_counts n (h # hs) = (if match_limit \<le> Suc n then [h] else h # extra_counts (Suc n) hs)"

definition extraRedactionCounts :: "redactor \<Rightarrow> bytes \<Rightarrow> hit list" where
  "extraRedactionCounts r b =
     extra_counts 0 (concat (map (\<lambda>rule.
       List.map_filter (\<lambda>f. if found_start f < pos (found_end f)
           then Some \<lparr>hit_rule = rr_name rule, hit_bytes = pos (found_end f) - found_start f\<rparr> else None)
         (take match_limit (find_all (rr_re rule) b)))
       (drop (length compiledRules) (red_rules r))))"

end
