(* ===== verification/Redact_Leak.thy ===== *)
theory Redact_Leak
  imports Redact_Proofs
begin
















end
