(* ===== verification/Check_Catalog.thy ===== *)
theory Check_Catalog
  imports Regexp Path_Policy "HOL-Library.Product_Lexorder" "HOL-Library.Multiset"
begin

text \<open>
  \<open>internal/check\<close>: the check record (\<open>check.go\<close>), binding parameters into an argument vector
  (\<open>bind.go\<close>), the registry (\<open>catalog.go\<close>) and the login-shell tables (\<open>shells.go\<close>).  The
  registry's state is the list of entries in registration order; a panic of \<open>Register\<close> is an
  error value.  The contract of the registry is the locale \<open>check_registry\<close>, interpreted on the
  list model at the end.
\<close>

section \<open>Checks (check.go)\<close>

type_synonym platform = string

definition platform_any :: platform where "platform_any = ''any''"
definition platform_linux :: platform where "platform_linux = ''linux''"
definition platform_macos :: platform where "platform_macos = ''macos''"

lemmas platform_defs = platform_any_def platform_linux_def platform_macos_def

datatype profile = ProfileBaseline | ProfileHardened

primrec profile_rank :: "profile \<Rightarrow> nat" where
  "profile_rank ProfileBaseline = 0"
| "profile_rank ProfileHardened = 1"

instantiation profile :: linorder
begin

definition less_eq_profile :: "profile \<Rightarrow> profile \<Rightarrow> bool" where
  "less_eq_profile p q = (profile_rank p \<le> profile_rank q)"

definition less_profile :: "profile \<Rightarrow> profile \<Rightarrow> bool" where
  "less_profile p q = (profile_rank p < profile_rank q)"

instance
proof
  fix x y :: profile
  show "x = y" if "x \<le> y" "y \<le> x"
    using that by (cases x; cases y) (auto simp: less_eq_profile_def)
qed (auto simp: less_eq_profile_def less_profile_def)

end

primrec profile_string :: "profile \<Rightarrow> string" where
  "profile_string ProfileBaseline = ''baseline''"
| "profile_string ProfileHardened = ''hardened''"

definition parseProfile :: "string \<Rightarrow> profile option" where
  "parseProfile s =
     (if s = '''' \<or> s = ''baseline'' then Some ProfileBaseline
      else if s = ''hardened'' then Some ProfileHardened
      else None)"

datatype param_kind = KindPath | KindEnum | KindInt | KindIdent | KindOther string

record param =
  param_name :: string
  param_kind :: param_kind
  param_enum :: "string list"
  param_min :: int
  param_max :: int

text \<open>The zero value a missing map entry yields.\<close>

definition zero_param :: param where
  "zero_param = \<lparr>param_name = [], param_kind = KindOther [], param_enum = [], param_min = 0, param_max = 0\<rparr>"

datatype parser_kind =
    ParseRaw | ParseLines | ParseKV | ParseJSON
  | ParseListeners | ParseAccounts | ParsePasswdStatus | ParseUnits | ParseUpdates | ParseLaunchd
  | ParseFileMode | ParseOther string

datatype path_use = PathNone | PathContent | PathMetadata

record check_budget =
  budget_soft :: int
  budget_hard :: int
  budget_output :: int

record check =
  check_id :: string
  check_desc :: string
  check_platform :: platform
  check_domain :: string
  check_argv :: "string list"
  check_params :: "param list"
  check_parser :: parser_kind
  check_baseline :: bool
  check_minProfile :: profile
  check_elevated :: bool
  check_budget :: check_budget
  check_exitOK :: "int list option"
  check_pathUse :: path_use
  check_canary :: bool
  check_extract :: string
  check_unit :: string
  check_sampled :: bool

definition zero_check :: check where
  "zero_check =
     \<lparr>check_id = [], check_desc = [], check_platform = [], check_domain = [], check_argv = [],
      check_params = [], check_parser = ParseOther [], check_baseline = False,
      check_minProfile = ProfileBaseline, check_elevated = False,
      check_budget = \<lparr>budget_soft = 0, budget_hard = 0, budget_output = 0\<rparr>, check_exitOK = None,
      check_pathUse = PathNone, check_canary = False, check_extract = [], check_unit = [],
      check_sampled = False\<rparr>"

definition anyExitMarker :: int where "anyExitMarker = - (2 ^ 30)"
definition AnyExit :: "int list" where "AnyExit = [anyExitMarker]"

definition exitAllowed :: "check \<Rightarrow> int \<Rightarrow> bool" where
  "exitAllowed c code =
     (case check_exitOK c of
        None \<Rightarrow> code = 0
      | Some oks \<Rightarrow> list_ex (\<lambda>ok. ok = anyExitMarker \<or> ok = code) oks)"

definition onDemand :: "check \<Rightarrow> bool" where
  "onDemand c = (\<not> check_baseline c)"

definition appliesTo :: "check \<Rightarrow> platform \<Rightarrow> bool" where
  "appliesTo c p = (check_platform c = platform_any \<or> check_platform c = p)"

definition hasPathParam :: "check \<Rightarrow> bool" where
  "hasPathParam c = list_ex (\<lambda>p. param_kind p = KindPath) (check_params c)"

section \<open>Binding (bind.go)\<close>

definition cls_name_head :: "(nat \<times> nat) list" where "cls_name_head = [az]"
definition cls_name :: "(nat \<times> nat) list" where "cls_name = [az, d09, ch CHR ''_'']"
definition cls_path :: "(nat \<times> nat) list" where
  "cls_path = [AZ, az, d09, ch CHR ''.'', ch CHR ''_'', ch CHR ''/'', ch CHR ''-'']"
definition cls_ident :: "(nat \<times> nat) list" where
  "cls_ident = [AZ, az, d09, ch CHR ''.'', ch CHR ''_'', ch CHR ''-'']"

definition re_name :: re where
  "re_name = Seq (Cls cls_name_head) (Star True (Cls cls_name))"

definition placeholderRe :: re where
  "placeholderRe = seqs [TextStart, byte 123, Grp 1 re_name, byte 125, TextEnd]"

definition pathCharsRe :: re where
  "pathCharsRe = seqs [TextStart, plus (Cls cls_path), TextEnd]"

definition identCharsRe :: re where
  "identCharsRe = seqs [TextStart, plus (Cls cls_ident), TextEnd]"

definition placeholder :: "string \<Rightarrow> string" where
  "placeholder token =
     (case find_submatch placeholderRe token of
        None \<Rightarrow> []
      | Some m \<Rightarrow> submatch_text token m 1)"

datatype param_error =
    PathChars string | PathNotAbsolute string | PathTraversal string
  | IdentChars string | NotInteger string | OutsideRange string int int int
  | NotInEnum string "string list" | UnknownKind string param_kind

definition validatePath :: "string \<Rightarrow> string \<Rightarrow> param_error option" where
  "validatePath name val =
     (if \<not> match_string pathCharsRe val then Some (PathChars name)
      else if \<not> has_prefix val ''/'' then Some (PathNotAbsolute name)
      else if ''..'' \<in> set (split_on (CHR ''/'') val) then Some (PathTraversal name)
      else None)"

definition validateParam :: "param \<Rightarrow> string \<Rightarrow> param_error option" where
  "validateParam p val =
     (case param_kind p of
        KindPath \<Rightarrow> validatePath (param_name p) val
      | KindIdent \<Rightarrow> if \<not> match_string identCharsRe val then Some (IdentChars (param_name p)) else None
      | KindInt \<Rightarrow>
          (case atoi val of
             None \<Rightarrow> Some (NotInteger (param_name p))
           | Some n \<Rightarrow>
               if n < param_min p \<or> param_max p < n
               then Some (OutsideRange (param_name p) n (param_min p) (param_max p)) else None)
      | KindEnum \<Rightarrow>
          if val \<in> set (param_enum p) then None else Some (NotInEnum (param_name p) (param_enum p))
      | KindOther k \<Rightarrow> Some (UnknownKind (param_name p) (KindOther k)))"

primrec kind_string :: "param_kind \<Rightarrow> string" where
  "kind_string KindPath = ''path''"
| "kind_string KindEnum = ''enum''"
| "kind_string KindInt = ''int''"
| "kind_string KindIdent = ''ident''"
| "kind_string (KindOther s) = s"

definition paramSpec :: "check \<Rightarrow> string" where
  "paramSpec c =
     (if check_params c = [] then ''no params''
      else join_with '', '' (sort (map (\<lambda>p.
        param_name p @ '':'' @ kind_string (param_kind p) @
        (case param_kind p of
           KindEnum \<Rightarrow> ''('' @ join_with ''|'' (param_enum p) @ '')''
         | KindInt \<Rightarrow> ''['' @ show_int (param_min p) @ ''..'' @ show_int (param_max p) @ '']''
         | _ \<Rightarrow> [])) (check_params c))))"

datatype bind_error =
    UnknownParam string string string
  | MissingParam string string param_kind
  | InvalidParam string param_error

text \<open>\<open>byName\<close>: a later declaration of a name replaces an earlier one.\<close>

definition by_name :: "check \<Rightarrow> string \<Rightarrow> param option" where
  "by_name c = map_of (rev (map (\<lambda>p. (param_name p, p)) (check_params c)))"

primrec bind_tokens :: "check \<Rightarrow> (string \<times> string) list \<Rightarrow> string list \<Rightarrow> bind_error + string list" where
  "bind_tokens c params [] = Inr []"
| "bind_tokens c params (tok # toks) =
     (let name = placeholder tok in
      if name = [] then map_sum id ((#) tok) (bind_tokens c params toks)
      else
        (let p = (case by_name c name of None \<Rightarrow> zero_param | Some p \<Rightarrow> p) in
         case map_of params name of
           None \<Rightarrow> Inl (MissingParam (check_id c) name (param_kind p))
         | Some val \<Rightarrow>
             (case validateParam p val of
                Some err \<Rightarrow> Inl (InvalidParam (check_id c) err)
              | None \<Rightarrow> map_sum id ((#) val) (bind_tokens c params toks))))"

text \<open>
  The parameters are a Go map; the list is the order its iteration visits them in, which decides
  only which unknown name an error reports.
\<close>

definition bind :: "check \<Rightarrow> (string \<times> string) list \<Rightarrow> bind_error + string list" where
  "bind c params =
     (case find (\<lambda>(name, _). by_name c name = None) params of
        Some (name, _) \<Rightarrow> Inl (UnknownParam (check_id c) name (paramSpec c))
      | None \<Rightarrow> bind_tokens c params (check_argv c))"

section \<open>The registry (catalog.go)\<close>

type_synonym catalog = "check list"

definition idRe :: re where
  "idRe = seqs [TextStart, re_name, plus (Grp 1 (Seq (byte 46) re_name)), TextEnd]"

datatype register_panic = MalformedID string | PlatformRequired string | DuplicateRegistration string platform

definition conflicts :: "check \<Rightarrow> check \<Rightarrow> bool" where
  "conflicts e c =
     (check_id e = check_id c \<and>
      (check_platform e = check_platform c \<or> check_platform e = platform_any \<or> check_platform c = platform_any))"

definition register_one :: "catalog \<Rightarrow> check \<Rightarrow> register_panic + catalog" where
  "register_one entries c =
     (if \<not> match_string idRe (check_id c) then Inl (MalformedID (check_id c))
      else if check_platform c = [] then Inl (PlatformRequired (check_id c))
      else if list_ex (\<lambda>e. conflicts e c) entries
      then Inl (DuplicateRegistration (check_id c) (check_platform c))
      else Inr (entries @ [c]))"

primrec register :: "catalog \<Rightarrow> check list \<Rightarrow> register_panic + catalog" where
  "register entries [] = Inr entries"
| "register entries (c # cs) =
     (case register_one entries c of Inl e \<Rightarrow> Inl e | Inr entries' \<Rightarrow> register entries' cs)"

definition catalog_all :: "catalog \<Rightarrow> check list" where
  "catalog_all entries = sort_key (\<lambda>c. (check_id c, check_platform c)) entries"

primrec lookup_from :: "string \<Rightarrow> platform \<Rightarrow> check option \<Rightarrow> catalog \<Rightarrow> check option" where
  "lookup_from cid p anyMatch [] = anyMatch"
| "lookup_from cid p anyMatch (e # es) =
     (if check_id e \<noteq> cid then lookup_from cid p anyMatch es
      else if check_platform e = p then Some e
      else lookup_from cid p (if check_platform e = platform_any then Some e else anyMatch) es)"

definition lookup :: "catalog \<Rightarrow> string \<Rightarrow> platform \<Rightarrow> check option" where
  "lookup entries cid p = lookup_from cid p None entries"

definition forPlatform :: "catalog \<Rightarrow> platform \<Rightarrow> profile \<Rightarrow> check list" where
  "forPlatform entries p prof =
     filter (\<lambda>c. appliesTo c p \<and> check_minProfile c \<le> prof) (catalog_all entries)"

definition baseline :: "catalog \<Rightarrow> platform \<Rightarrow> check list" where
  "baseline entries p = filter (\<lambda>c. check_baseline c \<and> appliesTo c p) (catalog_all entries)"

section \<open>Shells (shells.go)\<close>

definition noLoginShells :: "string list" where
  "noLoginShells =
     [''/usr/sbin/nologin'', ''/sbin/nologin'', ''/usr/bin/nologin'', ''/bin/false'', ''/usr/bin/false'',
      ''/bin/true'', ''/usr/bin/true'', ''/dev/null'', ''/bin/sync'', ''/usr/bin/sync'', ''/sbin/shutdown'',
      ''/usr/sbin/shutdown'', ''/sbin/halt'', ''/usr/sbin/halt'']"

definition refusesLogin :: "string \<Rightarrow> bool" where
  "refusesLogin shell = (trim_space shell \<in> set noLoginShells)"

definition interactiveShells :: "string list" where
  "interactiveShells =
     [''sh'', ''bash'', ''dash'', ''zsh'', ''ksh'', ''mksh'', ''fish'', ''tcsh'', ''csh'', ''ash'',
      ''busybox'', ''rbash'', ''git-shell'']"

definition interactiveShell :: "string \<Rightarrow> bool" where
  "interactiveShell shell =
     (let s = trim_space shell in s = [] \<or> path_base s \<in> set interactiveShells)"

section \<open>Placeholders and binding\<close>

definition name_ok :: "string \<Rightarrow> bool" where
  "name_ok n = (case n of [] \<Rightarrow> False | c # cs \<Rightarrow> in_class cls_name_head c \<and> list_all (in_class cls_name) cs)"

definition hole :: "string \<Rightarrow> string" where
  "hole n = CHR 0x7B # n @ [CHR 0x7D]"

lemma of_char_brace:
  "of_char c = (123 :: nat) \<longleftrightarrow> c = CHR 0x7B" "of_char c = (125 :: nat) \<longleftrightarrow> c = CHR 0x7D"
  using of_char_eq_iff [of c "CHR 0x7B", where 'a = nat] of_char_eq_iff [of c "CHR 0x7D", where 'a = nat]
  by simp_all

abbreviation placeholder_body :: re where
  "placeholder_body \<equiv> Seq (byte 123) (Seq (Grp 1 re_name) (Seq (byte 125) TextEnd))"

abbreviation hole_end :: "string \<Rightarrow> mstate" where
  "hole_end n \<equiv> St (Some (CHR 0x7D)) [] (length n + 2) [(1, 1, Suc (length n))]"

lemma placeholder_step_D:
  assumes "re_step placeholder_body (St None tok 0 []) st'"
  shows "\<exists>n. name_ok n \<and> tok = hole n \<and> st' = hole_end n"
proof -
  from assms obtain r st1 st2 where r: "tok = CHR 0x7B # r" "st1 = consume [CHR 0x7B] (St None tok 0 [])"
      and n: "re_step re_name st1 st2"
      and e: "re_step (Seq (byte 125) TextEnd)
        (St (prev st2) (rest st2) (pos st2) ((1, pos st1, pos st2) # caps st2)) st'"
    by (auto simp: seq_step_iff byte_step_iff grp_step_iff of_char_brace)
  from n r obtain c r' w r'' where c: "r = c # r'" "in_class cls_name_head c" "r' = w @ r''"
      "list_all (in_class cls_name) w" "st2 = consume w (consume [c] st1)"
    by (auto simp: re_name_def seq_step_iff cls_step_iff star_class_step)
  from e c r have "r'' = [CHR 0x7D]" "st' = hole_end (c # w)"
    by (auto simp: seq_step_iff byte_step_iff end_step_iff of_char_brace consume_def)
  with c r show ?thesis by (intro exI [of _ "c # w"]) (auto simp: name_ok_def hole_def)
qed

lemma placeholder_step_I:
  assumes "name_ok n"
  shows "\<exists>st'. re_step placeholder_body (St None (hole n) 0 []) st'"
proof -
  from assms obtain c w where n: "n = c # w" "in_class cls_name_head c" "list_all (in_class cls_name) w"
    by (auto simp: name_ok_def split: list.splits)
  let ?st1 = "consume [CHR 0x7B] (St None (hole n) 0 [])"
  let ?st2 = "consume w (consume [c] ?st1)"
  have "re_step re_name ?st1 ?st2"
    using n by (auto simp: re_name_def seq_step_iff cls_step_iff star_class_step hole_def)
  then show ?thesis
    using n by (fastforce simp: seq_step_iff byte_step_iff grp_step_iff end_step_iff hole_def)
qed

lemma placeholder_find: 
  "find_submatch placeholderRe tok =
     (if \<exists>n. name_ok n \<and> tok = hole n then Some (Found 0 (hole_end (butlast (tl tok)))) else None)"
proof (cases "re_match placeholder_body (St None tok 0 []) Some")
  case None
  then have "\<not> re_step placeholder_body (St None tok 0 []) st'" for st'
    using re_match_complete [of placeholder_body "St None tok 0 []" st' Some] by (auto simp del: re_match.simps)
  with placeholder_step_I have "\<not> (\<exists>n. name_ok n \<and> tok = hole n)" by blast
  with None show ?thesis by (simp add: placeholderRe_def find_submatch_anchored del: re_match.simps)
next
  case (Some st)
  then obtain n where "name_ok n" "tok = hole n" "st = hole_end n"
    using re_match_sound [OF Some] placeholder_step_D by (metis option.inject)
  with Some show ?thesis by (auto simp: placeholderRe_def find_submatch_anchored hole_def simp del: re_match.simps)
qed

lemma placeholder_iff: "n \<noteq> [] \<Longrightarrow> placeholder tok = n \<longleftrightarrow> name_ok n \<and> tok = hole n"
  by (auto simp: placeholder_def placeholder_find submatch_text_def group_span_def slice_def hole_def
      split: if_splits)

lemma placeholder_hole [simp]: "name_ok n \<Longrightarrow> placeholder (hole n) = n"
  using placeholder_iff [of n "hole n"] by (cases n) (auto simp: name_ok_def)

text \<open>How one template token and one bound token relate.\<close>

definition token_bound :: "check \<Rightarrow> (string \<times> string) list \<Rightarrow> string \<Rightarrow> string \<Rightarrow> bool" where
  "token_bound c params tok val =
     (if placeholder tok = [] then val = tok
      else map_of params (placeholder tok) = Some val \<and>
        (\<exists>p. by_name c (placeholder tok) = Some p \<and> validateParam p val = None))"

lemma validate_zero_param: "validateParam zero_param v \<noteq> None"
  by (simp add: validateParam_def zero_param_def)

lemma bind_tokens_iff:
  "bind_tokens c params toks = Inr argv \<longleftrightarrow> list_all2 (token_bound c params) toks argv"
proof (induction toks arbitrary: argv)
  case Nil
  then show ?case by auto
next
  case (Cons tok toks)
  let ?rest = "bind_tokens c params toks"
  have m: "map_sum id ((#) v) ?rest = Inr argv \<longleftrightarrow> (\<exists>vs. argv = v # vs \<and> ?rest = Inr vs)" for v
    by (cases ?rest) auto
  have z: "validateParam zero_param v = None \<longleftrightarrow> False" for v using validate_zero_param by simp
  show ?case
    by (auto simp: Let_def m Cons.IH list_all2_Cons1 token_bound_def z
        split: option.splits if_splits)
qed

text \<open>
  what \<open>Bind\<close> accepts and returns.  Binding succeeds with an argument vector exactly when every
  parameter given is declared and the vector has one token per template token: the literal itself
  where the template has a literal, and where it has a placeholder the given value, which the
  declared parameter's kind accepts.
\<close>

theorem bind_spec:
  "bind c params = Inr argv \<longleftrightarrow>
     dom (map_of params) \<subseteq> dom (by_name c) \<and> list_all2 (token_bound c params) (check_argv c) argv"
proof -
  have "find (\<lambda>(name, _). by_name c name = None) params = None \<longleftrightarrow> fst ` set params \<subseteq> dom (by_name c)"
    by (auto simp: find_None_iff dom_def)
  then show ?thesis
    by (auto simp: bind_def bind_tokens_iff dom_map_of_conv_image_fst split: option.splits)
qed

section \<open>The registry's contract\<close>

definition answers :: "check \<Rightarrow> string \<Rightarrow> platform \<Rightarrow> bool" where
  "answers c cid p = (check_id c = cid \<and> appliesTo c p)"

primrec reg_seq :: "('r \<Rightarrow> check \<Rightarrow> 'e + 'r) \<Rightarrow> 'r \<Rightarrow> check list \<Rightarrow> 'e + 'r" where
  "reg_seq reg r [] = Inr r"
| "reg_seq reg r (c # cs) = (case reg r c of Inl e \<Rightarrow> Inl e | Inr r' \<Rightarrow> reg_seq reg r' cs)"

locale check_registry =
  fixes empty :: 'r
    and reg :: "'r \<Rightarrow> check \<Rightarrow> 'e + 'r"
    and lk :: "'r \<Rightarrow> string \<Rightarrow> platform \<Rightarrow> check option"
    and inv :: "'r \<Rightarrow> bool"
  assumes inv_empty: "inv empty"
    and lk_empty: "lk empty cid p = None"
    and inv_reg: "inv r \<Longrightarrow> reg r c = Inr r' \<Longrightarrow> inv r'"
    and lk_reg: "inv r \<Longrightarrow> reg r c = Inr r' \<Longrightarrow> lk r' cid p = (if answers c cid p then Some c else lk r cid p)"
    and reg_fresh: "inv r \<Longrightarrow> reg r c = Inr r' \<Longrightarrow> answers c cid p \<Longrightarrow> lk r cid p = None"
begin

lemma inv_reg_seq: "inv r \<Longrightarrow> reg_seq reg r cs = Inr r' \<Longrightarrow> inv r'"
  by (induction cs arbitrary: r) (auto split: sum.splits dest: inv_reg)

lemma lk_reg_seq:
  "inv r \<Longrightarrow> reg_seq reg r cs = Inr r' \<Longrightarrow>
     lk r' cid p = Some c \<longleftrightarrow> lk r cid p = Some c \<or> c \<in> set cs \<and> answers c cid p"
proof (induction cs arbitrary: r)
  case Nil
  then show ?case by simp
next
  case (Cons d cs)
  then obtain r1 where r1: "reg r d = Inr r1" "reg_seq reg r1 cs = Inr r'" by (auto split: sum.splits)
  from Cons.IH [OF inv_reg [OF Cons.prems(1) r1(1)] r1(2)] lk_reg [OF Cons.prems(1) r1(1), of cid p]
    reg_fresh [OF Cons.prems(1) r1(1), of cid p]
  show ?case by auto
qed

lemma built_lookup:
  "reg_seq reg empty cs = Inr r \<Longrightarrow> lk r cid p = Some c \<longleftrightarrow> c \<in> set cs \<and> answers c cid p"
  using lk_reg_seq [OF inv_empty] by (simp add: lk_empty)

end

subsection \<open>The list model keeps the contract\<close>

definition entry_ok :: "check \<Rightarrow> bool" where
  "entry_ok c = (match_string idRe (check_id c) \<and> check_platform c \<noteq> [])"

definition catalog_ok :: "catalog \<Rightarrow> bool" where
  "catalog_ok entries = (list_all entry_ok entries \<and> sorted_wrt (\<lambda>e c. \<not> conflicts e c) entries)"

lemma conflicts_sym: "conflicts e c = conflicts c e"
  by (auto simp: conflicts_def)

lemma answers_conflict: "answers e cid p \<Longrightarrow> answers c cid p \<Longrightarrow> conflicts e c"
  by (auto simp: answers_def appliesTo_def conflicts_def)

lemma lookup_from_none:
  "\<forall>c\<in>set es. \<not> answers c cid p \<Longrightarrow> lookup_from cid p am es = am"
  by (induction es arbitrary: am) (auto simp: answers_def appliesTo_def)

lemma lookup_find: "catalog_ok es \<Longrightarrow> lookup es cid p = find (\<lambda>c. answers c cid p) es"
proof (induction es)
  case Nil
  then show ?case by (simp add: lookup_def)
next
  case (Cons e es)
  then have ok: "catalog_ok es" and sep: "\<forall>c\<in>set es. \<not> conflicts e c" by (auto simp: catalog_ok_def)
  show ?case
  proof (cases "answers e cid p")
    case True
    with sep answers_conflict have "\<forall>c\<in>set es. \<not> answers c cid p" by blast
    with True show ?thesis by (auto simp: lookup_def lookup_from_none) (auto simp: answers_def appliesTo_def)
  next
    case False
    with Cons.IH [OF ok] show ?thesis by (auto simp: lookup_def answers_def appliesTo_def)
  qed
qed

lemma register_one_ok:
  "catalog_ok es \<Longrightarrow> register_one es c = Inr es' \<longleftrightarrow> es' = es @ [c] \<and> catalog_ok (es @ [c])"
  by (auto simp: register_one_def catalog_ok_def entry_ok_def list_ex_iff sorted_wrt_append)

lemma lookup_snoc:
  assumes "catalog_ok (es @ [c])"
  shows "lookup (es @ [c]) cid p = (if answers c cid p then Some c else lookup es cid p)"
proof -
  from assms have "catalog_ok es" and "\<forall>e\<in>set es. \<not> conflicts e c"
    by (auto simp: catalog_ok_def sorted_wrt_append)
  then have "find (\<lambda>e. answers e cid p) es = None" if "answers c cid p"
    using that answers_conflict [of _ cid p c] by (auto simp: find_None_iff)
  with \<open>catalog_ok es\<close> show ?thesis
    by (simp add: lookup_find [OF assms] lookup_find find_append split: option.splits)
qed

lemma answers_fresh:
  assumes "catalog_ok (es @ [c])" "answers c cid p"
  shows "lookup es cid p = None"
proof -
  from assms have "catalog_ok es" and "\<forall>e\<in>set es. \<not> conflicts e c"
    by (auto simp: catalog_ok_def sorted_wrt_append)
  with assms(2) answers_conflict show ?thesis by (auto simp: lookup_find find_None_iff)
qed

interpretation list_registry: check_registry "[]" register_one lookup catalog_ok
proof unfold_locales
  show "lookup [] cid p = None" for cid p by (simp add: lookup_def)
qed (auto simp: register_one_ok lookup_snoc answers_fresh, simp add: catalog_ok_def)

lemma register_reg_seq: "register es cs = reg_seq register_one es cs"
  by (induction cs arbitrary: es) (auto split: sum.splits)

lemmas register_keeps_ok = list_registry.inv_reg_seq [folded register_reg_seq]

text \<open>
  Registration and lookup.  When the checks of all packages register without a panic, \<open>Lookup\<close>
  returns a check for an id and a platform exactly when it is one of those registered, has the id
  and applies to the platform; the answer is unique.
\<close>

theorem lookup_registered:
  assumes "register [] cs = Inr entries"
  shows "lookup entries cid p = Some c \<longleftrightarrow> c \<in> set cs \<and> check_id c = cid \<and> appliesTo c p"
  using list_registry.built_lookup [of cs entries cid p c] assms
  by (simp add: register_reg_seq answers_def)

lemma sorted_wrt_permute:
  assumes "\<And>x y. P x y \<Longrightarrow> P y x"
  shows "mset ys = mset xs \<Longrightarrow> sorted_wrt P xs \<Longrightarrow> sorted_wrt P ys"
proof (induction xs arbitrary: ys)
  case Nil
  then show ?case by simp
next
  case (Cons x xs)
  then have "x \<in> set ys" using mset_eq_setD by fastforce
  then obtain as bs where ys: "ys = as @ x # bs" by (auto dest: split_list)
  with Cons.prems have m: "mset (as @ bs) = mset xs" by simp
  have "sorted_wrt P (as @ bs)" using Cons.IH [OF m] Cons.prems(2) by simp
  moreover have "set (as @ bs) = set xs" using m by (rule mset_eq_setD)
  then have "\<forall>y\<in>set (as @ bs). P x y" using Cons.prems(2) by simp
  ultimately show ?case using assms by (auto simp: ys sorted_wrt_append)
qed

lemma catalog_ok_permute: "mset es' = mset es \<Longrightarrow> catalog_ok es \<Longrightarrow> catalog_ok es'"
  using sorted_wrt_permute [of "\<lambda>e c. \<not> conflicts e c" es' es] mset_eq_setD [of es' es]
  by (auto simp: catalog_ok_def conflicts_sym list_all_iff)

lemma register_ok: "catalog_ok es \<Longrightarrow> register es cs = Inr es' \<longleftrightarrow> es' = es @ cs \<and> catalog_ok (es @ cs)"
proof (induction cs arbitrary: es)
  case (Cons c cs)
  have prefix: "catalog_ok (es @ [c])" if "catalog_ok (es @ c # cs)"
    using that by (auto simp: catalog_ok_def sorted_wrt_append)
  show ?case
  proof (cases "register_one es c")
    case (Inl e)
    with register_one_ok [OF Cons.prems, of c "es @ [c]"] prefix show ?thesis by auto
  next
    case (Inr es1)
    with register_one_ok [OF Cons.prems] have "es1 = es @ [c]" "catalog_ok (es @ [c])" by auto
    with Inr Cons.IH [of es1] show ?thesis by simp
  qed
qed auto

lemma catalog_keys_inj: "catalog_ok es \<Longrightarrow> inj_on (\<lambda>c. (check_id c, check_platform c)) (set es)"
proof (induction es)
  case (Cons e es)
  then have "catalog_ok es" "\<forall>c\<in>set es. \<not> conflicts e c" by (auto simp: catalog_ok_def)
  with Cons.IH show ?case by (auto simp only: list.set inj_on_insert conflicts_def prod.inject image_iff) 
qed simp

lemma catalog_ok_Nil [simp]: "catalog_ok []"
  by (simp add: catalog_ok_def)

text \<open>
  The order of package initialisation does not matter.  If the checks register without a
  panic in one order, they do in every order, and every lookup and the listing of all checks are
  the same.
\<close>

theorem registration_order_irrelevant:
  assumes "register [] cs = Inr entries" and "mset cs' = mset cs"
  shows "\<exists>entries'. register [] cs' = Inr entries' \<and>
    catalog_all entries' = catalog_all entries \<and> lookup entries' = lookup entries"
proof -
  have ok: "catalog_ok cs" "entries = cs" using assms(1) register_ok [of "[]" cs entries] by auto
  with catalog_ok_permute assms(2) have ok': "catalog_ok cs'" by blast
  then have reg: "register [] cs' = Inr cs'" using register_ok [of "[]" cs' cs'] by simp
  have "catalog_all cs' = catalog_all cs"
    unfolding catalog_all_def using assms(2) catalog_keys_inj [OF ok']
    by (intro sort_key_inj_key_eq) auto
  moreover have same: "lookup cs' cid p = Some c \<longleftrightarrow> lookup cs cid p = Some c" for cid p c
    using list_registry.built_lookup [of cs entries cid p c] list_registry.built_lookup [of cs' cs' cid p c]
      assms reg ok(2) mset_eq_setD [OF assms(2)]
    by (simp add: register_reg_seq)
  have "lookup cs' cid p = lookup cs cid p" for cid p
    using same [of cid p "the (lookup cs cid p)"] same [of cid p "the (lookup cs' cid p)"]
    by (cases "lookup cs cid p"; cases "lookup cs' cid p") auto
  then have "lookup cs' = lookup cs" by (intro ext)
  ultimately show ?thesis using reg ok(2) by blast
qed

end
