(* ===== verification/Check_Invariants.thy ===== *)
theory Check_Invariants
  imports Check_Catalog
begin

text \<open>
  \<open>internal/check/invariants.go\<close>: the invariants every catalog entry must satisfy.  A violation
  keeps the values its message is formatted from.  Two loops of the source range over Go maps;
  here they visit names in the order the check declares or binds them, so the list of violations
  is the source's up to the order within those two loops.  The number of capture groups of an
  \<open>Extract\<close> pattern, which \<open>regexp.Compile\<close> determines, is an argument.
\<close>

section \<open>Rules\<close>

datatype violation_rule =
    RuleMetachar | RuleMalformedHole | RuleUnboundHole | RuleMultiplyBound | RuleParamWithoutHole
  | RuleDisallowedBinary | RuleMutatingFlag | RuleVerbNotAllowed | RuleEmptyArgv | RuleBadParam
  | RulePathUse | RuleCanaryCount | RuleBaselineTierCap | RuleParserKind | RuleElevatedPrefixOnly
  | RuleExtract | RuleMissingUnit

record violation =
  v_check :: string
  v_rule :: violation_rule
  v_detail :: "string list"

definition BaselineTierCap :: nat where "BaselineTierCap = 40"

definition cls_literal :: "(nat \<times> nat) list" where
  "cls_literal = [AZ, az, d09, ch CHR ''.'', ch CHR ''_'', ch CHR ''/'', ch CHR '','', ch CHR '':'',
     ch CHR ''='', ch CHR ''+'', ch CHR ''%'', ch CHR ''@'', ch CHR ''-'']"

definition literalRe :: re where
  "literalRe = seqs [TextStart, Star True (Cls cls_literal), TextEnd]"

definition deniedBinaries :: "string list" where
  "deniedBinaries =
     [''rm'', ''rmdir'', ''mv'', ''cp'', ''dd'', ''tee'', ''ln'', ''chmod'', ''chown'', ''chgrp'', ''chflags'',
      ''touch'', ''mkdir'', ''install'', ''truncate'', ''shred'', ''sed'', ''awk'', ''perl'', ''python'',
      ''python3'', ''ruby'', ''node'', ''sh'', ''bash'', ''zsh'', ''dash'', ''ksh'', ''fish'', ''env'', ''xargs'',
      ''nohup'', ''sudo'', ''su'', ''doas'', ''run0'', ''eval'', ''exec'', ''curl'', ''wget'', ''nc'', ''ssh'',
      ''scp'', ''apt-get'', ''iptables'', ''ip6tables'', ''auditctl'', ''setenforce'', ''setsebool'',
      ''semanage'', ''visudo'', ''usermod'', ''useradd'', ''userdel'', ''kill'', ''pkill'', ''killall'',
      ''reboot'', ''shutdown'', ''mount'', ''umount'', ''crontab'']"

record binary_rule =
  br_verbs :: "string list option"
  br_denyTokens :: "string list"
  br_denyPrefixes :: "string list"

abbreviation verbs_rule :: "string list \<Rightarrow> binary_rule" where
  "verbs_rule vs \<equiv> \<lparr>br_verbs = Some vs, br_denyTokens = [], br_denyPrefixes = []\<rparr>"
abbreviation tokens_rule :: "string list \<Rightarrow> binary_rule" where
  "tokens_rule ts \<equiv> \<lparr>br_verbs = None, br_denyTokens = ts, br_denyPrefixes = []\<rparr>"
abbreviation prefixes_rule :: "string list \<Rightarrow> binary_rule" where
  "prefixes_rule ps \<equiv> \<lparr>br_verbs = None, br_denyTokens = [], br_denyPrefixes = ps\<rparr>"

definition rule_find :: binary_rule where
  "rule_find =
     tokens_rule [''-exec'', ''-execdir'', ''-ok'', ''-okdir'', ''-delete'', ''-fprint'', ''-fprint0'',
     ''-fprintf'', ''-fls'']"

definition rule_systemctl :: binary_rule where
  "rule_systemctl =
     verbs_rule [''is-active'', ''is-enabled'', ''is-failed'', ''is-system-running'',
     ''list-units'', ''list-unit-files'', ''list-timers'', ''list-sockets'', ''list-dependencies'', ''show'',
     ''status'', ''cat'', ''get-default'']"

definition rule_launchctl :: binary_rule where
  "rule_launchctl =
     verbs_rule [''list'', ''print'', ''print-disabled'', ''dumpstate'', ''version'']"

definition rule_apt :: binary_rule where
  "rule_apt =
     verbs_rule [''list'', ''policy'', ''show'']"

definition rule_dnf :: binary_rule where
  "rule_dnf =
     verbs_rule [''check-update'', ''list'', ''info'', ''repolist'', ''history'']"

definition rule_yum :: binary_rule where
  "rule_yum =
     verbs_rule [''check-update'', ''list'', ''info'', ''repolist'']"

definition rule_zypper :: binary_rule where
  "rule_zypper =
     verbs_rule [''lp'', ''list-patches'', ''lu'', ''list-updates'', ''info'', ''se'', ''search'',
     ''pa'', ''packages'']"

definition rule_pacman :: binary_rule where
  "rule_pacman =
     verbs_rule [''-Q'', ''-Qu'', ''-Qi'', ''-Qk'']"

definition rule_defaults :: binary_rule where
  "rule_defaults =
     verbs_rule [''read'', ''read-type'', ''domains'', ''find'']"

definition rule_dscl :: binary_rule where
  "rule_dscl =
     tokens_rule [''-create'', ''-delete'', ''-append'', ''-change'', ''-changei'', ''-merge'',
     ''-passwd'', ''-authonly'']"

definition rule_csrutil :: binary_rule where
  "rule_csrutil =
     verbs_rule [''status'']"

definition rule_fdesetup :: binary_rule where
  "rule_fdesetup =
     verbs_rule [''status'', ''list'', ''haspersonalrecoverykey'',
     ''hasinstitutionalrecoverykey'', ''isactive'', ''usingrecoverykey'']"

definition rule_softwareupdate :: binary_rule where
  "rule_softwareupdate =
     tokens_rule [''-i'', ''--install'', ''-ia'', ''-ir'', ''-d'', ''--download'',
     ''--fetch-full-installer'', ''--reset-ignored'', ''--ignore'', ''--schedule'', ''--background'',
     ''--evaluate-products'']"

definition rule_spctl :: binary_rule where
  "rule_spctl =
     tokens_rule [''--master-enable'', ''--master-disable'', ''--global-enable'',
     ''--global-disable'', ''--add'', ''--remove'', ''--enable'', ''--disable'', ''--rebuild'']"

definition rule_socketfilterfw :: binary_rule where
  "rule_socketfilterfw =
     \<lparr>br_verbs = None, br_denyTokens = [''--listapps''],
     br_denyPrefixes = [''--set'', ''--add'', ''--remove'', ''--block'', ''--unblock'']\<rparr>"

definition rule_ufw :: binary_rule where
  "rule_ufw =
     verbs_rule [''status'', ''version'', ''show'']"

definition rule_firewall_cmd :: binary_rule where
  "rule_firewall_cmd =
     prefixes_rule [''--add'', ''--remove'', ''--set'', ''--new'', ''--delete'', ''--change'',
     ''--permanent'', ''--reload'', ''--complete-reload'', ''--load'', ''--runtime-to-permanent'',
     ''--panic-on'', ''--panic-off'', ''--lockdown-on'', ''--lockdown-off'', ''--direct'']"

definition rule_nft :: binary_rule where
  "rule_nft =
     \<lparr>br_verbs = Some [''list'', ''describe''],
     br_denyTokens = [''-f'', ''--file'', ''-i'', ''--interactive''], br_denyPrefixes = []\<rparr>"

definition rule_passwd :: binary_rule where
  "rule_passwd =
     prefixes_rule [''-d'', ''-l'', ''-u'', ''-e'', ''-x'', ''-n'', ''-w'', ''-i'', ''-k'',
     ''--delete'', ''--lock'', ''--unlock'', ''--expire'']"

definition rule_systemsetup :: binary_rule where
  "rule_systemsetup =
     prefixes_rule [''-set'']"

definition rule_timedatectl :: binary_rule where
  "rule_timedatectl =
     verbs_rule [''status'', ''show'', ''timesync-status'', ''show-timesync'',
     ''list-timezones'']"

definition rule_hostnamectl :: binary_rule where
  "rule_hostnamectl =
     \<lparr>br_verbs = Some [''status'', ''hostname''], br_denyTokens = [],
     br_denyPrefixes = [''set-'']\<rparr>"

definition rule_journalctl :: binary_rule where
  "rule_journalctl =
     prefixes_rule [''--vacuum'', ''--rotate'', ''--flush'', ''--sync'', ''--relinquish'',
     ''--smart-relinquish'', ''--setup-keys'', ''--verify'', ''--update-catalog'']"

definition rule_log :: binary_rule where
  "rule_log =
     \<lparr>br_verbs = Some [''config'', ''show'', ''stats''],
     br_denyTokens = [''--mode'', ''--subsystem'', ''--process'', ''--reset''], br_denyPrefixes = []\<rparr>"

definition rule_aa_status :: binary_rule where
  "rule_aa_status =
     tokens_rule []"

definition rule_sestatus :: binary_rule where
  "rule_sestatus =
     tokens_rule []"

definition rule_sshd :: binary_rule where
  "rule_sshd =
     \<lparr>br_verbs = Some [''-T'', ''-t'', ''-G''],
     br_denyTokens = [''-D'', ''-d'', ''-i'', ''-f'', ''-o'', ''-p'', ''-h'', ''-c'', ''-E''],
     br_denyPrefixes = []\<rparr>"

definition rule_git :: binary_rule where
  "rule_git =
     verbs_rule [''status'', ''log'', ''diff'', ''show'', ''rev-parse'', ''config'']"

definition rule_stat :: binary_rule where
  "rule_stat =
     tokens_rule []"

definition rule_lsblk :: binary_rule where
  "rule_lsblk =
     tokens_rule []"

definition rule_ss :: binary_rule where
  "rule_ss =
     tokens_rule []"

definition rule_lsof :: binary_rule where
  "rule_lsof =
     tokens_rule []"

definition binaryRules :: "(string \<times> binary_rule) list" where
  "binaryRules =
     [(''find'', rule_find), (''systemctl'', rule_systemctl), (''launchctl'', rule_launchctl),
      (''apt'', rule_apt), (''dnf'', rule_dnf), (''yum'', rule_yum), (''zypper'', rule_zypper),
      (''pacman'', rule_pacman), (''defaults'', rule_defaults), (''dscl'', rule_dscl),
      (''csrutil'', rule_csrutil), (''fdesetup'', rule_fdesetup),
      (''softwareupdate'', rule_softwareupdate), (''spctl'', rule_spctl),
      (''socketfilterfw'', rule_socketfilterfw), (''ufw'', rule_ufw),
      (''firewall-cmd'', rule_firewall_cmd), (''nft'', rule_nft), (''passwd'', rule_passwd),
      (''systemsetup'', rule_systemsetup), (''timedatectl'', rule_timedatectl),
      (''hostnamectl'', rule_hostnamectl), (''journalctl'', rule_journalctl), (''log'', rule_log),
      (''aa-status'', rule_aa_status), (''sestatus'', rule_sestatus), (''sshd'', rule_sshd),
      (''git'', rule_git), (''stat'', rule_stat), (''lsblk'', rule_lsblk), (''ss'', rule_ss),
      (''lsof'', rule_lsof)]"

lemmas binary_rule_defs = rule_find_def rule_systemctl_def rule_launchctl_def rule_apt_def
  rule_dnf_def rule_yum_def rule_zypper_def rule_pacman_def rule_defaults_def rule_dscl_def
  rule_csrutil_def rule_fdesetup_def rule_softwareupdate_def rule_spctl_def rule_socketfilterfw_def
  rule_ufw_def rule_firewall_cmd_def rule_nft_def rule_passwd_def rule_systemsetup_def
  rule_timedatectl_def rule_hostnamectl_def rule_journalctl_def rule_log_def rule_aa_status_def
  rule_sestatus_def rule_sshd_def rule_git_def rule_stat_def rule_lsblk_def rule_ss_def
  rule_lsof_def

section \<open>Validation of one entry\<close>

definition isTyped :: "parser_kind \<Rightarrow> bool" where
  "isTyped k =
     (case k of
        ParseListeners \<Rightarrow> True | ParseAccounts \<Rightarrow> True | ParsePasswdStatus \<Rightarrow> True | ParseUnits \<Rightarrow> True
      | ParseUpdates \<Rightarrow> True | ParseLaunchd \<Rightarrow> True | ParseFileMode \<Rightarrow> True | _ \<Rightarrow> False)"

definition baseName :: "string \<Rightarrow> string" where
  "baseName p = (case last_index p ''/'' of None \<Rightarrow> p | Some i \<Rightarrow> drop (i + 1) p)"

abbreviation viol :: "check \<Rightarrow> violation_rule \<Rightarrow> string list \<Rightarrow> violation" where
  "viol c r d \<equiv> \<lparr>v_check = check_id c, v_rule = r, v_detail = d\<rparr>"

definition parser_violations :: "check \<Rightarrow> violation list" where
  "parser_violations c =
     (if check_parser c = ParseLines \<or> check_parser c = ParseKV
      then (if check_unit c = [] then [viol c RuleMissingUnit []] else [])
      else if check_parser c = ParseRaw \<or> check_parser c = ParseJSON then []
      else if isTyped (check_parser c)
      then (if check_unit c \<noteq> [] then [viol c RuleMissingUnit [check_unit c]] else [])
      else [viol c RuleParserKind []])"

definition extract_violations :: "(string \<Rightarrow> nat option) \<Rightarrow> check \<Rightarrow> violation list" where
  "extract_violations numSubexp c =
     (if check_extract c = [] then []
      else case numSubexp (check_extract c) of
        None \<Rightarrow> [viol c RuleExtract [check_extract c]]
      | Some n \<Rightarrow> if n \<noteq> 1 then [viol c RuleExtract [check_extract c]] else [])"

definition kind_violations :: "check \<Rightarrow> param \<Rightarrow> violation list" where
  "kind_violations c p =
     (case param_kind p of
        KindEnum \<Rightarrow>
          (if param_enum p = [] then [viol c RuleBadParam [param_name p]] else []) @
          map (\<lambda>e. viol c RuleBadParam [e, param_name p])
            (filter (\<lambda>e. \<not> match_string literalRe e \<or> e = []) (param_enum p))
      | KindInt \<Rightarrow> if param_max p < param_min p then [viol c RuleBadParam [param_name p]] else []
      | KindPath \<Rightarrow> if check_pathUse c = PathNone then [viol c RulePathUse []] else []
      | KindIdent \<Rightarrow> []
      | KindOther k \<Rightarrow> [viol c RuleBadParam [param_name p, k]])"

primrec param_violations :: "check \<Rightarrow> string list \<Rightarrow> param list \<Rightarrow> violation list" where
  "param_violations c declared [] = []"
| "param_violations c declared (p # ps) =
     (if param_name p \<in> set declared then [viol c RuleBadParam [param_name p]] else []) @
     kind_violations c p @ param_violations c (param_name p # declared) ps"

primrec token_violations :: "check \<Rightarrow> nat \<Rightarrow> string list \<Rightarrow> violation list" where
  "token_violations c i [] = []"
| "token_violations c i (tok # toks) =
     (let name = placeholder tok in
      (if name \<noteq> [] then
         (if by_name c name = None then [viol c RuleUnboundHole [show_nat i, name]] else [])
       else if CHR 0x7B \<in> set tok \<or> CHR 0x7D \<in> set tok then [viol c RuleMalformedHole [show_nat i, tok]]
       else if \<not> check_canary c \<and> \<not> match_string literalRe tok then [viol c RuleMetachar [show_nat i, tok]]
       else [])) @ token_violations c (Suc i) toks"

definition bound_names :: "check \<Rightarrow> string list" where
  "bound_names c = filter (\<lambda>n. n \<noteq> []) (map placeholder (check_argv c))"

definition hole_violations :: "check \<Rightarrow> violation list" where
  "hole_violations c =
     (let bound = bound_names c in
      map (\<lambda>n. viol c RuleMultiplyBound [n, show_nat (length (filter ((=) n) bound))])
        (filter (\<lambda>n. 1 < length (filter ((=) n) bound)) (remdups bound)) @
      map (\<lambda>n. viol c RuleParamWithoutHole [n])
        (filter (\<lambda>n. n \<notin> set bound) (remdups (map param_name (check_params c)))))"

definition find_verb :: "string list \<Rightarrow> string list \<Rightarrow> string" where
  "find_verb verbs args =
     (case find (\<lambda>tok. \<not> has_prefix tok ''-'' \<or> (verbs \<noteq> [] \<and> has_prefix (hd verbs) ''-'')) args of
        None \<Rightarrow> [] | Some tok \<Rightarrow> tok)"

definition flag_violations :: "string \<Rightarrow> string \<Rightarrow> binary_rule \<Rightarrow> string \<Rightarrow> violation list" where
  "flag_violations cid bin rule tok =
     (if tok \<in> set (br_denyTokens rule)
      then [\<lparr>v_check = cid, v_rule = RuleMutatingFlag, v_detail = [bin, tok]\<rparr>] else []) @
     map (\<lambda>p. \<lparr>v_check = cid, v_rule = RuleMutatingFlag, v_detail = [bin, tok, p]\<rparr>)
       (filter (has_prefix tok) (br_denyPrefixes rule))"

definition checkBinaryRule :: "string \<Rightarrow> string list \<Rightarrow> string \<Rightarrow> binary_rule \<Rightarrow> violation list" where
  "checkBinaryRule cid argv bin rule =
     (let args = tl argv in
      concat (map (flag_violations cid bin rule) args) @
      (case br_verbs rule of
         None \<Rightarrow> []
       | Some verbs \<Rightarrow>
           if find_verb verbs args \<in> set verbs then []
           else [\<lparr>v_check = cid, v_rule = RuleVerbNotAllowed, v_detail = bin # find_verb verbs args # verbs\<rparr>]))"

definition binary_violations :: "string \<Rightarrow> string list \<Rightarrow> violation list" where
  "binary_violations cid argv =
     (let bin = baseName (hd argv) in
      (if bin \<in> set deniedBinaries
       then [\<lparr>v_check = cid, v_rule = RuleDisallowedBinary, v_detail = [bin]\<rparr>] else []) @
      (if bin = ''sudo'' \<or> bin = ''doas''
       then [\<lparr>v_check = cid, v_rule = RuleElevatedPrefixOnly, v_detail = []\<rparr>] else []) @
      (case map_of binaryRules bin of
         None \<Rightarrow> [] | Some rule \<Rightarrow> checkBinaryRule cid argv bin rule))"

definition validateOne :: "(string \<Rightarrow> nat option) \<Rightarrow> check \<Rightarrow> violation list" where
  "validateOne numSubexp c =
     (if check_argv c = [] then [viol c RuleEmptyArgv []]
      else parser_violations c @ extract_violations numSubexp c @
        param_violations c [] (check_params c) @ token_violations c 0 (check_argv c) @
        hole_violations c @ binary_violations (check_id c) (check_argv c))"

definition validate :: "(string \<Rightarrow> nat option) \<Rightarrow> check list \<Rightarrow> violation list" where
  "validate numSubexp cs =
     (let canaries = length (filter check_canary cs);
          onDemandBaseline = length (filter (\<lambda>c. onDemand c \<and> check_minProfile c = ProfileBaseline) cs)
      in concat (map (validateOne numSubexp) cs) @
         (if cs \<noteq> [] \<and> canaries \<noteq> 1
          then [\<lparr>v_check = ''<catalog>'', v_rule = RuleCanaryCount, v_detail = [show_nat canaries]\<rparr>] else []) @
         (if BaselineTierCap < onDemandBaseline
          then [\<lparr>v_check = ''<catalog>'', v_rule = RuleBaselineTierCap, v_detail = [show_nat onDemandBaseline]\<rparr>]
          else []))"

section \<open>What the invariants give\<close>

lemma literalRe_iff: "match_string literalRe s \<longleftrightarrow> list_all (in_class cls_literal) s"
  by (simp only: literalRe_def match_class_star)

lemma class_mono:
  assumes "list_all (\<lambda>(lo, hi). list_ex (\<lambda>(lo', hi'). lo' \<le> lo \<and> hi \<le> hi') rs') rs" and "in_class rs c"
  shows "in_class rs' c"
proof -
  let ?n = "of_char c :: nat"
  from assms(2) obtain lo hi where r: "(lo, hi) \<in> set rs" "lo \<le> ?n" "?n \<le> hi"
    by (auto simp: in_class_def in_ranges_def list_ex_iff)
  from assms(1) r(1) have "list_ex (\<lambda>(lo', hi'). lo' \<le> lo \<and> hi \<le> hi') rs'"
    by (auto simp: list_all_iff)
  then obtain lo' hi' where "(lo', hi') \<in> set rs'" "lo' \<le> lo" "hi \<le> hi'"
    by (auto simp: list_ex_iff)
  with r have "(lo', hi') \<in> set rs' \<and> lo' \<le> ?n \<and> ?n \<le> hi'" by simp
  then show ?thesis unfolding in_class_def in_ranges_def list_ex_iff by blast
qed

lemma list_all_class_mono:
  "list_all (\<lambda>(lo, hi). list_ex (\<lambda>(lo', hi'). lo' \<le> lo \<and> hi \<le> hi') rs') rs \<Longrightarrow>
     list_all (in_class rs) s \<Longrightarrow> list_all (in_class rs') s"
  using class_mono by (auto simp: list_all_iff)

lemma read_digits_chars: "read_digits a s = Some n \<Longrightarrow> list_all (in_class [d09]) s"
  by (induction s arbitrary: a) (auto simp: is_digit_def in_class_def in_ranges_def split: if_splits)

lemma atoi_digits:
  assumes "atoi (c # cs) = Some n"
  shows "\<exists>k. read_digits 0 (if c = CHR ''-'' \<or> c = CHR ''+'' then cs else c # cs) = Some k"
proof (rule ccontr)
  assume "\<not> ?thesis"
  then have "read_digits 0 (if c = CHR ''-'' \<or> c = CHR ''+'' then cs else c # cs) = None" by auto
  then have "atoi (c # cs) = None"
    unfolding atoi_def Let_def by (simp only: list.case option.case if_cancel)
  with assms show False by simp
qed

lemma atoi_chars:
  assumes "atoi s = Some n"
  shows "list_all (in_class cls_literal) s"
proof -
  obtain c cs where s: "s = c # cs" using assms by (cases s) (auto simp: atoi_def)
  have lit: "list_all (in_class cls_literal) ds" if "read_digits 0 ds = Some k" for ds k
    by (rule list_all_class_mono [OF _ read_digits_chars [OF that]]) (simp add: cls_literal_def)
  have sign: "in_class cls_literal (CHR ''-'')" "in_class cls_literal (CHR ''+'')"
    by (simp_all add: cls_literal_def in_class_def in_ranges_def)
  from atoi_digits [of c cs n] assms obtain k where
    "read_digits 0 (if c = CHR ''-'' \<or> c = CHR ''+'' then cs else c # cs) = Some k" by (auto simp only: s)
  from lit [OF this] sign show ?thesis by (auto simp: s split: if_splits)
qed

text \<open>Every accepted value uses literal characters only; an enum's values have been validated.\<close>

lemma validateParam_literal:
  assumes "validateParam p v = None" and "kind_violations c p = []"
  shows "list_all (in_class cls_literal) v"
proof (cases "param_kind p")
  case KindPath
  with assms(1) have "list_all (in_class cls_path) v"
    by (simp add: validateParam_def validatePath_def pathCharsRe_def match_class_plus del: seqs.simps split: if_splits)
  then show ?thesis by (rule list_all_class_mono [rotated]) (simp add: cls_literal_def cls_path_def)
next
  case KindIdent
  with assms(1) have "list_all (in_class cls_ident) v"
    by (simp add: validateParam_def identCharsRe_def match_class_plus del: seqs.simps split: if_splits)
  then show ?thesis by (rule list_all_class_mono [rotated]) (simp add: cls_literal_def cls_ident_def)
next
  case KindInt
  with assms(1) show ?thesis by (auto simp: validateParam_def dest: atoi_chars split: option.splits)
next
  case KindEnum
  with assms show ?thesis
    by (auto simp: validateParam_def kind_violations_def filter_empty_conv literalRe_iff split: if_splits)
next
  case (KindOther k)
  with assms(1) show ?thesis by (simp add: validateParam_def)
qed

lemma by_name_in: "by_name c n = Some p \<Longrightarrow> p \<in> set (check_params c)"
  by (auto simp: by_name_def dest!: map_of_SomeD)

lemma param_violations_D:
  "param_violations c declared ps = [] \<Longrightarrow> p \<in> set ps \<Longrightarrow> kind_violations c p = []"
  by (induction ps arbitrary: declared) auto

lemma token_violations_D:
  "token_violations c i toks = [] \<Longrightarrow> tok \<in> set toks \<Longrightarrow> placeholder tok = [] \<Longrightarrow> \<not> check_canary c \<Longrightarrow>
     list_all (in_class cls_literal) tok"
  by (induction toks arbitrary: i) (auto simp: Let_def literalRe_iff split: if_splits)

lemma validateOne_D:
  assumes "validateOne numSubexp c = []"
  shows "check_argv c \<noteq> []" "param_violations c [] (check_params c) = []"
    "token_violations c 0 (check_argv c) = []" "binary_violations (check_id c) (check_argv c) = []"
    "hole_violations c = []"
  using assms by (auto simp: validateOne_def split: if_splits)

lemma validate_D: "validate numSubexp cs = [] \<Longrightarrow> c \<in> set cs \<Longrightarrow> validateOne numSubexp c = []"
  by (simp add: validate_def Let_def)

lemma bound_token_literal:
  assumes "validateOne numSubexp c = []" "\<not> check_canary c" "tok \<in> set (check_argv c)"
    "token_bound c params tok val"
  shows "list_all (in_class cls_literal) val"
proof (cases "placeholder tok = []")
  case True
  then show ?thesis
    using assms token_violations_D [OF validateOne_D(3) [OF assms(1)]] by (simp add: token_bound_def)
next
  case False
  with assms(4) obtain p where p: "by_name c (placeholder tok) = Some p" "validateParam p val = None"
    by (auto simp: token_bound_def)
  with param_violations_D [OF validateOne_D(2) [OF assms(1)] by_name_in] show ?thesis
    by (blast intro: validateParam_literal)
qed

lemma list_all2_setD2: "list_all2 P xs ys \<Longrightarrow> y \<in> set ys \<Longrightarrow> \<exists>x\<in>set xs. P x y"
  by (induction rule: list_all2_induct) auto

text \<open>
  no shell-special character is ever bound.  For a catalog that passes \<open>Validate\<close>, whatever
  parameters a caller supplies, an argument vector \<open>Bind\<close> returns for any check but the canary is
  not empty and every token of it consists of the literal characters only.
\<close>

theorem bound_argv_literal:
  assumes "validate numSubexp cs = []" and "c \<in> set cs" and "\<not> check_canary c"
    and "bind c params = Inr argv"
  shows "argv \<noteq> [] \<and> list_all (list_all (in_class cls_literal)) argv"
proof -
  note ok = validate_D [OF assms(1,2)]
  have bound: "list_all2 (token_bound c params) (check_argv c) argv"
    using assms(4) by (simp add: bind_def bind_tokens_iff split: option.splits prod.splits)
  have "list_all (in_class cls_literal) val" if "val \<in> set argv" for val
    using list_all2_setD2 [OF bound that] bound_token_literal [OF ok assms(3)] by blast
  then show ?thesis using bound validateOne_D(1) [OF ok] by (auto simp: list_all_iff)
qed

end
