(* ===== verification/Check_Tables.thy ===== *)
theory Check_Tables
  imports Check_Invariants
begin

text \<open>
  The compiled-in catalog: \<open>internal/check/common\<close>, \<open>linux\<close> and \<open>macos\<close>, entry by entry, and
  \<open>all\<close>, which links the three in that order.  The theorems evaluate the invariants on it: it
  registers without a panic, violates no invariant, and no binding of any entry gives a command
  outside the invariants, so the set of commands the program can run is closed.
\<close>

section \<open>Builders\<close>

definition linux_base :: "string \<Rightarrow> string \<Rightarrow> string \<Rightarrow> parser_kind \<Rightarrow> string list \<Rightarrow> check" where
  "linux_base cid desc domain parser argv =
     zero_check\<lparr>check_id := cid, check_desc := desc, check_platform := platform_linux,
       check_domain := domain, check_parser := parser, check_baseline := True, check_argv := argv\<rparr>"

definition macos_base :: "string \<Rightarrow> string \<Rightarrow> string \<Rightarrow> parser_kind \<Rightarrow> string list \<Rightarrow> check" where
  "macos_base cid desc domain parser argv =
     zero_check\<lparr>check_id := cid, check_desc := desc, check_platform := platform_macos,
       check_domain := domain, check_parser := parser, check_baseline := True, check_argv := argv\<rparr>"

definition elevated :: "check \<Rightarrow> check" where "elevated c = c\<lparr>check_elevated := True\<rparr>"
definition exitOK :: "check \<Rightarrow> int list \<Rightarrow> check" where "exitOK c codes = c\<lparr>check_exitOK := Some codes\<rparr>"
definition with_unit :: "check \<Rightarrow> string \<Rightarrow> check" where "with_unit c noun = c\<lparr>check_unit := noun\<rparr>"
definition sampled :: "check \<Rightarrow> check" where "sampled c = c\<lparr>check_sampled := True\<rparr>"
definition with_extract :: "check \<Rightarrow> string \<Rightarrow> check" where "with_extract c re = c\<lparr>check_extract := re\<rparr>"
definition with_output :: "check \<Rightarrow> int \<Rightarrow> check" where
  "with_output c n = c\<lparr>check_budget := (check_budget c)\<lparr>budget_output := n\<rparr>\<rparr>"

lemmas builder_defs = linux_base_def macos_base_def elevated_def exitOK_def with_unit_def sampled_def
  with_extract_def with_output_def zero_check_def

section \<open>common\<close>

definition CanaryString :: string where
  "CanaryString =
     ''scheck canary: '' @ [CHR 0x27] @ ''single'' @ [CHR 0x27] @ '' '' @ [CHR 0x22] @ ''double'' @
     [CHR 0x22] @ '' $HOME '' @ [CHR 0x60] @ ''id'' @ [CHR 0x60] @ '' ;| *? '' @ [CHR 0x5C] @ ''back '' @
     [CHR 0x5C] @ [CHR 0x5C] @ ''double''"

definition pathParam :: "param list" where
  "pathParam = [zero_param\<lparr>param_name := ''path'', param_kind := KindPath\<rparr>]"

definition common_checks :: "check list" where
  "common_checks =
     [zero_check\<lparr>check_id := ''sys.canary'', check_desc := ''Round-trip a fixed string to verify remote quoting'',
        check_platform := platform_any, check_domain := ''sys'', check_parser := ParseRaw, check_canary := True,
        check_minProfile := ProfileHardened, check_argv := [''/usr/bin/printf'', ''%s'', CanaryString]\<rparr>,
      zero_check\<lparr>check_id := ''sys.platform'', check_desc := ''Kernel name (uname -s), used for platform detection'',
        check_platform := platform_any, check_domain := ''sys'', check_parser := ParseRaw, check_baseline := True,
        check_argv := [''uname'', ''-s'']\<rparr>,
      zero_check\<lparr>check_id := ''sys.uname'', check_desc := ''Full kernel identification'',
        check_platform := platform_any, check_domain := ''sys'', check_parser := ParseRaw, check_baseline := True,
        check_argv := [''uname'', ''-a'']\<rparr>,
      zero_check\<lparr>check_id := ''sys.uid'', check_desc := ''Effective uid of the audit session'',
        check_platform := platform_any, check_domain := ''sys'', check_parser := ParseRaw, check_baseline := True,
        check_argv := [''id'', ''-u'']\<rparr>,
      zero_check\<lparr>check_id := ''sys.shell'', check_desc := ''Login shell of the audit session'',
        check_platform := platform_any, check_domain := ''sys'', check_parser := ParseRaw, check_baseline := True,
        check_exitOK := Some AnyExit,
        check_argv := [''printenv'', ''SHELL'']\<rparr>,
      zero_check\<lparr>check_id := ''host.hostname'', check_desc := ''Hostname'',
        check_platform := platform_any, check_domain := ''host'', check_parser := ParseRaw, check_baseline := True,
        check_argv := [''uname'', ''-n'']\<rparr>,
      zero_check\<lparr>check_id := ''sys.which'',
        check_desc := ''Whether a binary is on PATH (run before an elevated check so a missing tool is not mistaken for a sudo refusal)'',
        check_platform := platform_any, check_domain := ''sys'', check_parser := ParseRaw,
        check_minProfile := ProfileHardened, check_exitOK := Some [0, 1],
        check_argv := [''which'', hole ''name''],
        check_params := [zero_param\<lparr>param_name := ''name'', param_kind := KindIdent\<rparr>]\<rparr>,
      zero_check\<lparr>check_id := ''fs.realpath'', check_desc := ''Resolve symlinks in a path (used before every path decision)'',
        check_platform := platform_any, check_domain := ''fs'', check_parser := ParseRaw, check_pathUse := PathMetadata,
        check_argv := [''realpath'', hole ''path''], check_params := pathParam\<rparr>,
      zero_check\<lparr>check_id := ''fs.stat'', check_desc := ''Mode, owner, group, size and type of a path (never its content)'',
        check_platform := platform_linux, check_domain := ''fs'', check_parser := ParseRaw, check_pathUse := PathMetadata,
        check_argv := [''stat'', ''-c'', ''%A:%a:%U:%G:%s:%F:%N'', hole ''path''], check_params := pathParam\<rparr>,
      zero_check\<lparr>check_id := ''fs.stat'', check_desc := ''Mode, owner, group, size and type of a path (never its content)'',
        check_platform := platform_macos, check_domain := ''fs'', check_parser := ParseRaw, check_pathUse := PathMetadata,
        check_argv := [''stat'', ''-f'', ''%Sp:%Lp:%Su:%Sg:%z:%HT:%N'', hole ''path''], check_params := pathParam\<rparr>,
      zero_check\<lparr>check_id := ''fs.list'', check_desc := ''Directory listing with modes and owners'',
        check_platform := platform_any, check_domain := ''fs'', check_parser := ParseLines, check_pathUse := PathMetadata,
        check_unit := ''directory entries'',
        check_argv := [''ls'', ''-la'', hole ''path''], check_params := pathParam\<rparr>,
      zero_check\<lparr>check_id := ''text.cat'', check_desc := ''Contents of a file under an allowed prefix'',
        check_platform := platform_any, check_domain := ''text'', check_parser := ParseRaw, check_pathUse := PathContent,
        check_argv := [''cat'', hole ''path''], check_params := pathParam\<rparr>,
      zero_check\<lparr>check_id := ''text.head'', check_desc := ''First N lines of a file under an allowed prefix'',
        check_platform := platform_any, check_domain := ''text'', check_parser := ParseRaw, check_pathUse := PathContent,
        check_argv := [''head'', ''-n'', hole ''lines'', hole ''path''],
        check_params := zero_param\<lparr>param_name := ''lines'', param_kind := KindInt, param_min := 1, param_max := 2000\<rparr> # pathParam\<rparr>]"

section \<open>linux\<close>

definition linux_checks :: "check list" where
  "linux_checks =
     [with_unit (linux_base ''os.release'' ''Distribution identification'' ''os'' ParseKV
        [''cat'', ''/etc/os-release'']) ''settings'',
      linux_base ''host.machine_id'' ''Stable machine identifier (hashed into host.id)'' ''host'' ParseRaw
        [''cat'', ''/etc/machine-id''],
      linux_base ''pkg.apt_upgradable'' ''Packages with pending upgrades (apt)'' ''updates'' ParseUpdates
        [''apt'', ''list'', ''--upgradable''],
      exitOK (linux_base ''pkg.dnf_check_update''
        ''Packages with pending upgrades (dnf; exit 100 means updates exist)'' ''updates'' ParseUpdates
        [''dnf'', ''-q'', ''check-update'']) [0, 100],
      linux_base ''pkg.zypper_lp'' ''Pending patches (zypper)'' ''updates'' ParseUpdates
        [''zypper'', ''--non-interactive'', ''lp''],
      with_unit (linux_base ''disk.lsblk'' ''Block devices, filesystems and crypt layers'' ''disk'' ParseLines
        [''lsblk'', ''-o'', ''NAME,TYPE,FSTYPE,MOUNTPOINT'']) ''block devices'',
      with_unit (linux_base ''disk.crypttab'' ''Configured encrypted volumes'' ''disk'' ParseLines
        [''cat'', ''/etc/crypttab'']) ''crypttab entries'',
      with_unit (linux_base ''mac.sestatus'' ''SELinux status'' ''integrity'' ParseKV
        [''sestatus'']) ''settings'',
      elevated (with_unit (linux_base ''mac.aa_status'' ''AppArmor profiles and enforcement'' ''integrity'' ParseLines
        [''aa-status'']) ''AppArmor report lines''),
      elevated (with_unit (linux_base ''fw.ufw'' ''ufw status and rules'' ''firewall'' ParseLines
        [''ufw'', ''status'', ''verbose'']) ''ufw report lines''),
      exitOK (linux_base ''fw.firewalld'' ''firewalld state'' ''firewall'' ParseRaw
        [''firewall-cmd'', ''--state'']) AnyExit,
      elevated (linux_base ''fw.nft'' ''nftables ruleset'' ''firewall'' ParseRaw
        [''nft'', ''list'', ''ruleset'']),
      exitOK (linux_base ''fw.iptables_backend''
        ''iptables userspace backend (where /usr/sbin/iptables resolves; exit 1: none)'' ''firewall'' ParseRaw
        [''realpath'', ''-e'', ''/usr/sbin/iptables'']) [0, 1],
      elevated (linux_base ''net.listeners'' ''Listening TCP/UDP sockets with owning process'' ''network'' ParseListeners
        [''ss'', ''-tulpnH'']),
      elevated (with_unit (linux_base ''sshd.config'' ''Effective sshd configuration'' ''sshd'' ParseKV
        [''sshd'', ''-T'']) ''settings''),
      linux_base ''accounts.passwd'' ''Local accounts, shells and home directories'' ''accounts'' ParseAccounts
        [''cat'', ''/etc/passwd''],
      linux_base ''accounts.shadow_meta'' ''Permissions of /etc/shadow (metadata only, never contents)''
        ''accounts'' ParseFileMode
        [''stat'', ''-c'', ''%A:%a:%U:%G:%s'', ''/etc/shadow''],
      elevated (linux_base ''accounts.passwd_status'' ''Password status per account (NP = no password, L = locked)''
        ''accounts'' ParsePasswdStatus
        [''passwd'', ''-S'', ''-a'']),
      elevated (with_unit (linux_base ''privesc.sudoers'' ''sudoers policy'' ''privesc'' ParseLines
        [''cat'', ''/etc/sudoers'']) ''sudoers lines''),
      elevated (exitOK (with_unit (linux_base ''privesc.sudoers_d'' ''sudoers.d drop-ins (file:line, non-empty lines)''
        ''privesc'' ParseLines
        [''grep'', ''-rH'', ''.'', ''/etc/sudoers.d'']) ''sudoers.d lines'') [0, 1, 2]),
      with_unit (exitOK (linux_base ''remote.sshd_enabled''
        ''Whether the ssh service is enabled at boot (one state per unit name, in order)''
        ''remote-access'' ParseLines
        [''systemctl'', ''is-enabled'', ''ssh'', ''sshd'']) AnyExit) ''service states'',
      linux_base ''persist.units'' ''Enabled systemd unit files'' ''persistence'' ParseUnits
        [''systemctl'', ''list-unit-files'', ''--state=enabled'', ''--no-pager'', ''--plain''],
      with_unit (linux_base ''persist.timers'' ''systemd timers'' ''persistence'' ParseLines
        [''systemctl'', ''list-timers'', ''--all'', ''--no-pager'', ''--plain'']) ''timer report lines'',
      exitOK (with_unit (linux_base ''persist.cron'' ''System crontab and cron.d entries (file:line, non-empty lines)''
        ''persistence'' ParseLines
        [''grep'', ''-rH'', ''.'', ''/etc/crontab'', ''/etc/cron.d'']) ''cron entries'') [0, 1, 2],
      sampled (with_unit (exitOK (linux_base ''fs.suid''
        ''SUID binaries under system and local prefixes (depth-capped)'' ''fs'' ParseLines
        [''find'', ''/usr/local'', ''/opt'', ''/usr/bin'', ''/usr/sbin'', ''/bin'', ''/sbin'', ''-xdev'',
        ''-maxdepth'', ''4'', ''-type'', ''f'', ''-perm'', ''-4000'']) [0, 1]) ''SUID files''),
      sampled (with_unit (exitOK (linux_base ''fs.world_writable''
        ''World-writable files and directories without the sticky bit (depth-capped)'' ''fs'' ParseLines
        [''find'', ''/usr/local'', ''/opt'', ''/etc'', ''-xdev'', ''-maxdepth'', ''4'', ''-perm'', ''-0002'',
        ''-not'', ''-perm'', ''-1000'', ''-not'', ''-type'', ''l'']) [0, 1]) ''world-writable paths''),
      exitOK (linux_base ''log.auditd'' ''Whether auditd is active'' ''logging'' ParseRaw
        [''systemctl'', ''is-active'', ''auditd'']) AnyExit,
      linux_base ''log.journal_usage'' ''Journal disk usage'' ''logging'' ParseRaw
        [''journalctl'', ''--disk-usage''],
      with_unit (linux_base ''time.timedatectl'' ''Clock, timezone and NTP synchronisation state'' ''time'' ParseKV
        [''timedatectl'', ''show'']) ''settings'']"

section \<open>macos\<close>

definition socketfilterfw :: string where
  "socketfilterfw = ''/usr/libexec/ApplicationFirewall/socketfilterfw''"

definition macos_checks :: "check list" where
  "macos_checks =
     [with_unit (macos_base ''os.release'' ''macOS product name, version and build'' ''os'' ParseKV
        [''sw_vers'']) ''settings'',
      with_extract (macos_base ''host.platform_uuid'' ''IOPlatformUUID (hashed into host.id)'' ''host'' ParseRaw
        [''ioreg'', ''-rd1'', ''-c'',
        ''IOPlatformExpertDevice'']) ([CHR 0x22] @ ''IOPlatformUUID'' @ [CHR 0x22] @ '' = '' @ [CHR 0x22] @ ''([0-9A-Fa-f-]+)'' @ [CHR 0x22]),
      macos_base ''pkg.softwareupdate'' ''Pending macOS software updates (cached scan)'' ''updates'' ParseUpdates
        [''softwareupdate'', ''-l'', ''--no-scan''],
      macos_base ''disk.fdesetup'' ''FileVault status'' ''disk'' ParseRaw
        [''fdesetup'', ''status''],
      macos_base ''integrity.csrutil'' ''System Integrity Protection status'' ''integrity'' ParseRaw
        [''csrutil'', ''status''],
      exitOK (macos_base ''integrity.spctl'' ''Gatekeeper assessment status'' ''integrity'' ParseRaw
        [''spctl'', ''--status'']) AnyExit,
      macos_base ''fw.global'' ''Application firewall global state'' ''firewall'' ParseRaw
        [socketfilterfw, ''--getglobalstate''],
      macos_base ''fw.blockall'' ''Application firewall block-all-incoming state'' ''firewall'' ParseRaw
        [socketfilterfw, ''--getblockall''],
      macos_base ''fw.stealth'' ''Application firewall stealth mode'' ''firewall'' ParseRaw
        [socketfilterfw, ''--getstealthmode''],
      exitOK (macos_base ''net.listeners'' ''Listening TCP sockets with owning process'' ''network'' ParseListeners
        [''lsof'', ''-nP'', ''+c'', ''0'', ''-iTCP'', ''-sTCP:LISTEN'']) [0, 1],
      elevated (with_unit (macos_base ''sshd.config'' ''Effective sshd configuration'' ''sshd'' ParseKV
        [''sshd'', ''-T'']) ''settings''),
      macos_base ''accounts.users'' ''Local accounts with their UniqueID'' ''accounts'' ParseAccounts
        [''dscl'', ''.'', ''-list'', ''/Users'', ''UniqueID''],
      macos_base ''accounts.admins'' ''Members of the admin group'' ''accounts'' ParseRaw
        [''dscl'', ''.'', ''-read'', ''/Groups/admin'', ''GroupMembership''],
      elevated (with_unit (macos_base ''privesc.sudoers'' ''sudoers policy'' ''privesc'' ParseLines
        [''cat'', ''/etc/sudoers'']) ''sudoers lines''),
      elevated (exitOK (with_unit (macos_base ''privesc.sudoers_d'' ''sudoers.d drop-ins (file:line, non-empty lines)''
        ''privesc'' ParseLines
        [''grep'', ''-rH'', ''.'', ''/etc/sudoers.d'']) ''sudoers.d lines'') [0, 1, 2]),
      elevated (macos_base ''remote.login'' ''Remote Login (sshd) setting'' ''remote-access'' ParseRaw
        [''systemsetup'', ''-getremotelogin'']),
      with_output (with_unit (macos_base ''remote.launchd_disabled''
        ''launchd service overrides in the system domain (screensharing, RemoteDesktop, ftpd, smbd ...)''
        ''remote-access'' ParseLines
        [''launchctl'', ''print-disabled'', ''system'']) ''service overrides'') 16384,
      macos_base ''persist.launchctl'' ''Loaded launchd jobs in the session domain'' ''persistence'' ParseLaunchd
        [''launchctl'', ''list''],
      with_unit (exitOK (macos_base ''persist.launch_dirs'' ''Third-party LaunchDaemons and LaunchAgents''
        ''persistence'' ParseLines
        [''find'', ''/Library/LaunchDaemons'', ''/Library/LaunchAgents'', ''-maxdepth'', ''1'', ''-type'',
        ''f'']) [0, 1]) ''launchd plists'',
      sampled (with_unit (exitOK (macos_base ''fs.suid'' ''SUID binaries under local prefixes (depth-capped)''
        ''fs'' ParseLines
        [''find'', ''/usr/local'', ''/opt'', ''-xdev'', ''-maxdepth'', ''4'', ''-type'', ''f'', ''-perm'',
        ''-4000'']) [0, 1]) ''SUID files''),
      sampled (with_unit (exitOK (macos_base ''fs.world_writable''
        ''World-writable entries without the sticky bit under system prefixes (depth-capped)'' ''fs'' ParseLines
        [''find'', ''/usr/local'', ''/opt'', ''/etc'', ''/Library/LaunchDaemons'', ''/Library/LaunchAgents'',
        ''-xdev'', ''-maxdepth'', ''4'', ''-perm'', ''-0002'', ''-not'', ''-perm'', ''-1000'', ''-not'',
        ''-type'', ''l'']) [0, 1]) ''world-writable paths''),
      elevated (macos_base ''log.status'' ''Unified logging configuration'' ''logging'' ParseRaw
        [''log'', ''config'', ''--status'']),
      elevated (macos_base ''time.ntp'' ''Network time synchronisation setting'' ''time'' ParseRaw
        [''systemsetup'', ''-getusingnetworktime''])]"

section \<open>all\<close>

definition shipped :: "check list" where
  "shipped = common_checks @ linux_checks @ macos_checks"

section \<open>The invariants hold\<close>

lemma placeholder_Cons: "c \<noteq> CHR 0x7B \<Longrightarrow> placeholder (c # cs) = []"
  using placeholder_iff [of "placeholder (c # cs)" "c # cs"] by (auto simp: hole_def)

lemma name_ok_holes: "name_ok ''name''" "name_ok ''path''" "name_ok ''lines''"
  by (simp_all add: name_ok_def cls_name_def cls_name_head_def in_class_def in_ranges_def)

text \<open>Evaluation in two stages, so that the rule table is unfolded only for the binary at hand.\<close>

lemmas validate_eval = builder_defs validateOne_def parser_violations_def extract_violations_def
  kind_violations_def hole_violations_def bound_names_def binary_violations_def checkBinaryRule_def
  deniedBinaries_def binaryRules_def baseName_def isTyped_def by_name_def
  placeholder_Cons literalRe_iff cls_literal_def in_class_def in_ranges_def Let_def platform_defs
  zero_param_def pathParam_def name_ok_holes socketfilterfw_def CanaryString_def

lemmas rule_eval = binary_rule_defs find_verb_def flag_violations_def

lemma common_valid: "list_all (\<lambda>c. validateOne numSubexp c = []) common_checks"
  unfolding common_checks_def list.pred_inject(2)
  by (intro conjI list.pred_inject(1); simp add: validate_eval; simp add: rule_eval)

lemma linux_valid: "list_all (\<lambda>c. validateOne numSubexp c = []) linux_checks"
  unfolding linux_checks_def list.pred_inject(2)
  by (intro conjI list.pred_inject(1); simp add: validate_eval; simp add: rule_eval)

definition uuid_pattern :: string where
  "uuid_pattern =
     [CHR 0x22] @ ''IOPlatformUUID'' @ [CHR 0x22] @ '' = '' @ [CHR 0x22] @ ''([0-9A-Fa-f-]+)'' @ [CHR 0x22]"

lemma macos_valid:
  assumes "numSubexp uuid_pattern = Some 1"
  shows "list_all (\<lambda>c. validateOne numSubexp c = []) macos_checks"
  using assms unfolding uuid_pattern_def macos_checks_def list.pred_inject(2)
  by (intro conjI list.pred_inject(1); simp add: validate_eval; simp add: rule_eval)

definition shipped_keys :: "(string \<times> string \<times> platform) list" where
  "shipped_keys =
     [(''sys'', ''canary'', platform_any), (''sys'', ''platform'', platform_any),
      (''sys'', ''uname'', platform_any), (''sys'', ''uid'', platform_any),
      (''sys'', ''shell'', platform_any), (''host'', ''hostname'', platform_any),
      (''sys'', ''which'', platform_any), (''fs'', ''realpath'', platform_any),
      (''fs'', ''stat'', platform_linux), (''fs'', ''stat'', platform_macos),
      (''fs'', ''list'', platform_any), (''text'', ''cat'', platform_any),
      (''text'', ''head'', platform_any), (''os'', ''release'', platform_linux),
      (''host'', ''machine_id'', platform_linux), (''pkg'', ''apt_upgradable'', platform_linux),
      (''pkg'', ''dnf_check_update'', platform_linux), (''pkg'', ''zypper_lp'', platform_linux),
      (''disk'', ''lsblk'', platform_linux), (''disk'', ''crypttab'', platform_linux),
      (''mac'', ''sestatus'', platform_linux), (''mac'', ''aa_status'', platform_linux),
      (''fw'', ''ufw'', platform_linux), (''fw'', ''firewalld'', platform_linux),
      (''fw'', ''nft'', platform_linux), (''fw'', ''iptables_backend'', platform_linux),
      (''net'', ''listeners'', platform_linux), (''sshd'', ''config'', platform_linux),
      (''accounts'', ''passwd'', platform_linux), (''accounts'', ''shadow_meta'', platform_linux),
      (''accounts'', ''passwd_status'', platform_linux), (''privesc'', ''sudoers'', platform_linux),
      (''privesc'', ''sudoers_d'', platform_linux), (''remote'', ''sshd_enabled'', platform_linux),
      (''persist'', ''units'', platform_linux), (''persist'', ''timers'', platform_linux),
      (''persist'', ''cron'', platform_linux), (''fs'', ''suid'', platform_linux),
      (''fs'', ''world_writable'', platform_linux), (''log'', ''auditd'', platform_linux),
      (''log'', ''journal_usage'', platform_linux), (''time'', ''timedatectl'', platform_linux),
      (''os'', ''release'', platform_macos), (''host'', ''platform_uuid'', platform_macos),
      (''pkg'', ''softwareupdate'', platform_macos), (''disk'', ''fdesetup'', platform_macos),
      (''integrity'', ''csrutil'', platform_macos), (''integrity'', ''spctl'', platform_macos),
      (''fw'', ''global'', platform_macos), (''fw'', ''blockall'', platform_macos),
      (''fw'', ''stealth'', platform_macos), (''net'', ''listeners'', platform_macos),
      (''sshd'', ''config'', platform_macos), (''accounts'', ''users'', platform_macos),
      (''accounts'', ''admins'', platform_macos), (''privesc'', ''sudoers'', platform_macos),
      (''privesc'', ''sudoers_d'', platform_macos), (''remote'', ''login'', platform_macos),
      (''remote'', ''launchd_disabled'', platform_macos), (''persist'', ''launchctl'', platform_macos),
      (''persist'', ''launch_dirs'', platform_macos), (''fs'', ''suid'', platform_macos),
      (''fs'', ''world_writable'', platform_macos), (''log'', ''status'', platform_macos),
      (''time'', ''ntp'', platform_macos)]"

lemma shipped_keys: "map (\<lambda>c. (check_id c, check_platform c)) shipped = map (\<lambda>(a, b, p). (a @ ''.'' @ b, p)) shipped_keys"
  by (simp add: shipped_def common_checks_def linux_checks_def macos_checks_def builder_defs shipped_keys_def)

lemma re_name_step:
  assumes "name_ok n" "rest st = n @ r"
  shows "re_step re_name st (consume n st)"
proof -
  from assms(1) obtain c w where n: "n = c # w" "in_class cls_name_head c" "list_all (in_class cls_name) w"
    by (auto simp: name_ok_def split: list.splits)
  with assms(2) have "re_step (Cls cls_name_head) st (consume [c] st)" by (auto simp: cls_step_iff)
  moreover have "re_step (Star True (Cls cls_name)) (consume [c] st) (consume w (consume [c] st))"
    using n assms(2) by (auto simp: star_class_step)
  ultimately show ?thesis
    using n assms(2) consume_append [of st "[c]" "w @ r" w] by (auto simp: re_name_def intro: re_step.seq)
qed

lemma idRe_two:
  assumes "name_ok a" "name_ok b"
  shows "match_string idRe (a @ ''.'' @ b)"
proof -
  let ?st = "St None (a @ ''.'' @ b) 0 []"
  let ?s1 = "consume a ?st"
  let ?s2 = "consume ''.'' ?s1"
  let ?s3 = "consume b ?s2"
  let ?s4 = "St (prev ?s3) (rest ?s3) (pos ?s3) ((1, pos ?s1, pos ?s3) # caps ?s3)"
  let ?part = "Seq (byte 46) re_name"
  have "re_step re_name ?st ?s1" by (rule re_name_step [OF assms(1)]) simp
  moreover have "re_step (byte 46) ?s1 ?s2" by (simp add: byte_step_iff)
  moreover have "re_step re_name ?s2 ?s3" by (rule re_name_step [OF assms(2), where r = "[]"]) simp
  ultimately have 1: "re_step re_name ?st ?s1" and 2: "re_step ?part ?s1 ?s3"
    by (auto intro: re_step.seq)
  have "re_step (Grp 1 ?part) ?s1 ?s4" using 2 by (rule re_step.grp)
  moreover have "re_step (Star True (Grp 1 ?part)) ?s4 ?s4" by (rule re_step.star_stop)
  ultimately have "re_step (plus (Grp 1 ?part)) ?s1 ?s4" unfolding plus_def by (rule re_step.seq)
  moreover have "re_step TextEnd ?s4 ?s4" by (rule re_step.text_end) simp
  ultimately have "re_step (Seq re_name (Seq (plus (Grp 1 ?part)) TextEnd)) ?st ?s4"
    using 1 by (blast intro: re_step.seq)
  then show ?thesis unfolding idRe_def seqs.simps by (auto simp: match_string_anchored)
qed

lemma key_names_ok: "list_all (\<lambda>(a, b, p). name_ok a \<and> name_ok b \<and> p \<noteq> []) shipped_keys"
  by code_simp

lemma keys_no_conflict:
  "sorted_wrt (\<lambda>(a, b, p) (a', b', p').
      \<not> (a = a' \<and> b = b' \<and> (p = p' \<or> p = platform_any \<or> p' = platform_any))) shipped_keys"
  by code_simp

lemma name_no_dot: "name_ok n \<Longrightarrow> CHR ''.'' \<notin> set n"
  by (fastforce simp: name_ok_def list_all_iff in_class_def in_ranges_def cls_name_def cls_name_head_def
      split: list.splits)

lemma dotted_inject:
  assumes "name_ok a" "name_ok a'"
  shows "a @ CHR ''.'' # b = a' @ CHR ''.'' # b' \<longleftrightarrow> a = a' \<and> b = b'"
  using split_on_append [OF name_no_dot [OF assms(1)], of b] split_on_append [OF name_no_dot [OF assms(2)], of b']
  by (metis list.inject same_append_eq)

lemma catalog_ok_keys:
  assumes "map (\<lambda>c. (check_id c, check_platform c)) es = map (\<lambda>(a, b, p). (a @ ''.'' @ b, p)) ks"
    and "list_all (\<lambda>(a, b, p). name_ok a \<and> name_ok b \<and> p \<noteq> []) ks"
    and "sorted_wrt (\<lambda>(a, b, p) (a', b', p').
      \<not> (a = a' \<and> b = b' \<and> (p = p' \<or> p = platform_any \<or> p' = platform_any))) ks"
  shows "catalog_ok es"
  using assms
proof (induction es arbitrary: ks)
  case (Cons e es)
  then obtain a b p ks' where ks: "ks = (a, b, p) # ks'" "check_id e = a @ ''.'' @ b" "check_platform e = p"
      "map (\<lambda>c. (check_id c, check_platform c)) es = map (\<lambda>(a, b, p). (a @ ''.'' @ b, p)) ks'"
    by (cases ks) auto
  have e: "entry_ok e" using Cons.prems(2) ks idRe_two [of a b] by (simp add: entry_ok_def)
  have "\<not> conflicts e c" if "c \<in> set es" for c
  proof -
    from that have "(check_id c, check_platform c) \<in> set (map (\<lambda>(a, b, p). (a @ ''.'' @ b, p)) ks')"
      unfolding ks(4) [symmetric] by force
    then obtain a' b' p' where c: "(a', b', p') \<in> set ks'" "check_id c = a' @ ''.'' @ b'" "check_platform c = p'"
      by auto
    have "name_ok a" "name_ok a'" using Cons.prems(2) ks(1) c(1) by (auto simp: list_all_iff)
    moreover have "\<not> (a = a' \<and> b = b' \<and> (p = p' \<or> p = platform_any \<or> p' = platform_any))"
      using Cons.prems(3) ks(1) c(1) by auto
    ultimately show ?thesis using ks(2,3) c(2,3) by (auto simp: conflicts_def dotted_inject)
  qed
  with Cons.IH [OF ks(4)] Cons.prems(2,3) ks(1) e show ?case by (auto simp: catalog_ok_def)
qed simp

lemma shipped_ok: "catalog_ok shipped"
  using catalog_ok_keys [OF shipped_keys key_names_ok keys_no_conflict] .

lemma validate_permute: "mset ds = mset cs \<Longrightarrow> validate numSubexp cs = [] \<Longrightarrow> validate numSubexp ds = []"
proof -
  assume m: "mset ds = mset cs" and v: "validate numSubexp cs = []"
  have "length (filter P ds) = length (filter P cs)" for P
    using m by (metis mset_filter size_mset)
  moreover have "set ds = set cs" using m by (rule mset_eq_setD)
  moreover have "ds = [] \<longleftrightarrow> cs = []" using m by auto
  ultimately show ?thesis using v by (auto simp: validate_def Let_def)
qed

lemma shipped_counts:
  "length (filter check_canary shipped) = 1"
  "length (filter (\<lambda>c. onDemand c \<and> check_minProfile c = ProfileBaseline) shipped) \<le> BaselineTierCap"
  by (simp_all add: shipped_def common_checks_def linux_checks_def macos_checks_def builder_defs onDemand_def
      BaselineTierCap_def)

lemma shipped_validates:
  assumes "numSubexp uuid_pattern = Some 1"
  shows "validate numSubexp (catalog_all shipped) = []"
proof -
  have "list_all (\<lambda>c. validateOne numSubexp c = []) shipped"
    using common_valid linux_valid macos_valid [of numSubexp] assms by (simp add: shipped_def)
  then have "validate numSubexp shipped = []"
    using shipped_counts by (auto simp: validate_def Let_def list_all_iff)
  then show ?thesis by (rule validate_permute [rotated]) (simp add: catalog_all_def)
qed

text \<open>
  C11: the compiled-in catalog satisfies every invariant.  Given that the one \<open>Extract\<close> pattern
  compiles to a regular expression with one group, the checks of the three packages register
  without a panic and \<open>Validate\<close> finds no violation in the listing of all of them.
\<close>

theorem shipped_catalog_valid:
  assumes "numSubexp uuid_pattern = Some 1"
  shows "register [] shipped = Inr shipped \<and> validate numSubexp (catalog_all shipped) = []"
  using register_ok [of "[]" shipped] shipped_ok shipped_validates [of numSubexp] assms by simp

theorem shipped_catalog_valid_witness:
  "register [] shipped = Inr shipped \<and> validate (\<lambda>_. Some 1) (catalog_all shipped) = []"
  by (rule shipped_catalog_valid) simp

section \<open>The command surface is closed\<close>

definition free_binary :: "string \<Rightarrow> bool" where
  "free_binary b =
     (case map_of binaryRules (baseName b) of
        None \<Rightarrow> True
      | Some r \<Rightarrow> br_verbs r = None \<and> br_denyTokens r = [] \<and> br_denyPrefixes r = [])"

definition closed_template :: "check \<Rightarrow> bool" where
  "closed_template c =
     (case check_argv c of
        [] \<Rightarrow> False
      | b # args \<Rightarrow> placeholder b = [] \<and> (list_all (\<lambda>t. placeholder t = []) args \<or> free_binary b))"

lemma no_denied_flags:
  "br_denyTokens r = [] \<Longrightarrow> br_denyPrefixes r = [] \<Longrightarrow> flag_violations cid b r = (\<lambda>_. [])"
  by (rule ext) (simp add: flag_violations_def)

lemma free_binary_args:
  "free_binary b \<Longrightarrow> binary_violations cid (b # args) = binary_violations cid (b # args')"
  by (auto simp: free_binary_def binary_violations_def checkBinaryRule_def no_denied_flags Let_def
      split: option.splits)

lemma shipped_closed: "list_all closed_template shipped"
proof -
  have "list_all closed_template common_checks" unfolding common_checks_def list.pred_inject(2)
    by (intro conjI list.pred_inject(1); simp add: closed_template_def free_binary_def binaryRules_def
        rule_stat_def baseName_def placeholder_Cons builder_defs CanaryString_def name_ok_holes)
  moreover have "list_all closed_template linux_checks" unfolding linux_checks_def list.pred_inject(2)
    by (intro conjI list.pred_inject(1); simp add: closed_template_def placeholder_Cons builder_defs)
  moreover have "list_all closed_template macos_checks" unfolding macos_checks_def list.pred_inject(2)
    by (intro conjI list.pred_inject(1); simp add: closed_template_def placeholder_Cons builder_defs socketfilterfw_def)
  ultimately show ?thesis by (simp add: shipped_def)
qed

lemma shipped_binaries_ok: "c \<in> set shipped \<Longrightarrow> binary_violations (check_id c) (check_argv c) = []"
  using common_valid [of "\<lambda>_. Some 1"] linux_valid [of "\<lambda>_. Some 1"] macos_valid [of "\<lambda>_. Some 1"] validateOne_D(4)
  by (auto simp: shipped_def list_all_iff)

lemma shipped_bound_closed:
  assumes "c \<in> set shipped" and "bind c params = Inr argv"
  shows "argv \<noteq> [] \<and> hd argv = hd (check_argv c) \<and> baseName (hd argv) \<notin> set deniedBinaries \<and>
    binary_violations (check_id c) argv = []"
proof -
  have "closed_template c" using shipped_closed assms(1) by (simp add: list_all_iff)
  then obtain b args where t: "check_argv c = b # args" "placeholder b = []"
      "list_all (\<lambda>t. placeholder t = []) args \<or> free_binary b"
    by (auto simp: closed_template_def split: list.splits)
  have "list_all2 (token_bound c params) (check_argv c) argv"
    using assms(2) by (simp add: bind_def bind_tokens_iff split: option.splits prod.splits)
  with t obtain args' where a: "argv = b # args'" "list_all2 (token_bound c params) args args'"
    by (auto simp: list_all2_Cons1 token_bound_def)
  have "args' = args" if "list_all (\<lambda>t. placeholder t = []) args"
    using a(2) that by (induction rule: list_all2_induct) (auto simp: token_bound_def)
  then have "binary_violations (check_id c) argv = binary_violations (check_id c) (check_argv c)"
    using t a free_binary_args [of b "check_id c" args' args] by auto
  with shipped_binaries_ok [OF assms(1)] have ok: "binary_violations (check_id c) argv = []" by simp
  then have "baseName (hd argv) \<notin> set deniedBinaries"
    by (auto simp: binary_violations_def Let_def split: if_splits)
  with ok a t show ?thesis by simp
qed

text \<open>
  C10: the command surface is closed.  Whatever parameters are bound into whatever check of the
  compiled-in catalog, the program run is the one the template names, it is none of the denied
  binaries, and no mutating flag or verb appears among the bound arguments.
\<close>

theorem shipped_commands_closed:
  assumes "c \<in> set shipped" and "bind c params = Inr argv"
  shows "argv \<noteq> [] \<and> hd argv = hd (check_argv c) \<and> baseName (hd argv) \<notin> set deniedBinaries \<and>
    binary_violations (check_id c) argv = []"
  using assms by (rule shipped_bound_closed)

lemma cat_in_shipped:
  "zero_check\<lparr>check_id := ''text.cat'', check_desc := ''Contents of a file under an allowed prefix'',
     check_platform := platform_any, check_domain := ''text'', check_parser := ParseRaw, check_pathUse := PathContent,
     check_argv := [''cat'', hole ''path''], check_params := pathParam\<rparr> \<in> set shipped" (is "?c \<in> _")
  unfolding shipped_def common_checks_def list.set set_append by blast

lemma bind_cat:
  "bind (zero_check\<lparr>check_id := ''text.cat'', check_desc := ''Contents of a file under an allowed prefix'',
     check_platform := platform_any, check_domain := ''text'', check_parser := ParseRaw, check_pathUse := PathContent,
     check_argv := [''cat'', hole ''path''], check_params := pathParam\<rparr>) [(''path'', ''/etc/os-release'')]
   = Inr [''cat'', ''/etc/os-release'']"
  by (simp add: bind_def by_name_def pathParam_def zero_check_def zero_param_def placeholder_Cons name_ok_holes
      Let_def validateParam_def validatePath_def pathCharsRe_def match_class_plus cls_path_def in_class_def
      in_ranges_def del: seqs.simps)

theorem bound_argv_literal_witness:
  "list_all (list_all (in_class cls_literal)) [''cat'', ''/etc/os-release'']"
proof -
  have "validate (\<lambda>_. Some 1) (catalog_all shipped) = []" by (rule shipped_validates) simp
  then show ?thesis
    using bound_argv_literal [OF _ _ _ bind_cat] cat_in_shipped by (simp add: catalog_all_def zero_check_def)
qed

theorem shipped_commands_closed_witness: "binary_violations ''text.cat'' [''cat'', ''/etc/os-release''] = []"
  using shipped_commands_closed [OF cat_in_shipped bind_cat] by simp

lemma hole_binary_ok: "binary_violations cid [hole ''name''] = []"
  by (simp add: binary_violations_def hole_def baseName_def deniedBinaries_def binaryRules_def Let_def)

text \<open>
  A gap in the validator.  A check whose first token is a placeholder for an identifier
  violates no invariant, and binding a denied binary's name to it gives an argument vector that
  runs that binary.  No entry of the compiled-in catalog has that shape.
\<close>

theorem placeholder_binary_unchecked:
  "\<exists>c. validateOne numSubexp c = [] \<and> bind c [(''name'', ''rm'')] = Inr [''rm''] \<and> ''rm'' \<in> set deniedBinaries"
proof (intro exI conjI)
  let ?c = "zero_check\<lparr>check_id := ''x.y'', check_platform := platform_linux, check_parser := ParseRaw,
    check_argv := [hole ''name''], check_params := [zero_param\<lparr>param_name := ''name'', param_kind := KindIdent\<rparr>]\<rparr>"
  show "validateOne numSubexp ?c = []"
    by (simp add: hole_binary_ok validateOne_def parser_violations_def extract_violations_def kind_violations_def
        hole_violations_def bound_names_def by_name_def zero_check_def zero_param_def name_ok_holes Let_def)
  show "bind ?c [(''name'', ''rm'')] = Inr [''rm'']"
    by (simp add: bind_def by_name_def zero_check_def zero_param_def name_ok_holes Let_def validateParam_def
        identCharsRe_def match_class_plus cls_ident_def in_class_def in_ranges_def del: seqs.simps)
qed (simp add: deniedBinaries_def)

lemma shipped_registers: "register [] shipped = Inr shipped"
  using register_ok [of "[]" shipped] shipped_ok by simp

theorem lookup_registered_witness:
  "\<exists>c. lookup shipped ''text.cat'' platform_linux = Some c \<and> check_pathUse c = PathContent"
  using lookup_registered [OF shipped_registers] cat_in_shipped by (fastforce simp: zero_check_def appliesTo_def)

theorem registration_order_irrelevant_witness:
  "\<exists>entries. register [] (rev shipped) = Inr entries \<and> lookup entries = lookup shipped"
  using registration_order_irrelevant [OF shipped_registers, of "rev shipped"] by auto

end
