(* ===== verification/Check_Parse.thy ===== *)
theory Check_Parse
  imports Check_Invariants
begin

text \<open>
  \<open>internal/check/parse.go\<close>, \<open>typed.go\<close> and \<open>summary.go\<close>: how the redacted output of a check
  becomes a fact and how a fact reads in one line.  A parsed value is a value of \<open>parsed\<close>; the Go
  maps of the source are association lists with distinct keys, in insertion order.  JSON text is
  decoded by an argument, \<open>unmarshal\<close>.  The line-by-line loops of the typed shapes are \<open>collect\<close>
  over a classification of one line: skipped, unrecognised, or a record.
\<close>

section \<open>Parsed values\<close>

datatype json =
    JNull | JBool bool | JNum string | JStr string | JArr "json list" | JObj "(string \<times> json) list"

type_synonym row = "(string \<times> string) list"

definition field :: "row \<Rightarrow> string \<Rightarrow> string" where
  "field r f = (case map_of r f of None \<Rightarrow> [] | Some v \<Rightarrow> v)"

record records =
  rs_kind :: parser_kind
  rs_items :: "row list"
  rs_partial :: bool
  rs_note :: string

datatype parsed =
    PRaw string | PLines "string list" | PKV row | PJson json | PRecords records

datatype parse_error =
    JsonEmpty | JsonInvalid | UnknownParser parser_kind | FileModeNoOutput | FileModeShort string

definition FieldProtocol :: string where "FieldProtocol = ''protocol''"
definition FieldAddress :: string where "FieldAddress = ''address''"
definition FieldPort :: string where "FieldPort = ''port''"
definition FieldPID :: string where "FieldPID = ''pid''"
definition FieldProcess :: string where "FieldProcess = ''process''"
definition FieldName :: string where "FieldName = ''name''"
definition FieldUID :: string where "FieldUID = ''uid''"
definition FieldShell :: string where "FieldShell = ''shell''"
definition FieldHome :: string where "FieldHome = ''home''"
definition FieldStatus :: string where "FieldStatus = ''status''"
definition FieldState :: string where "FieldState = ''state''"
definition FieldVersion :: string where "FieldVersion = ''version''"
definition FieldLabel :: string where "FieldLabel = ''label''"
definition FieldMode :: string where "FieldMode = ''mode''"
definition FieldSymbolic :: string where "FieldSymbolic = ''symbolic''"
definition FieldUser :: string where "FieldUser = ''user''"
definition FieldGroup :: string where "FieldGroup = ''group''"
definition FieldSize :: string where "FieldSize = ''size''"

lemmas field_defs = FieldProtocol_def FieldAddress_def FieldPort_def FieldPID_def FieldProcess_def
  FieldName_def FieldUID_def FieldShell_def FieldHome_def FieldStatus_def FieldState_def
  FieldVersion_def FieldLabel_def FieldMode_def FieldSymbolic_def FieldUser_def FieldGroup_def
  FieldSize_def

section \<open>Lines and settings (parse.go)\<close>

abbreviation nl :: char where "nl \<equiv> CHR 0x0A"

definition line_of :: "string \<Rightarrow> string option" where
  "line_of l0 = (let l = trim_right_set l0 {CHR 0x0D} in if trim_space l = [] then None else Some l)"

definition parseLines :: "bytes \<Rightarrow> string list" where
  "parseLines raw = List.map_filter line_of (split_on nl raw)"

definition isMarkerLine :: "string \<Rightarrow> bool" where
  "isMarkerLine l =
     (let t = trim_space l in has_prefix t ''[TRUNCATED:'' \<or> has_prefix t ''[REDACTED:'')"

definition hasMarker :: "string \<Rightarrow> bool" where
  "hasMarker s = (str_contains s ''[REDACTED:'' \<or> str_contains s ''[TRUNCATED:'')"

definition cls_key :: "(nat \<times> nat) list" where
  "cls_key = [(0, 8), (11, 11), (14, 31), (33, 57), (59, 60), (62, 255)]"

definition kvAssign :: re where
  "kvAssign = seqs [TextStart, Grp 1 (plus (Cls cls_key)), byte 61, Grp 2 (Star True re_not_newline), TextEnd]"

definition kvColon :: re where
  "kvColon =
     seqs [TextStart, Grp 1 (plus (Cls [(0, 57), (59, 60), (62, 255)])), byte 58,
       plus (Cls [(32, 32), (9, 9)]), Grp 2 (Seq re_nonspace (Star True re_not_newline)), TextEnd]"

definition kv_split :: "string \<Rightarrow> (string \<times> string) option" where
  "kv_split l =
     (case find_submatch kvAssign l of
        Some m \<Rightarrow> Some (submatch_text l m 1, submatch_text l m 2)
      | None \<Rightarrow>
          (case find_submatch kvColon l of
             Some m \<Rightarrow> Some (submatch_text l m 1, submatch_text l m 2)
           | None \<Rightarrow>
               (case index_set l {CHR '' '', CHR 0x09} of
                  None \<Rightarrow> None
                | Some sep \<Rightarrow>
                    if sep = 0 then None
                    else Some (take sep l,
                      trim_left_set (trim_space (drop (sep + 1) l)) {CHR ''='', CHR '':''}))))"

definition unquote :: "string \<Rightarrow> string" where
  "unquote v =
     (if 2 \<le> length v \<and> (hd v = CHR 0x22 \<and> last v = CHR 0x22 \<or> hd v = CHR 0x27 \<and> last v = CHR 0x27)
      then butlast (tl v) else v)"

definition kv_line :: "string \<Rightarrow> (string \<times> string) option" where
  "kv_line l0 =
     (let l = trim_space l0 in
      if has_prefix l ''#'' \<or> isMarkerLine l then None
      else map_option (\<lambda>(k, v). (to_lower (trim_space k), unquote (trim_space v))) (kv_split l))"

primrec kv_insert :: "row \<Rightarrow> string list \<Rightarrow> row" where
  "kv_insert out [] = out"
| "kv_insert out (l # ls) =
     (case kv_line l of
        None \<Rightarrow> kv_insert out ls
      | Some (k, v) \<Rightarrow> kv_insert (if map_of out k = None then out @ [(k, v)] else out) ls)"

definition parseKV :: "bytes \<Rightarrow> row" where
  "parseKV raw = kv_insert [] (parseLines raw)"

section \<open>Typed shapes (typed.go)\<close>

datatype line_class = Skip | Bad | Rec row

primrec collect :: "(string \<Rightarrow> line_class) \<Rightarrow> string list \<Rightarrow> row list \<times> nat" where
  "collect f [] = ([], 0)"
| "collect f (l # ls) =
     (let (out, bad) = collect f ls in
      case f l of Skip \<Rightarrow> (out, bad) | Bad \<Rightarrow> (out, Suc bad) | Rec r \<Rightarrow> (r # out, bad))"

definition splitHostPort :: "string \<Rightarrow> string \<times> string" where
  "splitHostPort s =
     (case last_index s '':'' of
        None \<Rightarrow> (s, [])
      | Some i \<Rightarrow> (trim_suffix (trim_prefix (take i s) ''['') '']'', drop (i + 1) s))"

definition ssProcess :: re where
  "ssProcess =
     seqs [lit ''('', byte 34, Grp 1 (plus (Cls [(0, 33), (35, 255)])), byte 34, lit '',pid='',
       Grp 2 (plus re_digit)]"

definition ss_line :: "string \<Rightarrow> line_class" where
  "ss_line l =
     (let f = str_fields l in
      if length f < 5 then Bad
      else
        (let (addr, port) = splitHostPort (f ! 4);
             base = [(FieldProtocol, f ! 0), (FieldState, f ! 1), (FieldAddress, addr), (FieldPort, port)];
             users = join_with '' '' (drop 6 f)
         in Rec (base @
              (if 6 < length f then
                 (case find_submatch ssProcess users of
                    None \<Rightarrow> []
                  | Some m \<Rightarrow> [(FieldProcess, submatch_text users m 1), (FieldPID, submatch_text users m 2)])
               else []))))"

definition lsof_line :: "string \<Rightarrow> line_class" where
  "lsof_line l =
     (let f = str_fields l in
      if f \<noteq> [] \<and> hd f = ''COMMAND'' then Skip
      else if \<not> str_contains l ''(LISTEN)'' then Skip
      else if length f < 9 then Bad
      else
        (let (addr, port) = splitHostPort (f ! 8) in
         Rec [(FieldProtocol, to_lower (f ! 7)), (FieldState, ''LISTEN''), (FieldAddress, addr),
              (FieldPort, port), (FieldPID, f ! 1), (FieldProcess, f ! 0)]))"

definition listeners_line :: "string \<Rightarrow> string \<Rightarrow> line_class" where
  "listeners_line bin = (if bin = ''lsof'' then lsof_line else ss_line)"

definition accounts_line :: "string \<Rightarrow> line_class" where
  "accounts_line l =
     (if has_prefix l ''#'' then Skip
      else if str_contains l ''[REDACTED'' \<or> str_contains l ''[TRUNCATED'' then Bad
      else
        (let f = split_on (CHR '':'') l in
         if length f = 7
         then Rec [(FieldName, f ! 0), (FieldUID, f ! 2), (FieldHome, f ! 5), (FieldShell, f ! 6)]
         else
           (let g = str_fields l in
            if length g \<noteq> 2 then Bad else Rec [(FieldName, g ! 0), (FieldUID, g ! 1)])))"

definition passwd_status_line :: "string \<Rightarrow> line_class" where
  "passwd_status_line l =
     (let f = str_fields l in
      if length f < 2 then Bad else Rec [(FieldName, f ! 0), (FieldStatus, f ! 1)])"

definition unitsListed :: re where
  "unitsListed = seqs [TextStart, plus re_digit, lit '' unit file'', opt (lit ''s''), lit '' listed'']"

definition units_line :: "string \<Rightarrow> line_class" where
  "units_line l =
     (if match_string unitsListed l then Skip
      else
        (let f = str_fields l in
         if 2 \<le> length f \<and> f ! 0 = ''UNIT'' \<and> f ! 1 = ''FILE'' then Skip
         else if length f < 2 then Bad
         else Rec [(FieldName, f ! 0), (FieldState, f ! 1)]))"

definition suLabel :: re where
  "suLabel =
     seqs [TextStart, lit ''*'', Star True re_space, lit ''Label:'', Star True re_space,
       Grp 1 (plus re_not_newline), TextEnd]"

definition suVersion :: re where
  "suVersion = seqs [lit ''Version:'', Star True re_space, Grp 1 (plus (Cls [(0, 43), (45, 255)]))]"

definition aptLine :: re where
  "aptLine =
     seqs [TextStart, Grp 1 (plus re_nonspace), lit ''/'', Grp 2 (plus re_nonspace), plus re_space,
       Grp 3 (plus re_nonspace), re_space]"

primrec softwareupdate_rows :: "string list \<Rightarrow> row list" where
  "softwareupdate_rows [] = []"
| "softwareupdate_rows (l # ls) =
     (let t = trim_space l in
      case find_submatch suLabel t of
        None \<Rightarrow> softwareupdate_rows ls
      | Some m \<Rightarrow>
          ((FieldName, trim_space (submatch_text t m 1)) #
           (case ls of
              [] \<Rightarrow> []
            | nxt # _ \<Rightarrow>
                (case find_submatch suVersion nxt of
                   None \<Rightarrow> []
                 | Some v \<Rightarrow> [(FieldVersion, trim_space (submatch_text nxt v 1))])))
          # softwareupdate_rows ls)"

definition apt_line :: "string \<Rightarrow> line_class" where
  "apt_line l =
     (if has_prefix l ''Listing'' \<or> has_prefix l ''WARNING'' \<or> has_prefix l ''N: '' then Skip
      else
        (case find_submatch aptLine l of
           None \<Rightarrow> Bad
         | Some m \<Rightarrow> Rec [(FieldName, submatch_text l m 1), (FieldVersion, submatch_text l m 3)]))"

definition zypper_line :: "string \<Rightarrow> line_class" where
  "zypper_line l =
     (let f = split_on (CHR ''|'') l in
      if length f < 4 \<or> has_prefix (trim_space l) ''-'' then Skip
      else
        (let name = trim_space (f ! 1) in
         if name = [] \<or> equal_fold name ''Name'' then Skip
         else Rec [(FieldName, name), (FieldVersion, trim_space (f ! 2))]))"

definition dnf_line :: "string \<Rightarrow> line_class" where
  "dnf_line l =
     (if has_prefix l ''Last metadata'' \<or> has_prefix l ''Obsoleting'' then Skip
      else
        (let f = str_fields l in
         if length f < 3 then Bad else Rec [(FieldName, f ! 0), (FieldVersion, f ! 1)]))"

definition parseUpdates :: "string \<Rightarrow> string list \<Rightarrow> row list \<times> nat" where
  "parseUpdates bin ls =
     (if bin = ''softwareupdate'' then (softwareupdate_rows ls, 0)
      else if bin = ''apt'' then collect apt_line ls
      else if bin = ''zypper'' then collect zypper_line ls
      else collect dnf_line ls)"

definition launchd_line :: "string \<Rightarrow> line_class" where
  "launchd_line l =
     (let f = str_fields l in
      if 3 \<le> length f \<and> f ! 0 = ''PID'' \<and> f ! 2 = ''Label'' then Skip
      else if length f < 3 then Bad
      else Rec [(FieldPID, f ! 0), (FieldStatus, f ! 1), (FieldLabel, f ! 2)])"

definition parseFileMode :: "string list \<Rightarrow> parse_error + row list" where
  "parseFileMode ls =
     (case ls of
        [] \<Rightarrow> Inl FileModeNoOutput
      | l # _ \<Rightarrow>
          (let f = split_on (CHR '':'') (trim_space l) in
           if length f < 5 then Inl (FileModeShort l)
           else Inr [[(FieldSymbolic, f ! 0), (FieldMode, f ! 1), (FieldUser, f ! 2), (FieldGroup, f ! 3),
                      (FieldSize, f ! 4)] @ (if 7 \<le> length f then [(FieldName, f ! 6)] else [])]))"

definition truncated_note :: string where "truncated_note = ''output was truncated or redacted''"

definition shape_rows :: "check \<Rightarrow> string list \<Rightarrow> parse_error + row list \<times> nat" where
  "shape_rows c body =
     (case check_parser c of
        ParseListeners \<Rightarrow> Inr (collect (listeners_line (baseName (hd (check_argv c)))) body)
      | ParseAccounts \<Rightarrow> Inr (collect accounts_line body)
      | ParsePasswdStatus \<Rightarrow> Inr (collect passwd_status_line body)
      | ParseUnits \<Rightarrow> Inr (collect units_line body)
      | ParseUpdates \<Rightarrow> Inr (parseUpdates (baseName (hd (check_argv c))) body)
      | ParseLaunchd \<Rightarrow> Inr (collect launchd_line body)
      | ParseFileMode \<Rightarrow> map_sum id (\<lambda>rows. (rows, 0)) (parseFileMode body)
      | k \<Rightarrow> Inl (UnknownParser k))"

definition parseRecords :: "check \<Rightarrow> bytes \<Rightarrow> parse_error + records" where
  "parseRecords c raw =
     (let ls = parseLines raw;
          body = filter (\<lambda>l. \<not> isMarkerLine l) ls;
          markers = length (filter isMarkerLine ls)
      in case shape_rows c body of
           Inl e \<Rightarrow> Inl e
         | Inr (items, unparsed) \<Rightarrow>
             Inr \<lparr>rs_kind = check_parser c, rs_items = items, rs_partial = (0 < markers \<or> 0 < unparsed),
                  rs_note =
                    (if 0 < unparsed
                     then show_nat unparsed @ '' line(s) not recognised'' @
                       (if 0 < markers then ''; '' @ truncated_note else [])
                     else if 0 < markers then truncated_note else [])\<rparr>)"

definition Parse :: "(bytes \<Rightarrow> json option) \<Rightarrow> check \<Rightarrow> bytes \<Rightarrow> parse_error + parsed" where
  "Parse unmarshal c raw0 =
     (let raw = trim_prefix raw0 [CHR 0xEF, CHR 0xBB, CHR 0xBF] in
      if isTyped (check_parser c) then map_sum id PRecords (parseRecords c raw)
      else
        (case check_parser c of
           ParseRaw \<Rightarrow> Inr (PRaw raw)
         | ParseLines \<Rightarrow> Inr (PLines (parseLines raw))
         | ParseKV \<Rightarrow> Inr (PKV (parseKV raw))
         | ParseJSON \<Rightarrow>
             if trim_space raw = [] then Inl JsonEmpty
             else (case unmarshal raw of None \<Rightarrow> Inl JsonInvalid | Some v \<Rightarrow> Inr (PJson v))
         | k \<Rightarrow> Inl (UnknownParser k)))"

section \<open>Summaries (summary.go)\<close>

definition singularize :: "string \<Rightarrow> string" where
  "singularize plural =
     (if has_suffix plural ''ies'' then trim_suffix plural ''ies'' @ ''y''
      else if has_suffix plural ''sses'' \<or> has_suffix plural ''shes'' \<or> has_suffix plural ''ches''
      then trim_suffix plural ''es''
      else if has_suffix plural ''s'' \<and> \<not> has_suffix plural ''ss'' then trim_suffix plural ''s''
      else plural)"

definition countOf :: "nat \<Rightarrow> string \<Rightarrow> string" where
  "countOf n plural = (if n = 1 then ''1 '' @ singularize plural else show_nat n @ '' '' @ plural)"

definition clipRunes :: "string \<Rightarrow> nat \<Rightarrow> string" where
  "clipRunes s n =
     (if length (runes s) \<le> n then s else concat (take n (runes s)) @ [CHR 0xE2, CHR 0x80, CHR 0xA6])"

definition unitOr :: "check \<Rightarrow> string \<Rightarrow> string" where
  "unitOr c fallback = (if check_unit c \<noteq> [] then check_unit c else fallback)"

definition rawSummary :: "string \<Rightarrow> string" where
  "rawSummary v =
     (case parseLines v of
        [] \<Rightarrow> ''no output''
      | l # ls \<Rightarrow>
          clipRunes (join_with '' '' (str_fields l)) 120 @
          (if ls = [] then [] else '' (+'' @ countOf (length ls) ''more lines'' @ '')''))"

definition inlineLines :: "string list \<Rightarrow> string" where
  "inlineLines v =
     (if v = [] \<or> 3 < length v then []
      else if list_ex isMarkerLine v then []
      else
        (let joined = join_with '', '' (map (\<lambda>l. join_with '' '' (str_fields l)) v) in
         if 48 < length (runes joined) then [] else '': '' @ joined))"

definition countField :: "records \<Rightarrow> string \<Rightarrow> (string \<Rightarrow> bool) \<Rightarrow> nat option" where
  "countField r f want =
     (let vs = filter (\<lambda>v. v \<noteq> []) (map (\<lambda>rec. field rec f) (rs_items r)) in
      if vs = [] then None else Some (length (filter want vs)))"

definition status_labels :: "(string \<times> string) list" where
  "status_labels = [(''NP'', ''with no password''), (''L'', ''locked''), (''P'', ''with a password set'')]"

definition byValue :: "records \<Rightarrow> string \<Rightarrow> (string \<times> string) list \<Rightarrow> string" where
  "byValue r f labels =
     (let vs = map (\<lambda>rec. if field rec f = [] then ''unknown'' else field rec f) (rs_items r);
          count = (\<lambda>k. length (filter ((=) k) vs));
          keys = sort_key (\<lambda>k. (- int (count k), k)) (remdups vs);
          name = (\<lambda>k. case map_of labels k of Some l \<Rightarrow> l | None \<Rightarrow> k)
      in case keys of
           [] \<Rightarrow> []
         | [k] \<Rightarrow> '', all '' @ name k
         | _ \<Rightarrow> '': '' @ join_with '', '' (map (\<lambda>k. show_nat (count k) @ '' '' @ name k) keys))"

definition isLoginShell :: "string \<Rightarrow> bool" where
  "isLoginShell s = (\<not> refusesLogin s)"

definition fileModeSummary :: "records \<Rightarrow> string" where
  "fileModeSummary r =
     (case rs_items r of
        [] \<Rightarrow> ''no mode recorded''
      | rec # _ \<Rightarrow>
          (let o' = trim_right_set (trim_left_set (field rec FieldUser @ '':'' @ field rec FieldGroup)
                      {CHR '':''}) {CHR '':''}
           in ''mode '' @ field rec FieldMode @ (if o' \<noteq> [] then '', owner '' @ o' else [])))"

definition shape_summary :: "check \<Rightarrow> records \<Rightarrow> string" where
  "shape_summary c r =
     (let n = length (rs_items r) in
      case rs_kind r of
        ParseListeners \<Rightarrow> countOf n ''listening sockets''
      | ParseAccounts \<Rightarrow>
          countOf n ''accounts'' @
          (case countField r FieldShell isLoginShell of
             None \<Rightarrow> [] | Some k \<Rightarrow> '', '' @ show_nat k @ '' with a login shell'')
      | ParsePasswdStatus \<Rightarrow> countOf n ''accounts'' @ byValue r FieldStatus status_labels
      | ParseUnits \<Rightarrow> countOf n ''units'' @ byValue r FieldState []
      | ParseUpdates \<Rightarrow> countOf n ''updates'' @ '' available''
      | ParseLaunchd \<Rightarrow>
          countOf n ''launchd jobs'' @
          (case countField r FieldPID (\<lambda>v. v \<noteq> ''-'' \<and> v \<noteq> []) of
             None \<Rightarrow> [] | Some k \<Rightarrow> '', '' @ show_nat k @ '' running'')
      | ParseFileMode \<Rightarrow> fileModeSummary r
      | _ \<Rightarrow> countOf n (unitOr c ''records''))"

definition recordSummary :: "check \<Rightarrow> records \<Rightarrow> string" where
  "recordSummary c r =
     shape_summary c r @
     (if rs_partial r then '' (partial'' @ (if rs_note r \<noteq> [] then '': '' @ rs_note r else []) @ '')'' else [])"

definition Summary :: "check \<Rightarrow> parsed option \<Rightarrow> string" where
  "Summary c p =
     (case p of
        None \<Rightarrow> ''no output''
      | Some (PRecords r) \<Rightarrow> recordSummary c r
      | Some (PRaw s) \<Rightarrow> rawSummary s
      | Some (PLines ls) \<Rightarrow> countOf (length ls) (unitOr c ''lines'') @ inlineLines ls
      | Some (PKV kv) \<Rightarrow> countOf (length kv) (unitOr c ''settings'')
      | Some (PJson (JObj m)) \<Rightarrow> countOf (length m) (unitOr c ''keys'')
      | Some (PJson (JArr xs)) \<Rightarrow> countOf (length xs) (unitOr c ''items'')
      | Some (PJson (JStr s)) \<Rightarrow> rawSummary s
      | Some (PJson JNull) \<Rightarrow> ''no output''
      | Some (PJson _) \<Rightarrow> ''output recorded'')"

section \<open>What parsing promises\<close>

lemma collect_spec:
  "collect f ls =
     (List.map_filter (\<lambda>l. case f l of Rec r \<Rightarrow> Some r | _ \<Rightarrow> None) ls, length (filter (\<lambda>l. f l = Bad) ls))"
  by (induction ls) (auto simp: List.map_filter_simps split: line_class.splits prod.splits)

text \<open>The classification of one line, for the shapes that read line by line.\<close>

definition line_parser :: "check \<Rightarrow> (string \<Rightarrow> line_class) option" where
  "line_parser c =
     (let bin = baseName (hd (check_argv c)) in
      case check_parser c of
        ParseListeners \<Rightarrow> Some (listeners_line bin)
      | ParseAccounts \<Rightarrow> Some accounts_line
      | ParsePasswdStatus \<Rightarrow> Some passwd_status_line
      | ParseUnits \<Rightarrow> Some units_line
      | ParseUpdates \<Rightarrow>
          if bin = ''softwareupdate'' then None
          else if bin = ''apt'' then Some apt_line
          else if bin = ''zypper'' then Some zypper_line else Some dnf_line
      | ParseLaunchd \<Rightarrow> Some launchd_line
      | _ \<Rightarrow> None)"

lemma shape_rows_line_parser: "line_parser c = Some f \<Longrightarrow> shape_rows c body = Inr (collect f body)"
  by (auto simp: line_parser_def shape_rows_def parseUpdates_def Let_def
      split: parser_kind.splits if_splits)

text \<open>
  a typed fact accounts for every line.  For the line-by-line shapes, the records are, in
  order, those of the lines that are not markers and that the shape recognises as records, and the
  set is called complete exactly when the output has no marker line and no unrecognised line.
\<close>

theorem typed_records_account:
  assumes "line_parser c = Some f" and "parseRecords c raw = Inr r"
  shows "rs_items r = List.map_filter (\<lambda>l. case f l of Rec rec \<Rightarrow> Some rec | _ \<Rightarrow> None)
      (filter (\<lambda>l. \<not> isMarkerLine l) (parseLines raw)) \<and>
    (rs_partial r \<longleftrightarrow> (\<exists>l\<in>set (parseLines raw). isMarkerLine l \<or> f l = Bad))"
  using assms
  by (auto simp: parseRecords_def shape_rows_line_parser collect_spec Let_def filter_empty_conv)
    blast

theorem typed_records_account_witness:
  "\<exists>r. parseRecords (zero_check\<lparr>check_parser := ParsePasswdStatus, check_argv := [''passwd'']\<rparr>)
      ''root P 2024'' = Inr r \<and> \<not> rs_partial r"
proof -
  let ?c = "zero_check\<lparr>check_parser := ParsePasswdStatus, check_argv := [''passwd'']\<rparr>"
  have p: "line_parser ?c = Some passwd_status_line" by (simp add: line_parser_def Let_def)
  obtain r where r: "parseRecords ?c ''root P 2024'' = Inr r"
    by (simp add: parseRecords_def shape_rows_line_parser [OF p] Let_def case_prod_beta)
  have "\<not> (\<exists>l\<in>set (parseLines ''root P 2024''). isMarkerLine l \<or> passwd_status_line l = Bad)"
    by code_simp
  then show ?thesis using typed_records_account [OF p r] r by blast
qed

lemma map_of_snoc_new: "map_of out k = None \<Longrightarrow> map_of (out @ [(k, v)]) = (map_of out)(k \<mapsto> v)"
  by (rule ext) (auto simp: map_add_def split: option.splits)

lemma kv_insert_lookup:
  "map_of (kv_insert out ls) k =
     (case map_of out k of Some v \<Rightarrow> Some v | None \<Rightarrow> map_of (List.map_filter kv_line ls) k)"
  by (induction ls arbitrary: out)
    (auto simp: List.map_filter_simps map_of_snoc_new split: option.splits)

lemma kv_insert_distinct: "distinct (map fst out) \<Longrightarrow> distinct (map fst (kv_insert out ls))"
  by (induction ls arbitrary: out)
    (auto simp: map_of_eq_None_iff split: option.splits)

text \<open>
  Settings keep their first value.  The parsed settings have distinct keys, and the value of a
  key is the one of the first line that sets it, comment and marker lines left out.
\<close>

theorem parseKV_first_value:
  "distinct (map fst (parseKV raw)) \<and>
   map_of (parseKV raw) k = map_of (List.map_filter kv_line (parseLines raw)) k"
  by (simp add: parseKV_def kv_insert_lookup kv_insert_distinct)

end
