(* ===== verification/Runner.thy ===== *)
theory Runner
  imports Check_Parse Redact
begin

text \<open>
  \<open>internal/runner\<close> and the audit log of \<open>internal/policy/audit.go\<close>: the one code path through
  which a check reaches a target.  The runner's collaborators are fields of \<open>runner\<close>: the target's
  \<open>Exec\<close> is a function of the commands sent so far, the command and its time limit, so that a
  target may answer differently each time; the compiler of \<open>Extract\<close> patterns, the JSON decoder
  and the output hash are functions.  The state holds the observations, the audit log and, as a
  record of what reached the target, the list of commands executed.  Verbose log messages are not
  modelled, and the clock reading of an audit entry is left out of it.
\<close>

section \<open>Text of errors and durations\<close>

text \<open>\<open>%q\<close> on a string of printable ASCII and the usual control characters.\<close>

definition quote_char :: "char \<Rightarrow> string" where
  "quote_char c =
     (if c = CHR 0x22 \<or> c = CHR 0x5C then [CHR 0x5C, c]
      else if c = CHR 0x0A then CHR 0x5C # ''n''
      else if c = CHR 0x0D then CHR 0x5C # ''r''
      else if c = CHR 0x09 then CHR 0x5C # ''t''
      else [c])"

definition go_quote :: "string \<Rightarrow> string" where
  "go_quote s = [CHR 0x22] @ concat (map quote_char s) @ [CHR 0x22]"

definition path_pattern :: string where "path_pattern = ''^[A-Za-z0-9._/-]+$''"
definition ident_pattern :: string where "ident_pattern = ''^[A-Za-z0-9._-]+$''"

fun param_error_text :: "param_error \<Rightarrow> string" where
  "param_error_text (PathChars n) = ''param '' @ go_quote n @ '': path must match '' @ path_pattern"
| "param_error_text (PathNotAbsolute n) = ''param '' @ go_quote n @ '': path must be absolute''"
| "param_error_text (PathTraversal n) = ''param '' @ go_quote n @ '': traversal (..) is not allowed''"
| "param_error_text (IdentChars n) = ''param '' @ go_quote n @ '': ident must match '' @ ident_pattern"
| "param_error_text (NotInteger n) = ''param '' @ go_quote n @ '': not an integer''"
| "param_error_text (OutsideRange n v lo hi) =
     ''param '' @ go_quote n @ '': '' @ show_int v @ '' outside ['' @ show_int lo @ '', '' @ show_int hi @ '']''"
| "param_error_text (NotInEnum n vs) = ''param '' @ go_quote n @ '': must be one of '' @ join_with ''|'' vs"
| "param_error_text (UnknownKind n k) =
     ''param '' @ go_quote n @ '': unknown kind '' @ go_quote (kind_string k)"

fun bind_error_text :: "bind_error \<Rightarrow> string" where
  "bind_error_text (UnknownParam cid n spec) =
     ''check '' @ cid @ '': unknown param '' @ go_quote n @ ''; expects '' @ spec"
| "bind_error_text (MissingParam cid n k) =
     ''check '' @ cid @ '': missing param '' @ go_quote n @ '' ('' @ kind_string k @ '')''"
| "bind_error_text (InvalidParam cid e) = ''check '' @ cid @ '': '' @ param_error_text e"

primrec parser_string :: "parser_kind \<Rightarrow> string" where
  "parser_string ParseRaw = ''raw''"
| "parser_string ParseLines = ''lines''"
| "parser_string ParseKV = ''kv''"
| "parser_string ParseJSON = ''json''"
| "parser_string ParseListeners = ''listeners''"
| "parser_string ParseAccounts = ''accounts''"
| "parser_string ParsePasswdStatus = ''passwd_status''"
| "parser_string ParseUnits = ''units''"
| "parser_string ParseUpdates = ''updates''"
| "parser_string ParseLaunchd = ''launchd''"
| "parser_string ParseFileMode = ''file_mode''"
| "parser_string (ParseOther s) = s"

text \<open>The decoder's own message follows \<open>json: \<close> in the source; it is not modelled.\<close>

fun parse_error_text :: "parse_error \<Rightarrow> string" where
  "parse_error_text JsonEmpty = ''json: empty output''"
| "parse_error_text JsonInvalid = ''json: ''"
| "parse_error_text (UnknownParser k) = ''unknown parser '' @ go_quote (parser_string k)"
| "parse_error_text FileModeNoOutput = ''file_mode: no output''"
| "parse_error_text (FileModeShort l) =
     ''file_mode: want symbolic:octal:user:group:size, got '' @ go_quote l"

text \<open>\<open>time.Duration\<close> in nanoseconds, as \<open>%s\<close> prints it.\<close>

definition frac_digits :: "nat \<Rightarrow> nat \<Rightarrow> string" where
  "frac_digits u p =
     (let s = show_nat (u mod 10 ^ p);
          ds = trim_right_set (replicate (p - length s) (CHR ''0'') @ s) {CHR ''0''}
      in if ds = [] then [] else CHR ''.'' # ds)"

definition show_duration :: "int \<Rightarrow> string" where
  "show_duration d =
     (let u = nat \<bar>d\<bar>; s = u div 10 ^ 9; m = s div 60; h = m div 60;
          body =
            (if u = 0 then ''0s''
             else if u < 10 ^ 3 then show_nat u @ ''ns''
             else if u < 10 ^ 6 then show_nat (u div 10 ^ 3) @ frac_digits u 3 @ [CHR 0xC2, CHR 0xB5] @ ''s''
             else if u < 10 ^ 9 then show_nat (u div 10 ^ 6) @ frac_digits u 6 @ ''ms''
             else
               (if 0 < h then show_nat h @ ''h'' else []) @
               (if 0 < m then show_nat (m mod 60) @ ''m'' else []) @
               show_nat (s mod 60) @ frac_digits u 9 @ ''s'')
      in if d < 0 then CHR ''-'' # body else body)"

section \<open>Data (runner.go)\<close>

datatype elevation = ElevateNone | ElevateSudo | ElevateRoot

definition SudoPrefix :: "string list" where "SudoPrefix = [''sudo'', ''-n'', ''--'']"

datatype status = StatusUnset | StatusOK | StatusUnavailable | StatusDenied

record origin =
  o_tool :: string
  o_rationale :: string
  o_profile :: profile

definition no_origin :: origin where
  "no_origin = \<lparr>o_tool = [], o_rationale = [], o_profile = ProfileBaseline\<rparr>"

record run_result =
  res_observation :: string
  res_occurrence :: nat
  res_checkID :: string
  res_ranAs :: string
  res_params :: row
  res_argv :: "string list"
  res_status :: status
  res_reasonCode :: string
  res_attempted :: bool
  res_reason :: string
  res_raw :: string
  res_stderr :: string
  res_parsed :: "parsed option"
  res_truncated :: bool
  res_redactions :: nat
  res_exitCode :: int
  res_duration :: int
  res_elevated :: bool
  res_pathRule :: string
  res_transportLost :: bool
  res_origin :: origin

definition zero_result :: run_result where
  "zero_result =
     \<lparr>res_observation = [], res_occurrence = 0, res_checkID = [], res_ranAs = [], res_params = [],
      res_argv = [], res_status = StatusUnset, res_reasonCode = [], res_attempted = False, res_reason = [],
      res_raw = [], res_stderr = [], res_parsed = None, res_truncated = False, res_redactions = 0,
      res_exitCode = 0, res_duration = 0, res_elevated = False, res_pathRule = [],
      res_transportLost = False, res_origin = no_origin\<rparr>"

text \<open>What one \<open>Exec\<close> reports: the capture, the error, and the state of the run's context after it.\<close>

record exec_result =
  ex_stdout :: bytes
  ex_stderr :: bytes
  ex_code :: int
  ex_duration :: int
  ex_stdoutTruncated :: bool
  ex_stderrTruncated :: bool

datatype exec_error = ErrNotFound string | ErrTimeout string | ErrTransport string | ErrOther string

primrec exec_error_text :: "exec_error \<Rightarrow> string" where
  "exec_error_text (ErrNotFound s) = s"
| "exec_error_text (ErrTimeout s) = s"
| "exec_error_text (ErrTransport s) = s"
| "exec_error_text (ErrOther s) = s"

datatype ctx_error = CtxDeadline | CtxCanceled

definition CodeNotFound :: int where "CodeNotFound = 127"

type_synonym command = "string list"

type_synonym exec_fun =
  "command list \<Rightarrow> command \<Rightarrow> int \<Rightarrow> exec_result \<times> exec_error option \<times> ctx_error option"

record runner =
  rn_platform :: platform
  rn_exec :: exec_fun
  rn_paths :: path_policy
  rn_redactor :: redactor
  rn_budgets :: budgets
  rn_elevate :: elevation
  rn_catalog :: catalog
  rn_compile :: "string \<Rightarrow> re option"
  rn_unmarshal :: "bytes \<Rightarrow> json option"
  rn_hash :: "bytes \<Rightarrow> string"

section \<open>The audit log (audit.go)\<close>

record audit_entry =
  au_observation :: string
  au_check :: string
  au_params :: row
  au_argv :: "string list"
  au_decision :: string
  au_exitCode :: "int option"
  au_durationMS :: int
  au_outputHash :: string
  au_elevated :: bool
  au_via :: string
  au_tool :: string
  au_rationale :: string

record audit =
  audit_via :: string
  audit_lines :: "audit_entry list"

definition setVia :: "audit option \<Rightarrow> string \<Rightarrow> audit option" where
  "setVia a hop = map_option (\<lambda>l. l\<lparr>audit_via := hop\<rparr>) a"

definition audit_log :: "audit option \<Rightarrow> audit_entry \<Rightarrow> audit option" where
  "audit_log a e =
     map_option (\<lambda>l.
       l\<lparr>audit_lines := audit_lines l @ [if au_via e = [] then e\<lparr>au_via := audit_via l\<rparr> else e]\<rparr>) a"

section \<open>Observations (observations.go)\<close>

record rn_state =
  st_results :: "run_result list"
  st_byRef :: "(string \<times> nat) list"
  st_counts :: "(string \<times> nat) list"
  st_audit :: "audit option"
  st_execs :: "command list"

definition obs_get :: "rn_state \<Rightarrow> string \<Rightarrow> run_result option" where
  "obs_get st ref = map_option (\<lambda>i. st_results st ! i) (map_of (st_byRef st) ref)"

definition obs_all :: "rn_state \<Rightarrow> run_result list" where
  "obs_all st = st_results st"

definition redact_string :: "runner \<Rightarrow> string \<Rightarrow> string" where
  "redact_string e s = fst (redact (rn_redactor e) s)"

definition row_put :: "row \<Rightarrow> string \<Rightarrow> string \<Rightarrow> row" where
  "row_put m k v = filter (\<lambda>(k', _). k' \<noteq> k) m @ [(k, v)]"

definition redact_params :: "runner \<Rightarrow> row \<Rightarrow> row" where
  "redact_params e ps =
     foldl (\<lambda>m (k, v).
       let key = redact_string e k; value = redact_string e (k @ ''='' @ v)
       in row_put m key (trim_prefix value (key @ ''=''))) [] ps"

definition redact_result :: "runner \<Rightarrow> run_result \<Rightarrow> run_result" where
  "redact_result e res =
     res\<lparr>res_checkID := redact_string e (res_checkID res), res_ranAs := redact_string e (res_ranAs res),
         res_reason :=
           (if res_reasonCode res \<in> {''invalid_params'', ''path_denied'', ''exec_error''}
            then redact_string e (res_reason res) else res_reason res),
         res_params := redact_params e (res_params res),
         res_argv := map (redact_string e) (res_argv res),
         res_origin := (res_origin res)\<lparr>o_rationale := redact_string e (o_rationale (res_origin res))\<rparr>\<rparr>"

definition obs_prefix :: "runner \<Rightarrow> run_result \<Rightarrow> string" where
  "obs_prefix e res =
     (if lookup (rn_catalog e) (res_checkID res) (rn_platform e) = None then ''unknown'' else res_checkID res)"

definition retain :: "runner \<Rightarrow> rn_state \<Rightarrow> run_result \<Rightarrow> run_result \<times> rn_state" where
  "retain e st res0 =
     (let res1 = redact_result e res0;
          prefix = obs_prefix e res1;
          n = (case map_of (st_counts st) prefix of None \<Rightarrow> 1 | Some k \<Rightarrow> Suc k);
          res = res1\<lparr>res_observation := prefix @ ''#'' @ show_nat n, res_occurrence := length (st_results st) + 1\<rparr>
      in (res,
          st\<lparr>st_counts := (prefix, n) # st_counts st,
             st_byRef := (res_observation res, length (st_results st)) # st_byRef st,
             st_results := st_results st @ [res]\<rparr>))"

section \<open>Running a check\<close>

definition audit_of :: "runner \<Rightarrow> run_result \<Rightarrow> string \<Rightarrow> int option \<Rightarrow> audit_entry" where
  "audit_of e res decision code =
     \<lparr>au_observation = res_observation res,
      au_check = (if res_ranAs res = [] then res_checkID res else res_ranAs res),
      au_params = res_params res, au_argv = res_argv res, au_decision = decision, au_exitCode = code,
      au_durationMS = sgn (res_duration res) * (\<bar>res_duration res\<bar> div 1000000),
      au_outputHash = (if res_raw res \<noteq> [] then rn_hash e (res_raw res) else []),
      au_elevated = res_elevated res, au_via = [],
      au_tool = o_tool (res_origin res), au_rationale = o_rationale (res_origin res)\<rparr>"

definition record_result ::
  "runner \<Rightarrow> rn_state \<Rightarrow> run_result \<Rightarrow> string \<Rightarrow> int option \<Rightarrow> run_result \<times> rn_state" where
  "record_result e st res0 decision0 code =
     (let reasonDecision = (decision0 = ''unavailable:'' @ res_reason res0);
          (res, st1) = retain e st res0;
          decision = (if reasonDecision then ''unavailable:'' @ res_reason res else decision0)
      in (res, st1\<lparr>st_audit := audit_log (st_audit st1) (audit_of e res decision code)\<rparr>))"

definition exec_command ::
  "runner \<Rightarrow> rn_state \<Rightarrow> command \<Rightarrow> int \<Rightarrow> (exec_result \<times> exec_error option \<times> ctx_error option) \<times> rn_state" where
  "exec_command e st argv limit =
     (rn_exec e (st_execs st) argv limit, st\<lparr>st_execs := st_execs st @ [argv]\<rparr>)"

definition run_finish :: "runner \<Rightarrow> bytes \<Rightarrow> bool \<Rightarrow> int \<Rightarrow> string \<times> bool \<times> nat" where
  "run_finish e b truncated capBytes =
     (let (red, t, hits) = finish (rn_redactor e) b truncated (nat capBytes) in (red, t, length hits))"

definition firstToken :: "command \<Rightarrow> bool \<Rightarrow> string" where
  "firstToken argv sudo =
     (if sudo \<and> length SudoPrefix < length argv then argv ! length SudoPrefix
      else if argv \<noteq> [] then hd argv else [])"

definition firstLine :: "string \<Rightarrow> string" where
  "firstLine s = trim_space (case index_byte s (CHR 0x0A) of Some i \<Rightarrow> take i s | None \<Rightarrow> s)"

definition parsed_or_none :: "runner \<Rightarrow> check \<Rightarrow> string \<Rightarrow> parsed option" where
  "parsed_or_none e c raw = (case Parse (rn_unmarshal e) c raw of Inr p \<Rightarrow> Some p | Inl _ \<Rightarrow> None)"

text \<open>The result of a prerequisite probe, before its status is known.\<close>

definition probe_result ::
  "runner \<Rightarrow> check \<Rightarrow> row \<Rightarrow> command \<Rightarrow> exec_result \<Rightarrow> run_result" where
  "probe_result e c ps argv x =
     (let (raw, trunc, reds) = run_finish e (ex_stdout x) (ex_stdoutTruncated x) 4096;
          (err, _, _) = run_finish e (ex_stderr x) (ex_stderrTruncated x) 2048
      in zero_result\<lparr>res_checkID := check_id c, res_ranAs := check_id c, res_params := ps, res_argv := argv,
           res_exitCode := ex_code x, res_duration := ex_duration x, res_attempted := True,
           res_status := StatusOK, res_raw := raw, res_truncated := trunc, res_redactions := reds,
           res_stderr := err\<rparr>)"

text \<open>\<open>installed\<close>: whether the binary is there, and the transport error if the session is gone.\<close>

definition installed :: "runner \<Rightarrow> rn_state \<Rightarrow> string \<Rightarrow> bool \<times> exec_error option \<times> rn_state" where
  "installed e st bin =
     (if has_prefix bin ''/'' then (True, None, st)
      else
        (case lookup (rn_catalog e) ''sys.which'' (rn_platform e) of
           None \<Rightarrow> (True, None, st)
         | Some c \<Rightarrow>
             (case bind c [(''name'', bin)] of
                Inl _ \<Rightarrow> (True, None, st)
              | Inr argv \<Rightarrow>
                  (let ((x, err, _), st1) = exec_command e st argv (PerCheckHard (rn_budgets e));
                       sub = probe_result e c [(''name'', bin)] argv x;
                       st2 =
                         (if err \<noteq> None \<or> \<not> exitAllowed c (ex_code x)
                          then snd (record_result e st1
                                 (sub\<lparr>res_status := StatusUnavailable, res_reasonCode := ''exec_error'',
                                      res_reason := ''availability probe failed''\<rparr>)
                                 ''unavailable:which'' (Some (ex_code x)))
                          else snd (record_result e st1 (sub\<lparr>res_parsed := parsed_or_none e c (res_raw sub)\<rparr>)
                                 ''run'' (Some (ex_code x))))
                   in case err of
                        Some (ErrTransport s) \<Rightarrow> (False, Some (ErrTransport s), st2)
                      | Some (ErrNotFound s) \<Rightarrow> (True, None, st2)
                      | _ \<Rightarrow> if ex_code x = CodeNotFound then (True, None, st2)
                             else (err = None \<and> ex_code x = 0, None, st2)))))"

definition resolve :: "runner \<Rightarrow> rn_state \<Rightarrow> string \<Rightarrow> string \<times> rn_state" where
  "resolve e st p =
     (case lookup (rn_catalog e) ''fs.realpath'' (rn_platform e) of
        None \<Rightarrow> (p, st)
      | Some c \<Rightarrow>
          (case bind c [(''path'', p)] of
             Inl _ \<Rightarrow> (p, st)
           | Inr argv \<Rightarrow>
               (let ((x, err, _), st1) = exec_command e st argv (PerCheckHard (rn_budgets e));
                    sub = probe_result e c [(''path'', p)] argv x
                in if err \<noteq> None \<or> ex_code x \<noteq> 0
                   then (p, snd (record_result e st1
                           (sub\<lparr>res_status := StatusUnavailable, res_reasonCode := ''exec_error'',
                                res_reason := ''path resolution failed''\<rparr>)
                           ''unavailable:realpath'' (Some (ex_code x))))
                   else
                     (let st2 = snd (record_result e st1 (sub\<lparr>res_parsed := parsed_or_none e c (res_raw sub)\<rparr>)
                                  ''run'' (Some (ex_code x)));
                          resolved = trim_space (res_raw sub)
                      in (if has_prefix resolved ''/'' then resolved else p, st2)))))"

text \<open>
  The stages of \<open>runCheck\<close>.  A stage either returns a recorded result or hands the check, its
  argument vector and the result so far to the next one.
\<close>

type_synonym stage = "(run_result \<times> rn_state) + (check \<times> command \<times> run_result \<times> rn_state)"

definition path_verdict_of :: "runner \<Rightarrow> string \<Rightarrow> path_verdict" where
  "path_verdict_of e resolved = decide (rn_paths e) (canonical resolved (rn_platform e = platform_macos))"

definition substitute_stat ::
  "runner \<Rightarrow> command \<Rightarrow> run_result \<Rightarrow> rn_state \<Rightarrow> string \<Rightarrow> string \<Rightarrow> stage" where
  "substitute_stat e argv res st resolved rule =
     (case lookup (rn_catalog e) ''fs.stat'' (rn_platform e) of
        None \<Rightarrow>
          Inl (record_result e st
            (res\<lparr>res_status := StatusUnavailable,
                 res_reason := ''metadata-only path and no fs.stat check for platform'',
                 res_reasonCode := ''metadata_unavailable''\<rparr>) ''unavailable:no_stat_check'' None)
      | Some stat \<Rightarrow>
          (let res1 = res\<lparr>res_ranAs := check_id stat, res_reason := ''metadata-only: '' @ rule\<rparr> in
           case bind stat [(''path'', resolved)] of
             Inl err \<Rightarrow>
               Inl (record_result e st
                 (res1\<lparr>res_status := StatusDenied, res_reason := bind_error_text err,
                       res_reasonCode := ''invalid_params''\<rparr>) ''denied:param'' None)
           | Inr argv' \<Rightarrow> Inr (stat, argv', res1, st)))"

primrec path_stage ::
  "runner \<Rightarrow> row \<Rightarrow> check \<Rightarrow> command \<Rightarrow> run_result \<Rightarrow> rn_state \<Rightarrow> param list \<Rightarrow> stage" where
  "path_stage e params c argv res st [] = Inr (c, argv, res, st)"
| "path_stage e params c argv res st (p # ps) =
     (if param_kind p \<noteq> KindPath then path_stage e params c argv res st ps
      else
        (let given = field params (param_name p);
             (resolved, st1) = resolve e st given;
             v = path_verdict_of e resolved;
             res1 = res\<lparr>res_pathRule := verdict_rule v\<rparr>
         in case verdict_decision v of
              PathDeny \<Rightarrow>
                Inl (record_result e st1
                  (res1\<lparr>res_status := StatusDenied, res_reason := verdict_rule v @ '': '' @ given,
                        res_reasonCode := ''path_denied''\<rparr>) (''denied:'' @ verdict_rule v) None)
            | PathMetadataOnly \<Rightarrow>
                if check_pathUse c = PathContent then
                  (case substitute_stat e argv res1 st1 resolved (verdict_rule v) of
                     Inl r \<Rightarrow> Inl r
                   | Inr (c', argv', res', st') \<Rightarrow> path_stage e params c' argv' res' st' ps)
                else path_stage e params c argv res1 st1 ps
            | PathAllow \<Rightarrow> path_stage e params c argv res1 st1 ps))"

definition elevate_stage :: "runner \<Rightarrow> check \<Rightarrow> command \<Rightarrow> run_result \<Rightarrow> rn_state \<Rightarrow> stage" where
  "elevate_stage e c argv res st =
     (if \<not> check_elevated c then Inr (c, argv, res, st)
      else
        (case rn_elevate e of
           ElevateSudo \<Rightarrow>
             (let (ok, lost, st1) = installed e st (hd argv) in
              if \<not> ok then
                (let res1 = res\<lparr>res_argv := argv, res_status := StatusUnavailable,
                       res_reason := ''not found: '' @ hd argv, res_reasonCode := ''command_missing''\<rparr>;
                     res2 = (case lost of
                        None \<Rightarrow> res1
                      | Some err \<Rightarrow> res1\<lparr>res_reason := ''exec error: '' @ exec_error_text err,
                          res_reasonCode := ''exec_error'', res_transportLost := True\<rparr>)
                 in Inl (record_result e st1 res2 (''unavailable:'' @ res_reason res2) None))
              else Inr (c, SudoPrefix @ argv, res\<lparr>res_elevated := True\<rparr>, st1))
         | ElevateRoot \<Rightarrow> Inr (c, argv, res\<lparr>res_elevated := True\<rparr>, st)
         | ElevateNone \<Rightarrow>
             Inl (record_result e st
               (res\<lparr>res_argv := argv, res_status := StatusUnavailable, res_reason := ''requires elevated read'',
                    res_reasonCode := ''requires_elevation''\<rparr>) ''unavailable:requires_elevation'' None)))"

text \<open>A check's own limit counts only where it tightens the policy's.\<close>

definition clamp :: "int \<Rightarrow> int \<Rightarrow> int" where
  "clamp override limit = (if 0 < override \<and> override < limit then override else limit)"

definition exec_failure ::
  "runner \<Rightarrow> command \<Rightarrow> int \<Rightarrow> exec_error \<Rightarrow> ctx_error option \<Rightarrow> run_result \<Rightarrow> run_result" where
  "exec_failure e argv hard err ctx res =
     (case err of
        ErrNotFound _ \<Rightarrow>
          res\<lparr>res_status := StatusUnavailable, res_reasonCode := ''command_missing'',
              res_reason := ''not found: '' @ firstToken argv (res_elevated res \<and> rn_elevate e = ElevateSudo)\<rparr>
      | ErrTimeout _ \<Rightarrow>
          (case ctx of
             None \<Rightarrow> res\<lparr>res_status := StatusUnavailable, res_reasonCode := ''check_timeout'',
               res_reason := ''timeout after '' @ show_duration hard\<rparr>
           | Some CtxDeadline \<Rightarrow> res\<lparr>res_status := StatusUnavailable, res_reasonCode := ''run_timeout'',
               res_reason := ''run deadline exceeded''\<rparr>
           | Some CtxCanceled \<Rightarrow> res\<lparr>res_status := StatusUnavailable, res_reasonCode := ''canceled'',
               res_reason := ''run canceled''\<rparr>)
      | _ \<Rightarrow>
          res\<lparr>res_status := StatusUnavailable, res_reasonCode := ''exec_error'',
              res_reason := ''exec error: '' @ exec_error_text err,
              res_transportLost := (case err of ErrTransport _ \<Rightarrow> True | _ \<Rightarrow> False)\<rparr>)"

definition any_exit :: "check \<Rightarrow> bool" where
  "any_exit c = (case check_exitOK c of Some (code # _) \<Rightarrow> code = anyExitMarker | _ \<Rightarrow> False)"

text \<open>What the capture becomes: redacted, cut, and blank where \<open>Extract\<close> would have narrowed it.\<close>

definition captured ::
  "runner \<Rightarrow> check \<Rightarrow> command \<Rightarrow> run_result \<Rightarrow> exec_result \<Rightarrow> exec_error option \<Rightarrow> run_result" where
  "captured e c argv res x err =
     (let outCap = clamp (budget_output (check_budget c)) (PerCheckOutput (rn_budgets e));
          (raw, trunc, n1) = run_finish e (ex_stdout x) (ex_stdoutTruncated x) outCap;
          (stderr, _, n2) = run_finish e (ex_stderr x) (ex_stderrTruncated x) 2048
      in res\<lparr>res_argv := argv, res_attempted := True, res_duration := ex_duration x, res_exitCode := ex_code x,
             res_raw :=
               (if check_extract c \<noteq> [] \<and> (err \<noteq> None \<or> \<not> exitAllowed c (ex_code x)) then [] else raw),
             res_truncated := trunc, res_redactions := n1 + n2, res_stderr := stderr\<rparr>)"

definition sudo_refused :: "runner \<Rightarrow> run_result \<Rightarrow> exec_result \<Rightarrow> bool" where
  "sudo_refused e res x =
     (res_elevated res \<and> rn_elevate e = ElevateSudo \<and> ex_code x = 1 \<and> has_prefix (res_stderr res) ''sudo:'')"

definition exit_failed :: "check \<Rightarrow> run_result \<Rightarrow> exec_result \<Rightarrow> bool" where
  "exit_failed c res x =
     (\<not> exitAllowed c (ex_code x) \<or>
      any_exit c \<and> ex_code x \<noteq> 0 \<and> trim_space (res_raw res) = [] \<and> res_stderr res \<noteq> [])"

text \<open>Interpretation of a command that ran: the \<open>Extract\<close> group, then the parser.\<close>

definition parse_stage :: "runner \<Rightarrow> check \<Rightarrow> run_result \<Rightarrow> run_result \<times> string" where
  "parse_stage e c res =
     (let extracted =
        (if check_extract c = [] then Some (res_raw res)
         else Option.bind (rn_compile e (check_extract c)) (\<lambda>re.
           map_option (\<lambda>m. submatch_text (res_raw res) m 1) (find_submatch re (res_raw res))))
      in case extracted of
           None \<Rightarrow>
             (res\<lparr>res_status := StatusUnavailable, res_reason := ''extract: pattern not found in output'',
                  res_reasonCode := ''extract_error'', res_raw := []\<rparr>, ''unavailable:extract'')
         | Some raw \<Rightarrow>
             (case Parse (rn_unmarshal e) c raw of
                Inl err \<Rightarrow>
                  (res\<lparr>res_raw := raw, res_status := StatusUnavailable,
                       res_reason := ''parse error: '' @ parse_error_text err, res_reasonCode := ''parse_error''\<rparr>,
                   ''unavailable:parse_error'')
              | Inr p \<Rightarrow>
                  (res\<lparr>res_raw := raw, res_parsed := Some p, res_status := StatusOK\<rparr>, ''run'')))"

definition interpret_exec ::
  "runner \<Rightarrow> check \<Rightarrow> command \<Rightarrow> int \<Rightarrow> run_result \<Rightarrow> exec_result \<times> exec_error option \<times> ctx_error option \<Rightarrow>
   run_result \<times> string" where
  "interpret_exec e c argv hard res0 = (\<lambda>(x, err, ctx).
     (let res = captured e c argv res0 x err in
      case err of
        Some er \<Rightarrow>
          (let r = exec_failure e argv hard er ctx res in (r, ''unavailable:'' @ res_reason r))
      | None \<Rightarrow>
          if sudo_refused e res x then
            (res\<lparr>res_status := StatusUnavailable, res_reasonCode := ''sudo_refused'',
                 res_reason := ''sudo: '' @ firstLine (res_stderr res) @
                   '' (no NOPASSWD rule for this command, or '' @ firstToken argv True @ '' is not installed)''\<rparr>,
             ''unavailable:sudo'')
          else if exit_failed c res x then
            (let r = res\<lparr>res_status := StatusUnavailable,
                   res_reasonCode := (if ex_code x = CodeNotFound then ''command_missing'' else ''exit_error''),
                   res_reason := ''exit '' @ show_int (ex_code x) @
                     (if firstLine (res_stderr res) \<noteq> [] then '': '' @ firstLine (res_stderr res) else [])\<rparr>
             in (r, ''unavailable:'' @ res_reason r))
          else parse_stage e c res))"

definition exec_stage :: "runner \<Rightarrow> check \<Rightarrow> command \<Rightarrow> run_result \<Rightarrow> rn_state \<Rightarrow> run_result \<times> rn_state" where
  "exec_stage e c argv res st =
     (let hard = clamp (budget_hard (check_budget c)) (PerCheckHard (rn_budgets e));
          (out, st1) = exec_command e st argv hard;
          (r, decision) = interpret_exec e c argv hard res out
      in record_result e st1 r decision (Some (res_exitCode r)))"

definition runCheck :: "runner \<Rightarrow> rn_state \<Rightarrow> check \<Rightarrow> row \<Rightarrow> origin \<Rightarrow> run_result \<times> rn_state" where
  "runCheck e st c params o' =
     (let res = zero_result\<lparr>res_checkID := check_id c, res_ranAs := check_id c, res_params := params,
            res_origin := o'\<rparr>
      in case bind c params of
           Inl err \<Rightarrow>
             record_result e st
               (res\<lparr>res_status := StatusDenied, res_reason := bind_error_text err,
                    res_reasonCode := ''invalid_params''\<rparr>) ''denied:param'' None
         | Inr argv \<Rightarrow>
             (case path_stage e params c argv (res\<lparr>res_argv := argv\<rparr>) st (check_params c) of
                Inl r \<Rightarrow> r
              | Inr (c1, argv1, res1, st1) \<Rightarrow>
                  (case elevate_stage e c1 argv1 res1 st1 of
                     Inl r \<Rightarrow> r
                   | Inr (c2, argv2, res2, st2) \<Rightarrow> exec_stage e c2 argv2 res2 st2)))"

definition menu_check :: "runner \<Rightarrow> string \<Rightarrow> origin \<Rightarrow> check option" where
  "menu_check e cid o' =
     (case lookup (rn_catalog e) cid (rn_platform e) of
        None \<Rightarrow> None
      | Some c \<Rightarrow>
          if o_tool o' \<noteq> [] \<and> (check_canary c \<or> o_profile o' < check_minProfile c) then None else Some c)"

definition runAs :: "runner \<Rightarrow> rn_state \<Rightarrow> string \<Rightarrow> row \<Rightarrow> origin \<Rightarrow> run_result \<times> rn_state" where
  "runAs e st cid params o' =
     (case menu_check e cid o' of
        None \<Rightarrow>
          record_result e st
            (zero_result\<lparr>res_checkID := cid, res_params := params, res_status := StatusDenied,
               res_reason := ''unknown check id'', res_reasonCode := ''unknown_check'', res_origin := o'\<rparr>)
            ''denied:unknown_check'' None
      | Some c \<Rightarrow> runCheck e st c params o')"

definition run :: "runner \<Rightarrow> rn_state \<Rightarrow> string \<Rightarrow> row \<Rightarrow> run_result \<times> rn_state" where
  "run e st cid params = runAs e st cid params no_origin"

end
