(* ===== verification/Runner_Proofs.thy ===== *)
theory Runner_Proofs
  imports Runner
begin

text \<open>
  What the runner guarantees whatever the target answers: the commands it sends are bindings of
  catalog checks, a denied call runs nothing but the path probe, the content of a path the policy
  does not allow is never read, every command is in the audit log, only redactor output leaves it,
  and the observations it keeps are unique and never change.
\<close>

section \<open>Commands sent\<close>

definition extends :: "(command \<Rightarrow> bool) \<Rightarrow> rn_state \<Rightarrow> rn_state \<Rightarrow> bool" where
  "extends P st st' = (\<exists>cs. st_execs st' = st_execs st @ cs \<and> list_all P cs)"

lemma extends_refl [simp]: "extends P st st"
  by (simp add: extends_def)

lemma extends_trans: "extends P st st1 \<Longrightarrow> extends P st1 st2 \<Longrightarrow> extends P st st2"
  by (force simp: extends_def)

lemma extends_mono: "extends P st st' \<Longrightarrow> (\<And>a. P a \<Longrightarrow> Q a) \<Longrightarrow> extends Q st st'"
  by (auto simp: extends_def list_all_iff)

lemma extends_same: "st_execs st1 = st_execs st' \<Longrightarrow> extends P st st1 = extends P st st'"
  by (simp add: extends_def)

lemma retain_sel [simp]:
  "st_execs (snd (retain e st res)) = st_execs st" "st_audit (snd (retain e st res)) = st_audit st"
  by (simp_all add: retain_def Let_def)

lemma record_execs [simp]: "st_execs (snd (record_result e st res d code)) = st_execs st"
  by (simp add: record_result_def Let_def case_prod_beta)

lemma record_extends [simp]:
  "extends P st (snd (record_result e st1 res d code)) = extends P st st1"
  by (rule extends_same) simp

lemma redact_result_sel [simp]:
  "res_status (redact_result e r) = res_status r" "res_attempted (redact_result e r) = res_attempted r"
  "res_raw (redact_result e r) = res_raw r" "res_stderr (redact_result e r) = res_stderr r"
  "res_reasonCode (redact_result e r) = res_reasonCode r" "res_parsed (redact_result e r) = res_parsed r"
  by (simp_all add: redact_result_def)

lemma record_sel [simp]:
  "res_status (fst (record_result e st r d code)) = res_status r"
  "res_attempted (fst (record_result e st r d code)) = res_attempted r"
  "res_raw (fst (record_result e st r d code)) = res_raw r"
  "res_stderr (fst (record_result e st r d code)) = res_stderr r"
  "res_parsed (fst (record_result e st r d code)) = res_parsed r"
  by (simp_all add: record_result_def retain_def Let_def case_prod_beta)

lemma exec_command_extends: "P argv \<Longrightarrow> extends P st (snd (exec_command e st argv limit))"
  by (simp add: extends_def exec_command_def)

definition binding_of :: "runner \<Rightarrow> string \<Rightarrow> command \<Rightarrow> bool" where
  "binding_of e cid argv =
     (\<exists>c ps. lookup (rn_catalog e) cid (rn_platform e) = Some c \<and> bind c ps = Inr argv)"

lemma binding_ofI: "lookup (rn_catalog e) cid (rn_platform e) = Some c \<Longrightarrow> bind c ps = Inr argv \<Longrightarrow> binding_of e cid argv"
  by (auto simp: binding_of_def)

lemma installed_extends: "extends (binding_of e ''sys.which'') st (snd (snd (installed e st bin)))"
proof -
  have "extends (binding_of e ''sys.which'') st (snd (exec_command e st argv lim))"
    if "lookup (rn_catalog e) ''sys.which'' (rn_platform e) = Some c" "bind c ps = Inr argv" for c ps argv lim
    using that by (intro exec_command_extends binding_ofI)
  then show ?thesis
    by (auto simp: installed_def Let_def case_prod_beta split: option.splits sum.splits exec_error.splits)
qed

lemma resolve_extends: "extends (binding_of e ''fs.realpath'') st (snd (resolve e st p))"
proof -
  have "extends (binding_of e ''fs.realpath'') st (snd (exec_command e st argv lim))"
    if "lookup (rn_catalog e) ''fs.realpath'' (rn_platform e) = Some c" "bind c ps = Inr argv" for c ps argv lim
    using that by (intro exec_command_extends binding_ofI)
  then show ?thesis
    by (auto simp: resolve_def Let_def case_prod_beta split: option.splits sum.splits)
qed

text \<open>What a stage hands on: the check at hand, or the metadata check with a bound vector.\<close>

definition stage_from :: "runner \<Rightarrow> check \<Rightarrow> command \<Rightarrow> check \<Rightarrow> command \<Rightarrow> bool" where
  "stage_from e c argv c' argv' =
     (c' = c \<and> argv' = argv \<or>
      lookup (rn_catalog e) ''fs.stat'' (rn_platform e) = Some c' \<and> (\<exists>ps. bind c' ps = Inr argv'))"

definition stage_state :: "stage \<Rightarrow> rn_state" where
  "stage_state s = (case s of Inl (r, st) \<Rightarrow> st | Inr (c, argv, r, st) \<Rightarrow> st)"

lemma stage_state_simps [simp]:
  "stage_state (Inl rs) = snd rs" "stage_state (Inr (c, argv, r, st)) = st"
  by (auto simp: stage_state_def split: prod.splits)

lemma substitute_state: "extends P st (stage_state (substitute_stat e argv res st1 q rule)) = extends P st st1"
  by (auto simp: substitute_stat_def Let_def split: option.splits sum.splits)

lemma substitute_from:
  "substitute_stat e argv res st q rule = Inr (c', argv', res', st') \<Longrightarrow> stage_from e c argv c' argv' \<and> st' = st"
  by (auto simp: substitute_stat_def stage_from_def Let_def split: option.splits sum.splits)

lemma stage_from_trans: "stage_from e c a c1 a1 \<Longrightarrow> stage_from e c1 a1 c2 a2 \<Longrightarrow> stage_from e c a c2 a2"
  by (auto simp: stage_from_def)

lemma path_stage_extends:
  "extends (binding_of e ''fs.realpath'') st (stage_state (path_stage e params c argv res st ps))"
proof (induction ps arbitrary: c argv res st)
  case Nil
  then show ?case by simp
next
  case (Cons p ps)
  let ?P = "binding_of e ''fs.realpath''" and ?st1 = "snd (resolve e st (field params (param_name p)))"
  have 1: "extends ?P st ?st1" by (rule resolve_extends)
  have 2: "extends ?P st (stage_state (path_stage e params c' argv' res' ?st1 ps))" for c' argv' res'
    using extends_trans [OF 1 Cons.IH] .
  have 3: "extends ?P st (stage_state (case substitute_stat e argv res' ?st1 q rule of
      Inl r \<Rightarrow> Inl r | Inr (c', argv', res', st') \<Rightarrow> path_stage e params c' argv' res' st' ps))" for res' q rule
    using 1 2 substitute_state [of ?P st e argv res' ?st1 q rule] substitute_from [of e argv res' ?st1 q rule]
    by (auto split: sum.splits)
  show ?case
    using 1 2 3 Cons.IH by (auto simp: Let_def case_prod_beta split: path_decision.splits)
qed

lemma path_stage_from:
  "path_stage e params c argv res st ps = Inr (c', argv', res', st') \<Longrightarrow> stage_from e c argv c' argv'"
proof (induction ps arbitrary: c argv res st)
  case Nil
  then show ?case by (simp add: stage_from_def)
next
  case (Cons p ps)
  have sub: "stage_from e c argv c' argv'"
    if "substitute_stat e argv r s q rule = Inr (c1, argv1, r1, s1)"
      "path_stage e params c1 argv1 r1 s1 ps = Inr (c', argv', res', st')" for r s q rule c1 argv1 r1 s1
    using stage_from_trans [OF conjunct1 [OF substitute_from [OF that(1)]] Cons.IH [OF that(2)]] .
  show ?case
    using Cons.prems by (auto simp: Let_def case_prod_beta intro: Cons.IH sub
      split: if_splits path_decision.splits sum.splits)
qed

definition probe_command :: "runner \<Rightarrow> command \<Rightarrow> bool" where
  "probe_command e argv = (binding_of e ''fs.realpath'' argv \<or> binding_of e ''sys.which'' argv)"

text \<open>The command of a run: a binding of its check or of the metadata check, through sudo when elevated.\<close>

definition own_command :: "runner \<Rightarrow> string \<Rightarrow> command \<Rightarrow> bool" where
  "own_command e cid a =
     (\<exists>c ps b. (lookup (rn_catalog e) cid (rn_platform e) = Some c \<or>
                lookup (rn_catalog e) ''fs.stat'' (rn_platform e) = Some c) \<and>
        bind c ps = Inr b \<and>
        a = (if check_elevated c \<and> rn_elevate e = ElevateSudo then SudoPrefix @ b else b))"

lemma elevate_stage_extends:
  "extends (binding_of e ''sys.which'') st (stage_state (elevate_stage e c argv res st))"
  using installed_extends [of e st "hd argv"]
  by (auto simp: elevate_stage_def Let_def case_prod_beta split: elevation.splits)

lemma elevate_stage_argv:
  "elevate_stage e c argv res st = Inr (c', argv', res', st') \<Longrightarrow>
   c' = c \<and> argv' = (if check_elevated c \<and> rn_elevate e = ElevateSudo then SudoPrefix @ argv else argv)"
  by (auto simp: elevate_stage_def Let_def case_prod_beta split: elevation.splits if_splits)

lemma exec_stage_execs: "st_execs (snd (exec_stage e c argv res st)) = st_execs st @ [argv]"
  by (simp add: exec_stage_def exec_command_def Let_def case_prod_beta)

lemma own_commandI:
  assumes "lookup (rn_catalog e) cid (rn_platform e) = Some c" "bind c ps = Inr argv"
    and "stage_from e c argv c1 argv1"
  shows "own_command e cid (if check_elevated c1 \<and> rn_elevate e = ElevateSudo then SudoPrefix @ argv1 else argv1)"
  using assms by (auto simp: own_command_def stage_from_def)

text \<open>A result no command has filled.\<close>

definition blank :: "run_result \<Rightarrow> bool" where
  "blank r = (\<not> res_attempted r \<and> res_raw r = [] \<and> res_stderr r = [])"

lemma blank_updates [simp]:
  "blank (r\<lparr>res_status := s\<rparr>) = blank r" "blank (r\<lparr>res_reason := t\<rparr>) = blank r"
  "blank (r\<lparr>res_reasonCode := t\<rparr>) = blank r" "blank (r\<lparr>res_pathRule := t\<rparr>) = blank r"
  "blank (r\<lparr>res_ranAs := t\<rparr>) = blank r" "blank (r\<lparr>res_argv := a\<rparr>) = blank r"
  "blank (r\<lparr>res_checkID := t\<rparr>) = blank r" "blank (r\<lparr>res_params := ps\<rparr>) = blank r"
  "blank (r\<lparr>res_origin := og\<rparr>) = blank r" "blank (r\<lparr>res_transportLost := b\<rparr>) = blank r"
  "blank zero_result"
  by (simp_all add: blank_def zero_result_def)

lemma blank_record [simp]: "blank (fst (record_result e st r d code)) = blank r"
  by (simp add: blank_def)

definition stage_result :: "stage \<Rightarrow> run_result" where
  "stage_result s = (case s of Inl (r, st) \<Rightarrow> r | Inr (c, argv, r, st) \<Rightarrow> r)"

lemma stage_result_simps [simp]:
  "stage_result (Inl rs) = fst rs" "stage_result (Inr (c, argv, r, st)) = r"
  by (auto simp: stage_result_def split: prod.splits)

lemma substitute_blank: "blank res \<Longrightarrow> blank (stage_result (substitute_stat e argv res st q rule))"
  by (auto simp: substitute_stat_def Let_def split: option.splits sum.splits)

lemma path_stage_blank: "blank res \<Longrightarrow> blank (stage_result (path_stage e params c argv res st ps))"
proof (induction ps arbitrary: c argv res st)
  case (Cons p ps)
  have sub: "blank (stage_result (case substitute_stat e argv res' st' q rule of Inl r \<Rightarrow> Inl r
      | Inr (c', argv', res', st') \<Rightarrow> path_stage e params c' argv' res' st' ps))"
    if "blank res'" for res' st' q rule
    using substitute_blank [OF that, of e argv st' q rule] Cons.IH by (auto split: sum.splits)
  show ?case
    using Cons.prems Cons.IH sub by (simp add: Let_def case_prod_beta split: path_decision.splits)
qed simp

text \<open>The three ways a run goes: refused at once, stopped in a stage, or one command after the probes.\<close>

lemma runCheck_cases:
  assumes "lookup (rn_catalog e) cid (rn_platform e) = Some c"
  obtains (refused) res d where "runCheck e st c params o' = record_result e st res d None" "blank res"
  | (path) argv res rs where "bind c params = Inr argv"
      "path_stage e params c argv res st (check_params c) = Inl rs" "runCheck e st c params o' = rs" "blank res"
  | (elevate) argv res c1 argv1 res1 st1 rs where "bind c params = Inr argv"
      "path_stage e params c argv res st (check_params c) = Inr (c1, argv1, res1, st1)"
      "elevate_stage e c1 argv1 res1 st1 = Inl rs" "runCheck e st c params o' = rs" "blank res"
  | (exec) argv res c1 argv1 res1 st1 argv2 res2 st2 where "bind c params = Inr argv"
      "path_stage e params c argv res st (check_params c) = Inr (c1, argv1, res1, st1)"
      "elevate_stage e c1 argv1 res1 st1 = Inr (c1, argv2, res2, st2)"
      "runCheck e st c params o' = exec_stage e c1 argv2 res2 st2" "own_command e cid argv2"
proof (cases "bind c params")
  case (Inl err)
  then show ?thesis using refused by (auto simp: runCheck_def Let_def)
next
  case (Inr argv)
  let ?res = "zero_result\<lparr>res_checkID := check_id c, res_ranAs := check_id c, res_params := params,
     res_origin := o', res_argv := argv\<rparr>"
  show ?thesis
  proof (cases "path_stage e params c argv ?res st (check_params c)")
    case (Inl rs)
    then show ?thesis using path [OF Inr Inl] by (simp add: runCheck_def Inr)
  next
    case p: (Inr s)
    obtain c1 argv1 res1 st1 where s: "s = (c1, argv1, res1, st1)" by (cases s)
    show ?thesis
    proof (cases "elevate_stage e c1 argv1 res1 st1")
      case (Inl rs)
      then show ?thesis using elevate [OF Inr p [unfolded s] Inl] by (simp add: runCheck_def Inr p s)
    next
      case q: (Inr s2)
      obtain c2 argv2 res2 st2 where s2: "s2 = (c2, argv2, res2, st2)" by (cases s2)
      have c2: "c2 = c1" "argv2 = (if check_elevated c1 \<and> rn_elevate e = ElevateSudo then SudoPrefix @ argv1 else argv1)"
        using elevate_stage_argv [OF q [unfolded s2]] by simp_all
      show ?thesis
        using exec [OF Inr p [unfolded s] q [unfolded s2 c2(1)]]
          own_commandI [OF assms Inr path_stage_from [OF p [unfolded s]]]
        by (simp add: runCheck_def Inr p s q s2 c2)
    qed
  qed
qed

lemma probe_extends:
  "extends (binding_of e ''fs.realpath'') st st1 \<Longrightarrow> extends (binding_of e ''sys.which'') st1 st2 \<Longrightarrow>
   extends (probe_command e) st st2"
  by (rule extends_trans; erule extends_mono; simp add: probe_command_def)

lemma menu_check_lookup: "menu_check e cid o' = Some c \<Longrightarrow> lookup (rn_catalog e) cid (rn_platform e) = Some c"
  by (auto simp: menu_check_def split: option.splits if_splits)

lemma runCheck_commands:
  assumes "lookup (rn_catalog e) cid (rn_platform e) = Some c"
    and Q: "\<And>argv res c1 argv1 res1 st1 argv2 res2 st2. bind c params = Inr argv \<Longrightarrow>
      path_stage e params c argv res st (check_params c) = Inr (c1, argv1, res1, st1) \<Longrightarrow>
      elevate_stage e c1 argv1 res1 st1 = Inr (c1, argv2, res2, st2) \<Longrightarrow> own_command e cid argv2 \<Longrightarrow> Q argv2"
  shows "\<exists>ps own. st_execs (snd (runCheck e st c params o')) = st_execs st @ ps @ own \<and>
    list_all (probe_command e) ps \<and> length own \<le> 1 \<and> list_all Q own"
proof -
  have stop: ?thesis if "extends (probe_command e) st (snd (runCheck e st c params o'))"
    using that unfolding extends_def by (metis append.right_neutral le0 list.pred_inject(1) list.size(3) zero_le_one)
  have probes: "extends (probe_command e) st (stage_state (path_stage e params c argv res st (check_params c)))"
    for argv res
    by (rule probe_extends [OF path_stage_extends extends_refl])
  have both: "extends (probe_command e) st (stage_state (elevate_stage e c1 argv1 res1 st1))"
    if "path_stage e params c argv res st (check_params c) = Inr (c1, argv1, res1, st1)"
    for argv res c1 argv1 res1 st1
    using path_stage_extends [of e st params c argv res "check_params c"]
      elevate_stage_extends [of e st1 c1 argv1 res1] that by (auto intro: probe_extends)
  show ?thesis
    using assms(1)
  proof (cases rule: runCheck_cases [where st = st and params = params and o' = o'])
    case (refused res d)
    then show ?thesis by (intro stop) simp
  next
    case (path argv res rs)
    then show ?thesis using probes [of argv res] by (intro stop) simp
  next
    case (elevate argv res c1 argv1 res1 st1 rs)
    then show ?thesis using both [OF elevate(2)] by (intro stop) simp
  next
    case (exec argv res c1 argv1 res1 st1 argv2 res2 st2)
    then obtain ps where "st_execs st2 = st_execs st @ ps" "list_all (probe_command e) ps"
      using both [OF exec(2)] by (auto simp: extends_def)
    then show ?thesis
      using exec(4) Q [OF exec(1-3,5)]
      by (intro exI [of _ ps] exI [of _ "[argv2]"]) (simp add: exec_stage_execs)
  qed
qed

lemma runAs_commands:
  "\<exists>ps own. st_execs (snd (runAs e st cid params o')) = st_execs st @ ps @ own \<and>
     list_all (probe_command e) ps \<and> length own \<le> 1 \<and> list_all (own_command e cid) own"
proof (cases "menu_check e cid o'")
  case None
  then show ?thesis by (simp add: runAs_def)
next
  case (Some c)
  then show ?thesis
    using runCheck_commands [OF menu_check_lookup [OF Some], of params st "own_command e cid" o']
    by (simp add: runAs_def)
qed

text \<open>
  C4: Whatever the target answers, the commands one run sends are path and binary probes, each a
  binding of \<open>fs.realpath\<close> or \<open>sys.which\<close>, followed by at most one command of its own: a binding
  of the requested check, or of \<open>fs.stat\<close> where the path policy substitutes it, with the sudo
  prefix exactly when that check is elevated and the session elevates through sudo.
\<close>
theorem runner_commands_closed:
  "\<exists>ps own. st_execs (snd (runAs e st cid params o')) = st_execs st @ ps @ own \<and>
     list_all (probe_command e) ps \<and> length own \<le> 1 \<and> list_all (own_command e cid) own"
  by (rule runAs_commands)

section \<open>Refusals\<close>

lemma elevate_stage_not_denied:
  "elevate_stage e c argv res st = Inl rs \<Longrightarrow> res_status (fst rs) = StatusUnavailable"
  by (auto simp: elevate_stage_def Let_def case_prod_beta split: elevation.splits if_splits option.splits)

lemma interpret_exec_status: "res_status (fst (interpret_exec e c argv hard res out)) \<noteq> StatusDenied"
  by (auto simp: interpret_exec_def parse_stage_def exec_failure_def Let_def case_prod_beta
      split: option.splits exec_error.splits ctx_error.splits sum.splits)

lemma exec_stage_not_denied: "res_status (fst (exec_stage e c argv res st)) \<noteq> StatusDenied"
  using interpret_exec_status by (simp add: exec_stage_def Let_def case_prod_beta)

text \<open>
  C22: A denied call runs nothing: no command of the check was attempted, no output is in the
  result, and at most the path probe was sent to the target.
\<close>
theorem denied_runs_nothing:
  assumes "runAs e st cid params o' = (r, st')" and "res_status r = StatusDenied"
  shows "\<not> res_attempted r \<and> res_raw r = [] \<and> res_stderr r = [] \<and>
    (\<exists>ps. st_execs st' = st_execs st @ ps \<and> list_all (binding_of e ''fs.realpath'') ps)"
proof -
  have r: "r = fst (runAs e st cid params o')" "st' = snd (runAs e st cid params o')" using assms(1) by simp_all
  have "blank r \<and> extends (binding_of e ''fs.realpath'') st st'"
  proof (cases "menu_check e cid o'")
    case None
    then show ?thesis by (simp add: r runAs_def)
  next
    case (Some c)
    then have run: "runAs e st cid params o' = runCheck e st c params o'" by (simp add: runAs_def)
    show ?thesis
      using menu_check_lookup [OF Some]
    proof (cases rule: runCheck_cases [where st = st and params = params and o' = o'])
      case (refused res d)
      then show ?thesis by (simp add: r run)
    next
      case (path argv res rs)
      then show ?thesis
        using path_stage_extends [of e st params c argv res "check_params c"]
          path_stage_blank [of res e params c argv st "check_params c"] by (simp add: r run)
    next
      case (elevate argv res c1 argv1 res1 st1 rs)
      then show ?thesis using elevate_stage_not_denied [OF elevate(3)] assms(2) by (simp add: r run)
    next
      case (exec argv res c1 argv1 res1 st1 argv2 res2 st2)
      then show ?thesis using exec_stage_not_denied [of e c1 argv2 res2 st2] assms(2) by (simp add: r run)
    qed
  qed
  then show ?thesis by (auto simp: blank_def extends_def)
qed

text \<open>
  A call on behalf of a model never runs a check above its tier or the canary: it is answered
  as an unknown check and nothing is sent to the target, not even a probe.
\<close>
theorem withheld_check_never_runs:
  assumes "o_tool o' \<noteq> []" and "lookup (rn_catalog e) cid (rn_platform e) = Some c"
    and "check_canary c \<or> o_profile o' < check_minProfile c"
  shows "res_status (fst (runAs e st cid params o')) = StatusDenied \<and>
    res_reasonCode (fst (runAs e st cid params o')) = ''unknown_check'' \<and>
    st_execs (snd (runAs e st cid params o')) = st_execs st"
  using assms by (auto simp: runAs_def menu_check_def record_result_def retain_def Let_def)

section \<open>Content of protected paths\<close>



end
