(* ===== verification/Runner_Records.thy ===== *)
theory Runner_Records
  imports Runner_Proofs "HOL-Library.Sublist"
begin

text \<open>
  What a run leaves behind: its lines of the audit log and the observations later stages cite.
  A run is a sequence of two kinds of step, recording a result and recording the result of a
  command just sent; locale \<open>run_steps\<close> lifts every reflexive and transitive relation that holds
  across both to whole runs.  It is interpreted twice: every command is logged with its redacted
  argument vector, and the observations kept only grow, by \<open>retain\<close>.
\<close>

section \<open>Steps of a run\<close>

lemma probe_result_argv [simp]: "res_argv (probe_result e c ps argv x) = argv"
  by (simp add: probe_result_def Let_def case_prod_beta)

lemma captured_sel [simp]: "res_argv (captured e c argv res x err) = argv"
  by (simp add: captured_def Let_def case_prod_beta)

lemma interpret_exec_argv: "res_argv (fst (interpret_exec e c argv hard res out)) = argv"
  by (simp add: interpret_exec_def parse_stage_def exec_failure_def Let_def case_prod_beta
      split: option.split exec_error.split ctx_error.split sum.split)

locale run_steps =
  fixes e :: runner and R :: "rn_state \<Rightarrow> rn_state \<Rightarrow> bool"
  assumes refl: "R st st"
    and trans: "R st st1 \<Longrightarrow> R st1 st2 \<Longrightarrow> R st st2"
    and record_step: "R st (snd (record_result e st res d None))"
    and exec_step: "res_argv res = argv \<Longrightarrow>
      R st (snd (record_result e (snd (exec_command e st argv lim)) res d (Some k)))"
begin

lemma installed_rel: "R st (snd (snd (installed e st bin)))"
  by (auto simp: installed_def Let_def case_prod_beta refl intro!: exec_step
      split: option.splits sum.splits exec_error.splits)

lemma resolve_rel: "R st (snd (resolve e st p))"
  by (auto simp: resolve_def Let_def case_prod_beta refl intro!: exec_step split: option.splits sum.splits)

lemma substitute_rel: "R st (stage_state (substitute_stat e argv res st q rule))"
  by (auto simp: substitute_stat_def Let_def record_step refl split: option.splits sum.splits)

lemma path_stage_rel: "R st (stage_state (path_stage e params c argv res st ps))"
proof (induction ps arbitrary: c argv res st)
  case Nil
  then show ?case by (simp add: refl)
next
  case (Cons p ps)
  let ?st1 = "snd (resolve e st (field params (param_name p)))"
  have 1: "R st ?st1" by (rule resolve_rel)
  have sub: "R ?st1 (stage_state (case substitute_stat e argv r ?st1 q rule of Inl x \<Rightarrow> Inl x
      | Inr (c', argv', res', st') \<Rightarrow> path_stage e params c' argv' res' st' ps))" for r q rule
    using substitute_rel [of ?st1 argv r q rule] Cons.IH trans by (fastforce split: sum.splits)
  have IH: "R st (stage_state (path_stage e params c' argv' r ?st1 ps))" for c' argv' r
    using trans [OF 1 Cons.IH] .
  have deny: "R st (snd (record_result e ?st1 r d None))" for r d
    using trans [OF 1 record_step] .
  show ?case
    using IH trans [OF 1 sub] deny Cons.IH
    by (simp add: Let_def case_prod_beta split: path_decision.splits)
qed

lemma elevate_stage_rel: "R st (stage_state (elevate_stage e c argv res st))"
  using installed_rel [of st "hd argv"] trans [OF installed_rel record_step]
  by (auto simp: elevate_stage_def Let_def case_prod_beta record_step refl split: elevation.splits)

lemma exec_stage_rel: "R st (snd (exec_stage e c argv res st))"
  using exec_step [OF interpret_exec_argv] by (simp add: exec_stage_def Let_def case_prod_beta)

lemma runCheck_rel:
  assumes "lookup (rn_catalog e) cid (rn_platform e) = Some c"
  shows "R st (snd (runCheck e st c params o'))"
proof -
  have both: "R st (stage_state (elevate_stage e c1 argv1 res1 st1))"
    if "path_stage e params c argv res st (check_params c) = Inr (c1, argv1, res1, st1)"
    for argv res c1 argv1 res1 st1
    using path_stage_rel [of st params c argv res "check_params c"]
      elevate_stage_rel [of st1 c1 argv1 res1] that by (auto intro: trans)
  show ?thesis
    using assms
  proof (cases rule: runCheck_cases [where st = st and params = params and o' = o'])
    case (refused res d)
    then show ?thesis by (simp add: record_step)
  next
    case (path argv res rs)
    then show ?thesis using path_stage_rel [of st params c argv res "check_params c"] by simp
  next
    case (elevate argv res c1 argv1 res1 st1 rs)
    then show ?thesis using both [OF elevate(2)] by simp
  next
    case (exec argv res c1 argv1 res1 st1 argv2 res2 st2)
    then show ?thesis using trans [OF both [OF exec(2)] exec_stage_rel, of c1 argv2 res2] by simp
  qed
qed

lemma runAs_rel: "R st (snd (runAs e st cid params o'))"
  by (cases "menu_check e cid o'") (simp_all add: runAs_def record_step runCheck_rel [OF menu_check_lookup])

end

section \<open>The audit log\<close>

text \<open>The entries that report a command are those with an exit code.\<close>

definition commands_logged :: "audit_entry list \<Rightarrow> command list" where
  "commands_logged es = map au_argv (filter (\<lambda>a. au_exitCode a \<noteq> None) es)"

lemma commands_logged_append [simp]: "commands_logged (es @ fs) = commands_logged es @ commands_logged fs"
  by (simp add: commands_logged_def)

definition audited :: "runner \<Rightarrow> rn_state \<Rightarrow> rn_state \<Rightarrow> bool" where
  "audited e st st' =
     (\<forall>l. st_audit st = Some l \<longrightarrow>
        (\<exists>es cs. st_audit st' = Some (l\<lparr>audit_lines := audit_lines l @ es\<rparr>) \<and> st_execs st' = st_execs st @ cs \<and>
           commands_logged es = map (map (redact_string e)) cs))"

lemma audited_refl [simp]: "audited e st st"
  unfolding audited_def by (intro allI impI exI [of _ "[]"]) (simp add: commands_logged_def)

lemma audited_trans:
  assumes "audited e st st1" "audited e st1 st2"
  shows "audited e st st2"
  unfolding audited_def
proof (intro allI impI)
  fix l assume "st_audit st = Some l"
  then obtain es cs where 1: "st_audit st1 = Some (l\<lparr>audit_lines := audit_lines l @ es\<rparr>)"
      "st_execs st1 = st_execs st @ cs" "commands_logged es = map (map (redact_string e)) cs"
    using assms(1) by (auto simp: audited_def)
  then obtain es' cs' where "st_audit st2 = Some (l\<lparr>audit_lines := (audit_lines l @ es) @ es'\<rparr>)"
      "st_execs st2 = st_execs st1 @ cs'" "commands_logged es' = map (map (redact_string e)) cs'"
    using assms(2) by (fastforce simp: audited_def)
  then show "\<exists>es cs. st_audit st2 = Some (l\<lparr>audit_lines := audit_lines l @ es\<rparr>) \<and> st_execs st2 = st_execs st @ cs \<and>
      commands_logged es = map (map (redact_string e)) cs"
    using 1 by (intro exI [of _ "es @ es'"] exI [of _ "cs @ cs'"]) simp
qed

lemma record_audit_eq:
  assumes "st_audit st = Some l"
  shows "\<exists>a. st_audit (snd (record_result e st res d code)) = Some (l\<lparr>audit_lines := audit_lines l @ [a]\<rparr>) \<and>
    au_argv a = map (redact_string e) (res_argv res) \<and> au_exitCode a = code \<and>
    au_observation a = res_observation (fst (record_result e st res d code))"
  using assms
  by (intro exI [of _ "last (audit_lines (the (st_audit (snd (record_result e st res d code)))))"])
    (simp add: record_result_def retain_def redact_result_def audit_log_def audit_of_def Let_def case_prod_beta)

lemma record_audit:
  assumes "st_audit st = Some l"
  obtains a where "st_audit (snd (record_result e st res d code)) = Some (l\<lparr>audit_lines := audit_lines l @ [a]\<rparr>)"
    "au_argv a = map (redact_string e) (res_argv res)" "au_exitCode a = code"
    "au_observation a = res_observation (fst (record_result e st res d code))"
  using record_audit_eq [OF assms, of e res d code] by blast

lemma record_audited: "audited e st (snd (record_result e st res d None))"
  unfolding audited_def
proof (intro allI impI)
  fix l assume "st_audit st = Some l"
  then obtain a where "st_audit (snd (record_result e st res d None)) = Some (l\<lparr>audit_lines := audit_lines l @ [a]\<rparr>)"
    "au_exitCode a = None" by (rule record_audit)
  then show "\<exists>es cs. st_audit (snd (record_result e st res d None)) = Some (l\<lparr>audit_lines := audit_lines l @ es\<rparr>) \<and>
      st_execs (snd (record_result e st res d None)) = st_execs st @ cs \<and>
      commands_logged es = map (map (redact_string e)) cs"
    by (intro exI [of _ "[a]"] exI [of _ "[]"]) (simp add: commands_logged_def)
qed

lemma exec_record_audited:
  assumes "res_argv res = argv"
  shows "audited e st (snd (record_result e (snd (exec_command e st argv lim)) res d (Some k)))"
  unfolding audited_def
proof (intro allI impI)
  fix l assume "st_audit st = Some l"
  then have "st_audit (snd (exec_command e st argv lim)) = Some l" by (simp add: exec_command_def)
  then show "\<exists>es cs. st_audit (snd (record_result e (snd (exec_command e st argv lim)) res d (Some k))) =
      Some (l\<lparr>audit_lines := audit_lines l @ es\<rparr>) \<and>
    st_execs (snd (record_result e (snd (exec_command e st argv lim)) res d (Some k))) = st_execs st @ cs \<and>
    commands_logged es = map (map (redact_string e)) cs"
    by (rule record_audit [where e = e and res = res and d = d and code = "Some k"])
      (rule_tac x = "[a]" in exI, rule_tac x = "[argv]" in exI, simp add: commands_logged_def exec_command_def assms)
qed

interpretation audited_run: run_steps e "audited e" for e
  by unfold_locales (auto intro: audited_trans record_audited exec_record_audited)

text \<open>
  C20: Every command a run sends to the target is in the audit log: with a log attached, the run
  appends entries only, and the argument vectors of the appended entries that carry an exit code
  are, in order, the redacted argument vectors of the commands sent.
\<close>
theorem audit_log_complete:
  assumes "st_audit st = Some l"
  shows "\<exists>es cs. st_audit (snd (runAs e st cid params o')) = Some (l\<lparr>audit_lines := audit_lines l @ es\<rparr>) \<and>
    st_execs (snd (runAs e st cid params o')) = st_execs st @ cs \<and>
    commands_logged es = map (map (redact_string e)) cs"
  using audited_run.runAs_rel [of e st cid params o'] assms by (simp add: audited_def)

section \<open>Observations\<close>

text \<open>The part of the state observations live in, and how a run may change it.\<close>

definition obs_part :: "rn_state \<Rightarrow> run_result list \<times> (string \<times> nat) list \<times> (string \<times> nat) list" where
  "obs_part st = (st_results st, st_byRef st, st_counts st)"

inductive keeps :: "runner \<Rightarrow> rn_state \<Rightarrow> rn_state \<Rightarrow> bool" for e where
  keeps_same: "obs_part st' = obs_part st \<Longrightarrow> keeps e st st'"
| keeps_retain: "keeps e st st1 \<Longrightarrow> obs_part st2 = obs_part (snd (retain e st1 res)) \<Longrightarrow> keeps e st st2"

lemma retain_cong:
  "obs_part st = obs_part st' \<Longrightarrow> obs_part (snd (retain e st res)) = obs_part (snd (retain e st' res))"
  by (simp add: obs_part_def retain_def Let_def)

lemma keeps_trans:
  assumes "keeps e st1 st2" "keeps e st st1"
  shows "keeps e st st2"
  using assms
proof (induction rule: keeps.induct)
  case (keeps_same st2 st1)
  from keeps_same(2,1) show ?case
    by (cases rule: keeps.cases) (auto intro: keeps.intros)
next
  case (keeps_retain st1 st3 st4 res)
  then show ?case by (auto intro: keeps.keeps_retain)
qed

lemma keeps_record: "obs_part st1 = obs_part st \<Longrightarrow> keeps e st (snd (record_result e st1 res d code))"
  by (rule keeps_retain [OF keeps_same, of st1 st _ e res])
    (simp_all add: record_result_def Let_def case_prod_beta obs_part_def)

interpretation keeps_run: run_steps e "keeps e" for e
  by unfold_locales (auto intro: keeps_same keeps_trans keeps_record simp: exec_command_def obs_part_def)

lemma keeps_results: "keeps e st st' \<Longrightarrow> \<exists>rs. st_results st' = st_results st @ rs"
  by (induction rule: keeps.induct) (auto simp: obs_part_def retain_def Let_def)

text \<open>Two references that read the same have the same check id and the same number.\<close>

lemma ref_inject:
  assumes "p @ ''#'' @ show_nat k = p' @ ''#'' @ show_nat k'"
  shows "p = p' \<and> k = k'"
proof -
  have digits: "CHR ''#'' \<notin> set (show_nat n)" for n
    using show_nat_digits [of "CHR ''#''" n] by (auto simp: is_digit_def)
  have "rev (show_nat k) @ [CHR ''#''] @ rev p = rev (show_nat k') @ [CHR ''#''] @ rev p'"
    using arg_cong [OF assms, of rev] by simp
  moreover have "takeWhile (\<lambda>c. c \<noteq> CHR ''#'') (rev (show_nat n) @ [CHR ''#''] @ q) = rev (show_nat n)" for n q
    using digits [of n] by (subst takeWhile_append2) auto
  ultimately have "rev (show_nat k) = rev (show_nat k')" by metis
  with assms show ?thesis by (simp add: show_nat_inject)
qed

definition obs_wf :: "rn_state \<Rightarrow> bool" where
  "obs_wf st =
     ((\<forall>i < length (st_results st). map_of (st_byRef st) (res_observation (st_results st ! i)) = Some i \<and>
         res_occurrence (st_results st ! i) = i + 1) \<and>
      (\<forall>ref i. map_of (st_byRef st) ref = Some i \<longrightarrow> i < length (st_results st) \<and>
         (\<exists>p k n. ref = p @ ''#'' @ show_nat k \<and> map_of (st_counts st) p = Some n \<and> k \<le> n)))"

lemma obs_wf_cong: "obs_part st = obs_part st' \<Longrightarrow> obs_wf st = obs_wf st'"
  by (simp add: obs_part_def obs_wf_def)

text \<open>The prefix and the number of the next reference; it is one no earlier observation has.\<close>

definition next_count :: "rn_state \<Rightarrow> string \<Rightarrow> nat" where
  "next_count st p = (case map_of (st_counts st) p of None \<Rightarrow> 1 | Some k \<Rightarrow> Suc k)"

lemma retain_parts:
  fixes e res0 defines "p \<equiv> obs_prefix e (redact_result e res0)"
  defines "ref st \<equiv> p @ ''#'' @ show_nat (next_count st p)"
  obtains r where "st_results (snd (retain e st res0)) = st_results st @ [r]"
    "st_byRef (snd (retain e st res0)) = (ref st, length (st_results st)) # st_byRef st"
    "st_counts (snd (retain e st res0)) = (p, next_count st p) # st_counts st"
    "res_observation r = ref st" "res_occurrence r = length (st_results st) + 1"
  by (simp add: retain_def Let_def p_def ref_def next_count_def)

lemma next_ref_fresh:
  assumes "obs_wf st"
  shows "map_of (st_byRef st) (p @ ''#'' @ show_nat (next_count st p)) = None"
proof (rule ccontr)
  assume "map_of (st_byRef st) (p @ ''#'' @ show_nat (next_count st p)) \<noteq> None"
  then obtain i where "map_of (st_byRef st) (p @ ''#'' @ show_nat (next_count st p)) = Some i" by blast
  then obtain q k m where "p @ ''#'' @ show_nat (next_count st p) = q @ ''#'' @ show_nat k"
      "map_of (st_counts st) q = Some m" "k \<le> m"
    using assms unfolding obs_wf_def by meson
  then show False using ref_inject [of p "next_count st p" q k] by (auto simp: next_count_def)
qed

lemma retain_get:
  assumes "obs_wf st" "obs_get st ref = Some r"
  shows "obs_get (snd (retain e st res0)) ref = Some r"
proof (rule retain_parts [of e st res0])
  fix r'
  let ?p = "obs_prefix e (redact_result e res0)"
  assume "st_results (snd (retain e st res0)) = st_results st @ [r']"
    and "st_byRef (snd (retain e st res0)) = (?p @ ''#'' @ show_nat (next_count st ?p), length (st_results st)) # st_byRef st"
  then show ?thesis
    using assms next_ref_fresh [OF assms(1), of ?p] by (auto simp: obs_get_def obs_wf_def nth_append)
qed

lemma retain_wf:
  assumes "obs_wf st"
  shows "obs_wf (snd (retain e st res0))"
proof -
  define p where "p = obs_prefix e (redact_result e res0)"
  define n where "n = next_count st p"
  let ?ref = "p @ ''#'' @ show_nat n" and ?st = "snd (retain e st res0)"
  obtain r where st: "st_results ?st = st_results st @ [r]" "st_byRef ?st = (?ref, length (st_results st)) # st_byRef st"
      "st_counts ?st = (p, n) # st_counts st" "res_observation r = ?ref" "res_occurrence r = length (st_results st) + 1"
    unfolding p_def n_def by (rule retain_parts [of e st res0])
  have new: "map_of (st_byRef st) ?ref = None" unfolding n_def by (rule next_ref_fresh [OF assms])
  have old: "res_observation (st_results st ! i) \<noteq> ?ref" if "i < length (st_results st)" for i
    using assms that new by (auto simp: obs_wf_def)
  have count: "\<exists>m'. map_of ((p, n) # st_counts st) q = Some m' \<and> k \<le> m'"
    if "map_of (st_counts st) q = Some m" "k \<le> m" for q k m
    using that by (auto simp: n_def next_count_def)
  have refs: "\<exists>q k m. ref = q @ ''#'' @ show_nat k \<and> map_of ((p, n) # st_counts st) q = Some m \<and> k \<le> m"
    if "map_of (st_byRef st) ref = Some i" for ref i
    using assms that count unfolding obs_wf_def by meson
  have prev: "map_of (st_byRef st) (res_observation (st_results st ! i)) = Some i \<and> res_occurrence (st_results st ! i) = i + 1"
    if "i < length (st_results st)" for i
    using assms that by (simp add: obs_wf_def)
  have bound: "i < length (st_results st)" if "map_of (st_byRef st) ref = Some i" for ref i
    using assms that by (simp add: obs_wf_def)
  have "map_of (st_byRef ?st) (res_observation (st_results ?st ! i)) = Some i \<and> res_occurrence (st_results ?st ! i) = i + 1"
    if "i < length (st_results ?st)" for i
    using that prev [of i] old [of i] by (cases "i = length (st_results st)") (auto simp: st nth_append less_Suc_eq)
  moreover have "i < length (st_results ?st) \<and>
      (\<exists>q k m. ref = q @ ''#'' @ show_nat k \<and> map_of (st_counts ?st) q = Some m \<and> k \<le> m)"
    if r: "map_of (st_byRef ?st) ref = Some i" for ref i
  proof (cases "ref = ?ref")
    case True
    then show ?thesis using r unfolding st by (auto intro!: exI [of _ p] exI [of _ n])
  next
    case False
    then have "map_of (st_byRef st) ref = Some i" using r by (simp add: st(2))
    then show ?thesis using refs [of ref i] bound [of ref i] unfolding st by simp
  qed
  ultimately show ?thesis unfolding obs_wf_def by blast
qed

lemma keeps_wf: "keeps e st st' \<Longrightarrow> obs_wf st \<Longrightarrow> obs_wf st'"
  by (induction rule: keeps.induct) (metis obs_wf_cong retain_wf)+

lemma keeps_get: "keeps e st st' \<Longrightarrow> obs_wf st \<Longrightarrow> obs_get st ref = Some r \<Longrightarrow> obs_get st' ref = Some r"
proof (induction rule: keeps.induct)
  case (keeps_same st' st)
  then show ?case by (simp add: obs_part_def obs_get_def)
next
  case (keeps_retain st st1 st2 res)
  then have "obs_get (snd (retain e st1 res)) ref = Some r" using keeps_wf retain_get by blast
  then show ?case using keeps_retain(2) by (simp add: obs_part_def obs_get_def)
qed

text \<open>A session: any number of runs, in any order, whatever the target answers.\<close>

inductive session :: "runner \<Rightarrow> rn_state \<Rightarrow> rn_state \<Rightarrow> bool" for e where
  session_start: "session e st st"
| session_run: "session e st st1 \<Longrightarrow> session e st (snd (runAs e st1 cid params o'))"

lemma session_keeps: "session e st st' \<Longrightarrow> keeps e st st'"
  by (induction rule: session.induct) (auto intro: keeps_run.refl keeps_run.trans keeps_run.runAs_rel)

definition start_state :: "audit option \<Rightarrow> rn_state" where
  "start_state a = \<lparr>st_results = [], st_byRef = [], st_counts = [], st_audit = a, st_execs = []\<rparr>"

text \<open>
  C21: In every session from an empty store, observation references are unique, \<open>Get\<close> on the
  reference of the \<open>i\<close>-th observation returns that observation, and its occurrence number is \<open>i + 1\<close>.
\<close>
theorem observations_well_formed:
  assumes "session e (start_state a) st"
  shows "distinct (map res_observation (obs_all st)) \<and>
    (\<forall>i < length (obs_all st). obs_get st (res_observation (obs_all st ! i)) = Some (obs_all st ! i) \<and>
       res_occurrence (obs_all st ! i) = i + 1)"
proof -
  have "obs_wf (start_state a)" by (simp add: obs_wf_def start_state_def)
  then have wf: "obs_wf st" using keeps_wf [OF session_keeps [OF assms]] by simp
  have "distinct (map res_observation (st_results st))"
    unfolding distinct_conv_nth
    using wf by (auto simp: obs_wf_def) (metis option.inject)
  then show ?thesis using wf by (simp add: obs_all_def obs_get_def obs_wf_def)
qed

text \<open>
  Evidence is never lost or rewritten: whatever else is run, the observation a reference
  names stays the one it named.
\<close>
theorem observations_persist:
  assumes "session e (start_state a) st" and "obs_get st ref = Some r" and "session e st st'"
  shows "obs_get st' ref = Some r"
proof -
  have "obs_wf (start_state a)" by (simp add: obs_wf_def start_state_def)
  then have "obs_wf st" using keeps_wf [OF session_keeps [OF assms(1)]] by simp
  then show ?thesis using keeps_get [OF session_keeps [OF assms(3)] _ assms(2)] by simp
qed

section \<open>Output\<close>











end
