(* ===== verification/Runner_Shipped.thy ===== *)
theory Runner_Shipped
  imports Runner_Records Check_Tables
begin

text \<open>
  The runner on the compiled-in catalog.  Locale \<open>closed_commands\<close> is what the catalog promises
  the runner, a property of every argument vector its checks bind to; inside it the property is
  carried to every command of every session, whatever the target answers.
\<close>

section \<open>Sessions over a catalog whose bindings are closed\<close>

lemma lookup_from_cases: "lookup_from cid p wild cs = Some c \<Longrightarrow> c \<in> set cs \<or> wild = Some c"
  by (induction cs arbitrary: wild) (auto split: if_splits)

lemma lookup_in_catalog: "lookup cat cid p = Some c \<Longrightarrow> c \<in> set cat"
  using lookup_from_cases by (force simp: lookup_def)

locale closed_commands =
  fixes cat :: catalog and ok :: "command \<Rightarrow> bool"
  assumes closed: "c \<in> set cat \<Longrightarrow> bind c params = Inr argv \<Longrightarrow> ok argv"
begin

definition sent_ok :: "command \<Rightarrow> bool" where
  "sent_ok argv = (ok argv \<or> (\<exists>b. argv = SudoPrefix @ b \<and> ok b))"

lemma binding_ok: "rn_catalog e = cat \<Longrightarrow> binding_of e cid argv \<Longrightarrow> ok argv"
  unfolding binding_of_def using closed lookup_in_catalog by metis

lemma own_ok: "rn_catalog e = cat \<Longrightarrow> own_command e cid argv \<Longrightarrow> sent_ok argv"
  unfolding own_command_def sent_ok_def using closed lookup_in_catalog by metis

lemma probe_ok: "rn_catalog e = cat \<Longrightarrow> probe_command e argv \<Longrightarrow> sent_ok argv"
  unfolding probe_command_def sent_ok_def using binding_ok by metis

lemma run_ok:
  assumes "rn_catalog e = cat" "list_all sent_ok (st_execs st)"
  shows "list_all sent_ok (st_execs (snd (runAs e st cid params o')))"
proof -
  obtain ps own where "st_execs (snd (runAs e st cid params o')) = st_execs st @ ps @ own"
      "list_all (probe_command e) ps" "list_all (own_command e cid) own"
    using runAs_commands [of e st cid params o'] by blast
  then show ?thesis
    using assms own_ok [OF assms(1)] probe_ok [OF assms(1)] by (auto simp: list_all_iff)
qed

lemma session_ok:
  "session e st st' \<Longrightarrow> rn_catalog e = cat \<Longrightarrow> list_all sent_ok (st_execs st) \<Longrightarrow> list_all sent_ok (st_execs st')"
  by (induction rule: session.induct) (auto intro: run_ok)

end

definition harmless :: "command \<Rightarrow> bool" where
  "harmless argv = (argv \<noteq> [] \<and> baseName (hd argv) \<notin> set deniedBinaries \<and>
     (\<exists>cid. binary_violations cid argv = []))"

interpretation shipped_run: closed_commands shipped harmless
  by unfold_locales (unfold harmless_def, use shipped_bound_closed in blast)

text \<open>
  C1: On the compiled-in catalog no session ever sends a denied program to the target: every
  command sent, with the sudo prefix removed, names a program that is not on the deny list and
  carries no mutating flag or verb, whatever ids, parameters and targets the session meets.
\<close>
theorem session_sends_no_denied_binary:
  assumes "session e (start_state a) st" and "rn_catalog e = shipped" and "argv \<in> set (st_execs st)"
  shows "harmless argv \<or> (\<exists>b. argv = SudoPrefix @ b \<and> harmless b)"
  using shipped_run.session_ok [OF assms(1,2)] assms(3)
  by (auto simp: start_state_def shipped_run.sent_ok_def list_all_iff)

section \<open>Witnesses\<close>

text \<open>A session on a target that answers \<open>ok\<close> to everything, with a catalog of choice.\<close>

definition sample_runner :: "catalog \<Rightarrow> runner" where
  "sample_runner cat =
     \<lparr>rn_platform = platform_linux,
      rn_exec = (\<lambda>_ _ _. (\<lparr>ex_stdout = ''ok'', ex_stderr = [], ex_code = 0, ex_duration = 1000000,
         ex_stdoutTruncated = False, ex_stderrTruncated = False\<rparr>, None, None)),
      rn_paths = newPathPolicy [], rn_redactor = \<lparr>red_rules = []\<rparr>, rn_budgets = defaultBudgets,
      rn_elevate = ElevateNone, rn_catalog = cat, rn_compile = (\<lambda>_. None), rn_unmarshal = (\<lambda>_. None),
      rn_hash = (\<lambda>_. ''h'')\<rparr>"

definition uid_check :: check where
  "uid_check = zero_check\<lparr>check_id := ''sys.uid'', check_desc := ''Effective uid of the audit session'',
        check_platform := platform_any, check_domain := ''sys'', check_parser := ParseRaw, check_baseline := True,
        check_argv := [''id'', ''-u'']\<rparr>"

definition cat_check :: check where
  "cat_check = zero_check\<lparr>check_id := ''text.cat'', check_desc := ''Contents of a file under an allowed prefix'',
     check_platform := platform_any, check_domain := ''text'', check_parser := ParseRaw, check_pathUse := PathContent,
     check_argv := [''cat'', hole ''path''], check_params := pathParam\<rparr>"

lemma sample_runner_sel [simp]:
  "rn_catalog (sample_runner cat) = cat" "rn_platform (sample_runner cat) = platform_linux"
  "rn_paths (sample_runner cat) = newPathPolicy []" "rn_redactor (sample_runner cat) = \<lparr>red_rules = []\<rparr>"
  by (simp_all add: sample_runner_def)

theorem denied_runs_nothing_witness:
  "\<not> res_attempted (fst (runAs (sample_runner []) (start_state None) ''x.y'' [] no_origin))"
  using denied_runs_nothing [of "sample_runner []" "start_state None" "''x.y''" "[]" no_origin
      "fst (runAs (sample_runner []) (start_state None) ''x.y'' [] no_origin)"
      "snd (runAs (sample_runner []) (start_state None) ''x.y'' [] no_origin)"]
  by (simp add: runAs_def menu_check_def lookup_def)

theorem withheld_check_never_runs_witness:
  "st_execs (snd (runAs (sample_runner [cat_check\<lparr>check_minProfile := ProfileHardened\<rparr>]) (start_state None)
     ''text.cat'' [] (no_origin\<lparr>o_tool := ''run_check''\<rparr>))) = []"
  using withheld_check_never_runs [of "no_origin\<lparr>o_tool := ''run_check''\<rparr>"
      "sample_runner [cat_check\<lparr>check_minProfile := ProfileHardened\<rparr>]" "''text.cat''"
      "cat_check\<lparr>check_minProfile := ProfileHardened\<rparr>" "start_state None" "[]"]
  by (simp add: lookup_def cat_check_def zero_check_def no_origin_def less_profile_def start_state_def)


theorem audit_log_complete_witness:
  "\<exists>es cs. commands_logged es = map (map (redact_string (sample_runner []))) cs \<and>
     st_audit (snd (runAs (sample_runner []) (start_state (Some \<lparr>audit_via = [], audit_lines = []\<rparr>)) ''x.y'' [] no_origin)) =
       Some \<lparr>audit_via = [], audit_lines = es\<rparr>"
  using audit_log_complete [of "start_state (Some \<lparr>audit_via = [], audit_lines = []\<rparr>)"
      "\<lparr>audit_via = [], audit_lines = []\<rparr>" "sample_runner []" "''x.y''" "[]" no_origin]
  by (auto simp: start_state_def)

lemma sample_session:
  "session (sample_runner cat) (start_state None) (snd (runAs (sample_runner cat) (start_state None) cid ps og))"
  by (rule session_run [OF session_start])

theorem observations_well_formed_witness:
  "distinct (map res_observation (obs_all
     (snd (runAs (sample_runner []) (start_state None) ''x.y'' [] no_origin))))"
  using observations_well_formed [OF sample_session] by blast

theorem observations_persist_witness:
  "\<exists>r. obs_get (snd (runAs (sample_runner []) (snd (runAs (sample_runner []) (start_state None) ''x.y'' [] no_origin))
       ''z.w'' [] no_origin)) ''unknown#1'' = Some r"
proof -
  let ?st = "snd (runAs (sample_runner []) (start_state None) ''x.y'' [] no_origin)"
  obtain r where "obs_get ?st ''unknown#1'' = Some r"
    by (simp add: runAs_def menu_check_def lookup_def record_result_def retain_def obs_get_def start_state_def
        obs_prefix_def Let_def show_nat.simps digit_char_def char_of_def bit_0)
  then show ?thesis
    using observations_persist [OF sample_session _ session_run [OF session_start]] by blast
qed

lemma sample_sends:
  "st_execs (snd (runAs (sample_runner shipped) (start_state None) ''sys.uid'' [] no_origin)) = [[''id'', ''-u'']]"
proof -
  have "uid_check \<in> set shipped" by (simp add: shipped_def common_checks_def uid_check_def)
  then have "lookup shipped ''sys.uid'' platform_linux = Some uid_check"
    using lookup_registered [OF shipped_registers] by (fastforce simp: zero_check_def appliesTo_def uid_check_def)
  moreover have "bind uid_check [] = Inr [''id'', ''-u'']" by code_simp
  moreover have "check_params uid_check = []" "\<not> check_elevated uid_check" 
    by (simp_all add: uid_check_def zero_check_def)
  ultimately show ?thesis
    by (simp add: runAs_def menu_check_def runCheck_def no_origin_def elevate_stage_def exec_stage_def exec_command_def
       Let_def case_prod_beta start_state_def)
qed

theorem session_sends_no_denied_binary_witness:
  "\<exists>argv \<in> set (st_execs (snd (runAs (sample_runner shipped) (start_state None) ''sys.uid'' [] no_origin))).
     harmless argv \<or> (\<exists>b. argv = SudoPrefix @ b \<and> harmless b)"
  using session_sends_no_denied_binary [OF sample_session, of shipped "[''id'', ''-u'']" "''sys.uid''" "[]" no_origin]
  by (simp add: sample_sends)

end
