(* ===== verification/Severity.thy ===== *)
theory Severity
  imports Check_Catalog
begin

text \<open>
  Severities and findings: \<open>internal/finding/finding.go\<close>, \<open>chain.go\<close> and \<open>judgment.go\<close>, the
  definitions of \<open>catalog.go\<close> with their registration, and the host grader of \<open>grade.go\<close> with the
  parts of \<open>internal/operator\<close> it reads.  A severity is one of the five values of the scale, so a
  Go value of rank -1 has no counterpart here; an empty ceiling is \<open>None\<close>.  The registered
  definitions are a state passed along, as the package variable \<open>defs\<close> is.
\<close>

section \<open>The scale (finding.go)\<close>

datatype severity = SevInfo | SevLow | SevMedium | SevHigh | SevCritical

primrec sev_rank :: "severity \<Rightarrow> int" where
  "sev_rank SevCritical = 4"
| "sev_rank SevHigh = 3"
| "sev_rank SevMedium = 2"
| "sev_rank SevLow = 1"
| "sev_rank SevInfo = 0"

primrec sev_string :: "severity \<Rightarrow> string" where
  "sev_string SevCritical = ''critical''"
| "sev_string SevHigh = ''high''"
| "sev_string SevMedium = ''medium''"
| "sev_string SevLow = ''low''"
| "sev_string SevInfo = ''info''"

definition sev_scale :: "severity list" where
  "sev_scale = [SevInfo, SevLow, SevMedium, SevHigh, SevCritical]"

text \<open>A severity named by a string, where it names one.\<close>

definition sev_of_string :: "string \<Rightarrow> severity option" where
  "sev_of_string s = List.find (\<lambda>v. sev_string v = s) sev_scale"

lemma sev_rank_inject [simp]: "sev_rank a = sev_rank b \<longleftrightarrow> a = b"
  by (cases a; cases b) simp_all

lemma sev_rank_bounds [simp]: "0 \<le> sev_rank s" "sev_rank s \<le> 4"
  by (cases s; simp)+

instantiation severity :: linorder
begin

definition less_eq_severity :: "severity \<Rightarrow> severity \<Rightarrow> bool" where
  "less_eq_severity a b = (sev_rank a \<le> sev_rank b)"

definition less_severity :: "severity \<Rightarrow> severity \<Rightarrow> bool" where
  "less_severity a b = (sev_rank a < sev_rank b)"

instance
proof
  fix x y z :: severity
  show "(x < y) = (x \<le> y \<and> \<not> y \<le> x)" by (auto simp: less_severity_def less_eq_severity_def)
  show "x \<le> x" by (simp add: less_eq_severity_def)
  show "x \<le> y \<Longrightarrow> y \<le> z \<Longrightarrow> x \<le> z" by (simp add: less_eq_severity_def)
  show "x \<le> y \<Longrightarrow> y \<le> x \<Longrightarrow> x = y" by (simp add: less_eq_severity_def)
  show "x \<le> y \<or> y \<le> x" by (auto simp: less_eq_severity_def)
qed

end

lemmas sev_order = less_eq_severity_def less_severity_def

definition atLeast_sev :: "severity \<Rightarrow> severity \<Rightarrow> bool" where
  "atLeast_sev s other = (sev_rank s \<ge> sev_rank other)"

definition threshold :: "profile \<Rightarrow> severity" where
  "threshold p = (if p = ProfileHardened then SevLow else SevMedium)"

record remediation =
  rem_summary :: string
  rem_commands :: "string list"
  rem_caveat :: string

record evidence =
  ev_observation :: string
  ev_check :: string
  ev_excerpt :: string

record adjustment_entry =
  adj_rule :: string
  adj_source :: string
  adj_delta :: string

record service_ref =
  sref_port :: int
  sref_proto :: string

record finding =
  f_id :: string
  f_title :: string
  f_category :: string
  f_severityBase :: severity
  f_severity :: severity
  f_adjustments :: "adjustment_entry list"
  f_status :: string
  f_acceptedReason :: string
  f_source :: string
  f_confidence :: string
  f_platform :: string
  f_evidence :: "evidence list"
  f_impact :: string
  f_remediation :: remediation
  f_contextNote :: string
  f_service :: "service_ref option"
  f_custom :: bool
  f_cappedBy :: string

definition ConfidenceHigh :: string where "ConfidenceHigh = ''high''"
definition ConfidenceMedium :: string where "ConfidenceMedium = ''medium''"
definition ConfidenceLow :: string where "ConfidenceLow = ''low''"

definition confidence_rank :: "string \<Rightarrow> int" where
  "confidence_rank c =
     (if c = ConfidenceHigh then 2 else if c = ConfidenceMedium then 1 else if c = ConfidenceLow then 0 else - 1)"

definition CategoryCustom :: string where "CategoryCustom = ''custom''"
definition FindingOpen :: string where "FindingOpen = ''open''"
definition FindingAccepted :: string where "FindingAccepted = ''accepted''"
definition SourceRule :: string where "SourceRule = ''rule''"
definition SourceModel :: string where "SourceModel = ''model''"

lemmas finding_consts = ConfidenceHigh_def ConfidenceMedium_def ConfidenceLow_def CategoryCustom_def
  FindingOpen_def FindingAccepted_def SourceRule_def SourceModel_def

definition finding_open :: "finding \<Rightarrow> bool" where
  "finding_open f = (f_status f = FindingOpen)"

section \<open>Chains (chain.go)\<close>

record sev_ref =
  ref_key :: string
  ref_observation :: string
  ref_excerpt :: string

definition no_ref :: sev_ref where "no_ref = \<lparr>ref_key = [], ref_observation = [], ref_excerpt = []\<rparr>"

record attribute =
  att_name :: string
  att_asset :: string
  att_ref :: sev_ref

record attribute_raise =
  ar_name :: string
  ar_delta :: int
  ar_pastHigh :: bool
  ar_why :: string

datatype stopped = NotStopped | StoppedScaleEnd | StoppedPastHigh | StoppedCeiling | StoppedExposed
  | StoppedNotEstablished

datatype moved_by = ByCollector | ByEngagement

record move =
  mv_rule :: string
  mv_by :: moved_by
  mv_delta :: int
  mv_from :: severity
  mv_to :: severity
  mv_ref :: sev_ref
  mv_stopped :: stopped
  mv_why :: string

record chain =
  ch_base :: severity
  ch_severity :: severity
  ch_moves :: "move list"

definition shift :: "severity \<Rightarrow> int \<Rightarrow> severity" where
  "shift s delta = sev_scale ! nat (max 0 (min (int (length sev_scale) - 1) (sev_rank s + delta)))"

definition maxSev :: "severity \<Rightarrow> severity \<Rightarrow> severity" where
  "maxSev a b = (if sev_rank a \<ge> sev_rank b then a else b)"

text \<open>Where a move of \<open>m_delta\<close> ends, and what stopped it.\<close>

definition step_to :: "severity \<Rightarrow> int \<Rightarrow> bool \<Rightarrow> severity option \<Rightarrow> severity \<times> stopped option" where
  "step_to s delta pastHigh ceiling =
     (let next_sev = shift s delta in
      if next_sev = s then (next_sev, Some StoppedScaleEnd)
      else if 0 < delta \<and> (case ceiling of None \<Rightarrow> False | Some c \<Rightarrow> sev_rank next_sev > sev_rank c)
        then (maxSev s (the ceiling), Some StoppedCeiling)
      else if 0 < delta \<and> \<not> pastHigh \<and> sev_rank next_sev > sev_rank SevHigh
        then (maxSev s SevHigh, Some StoppedPastHigh)
      else (next_sev, None))"

definition chain_step :: "chain \<Rightarrow> move \<Rightarrow> bool \<Rightarrow> severity option \<Rightarrow> bool \<times> chain" where
  "chain_step c m pastHigh ceiling =
     (let (to_sev, why) = step_to (ch_severity c) (mv_delta m) pastHigh ceiling;
          m' = m\<lparr>mv_from := ch_severity c, mv_to := to_sev,
                 mv_stopped := (case why of None \<Rightarrow> mv_stopped m | Some w \<Rightarrow> w)\<rparr>
      in (to_sev \<noteq> ch_severity c, c\<lparr>ch_moves := ch_moves c @ [m'], ch_severity := to_sev\<rparr>))"

section \<open>Definitions (catalog.go) and judgments (judgment.go)\<close>

datatype exposure = ExposureUndeclared | NotExposure | IsExposure

record def =
  def_id :: string
  def_title :: string
  def_category :: string
  def_area :: string
  def_exposure :: exposure
  def_judges :: string
  def_baseSeverity :: severity
  def_impact :: string
  def_remediation :: remediation
  def_premise :: "string list"
  def_subject :: string
  def_ceiling :: "severity option"
  def_hostAccess :: bool
  def_attributes :: "attribute_raise list"
  def_multiFact :: bool

definition AreaIdentity :: string where "AreaIdentity = ''identity''"
definition AreaSecrets :: string where "AreaSecrets = ''secrets''"
definition AreaCloud :: string where "AreaCloud = ''cloud''"
definition AreaData :: string where "AreaData = ''data''"
definition AreaCICD :: string where "AreaCICD = ''cicd''"
definition AreaExternal :: string where "AreaExternal = ''external''"
definition AreaWeb :: string where "AreaWeb = ''web''"
definition AreaHosts :: string where "AreaHosts = ''hosts''"
definition AreaEmail :: string where "AreaEmail = ''email''"
definition AreaLogging :: string where "AreaLogging = ''logging''"

definition Areas :: "string list" where
  "Areas = [AreaIdentity, AreaSecrets, AreaCloud, AreaData, AreaCICD, AreaExternal, AreaWeb, AreaHosts,
     AreaEmail, AreaLogging]"

definition def_lookup :: "def list \<Rightarrow> string \<Rightarrow> def option" where
  "def_lookup defs i = List.find (\<lambda>d. def_id d = i) defs"

definition known_id :: "def list \<Rightarrow> string \<Rightarrow> bool" where
  "known_id defs i = (def_lookup defs i \<noteq> None)"

datatype def_error = DuplicateDef string | IncompleteDef string | CeilingBelowBase string

definition register_def :: "def list \<Rightarrow> def \<Rightarrow> def_error + def list" where
  "register_def defs d =
     (if def_lookup defs (def_id d) \<noteq> None then Inl (DuplicateDef (def_id d))
      else if def_id d = [] \<or> def_title d = [] \<or> def_impact d = [] \<or> rem_summary (def_remediation d) = [] \<or>
          def_area d = [] \<or> def_exposure d = ExposureUndeclared \<or> def_judges d = []
        then Inl (IncompleteDef (def_id d))
      else if (case def_ceiling d of None \<Rightarrow> False | Some c \<Rightarrow> sev_rank c < sev_rank (def_baseSeverity d))
        then Inl (CeilingBelowBase (def_id d))
      else Inr (defs @ [d]))"

definition mattersMostRaises :: "def \<Rightarrow> string \<Rightarrow> bool" where
  "mattersMostRaises d owner =
     (if has_prefix owner ''host:'' then def_hostAccess d
      else def_area d = AreaIdentity \<or> def_area d = AreaSecrets \<or> def_area d = AreaData \<or> def_area d = AreaExternal)"

record subject =
  sub_kind :: string
  sub_key :: string
  sub_label :: string
  sub_providerID :: string
  sub_person :: string

text \<open>
  A judgment, as far as grading reads it: \<open>superseded\<close> is whether its details name a judgment that
  supersedes it, and the listed subjects and their notes are left out.
\<close>

record rule_judgment =
  jd_id :: string
  jd_asset :: string
  jd_subject :: subject
  jd_verdict :: string
  jd_reads :: "string list"
  jd_excerpt :: string
  jd_attributes :: "attribute list"
  jd_superseded :: bool
  jd_why :: string
  jd_chain :: "chain option"

definition find_attribute :: "rule_judgment \<Rightarrow> string \<Rightarrow> attribute option" where
  "find_attribute j name = List.find (\<lambda>a. att_name a = name) (jd_attributes j)"

definition has_attribute :: "rule_judgment \<Rightarrow> string \<Rightarrow> bool" where
  "has_attribute j name = list_ex (\<lambda>a. att_name a = name) (jd_attributes j)"

section \<open>Shifts and steps\<close>

lemma sev_scale_nth: "0 \<le> n \<Longrightarrow> n \<le> 4 \<Longrightarrow> sev_rank (sev_scale ! nat n) = n"
proof -
  assume "0 \<le> n" "n \<le> 4"
  then consider "n = 0" | "n = 1" | "n = 2" | "n = 3" | "n = 4" by linarith
  then show ?thesis by cases (simp_all add: sev_scale_def)
qed

lemma sev_rank_shift: "sev_rank (shift s d) = max 0 (min 4 (sev_rank s + d))"
  unfolding shift_def by (subst sev_scale_nth) (auto simp: sev_scale_def)

lemma shift_zero [simp]: "shift s 0 = s"
  by (rule sev_rank_inject [THEN iffD1]) (simp add: sev_rank_shift)

lemma shift_mono: "s \<le> t \<Longrightarrow> shift s d \<le> shift t d"
  by (simp add: sev_order sev_rank_shift)

lemma maxSev_max: "maxSev a b = max a b"
  by (simp add: maxSev_def max_def sev_order)

lemma sev_le_critical [simp]: "s \<le> SevCritical"
  by (simp add: sev_order)

lemma step_to_up:
  assumes "step_to s d pastHigh ceiling = (t, w)" "0 \<le> d"
  shows "s \<le> t \<and> t \<le> shift s d"
  using assms
  by (auto simp: step_to_def Let_def maxSev_max sev_rank_shift split: if_splits option.splits)
    (auto simp: sev_order sev_rank_shift)

end
