(* ===== verification/Severity_Table.thy ===== *)
theory Severity_Table
  imports Severity
begin

text \<open>
  The engagement's severity table, \<open>internal/engagement/severity/severity.go\<close>: which declarations
  and attributes move a fired judgment, in what order, and where each step stops.  A row is a record
  with its match as a function, as in the source; \<open>match\<close> returns what the step rests on and its
  sentence.  The maps of the declarations are association lists.
\<close>

section \<open>Declarations and rows\<close>

record exposed_decl =
  exd_url :: string
  exd_reason :: string
  exd_key :: string

record matter =
  mat_asset :: string
  mat_name :: string
  mat_what :: string
  mat_key :: string

record production =
  prod_name :: string
  prod_key :: string

record declarations =
  decl_exposed :: "exposed_decl list"
  decl_mattersMost :: "matter list"
  decl_production :: "(string \<times> production) list"
  decl_internet :: "(string \<times> string) list"

record sev_instance =
  in_def :: def
  in_j :: rule_judgment
  in_owner :: string

type_synonym sev_match = "declarations \<Rightarrow> sev_instance \<Rightarrow> (sev_ref \<times> string) option"

record sev_rule =
  rw_name :: string
  rw_ids :: "string list option"
  rw_pastHigh :: bool
  rw_lower :: bool
  rw_match :: sev_match
  rw_notApplied :: "sev_match option"

definition whyCeiling :: string where
  "whyCeiling = ''capped at high: the cloud firewall and the service's own sign-in were not read, so scheck cannot say anyone can use this now.''"

definition whyExposed :: "string \<Rightarrow> string" where
  "whyExposed k = ''not applied: declared exposed on purpose ('' @ k @ '').''"

definition WhyPastHigh :: "string \<Rightarrow> string" where
  "WhyPastHigh rule = ''capped at high by '' @ rule @ '': critical means that anyone, or someone with no right to it, can use this now, or that you believe it is handled; '' @ rule @ '' says neither.''"

definition IDIdentityFormerPersonHasAccess :: string where
  "IDIdentityFormerPersonHasAccess = ''identity.former_person_has_access''"
definition IDGitHubWritableDeployKey :: string where
  "IDGitHubWritableDeployKey = ''github.writable_deploy_key''"
definition IDGitHubRepositoryWorkflowWrite :: string where
  "IDGitHubRepositoryWorkflowWrite = ''github.repository_workflow_default_write''"
definition IDGitHubDefaultBranchUnprotected :: string where
  "IDGitHubDefaultBranchUnprotected = ''github.default_branch_unprotected''"
definition IDGitHubPRTargetUnsafe :: string where
  "IDGitHubPRTargetUnsafe = ''github.pr_target_unsafe_checkout''"
definition IDGitHubSecretScanningOpen :: string where
  "IDGitHubSecretScanningOpen = ''github.secret_scanning_open''"
definition IDGitHubHistoryCredential :: string where
  "IDGitHubHistoryCredential = ''github.history_credential''"
definition IDExternalForwarding :: string where "IDExternalForwarding = ''workspace.external_forwarding''"
definition IDOAuthBroadScope :: string where "IDOAuthBroadScope = ''workspace.oauth_broad_scope''"
definition IDDBListensUnfiltered :: string where "IDDBListensUnfiltered = ''db.listens_unfiltered''"
definition IDSvcListensBeyond :: string where "IDSvcListensBeyond = ''svc.listens_beyond_declared''"

lemmas sev_id_defs = IDIdentityFormerPersonHasAccess_def IDGitHubWritableDeployKey_def
  IDGitHubRepositoryWorkflowWrite_def IDGitHubDefaultBranchUnprotected_def IDGitHubPRTargetUnsafe_def
  IDGitHubSecretScanningOpen_def IDGitHubHistoryCredential_def IDExternalForwarding_def IDOAuthBroadScope_def
  IDDBListensUnfiltered_def IDSvcListensBeyond_def

definition productionIDs :: "string list" where
  "productionIDs = [IDGitHubWritableDeployKey, IDGitHubRepositoryWorkflowWrite,
     IDGitHubDefaultBranchUnprotected, IDGitHubPRTargetUnsafe]"

definition internetIDs :: "string list" where
  "internetIDs = [IDDBListensUnfiltered, IDSvcListensBeyond]"

section \<open>What a step rests on\<close>

definition ownWords :: "rule_judgment \<Rightarrow> string \<Rightarrow> string" where
  "ownWords j why = (if jd_why j \<noteq> [] then [] else why)"

definition refOf :: "rule_judgment \<Rightarrow> sev_ref \<Rightarrow> sev_ref" where
  "refOf j ref0 =
     (let ref = (if ref_key ref0 = [] \<and> ref_observation ref0 = [] \<and> jd_reads j \<noteq> []
                 then ref0\<lparr>ref_observation := hd (jd_reads j)\<rparr> else ref0)
      in if ref_key ref = [] \<and> ref_excerpt ref = [] then ref\<lparr>ref_excerpt := jd_excerpt j\<rparr> else ref)"

definition repoName :: "string \<Rightarrow> production \<Rightarrow> string" where
  "repoName asset p =
     (if has_prefix asset ''repo:github:'' then drop (length ''repo:github:'') asset else prod_name p)"

definition cites :: "string \<Rightarrow> string \<Rightarrow> sev_match" where
  "cites attr why d i =
     map_option (\<lambda>a. (refOf (in_j i) (att_ref a), ownWords (in_j i) why)) (find_attribute (in_j i) attr)"

text \<open>The first attribute that names a production repository and says write is held ends the search.\<close>

primrec unsettled_causes :: "(string \<times> production) list \<Rightarrow> attribute list \<Rightarrow> attribute list option" where
  "unsettled_causes prods [] = Some []"
| "unsettled_causes prods (a # as) =
     (if map_of prods (att_asset a) = None then unsettled_causes prods as
      else if att_name a = ''write_held'' then None
      else map_option (\<lambda>cs. if att_name a = ''write_unsettled'' then a # cs else cs) (unsettled_causes prods as))"

definition productionWriteUnsettled :: sev_match where
  "productionWriteUnsettled d i =
     (case unsettled_causes (decl_production d) (jd_attributes (in_j i)) of
        None \<Rightarrow> None
      | Some [] \<Rightarrow> None
      | Some causes0 \<Rightarrow>
          (let causes = sort_key att_asset causes0; n = length causes - 1 in
           Some (att_ref (hd causes),
             ''not applied: write access to production repositories was not established ('' @
             ref_excerpt (att_ref (hd causes)) @
             (if n = 1 then ''; and 1 more production repository''
              else if 1 < n then ''; and '' @ show_nat n @ '' more production repositories'' else []) @ '').'')))"

section \<open>The table\<close>

definition plain_row :: "string \<Rightarrow> string list option \<Rightarrow> bool \<Rightarrow> sev_match \<Rightarrow> sev_rule" where
  "plain_row name ids pastHigh m =
     \<lparr>rw_name = name, rw_ids = ids, rw_pastHigh = pastHigh, rw_lower = False, rw_match = m, rw_notApplied = None\<rparr>"

definition match_exposed :: sev_match where
  "match_exposed d i =
     (if def_exposure (in_def i) \<noteq> IsExposure then None
      else map_option (\<lambda>e. (no_ref\<lparr>ref_key := exd_key e\<rparr>, ''You declared this URL exposed on purpose: '' @ exd_reason e))
        (List.find (\<lambda>e. exd_url e = sub_key (jd_subject (in_j i))) (decl_exposed d)))"

definition match_mattersMost :: sev_match where
  "match_mattersMost d i =
     (if \<not> mattersMostRaises (in_def i) (in_owner i) then None
      else map_option (\<lambda>m. (no_ref\<lparr>ref_key := mat_key m\<rparr>,
          ''You listed '' @ mat_name m @ '' under data.matters_most'' @
          (if mat_what m \<noteq> [] then '' as holding '' @ mat_what m else []) @ '', so this ranks one step higher.''))
        (List.find (\<lambda>m. mat_asset m = in_owner i) (decl_mattersMost d)))"

definition match_production :: sev_match where
  "match_production d i =
     (case map_of (decl_production d) (in_owner i) of
        None \<Rightarrow> None
      | Some p \<Rightarrow>
          if jd_id (in_j i) \<in> set productionIDs
          then Some (no_ref\<lparr>ref_key := prod_key p\<rparr>,
            ''This repository is declared to deploy to production, so this rating rises one step.'')
          else None)"

definition match_internet :: sev_match where
  "match_internet d i =
     map_option (\<lambda>k. (no_ref\<lparr>ref_key := k\<rparr>, ''You declared this host internet-facing, so this ranks one step higher.''))
       (map_of (decl_internet d) (in_owner i))"

definition match_contradiction :: sev_match where
  "match_contradiction d i =
     (case find_attribute (in_j i) ''contradiction'' of
        None \<Rightarrow> None
      | Some a \<Rightarrow>
          if ref_key (att_ref a) = [] then None
          else Some (att_ref a, ownWords (in_j i) (''What was observed contradicts what you declared at '' @
            ref_key (att_ref a) @ '', so this ranks one step higher.'')))"

definition left_admin_why :: string where
  "left_admin_why = ''This person left and still holds administrator rights, so this ranks one step higher.''"

definition match_left_admin :: sev_match where
  "match_left_admin d i =
     (case cites ''admin'' left_admin_why d i of
        Some m \<Rightarrow> Some m
      | None \<Rightarrow>
          if map_of (decl_production d) (in_owner i) \<noteq> None then cites ''repository_admin'' left_admin_why d i else None)"

definition match_left_write :: sev_match where
  "match_left_write d i =
     (case (find_attribute (in_j i) ''write'', map_of (decl_production d) (in_owner i)) of
        (Some a, Some p) \<Rightarrow>
          Some (refOf (in_j i) (att_ref a), ownWords (in_j i) (''This person left and can still push to '' @
            repoName (in_owner i) p @ '', which you declared deploys to production, so this ranks one step higher.''))
      | _ \<Rightarrow> None)"

definition match_public_repository :: sev_match where
  "match_public_repository d i =
     map_option (\<lambda>a. (refOf (in_j i) (att_ref a),
         ''This finding concerns a secret in an observed public repository, so the rating rises to critical. Credential usability was not tested.''))
       (find_attribute (in_j i) ''public_repository'')"

definition sev_rules :: "sev_rule list" where
  "sev_rules =
     [(plain_row ''exposed_on_purpose'' None False match_exposed)\<lparr>rw_lower := True\<rparr>,
      plain_row ''data_matters_most'' None False match_mattersMost,
      plain_row ''deploys_to:production'' None False match_production,
      plain_row ''exposure:internet'' (Some internetIDs) False match_internet,
      plain_row ''contradiction'' None True match_contradiction,
      plain_row ''attribute:admin'' (Some [IDIdentityFormerPersonHasAccess]) True match_left_admin,
      (plain_row ''attribute:production_write'' (Some [IDIdentityFormerPersonHasAccess]) True match_left_write)
        \<lparr>rw_notApplied := Some productionWriteUnsettled\<rparr>,
      plain_row ''attribute:admin'' (Some [IDExternalForwarding]) False
        (cites ''admin'' ''This mailbox belongs to a super administrator, so this ranks one step higher.''),
      plain_row ''attribute:admin_grantor'' (Some [IDOAuthBroadScope]) False
        (cites ''admin_grantor'' ''An administrator account granted this app, so this ranks one step higher.''),
      plain_row ''attribute:public_repository'' (Some [IDGitHubSecretScanningOpen, IDGitHubHistoryCredential]) True
        match_public_repository]"

section \<open>Grading\<close>

definition sev_step :: "chain \<Rightarrow> def \<Rightarrow> move \<Rightarrow> bool \<Rightarrow> chain" where
  "sev_step c d m pastHigh =
     (let c' = snd (chain_step c m pastHigh (def_ceiling d)); lst = List.last (ch_moves c')
      in c'\<lparr>ch_moves := butlast (ch_moves c') @
          [lst\<lparr>mv_why := (case mv_stopped lst of StoppedCeiling \<Rightarrow> whyCeiling
             | StoppedPastHigh \<Rightarrow> WhyPastHigh (mv_rule m) | StoppedScaleEnd \<Rightarrow> [] | _ \<Rightarrow> mv_why lst)\<rparr>]\<rparr>)"

definition new_move :: "string \<Rightarrow> moved_by \<Rightarrow> int \<Rightarrow> sev_ref \<Rightarrow> string \<Rightarrow> move" where
  "new_move rule who d ref why =
     \<lparr>mv_rule = rule, mv_by = who, mv_delta = d, mv_from = SevInfo, mv_to = SevInfo, mv_ref = ref,
      mv_stopped = NotStopped, mv_why = why\<rparr>"

text \<open>The collector's own steps.\<close>

definition attribute_step :: "def \<Rightarrow> rule_judgment \<Rightarrow> chain \<Rightarrow> attribute_raise \<Rightarrow> chain" where
  "attribute_step d j c r =
     (case find_attribute j (ar_name r) of
        None \<Rightarrow> c
      | Some a \<Rightarrow> sev_step c d (new_move (''attribute:'' @ ar_name r) ByCollector (ar_delta r) (refOf j (att_ref a)) (ar_why r))
          (ar_pastHigh r))"

text \<open>One row of the table; \<open>exposed\<close> is the key of an earlier exposed-on-purpose step.\<close>

definition row_step :: "declarations \<Rightarrow> sev_instance \<Rightarrow> chain \<times> string \<Rightarrow> sev_rule \<Rightarrow> chain \<times> string" where
  "row_step d i ce row = (case ce of (c, exposed) \<Rightarrow>
     (if (case rw_ids row of None \<Rightarrow> False | Some ids \<Rightarrow> jd_id (in_j i) \<notin> set ids) then (c, exposed)
      else
        (case rw_match row d i of
           None \<Rightarrow>
             (case rw_notApplied row of
                None \<Rightarrow> (c, exposed)
              | Some n \<Rightarrow>
                  (case n d i of
                     None \<Rightarrow> (c, exposed)
                   | Some (ref, why) \<Rightarrow>
                       if exposed = []
                       then (c\<lparr>ch_moves := ch_moves c @ [(new_move (rw_name row) ByEngagement 1 ref why)
                              \<lparr>mv_from := ch_severity c, mv_to := ch_severity c, mv_stopped := StoppedNotEstablished\<rparr>]\<rparr>,
                             exposed)
                       else (c, exposed)))
         | Some (ref, why) \<Rightarrow>
             if exposed \<noteq> []
             then (c\<lparr>ch_moves := ch_moves c @ [(new_move (rw_name row) ByEngagement 1 ref (whyExposed exposed))
                    \<lparr>mv_from := ch_severity c, mv_to := ch_severity c, mv_stopped := StoppedExposed\<rparr>]\<rparr>, exposed)
             else if rw_lower row
             then (sev_step c (in_def i) (new_move (rw_name row) ByEngagement
                     (sev_rank SevInfo - sev_rank (ch_severity c)) ref why) (rw_pastHigh row), ref_key ref)
             else (sev_step c (in_def i) (new_move (rw_name row) ByEngagement 1 ref why) (rw_pastHigh row), exposed))))"

definition sev_chain :: "def \<Rightarrow> rule_judgment \<Rightarrow> string \<Rightarrow> declarations \<Rightarrow> severity \<Rightarrow> chain" where
  "sev_chain d j owner decls start =
     (let c = \<lparr>ch_base = start, ch_severity = start, ch_moves = []\<rparr>;
          c1 = foldl (attribute_step d j) c (def_attributes d)
      in fst (foldl (row_step decls \<lparr>in_def = d, in_j = j, in_owner = owner\<rparr>) (c1, []) sev_rules))"

definition sev_grade :: "def list \<Rightarrow> rule_judgment \<Rightarrow> string \<Rightarrow> declarations \<Rightarrow> chain option" where
  "sev_grade defs j owner decls =
     (case def_lookup defs (jd_id j) of
        None \<Rightarrow> None
      | Some d \<Rightarrow> Some (sev_chain d j owner decls (def_baseSeverity d)))"

definition zero_subject :: subject where
  "zero_subject = \<lparr>sub_kind = [], sub_key = [], sub_label = [], sub_providerID = [], sub_person = []\<rparr>"

definition judgment_of_id :: "string \<Rightarrow> rule_judgment" where
  "judgment_of_id i = \<lparr>jd_id = i, jd_asset = [], jd_subject = zero_subject, jd_verdict = [], jd_reads = [],
     jd_excerpt = [], jd_attributes = [], jd_superseded = False, jd_why = [], jd_chain = None\<rparr>"

definition gradeHost :: "def list \<Rightarrow> string \<Rightarrow> severity \<Rightarrow> string \<Rightarrow> declarations \<Rightarrow> chain option" where
  "gradeHost defs i sev owner decls =
     (case def_lookup defs i of
        None \<Rightarrow> None
      | Some d \<Rightarrow>
          (let c = sev_chain d (judgment_of_id i) owner decls sev in if ch_moves c = [] then None else Some c))"

definition Fired :: string where "Fired = ''fired''"

definition gradeAll :: "def list \<Rightarrow> rule_judgment list \<Rightarrow> string \<Rightarrow> declarations \<Rightarrow> rule_judgment list" where
  "gradeAll defs js owner decls =
     map (\<lambda>j0. let j = j0\<lparr>jd_chain := None\<rparr> in
       if jd_verdict j \<noteq> Fired \<or> jd_superseded j then j
       else j\<lparr>jd_chain := sev_grade defs j (if jd_asset j = [] then owner else jd_asset j) decls\<rparr>) js"

section \<open>What a chain accounts for\<close>

text \<open>Moves that lead from one severity to another, each starting where the one before it ended.\<close>

primrec links :: "severity \<Rightarrow> move list \<Rightarrow> severity \<Rightarrow> bool" where
  "links s [] t = (s = t)"
| "links s (m # ms) t = (mv_from m = s \<and> links (mv_to m) ms t)"

lemma links_append: "links s (ms @ ns) u \<longleftrightarrow> (\<exists>t. links s ms t \<and> links t ns u)"
  by (induction ms arbitrary: s) auto

text \<open>The origin of a step that may pass high.\<close>

definition may_pass_high :: "def \<Rightarrow> move \<Rightarrow> bool" where
  "may_pass_high d m =
     ((mv_by m = ByEngagement \<and> (\<exists>row \<in> set sev_rules. rw_pastHigh row \<and> mv_rule m = rw_name row)) \<or>
      (mv_by m = ByCollector \<and> (\<exists>r \<in> set (def_attributes d). ar_pastHigh r \<and> mv_rule m = ''attribute:'' @ ar_name r)))"

lemma sev_step_parts:
  obtains m' where "sev_step c d m pastHigh = c\<lparr>ch_moves := ch_moves c @ [m'],
      ch_severity := fst (step_to (ch_severity c) (mv_delta m) pastHigh (def_ceiling d))\<rparr>"
    "mv_from m' = ch_severity c"
    "mv_to m' = fst (step_to (ch_severity c) (mv_delta m) pastHigh (def_ceiling d))"
    "mv_rule m' = mv_rule m" "mv_by m' = mv_by m"
  by (rule that [of "List.last (ch_moves (sev_step c d m pastHigh))"])
    (simp_all add: sev_step_def chain_step_def Let_def case_prod_beta)

text \<open>
  An invariant of chains holds at the end if every step the grader takes keeps it: a step of the
  collector, a step of the table, and a move that is said and not taken.
\<close>

definition step_kind :: "def \<Rightarrow> move \<Rightarrow> bool \<Rightarrow> bool" where
  "step_kind d m pastHigh =
     ((\<exists>row \<in> set sev_rules. mv_rule m = rw_name row \<and> pastHigh = rw_pastHigh row \<and> mv_by m = ByEngagement) \<or>
      (\<exists>r \<in> set (def_attributes d). mv_rule m = ''attribute:'' @ ar_name r \<and> pastHigh = ar_pastHigh r \<and> mv_by m = ByCollector))"

lemma step_kindI:
  "row \<in> set sev_rules \<Longrightarrow> step_kind d (new_move (rw_name row) ByEngagement delta ref why) (rw_pastHigh row)"
  "r \<in> set (def_attributes d) \<Longrightarrow>
   step_kind d (new_move (''attribute:'' @ ar_name r) ByCollector delta ref why) (ar_pastHigh r)"
  unfolding step_kind_def new_move_def by (rule disjI1, rule bexI, simp_all) blast

lemma sev_chain_invariant:
  assumes init: "P \<lparr>ch_base = start, ch_severity = start, ch_moves = []\<rparr>"
    and step: "\<And>c m pastHigh. P c \<Longrightarrow> step_kind d m pastHigh \<Longrightarrow> P (sev_step c d m pastHigh)"
    and said: "\<And>c m. P c \<Longrightarrow> mv_from m = ch_severity c \<Longrightarrow> mv_to m = ch_severity c \<Longrightarrow> P (c\<lparr>ch_moves := ch_moves c @ [m]\<rparr>)"
  shows "P (sev_chain d j owner decls start)"
proof -
  let ?i = "\<lparr>in_def = d, in_j = j, in_owner = owner\<rparr>"
  have attrs: "P (foldl (attribute_step d j) c rs)" if "P c" "set rs \<subseteq> set (def_attributes d)" for c rs
    using that
  proof (induction rs arbitrary: c)
    case (Cons r rs)
    have "P (attribute_step d j c r)"
      using Cons.prems unfolding attribute_step_def
      by (auto split: option.split intro!: step step_kindI(2) [simplified])
    with Cons show ?case by simp
  qed simp
  have row: "P (fst (row_step decls ?i ce r))" if "P (fst ce)" "r \<in> set sev_rules" for ce r
    using that said
    by (cases ce) (auto simp: row_step_def new_move_def split: option.split
        intro!: step step_kindI(1) [unfolded new_move_def])
  have rows: "P (fst (foldl (row_step decls ?i) ce rs))" if "P (fst ce)" "set rs \<subseteq> set sev_rules" for ce rs
    using that by (induction rs arbitrary: ce) (simp_all add: row)
  show ?thesis
    unfolding sev_chain_def Let_def by (rule rows) (auto intro: attrs init)
qed

text \<open>
  A chain accounts for every change: its moves lead without a gap from the base it was started
  at to the severity it ends with.
\<close>
theorem severity_chain_accounts:
  "ch_base (sev_chain d j owner decls start) = start \<and>
   links start (ch_moves (sev_chain d j owner decls start)) (ch_severity (sev_chain d j owner decls start))"
proof (rule sev_chain_invariant [where P = "\<lambda>c. ch_base c = start \<and> links start (ch_moves c) (ch_severity c)"])
  fix c :: chain and m pastHigh
  assume "ch_base c = start \<and> links start (ch_moves c) (ch_severity c)"
  then show "ch_base (sev_step c d m pastHigh) = start \<and>
      links start (ch_moves (sev_step c d m pastHigh)) (ch_severity (sev_step c d m pastHigh))"
    by (rule_tac sev_step_parts [of c d m pastHigh]) (auto simp: links_append)
qed (auto simp: links_append)

lemma step_to_ceiling:
  assumes "s \<le> cl" "step_to s delta pastHigh (Some cl) = (t, w)"
  shows "t \<le> cl"
proof (cases "0 < delta")
  case True
  then show ?thesis
    using assms by (auto simp: step_to_def Let_def maxSev_max split: if_splits) (simp_all add: sev_order)
next
  case False
  then have "shift s delta \<le> s" by (simp add: sev_order sev_rank_shift)
  with False assms show ?thesis by (auto simp: step_to_def Let_def split: if_splits)
qed

text \<open>
  C31: The definition's ceiling holds: from a start at or below it, no combination of attributes
  and declarations ends above it.
\<close>
theorem severity_ceiling:
  assumes "def_ceiling d = Some cl" and "start \<le> cl"
  shows "ch_severity (sev_chain d j owner decls start) \<le> cl"
proof (rule sev_chain_invariant [where P = "\<lambda>c. ch_severity c \<le> cl"])
  fix c :: chain and m pastHigh
  assume "ch_severity c \<le> cl"
  then show "ch_severity (sev_step c d m pastHigh) \<le> cl"
    by (rule_tac sev_step_parts [of c d m pastHigh]) (auto intro: step_to_ceiling simp: assms(1) prod_eq_iff)
qed (simp_all add: assms(2))

lemma step_to_high:
  assumes "step_to s delta False ceiling = (t, w)" "s \<le> SevHigh"
  shows "t \<le> SevHigh"
proof (cases "0 < delta")
  case True
  have c: "c \<le> SevHigh" if "\<not> sev_rank (shift s delta) \<le> sev_rank c" for c
    using that by (cases c) (auto simp: sev_order sev_rank_shift)
  show ?thesis
    using assms True c
    by (auto simp: step_to_def Let_def maxSev_max not_less split: if_splits option.splits) (auto simp: sev_order)
next
  case False
  then have "shift s delta \<le> s" by (simp add: sev_order sev_rank_shift)
  with False assms show ?thesis by (auto simp: step_to_def Let_def split: if_splits)
qed

text \<open>
  Critical is earned: a move that takes a finding from high or below to critical is one of the
  table's past-high rows or an attribute step the definition marks so.
\<close>
theorem severity_past_high:
  assumes "m \<in> set (ch_moves (sev_chain d j owner decls start))" and "mv_from m \<le> SevHigh" and "SevHigh < mv_to m"
  shows "may_pass_high d m"
proof -
  have "\<forall>m \<in> set (ch_moves (sev_chain d j owner decls start)).
      mv_from m \<le> SevHigh \<longrightarrow> SevHigh < mv_to m \<longrightarrow> may_pass_high d m"
  proof (rule sev_chain_invariant [where P = "\<lambda>c. \<forall>m \<in> set (ch_moves c).
        mv_from m \<le> SevHigh \<longrightarrow> SevHigh < mv_to m \<longrightarrow> may_pass_high d m"])
    fix c :: chain and m0 pastHigh
    assume IH: "\<forall>m \<in> set (ch_moves c). mv_from m \<le> SevHigh \<longrightarrow> SevHigh < mv_to m \<longrightarrow> may_pass_high d m"
      and kind: "step_kind d m0 pastHigh"
    obtain m' where m': "ch_moves (sev_step c d m0 pastHigh) = ch_moves c @ [m']" "mv_from m' = ch_severity c"
        "mv_to m' = fst (step_to (ch_severity c) (mv_delta m0) pastHigh (def_ceiling d))"
        "mv_rule m' = mv_rule m0" "mv_by m' = mv_by m0"
      by (rule sev_step_parts [of c d m0 pastHigh]) simp
    have "may_pass_high d m'" if "mv_from m' \<le> SevHigh" "SevHigh < mv_to m'"
    proof -
      have pastHigh using that m'(2,3) step_to_high [of "ch_severity c" "mv_delta m0" "def_ceiling d"]
        by (metis (full_types) leD prod.collapse)
      then show ?thesis using kind m'(4,5) unfolding may_pass_high_def step_kind_def by metis
    qed
    with IH show "\<forall>m \<in> set (ch_moves (sev_step c d m0 pastHigh)).
        mv_from m \<le> SevHigh \<longrightarrow> SevHigh < mv_to m \<longrightarrow> may_pass_high d m"
      by (simp add: m'(1))
  qed auto
  with assms show ?thesis by simp
qed

lemma row_step_exposed:
  "e \<noteq> [] \<Longrightarrow> ch_severity (fst (row_step decls i (c, e) row)) = ch_severity c \<and> snd (row_step decls i (c, e) row) = e"
  by (auto simp: row_step_def split: option.split)

lemma rows_exposed:
  "snd ce \<noteq> [] \<Longrightarrow> ch_severity (fst (foldl (row_step decls i) ce rows)) = ch_severity (fst ce)"
proof (induction rows arbitrary: ce)
  case (Cons row rows)
  then show ?case
    using row_step_exposed [of "snd ce" decls i "fst ce" row] by simp
qed simp

lemma step_to_info: "fst (step_to s (sev_rank SevInfo - sev_rank s) pastHigh ceiling) = SevInfo"
proof -
  have "shift s (sev_rank SevInfo - sev_rank s) = SevInfo"
    by (rule sev_rank_inject [THEN iffD1]) (simp add: sev_rank_shift)
  moreover have "\<not> sev_rank s < 0" by (simp add: not_less)
  ultimately show ?thesis by (auto simp: step_to_def Let_def)
qed

text \<open>
  Exposed on purpose is terminal: an exposure finding whose URL the operator declared exposed,
  under a key, ends at info, whatever attributes it carries and whatever else is declared.
\<close>
theorem exposed_on_purpose_terminal:
  assumes "def_exposure d = IsExposure"
    and "List.find (\<lambda>e. exd_url e = sub_key (jd_subject j)) (decl_exposed decls) = Some e" and "exd_key e \<noteq> []"
  shows "ch_severity (sev_chain d j owner decls start) = SevInfo"
proof -
  let ?i = "\<lparr>in_def = d, in_j = j, in_owner = owner\<rparr>"
  obtain rest where rules: "sev_rules = (plain_row ''exposed_on_purpose'' None False match_exposed)\<lparr>rw_lower := True\<rparr> # rest"
    unfolding sev_rules_def by blast
  have "ch_severity (fst (row_step decls ?i (c, []) (hd sev_rules))) = SevInfo \<and>
      snd (row_step decls ?i (c, []) (hd sev_rules)) = exd_key e" for c
    using assms(1,2) step_to_info
    by (auto simp: rules row_step_def plain_row_def match_exposed_def sev_step_def chain_step_def new_move_def
        Let_def case_prod_beta)
  then show ?thesis
    using assms(3) rows_exposed by (simp add: sev_chain_def rules Let_def)
qed

text \<open>The table's rows that name the judgment's finding.\<close>

definition row_applies :: "rule_judgment \<Rightarrow> sev_rule \<Rightarrow> bool" where
  "row_applies j row = (case rw_ids row of None \<Rightarrow> True | Some ids \<Rightarrow> jd_id j \<in> set ids)"

definition engagement_rules :: "chain \<Rightarrow> string list" where
  "engagement_rules c = map mv_rule (filter (\<lambda>m. mv_by m = ByEngagement) (ch_moves c))"

lemma engagement_rules_step:
  "engagement_rules (sev_step c d m pastHigh) =
   engagement_rules c @ (if mv_by m = ByEngagement then [mv_rule m] else [])"
  by (rule sev_step_parts [of c d m pastHigh]) (simp add: engagement_rules_def)

lemma engagement_rules_said:
  "engagement_rules (c\<lparr>ch_moves := ch_moves c @ [m]\<rparr>) =
   engagement_rules c @ (if mv_by m = ByEngagement then [mv_rule m] else [])"
  by (simp add: engagement_rules_def)

lemma row_step_names:
  "engagement_rules (fst (row_step decls i ce row)) = engagement_rules (fst ce) \<or>
   row_applies (in_j i) row \<and> engagement_rules (fst (row_step decls i ce row)) = engagement_rules (fst ce) @ [rw_name row]"
  by (cases ce) (auto simp: row_step_def row_applies_def engagement_rules_step engagement_rules_said new_move_def
      split: option.splits)

lemma rows_names:
  "\<exists>ns. subseq ns (map rw_name (filter (row_applies (in_j i)) rows)) \<and>
    engagement_rules (fst (foldl (row_step decls i) ce rows)) = engagement_rules (fst ce) @ ns"
proof (induction rows arbitrary: ce)
  case (Cons row rows)
  obtain ns where ns: "subseq ns (map rw_name (filter (row_applies (in_j i)) rows))"
      "engagement_rules (fst (foldl (row_step decls i) (row_step decls i ce row) rows)) =
       engagement_rules (fst (row_step decls i ce row)) @ ns"
    using Cons.IH by blast
  from row_step_names [of decls i ce row] show ?case
  proof
    assume "engagement_rules (fst (row_step decls i ce row)) = engagement_rules (fst ce)"
    then show ?thesis using ns by (intro exI [of _ ns]) (auto intro: subseq_Cons')
  next
    assume "row_applies (in_j i) row \<and> engagement_rules (fst (row_step decls i ce row)) = engagement_rules (fst ce) @ [rw_name row]"
    then show ?thesis using ns by (intro exI [of _ "rw_name row # ns"]) simp
  qed
qed simp

lemma applicable_names_distinct: "distinct (map rw_name (filter (row_applies j) sev_rules))"
proof -
  let ?ids = "[IDIdentityFormerPersonHasAccess, IDExternalForwarding, IDOAuthBroadScope,
     IDGitHubSecretScanningOpen, IDGitHubHistoryCredential, IDDBListensUnfiltered, IDSvcListensBeyond]"
  note defs = sev_rules_def plain_row_def row_applies_def internetIDs_def
  show ?thesis
  proof (cases "jd_id j \<in> set ?ids")
    case True
    then show ?thesis unfolding defs by (auto simp: sev_id_defs)
  next
    case False
    then show ?thesis unfolding defs by simp
  qed
qed

text \<open>
  The table's rows apply at most once each: no rule of the engagement's table appears twice
  among the moves of a chain, taken or said.
\<close>
theorem severity_rows_once: "distinct (engagement_rules (sev_chain d j owner decls start))"
proof -
  let ?i = "\<lparr>in_def = d, in_j = j, in_owner = owner\<rparr>"
  let ?c = "\<lparr>ch_base = start, ch_severity = start, ch_moves = []\<rparr>"
  have "engagement_rules (attribute_step d j c r) = engagement_rules c" for c r
    by (auto simp: attribute_step_def engagement_rules_step new_move_def split: option.split)
  then have "engagement_rules (foldl (attribute_step d j) c rs) = engagement_rules c" for c rs
    by (induction rs arbitrary: c) simp_all
  then have none: "engagement_rules (foldl (attribute_step d j) ?c (def_attributes d)) = []"
    by (simp add: engagement_rules_def)
  obtain ns where "subseq ns (map rw_name (filter (row_applies j) sev_rules))"
      "engagement_rules (sev_chain d j owner decls start) = ns"
    using rows_names [of ?i sev_rules decls "(foldl (attribute_step d j) ?c (def_attributes d), [])"] none
    by (auto simp: sev_chain_def)
  then show ?thesis using applicable_names_distinct [of j] by (metis distinct_nthsI subseq_conv_nths)
qed

section \<open>Witnesses\<close>

definition sample_def :: "exposure \<Rightarrow> severity \<Rightarrow> severity option \<Rightarrow> def" where
  "sample_def x base ceiling = \<lparr>def_id = ''svc.listens_beyond_declared'', def_title = ''t'', def_category = ''network'',
     def_area = AreaExternal, def_exposure = x, def_judges = ''j'', def_baseSeverity = base, def_impact = ''i'',
     def_remediation = \<lparr>rem_summary = ''s'', rem_commands = [], rem_caveat = []\<rparr>, def_premise = [], def_subject = [],
     def_ceiling = ceiling, def_hostAccess = True, def_attributes = [], def_multiFact = True\<rparr>"

definition no_decls :: declarations where
  "no_decls = \<lparr>decl_exposed = [], decl_mattersMost = [], decl_production = [], decl_internet = []\<rparr>"

definition contradicted :: rule_judgment where
  "contradicted = (judgment_of_id ''svc.listens_beyond_declared'')\<lparr>jd_attributes :=
     [\<lparr>att_name = ''contradiction'', att_asset = [], att_ref = no_ref\<lparr>ref_key := ''people[0]''\<rparr>\<rparr>]\<rparr>"

theorem severity_ceiling_witness:
  "ch_severity (sev_chain (sample_def NotExposure SevHigh (Some SevHigh)) contradicted ''host:a'' no_decls SevHigh) \<le> SevHigh"
  by (rule severity_ceiling) (simp_all add: sample_def_def)

lemma contradicted_chain:
  "map (\<lambda>m. (mv_from m, mv_to m)) (ch_moves (sev_chain (sample_def NotExposure SevHigh None) contradicted ''host:a''
     no_decls SevHigh)) = [(SevHigh, SevCritical)]"
  by code_simp

theorem severity_past_high_witness:
  "\<exists>m \<in> set (ch_moves (sev_chain (sample_def NotExposure SevHigh None) contradicted ''host:a'' no_decls SevHigh)).
     mv_to m = SevCritical \<and> may_pass_high (sample_def NotExposure SevHigh None) m"
proof -
  obtain m where m: "m \<in> set (ch_moves (sev_chain (sample_def NotExposure SevHigh None) contradicted ''host:a'' no_decls SevHigh))"
      "mv_from m = SevHigh" "mv_to m = SevCritical"
    using contradicted_chain by (auto simp: map_eq_Cons_conv)
  then show ?thesis using severity_past_high [OF m(1)] by (auto simp: sev_order)
qed

theorem exposed_on_purpose_terminal_witness:
  "ch_severity (sev_chain (sample_def IsExposure SevMedium None)
     (contradicted\<lparr>jd_subject := zero_subject\<lparr>sub_key := ''https://a''\<rparr>\<rparr>) ''host:a''
     (no_decls\<lparr>decl_exposed := [\<lparr>exd_url = ''https://a'', exd_reason = ''r'', exd_key = ''intent[0]''\<rparr>]\<rparr>) SevMedium) = SevInfo"
  by (rule exposed_on_purpose_terminal [where e = "\<lparr>exd_url = ''https://a'', exd_reason = ''r'', exd_key = ''intent[0]''\<rparr>"])
    (simp_all add: sample_def_def zero_subject_def)

end
