(* ===== verification/Operator_Context.thy ===== *)
theory Operator_Context
  imports Check_Parse Redact
begin

text \<open>
  Operator-supplied context, \<open>internal/operator/operator.go\<close>: the structured block with its
  validation, its merge across sources, the acceptance dates and the byte budget over the prose.
  Reading files and directories is not modelled: \<open>absorb\<close> takes the pieces read, with the YAML
  decoder's answer in place of the node, and the hash and the rendered structured block are
  parameters.  Instants are nanoseconds since the epoch; a time zone is the function that gives the
  instant one calendar day after the start of a day.
\<close>

section \<open>Dates\<close>

definition is_leap :: "nat \<Rightarrow> bool" where
  "is_leap y = (y mod 4 = 0 \<and> (y mod 100 \<noteq> 0 \<or> y mod 400 = 0))"

definition days_in :: "nat \<Rightarrow> nat \<Rightarrow> nat" where
  "days_in y m =
     (if m = 2 then (if is_leap y then 29 else 28) else if m = 4 \<or> m = 6 \<or> m = 9 \<or> m = 11 then 30 else 31)"

text \<open>\<open>time.Parse("2006-01-02", s)\<close>: year, month and day.\<close>

definition parse_date :: "string \<Rightarrow> (nat \<times> nat \<times> nat) option" where
  "parse_date s =
     (if length s \<noteq> 10 \<or> s ! 4 \<noteq> CHR ''-'' \<or> s ! 7 \<noteq> CHR ''-'' then None
      else
        (case (read_digits 0 (take 4 s), read_digits 0 (take 2 (drop 5 s)), read_digits 0 (drop 8 s)) of
           (Some y, Some m, Some d) \<Rightarrow>
             if 1 \<le> m \<and> m \<le> 12 \<and> 1 \<le> d \<and> d \<le> days_in y m then Some (y, m, d) else None
         | _ \<Rightarrow> None))"

text \<open>Days since 1970-01-01.\<close>

definition day_number :: "nat \<Rightarrow> nat \<Rightarrow> nat \<Rightarrow> int" where
  "day_number y m d =
     int (365 * y + (y + 3) div 4 - (y + 99) div 100 + (y + 399) div 400 +
       (\<Sum>k\<leftarrow>[1..<m]. days_in y k) + d - 1) - 719528"

section \<open>The structured block\<close>

record service =
  svc_port :: int
  svc_proto :: string
  svc_purpose :: string
  svc_audience :: string
  svc_source :: string

definition svc_key :: "service \<Rightarrow> string" where
  "svc_key s = show_int (svc_port s) @ ''/'' @ svc_proto s"

record risk =
  risk_id :: string
  risk_reason :: string
  risk_expires :: string
  risk_source :: string
  risk_zone :: "(int \<Rightarrow> int) option"

definition utc_day_end :: "int \<Rightarrow> int" where
  "utc_day_end d = (d + 1) * 86400 * 1000000000"

definition expired :: "risk \<Rightarrow> int \<Rightarrow> bool" where
  "expired r now =
     (if risk_expires r = [] then False
      else
        (case parse_date (risk_expires r) of
           None \<Rightarrow> False
         | Some (y, m, d) \<Rightarrow>
             (case risk_zone r of None \<Rightarrow> utc_day_end | Some z \<Rightarrow> z) (day_number y m d) < now))"

record structured =
  cx_role :: string
  cx_exposure :: string
  cx_environment :: string
  cx_dataClassification :: string
  cx_compliance :: "string list"
  cx_expectedServices :: "service list"
  cx_acceptedRisks :: "risk list"
  cx_owner :: string
  cx_extra :: "(string \<times> json) list"

definition structured_isZero :: "structured \<Rightarrow> bool" where
  "structured_isZero s =
     (cx_role s = [] \<and> cx_exposure s = [] \<and> cx_environment s = [] \<and> cx_dataClassification s = [] \<and>
      cx_compliance s = [] \<and> cx_expectedServices s = [] \<and> cx_acceptedRisks s = [] \<and> cx_owner s = [] \<and>
      cx_extra s = [])"

definition Exposures :: "string list" where "Exposures = [''internet'', ''vpn'', ''lan'', ''airgapped'']"
definition Environments :: "string list" where "Environments = [''prod'', ''staging'', ''dev'']"

datatype context_error = BadExposure string | BadEnvironment string | BadPort nat int | BadProto nat string
  | RiskNoID nat | RiskUnknown nat string | RiskExpires nat string string

text \<open>One expected service: its protocol lowercased and defaulted, or why it is refused.\<close>

definition validate_service :: "nat \<Rightarrow> service \<Rightarrow> context_error + service" where
  "validate_service i s =
     (if svc_port s < 1 \<or> 65535 < svc_port s then Inl (BadPort i (svc_port s))
      else
        (let p0 = to_lower (svc_proto s); p = (if p0 = [] then ''tcp'' else p0) in
         if p \<noteq> ''tcp'' \<and> p \<noteq> ''udp'' then Inl (BadProto i p) else Inr (s\<lparr>svc_proto := p\<rparr>)))"

primrec validate_services :: "nat \<Rightarrow> service list \<Rightarrow> context_error + service list" where
  "validate_services i [] = Inr []"
| "validate_services i (s # ss) =
     (case validate_service i s of
        Inl e \<Rightarrow> Inl e
      | Inr s' \<Rightarrow> (case validate_services (Suc i) ss of Inl e \<Rightarrow> Inl e | Inr ss' \<Rightarrow> Inr (s' # ss')))"

definition risk_error :: "(string \<Rightarrow> bool) option \<Rightarrow> nat \<Rightarrow> risk \<Rightarrow> context_error option" where
  "risk_error known i r =
     (if risk_id r = [] then Some (RiskNoID i)
      else if \<not> has_prefix (risk_id r) ''custom:'' \<and> (case known of None \<Rightarrow> True | Some k \<Rightarrow> \<not> k (risk_id r))
        then Some (RiskUnknown i (risk_id r))
      else if risk_expires r \<noteq> [] \<and> parse_date (risk_expires r) = None
        then Some (RiskExpires i (risk_id r) (risk_expires r))
      else None)"

primrec first_risk_error :: "(string \<Rightarrow> bool) option \<Rightarrow> nat \<Rightarrow> risk list \<Rightarrow> context_error option" where
  "first_risk_error known i [] = None"
| "first_risk_error known i (r # rs) =
     (case risk_error known i r of Some e \<Rightarrow> Some e | None \<Rightarrow> first_risk_error known (Suc i) rs)"

definition context_validate :: "structured \<Rightarrow> (string \<Rightarrow> bool) option \<Rightarrow> context_error + structured" where
  "context_validate s known =
     (if cx_exposure s \<noteq> [] \<and> cx_exposure s \<notin> set Exposures then Inl (BadExposure (cx_exposure s))
      else if cx_environment s \<noteq> [] \<and> cx_environment s \<notin> set Environments then Inl (BadEnvironment (cx_environment s))
      else
        (case validate_services 0 (cx_expectedServices s) of
           Inl e \<Rightarrow> Inl e
         | Inr ss \<Rightarrow>
             (case first_risk_error known 0 (cx_acceptedRisks s) of
                Some e \<Rightarrow> Inl e
              | None \<Rightarrow> Inr (s\<lparr>cx_expectedServices := ss\<rparr>))))"

section \<open>Merging sources\<close>

record context_source =
  src_name :: string
  src_kind :: string
  src_sha256 :: string
  src_bytes :: nat
  src_truncated :: bool
  src_unresolved :: bool

record prose =
  pr_source :: string
  pr_text :: string
  pr_truncated :: bool

record merged =
  mg_structured :: structured
  mg_origins :: "(string \<times> string) list"
  mg_prose :: "prose list"
  mg_sources :: "context_source list"
  mg_budget :: int
  mg_used :: int
  mg_warnings :: "string list"

definition map_put :: "(string \<times> 'v) list \<Rightarrow> string \<Rightarrow> 'v \<Rightarrow> (string \<times> 'v) list" where
  "map_put m k v = (k, v) # filter (\<lambda>(k', _). k' \<noteq> k) m"

definition map_get :: "(string \<times> string) list \<Rightarrow> string \<Rightarrow> string" where
  "map_get m k = (case map_of m k of None \<Rightarrow> [] | Some v \<Rightarrow> v)"

text \<open>\<open>strings.Split(s, sep)\<close> for a separator that is not empty.\<close>

function split_str :: "string \<Rightarrow> string \<Rightarrow> string list" where
  "split_str sep s =
     (if sep = [] then [s]
      else (case str_index s sep of
          None \<Rightarrow> [s]
        | Some i \<Rightarrow> take i s # split_str sep (drop (i + length sep) s)))"
  by pat_completeness auto
termination
proof (relation "measure (\<lambda>(sep, s). length s)")
  fix sep s :: string and i
  assume "sep \<noteq> []" "str_index s sep = Some i"
  then show "((sep, drop (i + length sep) s), sep, s) \<in> measure (\<lambda>(sep, s). length s)"
    by (cases s) auto
qed simp

declare split_str.simps [simp del]

definition appendOrigin :: "string \<Rightarrow> string \<Rightarrow> string" where
  "appendOrigin old source =
     (if old = [] then source
      else if source \<in> set (split_str '', '' old) then old else old @ '', '' @ source)"

text \<open>Replace every entry with the same key in place, or append.\<close>

definition put_by :: "('a \<Rightarrow> 'k) \<Rightarrow> 'a list \<Rightarrow> 'a \<Rightarrow> 'a list" where
  "put_by key xs x =
     (if list_ex (\<lambda>y. key y = key x) xs then map (\<lambda>y. if key y = key x then x else y) xs else xs @ [x])"

definition set_scalar :: "string \<Rightarrow> (string \<times> string) list \<Rightarrow> string \<Rightarrow> string \<Rightarrow> (string \<times> string) list" where
  "set_scalar source origins key v = (if v \<noteq> [] then map_put origins key source else origins)"

definition over :: "string \<Rightarrow> string \<Rightarrow> string" where
  "over v old = (if v \<noteq> [] then v else old)"

definition merge_structured :: "structured \<Rightarrow> structured \<Rightarrow> string \<Rightarrow> structured" where
  "merge_structured m s source =
     m\<lparr>cx_role := over (cx_role s) (cx_role m), cx_exposure := over (cx_exposure s) (cx_exposure m),
       cx_environment := over (cx_environment s) (cx_environment m),
       cx_dataClassification := over (cx_dataClassification s) (cx_dataClassification m),
       cx_owner := over (cx_owner s) (cx_owner m),
       cx_compliance := foldl (\<lambda>cs c. if c \<in> set cs then cs else cs @ [c]) (cx_compliance m) (cx_compliance s),
       cx_expectedServices := foldl (\<lambda>ss svc. put_by svc_key ss (svc\<lparr>svc_source := source\<rparr>))
         (cx_expectedServices m) (cx_expectedServices s),
       cx_acceptedRisks := foldl (\<lambda>rs r. put_by risk_id rs (r\<lparr>risk_source := source\<rparr>))
         (cx_acceptedRisks m) (cx_acceptedRisks s),
       cx_extra := foldl (\<lambda>m (k, v). map_put m k v) (cx_extra m) (cx_extra s)\<rparr>"

definition merge_origins :: "(string \<times> string) list \<Rightarrow> structured \<Rightarrow> string \<Rightarrow> (string \<times> string) list" where
  "merge_origins o0 s source =
     (let o1 = set_scalar source o0 ''role'' (cx_role s);
          o2 = set_scalar source o1 ''exposure'' (cx_exposure s);
          o3 = set_scalar source o2 ''environment'' (cx_environment s);
          o4 = set_scalar source o3 ''data_classification'' (cx_dataClassification s);
          o5 = set_scalar source o4 ''owner'' (cx_owner s);
          add = (\<lambda>m k. map_put m k (appendOrigin (map_get m k) source));
          o6 = (if cx_compliance s \<noteq> [] then add o5 ''compliance'' else o5);
          o7 = foldl (\<lambda>m _. add m ''expected_services'') o6 (cx_expectedServices s);
          o8 = foldl (\<lambda>m _. add m ''accepted_risks'') o7 (cx_acceptedRisks s)
      in foldl (\<lambda>m (k, _). map_put m (''extra.'' @ k) source) o8 (cx_extra s))"

definition context_merge :: "merged \<Rightarrow> structured \<Rightarrow> string \<Rightarrow> merged" where
  "context_merge m s source =
     m\<lparr>mg_structured := merge_structured (mg_structured m) s source,
       mg_origins := merge_origins (mg_origins m) s source\<rparr>"

text \<open>
  One raw source.  \<open>pc_block\<close> is the decoded \<open>context:\<close> block where the piece has one, or that it
  does not decode, and \<open>pc_rest\<close> what \<open>withoutContext\<close> renders of the piece.
\<close>

record piece =
  pc_name :: string
  pc_kind :: string
  pc_raw :: bytes
  pc_block :: "structured option option"
  pc_rest :: string
  pc_unresolved :: bool

datatype absorb_error = DecodeFailed string | Invalid string context_error

definition context_absorb ::
  "(bytes \<Rightarrow> string) \<Rightarrow> (string \<Rightarrow> bool) option \<Rightarrow> merged \<Rightarrow> piece \<Rightarrow> absorb_error + merged" where
  "context_absorb sha256 known m0 p =
     (let m = m0\<lparr>mg_sources := mg_sources m0 @ [\<lparr>src_name = pc_name p, src_kind = pc_kind p,
            src_sha256 = (if pc_unresolved p then [] else sha256 (pc_raw p)), src_bytes = length (pc_raw p),
            src_truncated = False, src_unresolved = pc_unresolved p\<rparr>]\<rparr>
      in if pc_unresolved p then
           Inr (m\<lparr>mg_warnings := mg_warnings m @
             [pc_name p @ '': declared but not read (target context is resolved only during a run)'']\<rparr>)
         else
           (case pc_block p of
              Some None \<Rightarrow> Inl (DecodeFailed (pc_name p))
            | Some (Some s) \<Rightarrow>
                (case context_validate s known of
                   Inl e \<Rightarrow> Inl (Invalid (pc_name p) e)
                 | Inr s' \<Rightarrow>
                     (let m1 = context_merge m s' (pc_name p) in
                      Inr (if pc_kind p \<noteq> ''config'' \<and> pc_rest p \<noteq> []
                           then m1\<lparr>mg_prose := mg_prose m1 @
                             [\<lparr>pr_source = pc_name p, pr_text = pc_rest p, pr_truncated = False\<rparr>]\<rparr>
                           else m1)))
            | None \<Rightarrow>
                Inr (m\<lparr>mg_prose := mg_prose m @
                  [\<lparr>pr_source = pc_name p, pr_text = pc_raw p, pr_truncated = False\<rparr>]\<rparr>)))"

section \<open>The byte budget\<close>

text \<open>Back from \<open>keep\<close> to the start of a character.\<close>

primrec keep_at_rune :: "string \<Rightarrow> nat \<Rightarrow> nat" where
  "keep_at_rune s 0 = 0"
| "keep_at_rune s (Suc n) = (if rune_start (s ! Suc n) then Suc n else keep_at_rune s n)"

definition cut_prose :: "int \<Rightarrow> int \<Rightarrow> prose \<Rightarrow> prose \<times> nat" where
  "cut_prose budget used p =
     (let keep = keep_at_rune (pr_text p) (nat (budget - used)); dropped = length (pr_text p) - keep
      in (p\<lparr>pr_text := take keep (pr_text p) @ [CHR 0x0A] @ ''[TRUNCATED:'' @ show_nat dropped @ '' bytes]'',
            pr_truncated := True\<rparr>, dropped))"

primrec budget_prose :: "int \<Rightarrow> int \<Rightarrow> prose list \<Rightarrow> prose list \<times> (string \<times> nat) list \<times> int" where
  "budget_prose budget used [] = ([], [], used)"
| "budget_prose budget used (p # ps) =
     (if used + int (length (pr_text p)) \<le> budget then
        (let (ps', cuts, u) = budget_prose budget (used + int (length (pr_text p))) ps in (p # ps', cuts, u))
      else
        (let (p', dropped) = cut_prose budget used p; (ps', cuts, u) = budget_prose budget budget ps
         in (p' # ps', (pr_source p, dropped) # cuts, u)))"

definition markTruncated :: "string list \<Rightarrow> context_source list \<Rightarrow> context_source list" where
  "markTruncated names = map (\<lambda>s. if src_name s \<in> set names then s\<lparr>src_truncated := True\<rparr> else s)"

definition structuredText :: "(structured \<Rightarrow> string) \<Rightarrow> merged \<Rightarrow> string" where
  "structuredText render m = (if structured_isZero (mg_structured m) then [] else render (mg_structured m))"

definition applyBudget :: "(structured \<Rightarrow> string) \<Rightarrow> merged \<Rightarrow> merged" where
  "applyBudget render m =
     (let used = int (length (structuredText render m)) in
      if mg_budget m \<le> 0 then
        m\<lparr>mg_used := used + (\<Sum>p\<leftarrow>mg_prose m. int (length (pr_text p)))\<rparr>
      else
        (let (ps, cuts, u) = budget_prose (mg_budget m) used (mg_prose m)
         in m\<lparr>mg_prose := ps, mg_used := u, mg_sources := markTruncated (map fst cuts) (mg_sources m),
              mg_warnings := mg_warnings m @
                map (\<lambda>(s, n). ''context: '' @ s @ '' truncated by '' @ show_nat n @ '' bytes (budget '' @
                  show_int (mg_budget m) @ '' bytes)'') cuts\<rparr>))"

section \<open>Dates follow each other\<close>

definition next_date :: "nat \<times> nat \<times> nat \<Rightarrow> nat \<times> nat \<times> nat" where
  "next_date = (\<lambda>(y, m, d).
     if d < days_in y m then (y, m, d + 1) else if m < 12 then (y, m + 1, 1) else (y + 1, 1, 1))"

definition days_of_year :: "nat \<Rightarrow> nat" where
  "days_of_year y = (\<Sum>k\<leftarrow>[1..<13]. days_in y k)"

lemma days_of_year: "days_of_year y = (if is_leap y then 366 else 365)"
  by (simp add: days_of_year_def days_in_def upt_rec numeral_nat)

lemma ceil_step: "0 < n \<Longrightarrow> (y + 1 + (n - 1)) div n = (y + (n - 1)) div n + (if y mod n = 0 then 1 else (0::nat))"
proof -
  assume "0 < n"
  then have "(y + n) div n = y div n + 1" by (simp add: div_add_self2)
  moreover have "(y + (n - 1)) div n = y div n + (if y mod n = 0 then 0 else 1)"
  proof -
    have "y + (n - 1) = n * (y div n) + (y mod n + (n - 1))" by simp
    then have "(y + (n - 1)) div n = y div n + (y mod n + (n - 1)) div n"
      using \<open>0 < n\<close> by (metis div_mult_self4 nat_neq_iff)
    moreover have "(y mod n + (n - 1)) div n = (if y mod n = 0 then 0 else 1)"
      using \<open>0 < n\<close> mod_less_divisor [OF \<open>0 < n\<close>, of y]
      by (auto simp: div_nat_eqI)
    ultimately show ?thesis by simp
  qed
  ultimately show ?thesis using \<open>0 < n\<close> by simp
qed

lemma year_step: "day_number (y + 1) 1 1 = day_number y 1 1 + int (days_of_year y)"
proof -
  have "(y + 1 + 3) div 4 = (y + 3) div 4 + (if y mod 4 = 0 then 1 else 0)"
    "(y + 1 + 99) div 100 = (y + 99) div 100 + (if y mod 100 = 0 then 1 else 0)"
    "(y + 1 + 399) div 400 = (y + 399) div 400 + (if y mod 400 = 0 then 1 else 0)"
    using ceil_step [of 4 y] ceil_step [of 100 y] ceil_step [of 400 y] by simp_all
  moreover have "y mod 400 = 0 \<Longrightarrow> y mod 100 = 0" "y mod 100 = 0 \<Longrightarrow> y mod 4 = 0"
    by (auto simp: mod_eq_0_iff_dvd intro: dvd_trans [of 100 400] dvd_trans [of 4 100])
  moreover have "(y + 99) div 100 \<le> 365 * y + (y + 3) div 4" "(y + 1 + 99) div 100 \<le> 365 * (y + 1) + (y + 1 + 3) div 4"
    by linarith+
  ultimately show ?thesis by (auto simp: day_number_def days_of_year is_leap_def)
qed

lemma sum_months: "1 \<le> m \<Longrightarrow> (\<Sum>k\<leftarrow>[1..<Suc m]. days_in y k) = (\<Sum>k\<leftarrow>[1..<m]. days_in y k) + days_in y m"
  by simp

lemma day_number_base: "1 \<le> d \<Longrightarrow> day_number y m d = day_number y 1 1 + int (\<Sum>k\<leftarrow>[1..<m]. days_in y k) + int d - 1"
proof -
  have "(y + 99) div 100 \<le> 365 * y + (y + 3) div 4" by linarith
  moreover assume "1 \<le> d"
  ultimately show ?thesis by (simp add: day_number_def of_nat_diff)
qed

lemma day_number_next:
  assumes "1 \<le> m" "m \<le> 12" "1 \<le> d" "d \<le> days_in y m"
  shows "(case next_date (y, m, d) of (y', m', d') \<Rightarrow> day_number y' m' d') = day_number y m d + 1"
proof -
  consider "d < days_in y m" | "d = days_in y m" "m < 12" | "d = days_in y m" "m = 12" using assms by linarith
  then show ?thesis
  proof cases
    case 1
    then show ?thesis using assms by (simp add: next_date_def day_number_base [of d] day_number_base [of "Suc d"])
  next
    case 2
    then show ?thesis
      using assms sum_months [of m y] day_number_base [of d y m] day_number_base [of 1 y "Suc m"]
      by (simp add: next_date_def)
  next
    case 3
    then have "days_of_year y = (\<Sum>k\<leftarrow>[1..<12]. days_in y k) + d"
      using sum_months [of 12 y] by (simp add: days_of_year_def)
    then show ?thesis
      using assms 3 year_step [of y] day_number_base [of d y m] by (simp add: next_date_def)
  qed
qed

text \<open>
  An accepted risk lasts through its date: read in UTC, it has expired exactly from the first
  instant after the midnight that starts the next calendar day, across month ends and leap years.
\<close>
theorem acceptance_lasts_its_day:
  assumes "parse_date (risk_expires r) = Some (y, m, d)" and "risk_zone r = None"
    and "next_date (y, m, d) = (y', m', d')"
  shows "expired r now \<longleftrightarrow> day_number y' m' d' * 86400 * 1000000000 < now"
proof -
  have ne: "risk_expires r \<noteq> []" using assms(1) by (auto simp: parse_date_def)
  have "1 \<le> m" "m \<le> 12" "1 \<le> d" "d \<le> days_in y m"
    using assms(1) by (auto simp: parse_date_def split: if_splits option.splits)
  then have "day_number y' m' d' = day_number y m d + 1" using day_number_next [of m d y] assms(3) by simp
  then show ?thesis using assms(1,2) ne by (simp add: expired_def utc_day_end_def)
qed

theorem acceptance_lasts_its_day_witness:
  "\<not> expired \<lparr>risk_id = ''x'', risk_reason = [], risk_expires = ''2024-02-29'', risk_source = [], risk_zone = None\<rparr>
     (day_number 2024 3 1 * 86400 * 1000000000)"
proof -
  have "parse_date ''2024-02-29'' = Some (2024, 2, 29)" "next_date (2024, 2, 29) = (2024, 3, 1)" by code_simp+
  then show ?thesis
    using acceptance_lasts_its_day [of "\<lparr>risk_id = ''x'', risk_reason = [], risk_expires = ''2024-02-29'',
        risk_source = [], risk_zone = None\<rparr>" 2024 2 29 2024 3 1] by simp
qed

section \<open>Merging and the budget\<close>

text \<open>Lists merged by a natural key: keys stay unique and the latest entry with a key stands.\<close>

definition by_key :: "('a \<Rightarrow> 'k) \<Rightarrow> 'a list \<Rightarrow> 'k \<Rightarrow> 'a option" where
  "by_key key xs k = List.find (\<lambda>x. key x = k) xs"

lemma by_key_simps [simp]:
  "by_key key [] k = None" "by_key key (x # xs) k = (if key x = k then Some x else by_key key xs k)"
  by (simp_all add: by_key_def)

lemma put_by_lookup: "by_key key (put_by key xs x) k = (if k = key x then Some x else by_key key xs k)"
proof (cases "list_ex (\<lambda>y. key y = key x) xs")
  case True
  have "List.find (\<lambda>y. key y = k) (map (\<lambda>y. if key y = key x then x else y) ys) =
      (if k = key x \<and> list_ex (\<lambda>y. key y = key x) ys then Some x else List.find (\<lambda>y. key y = k) ys)" for ys
    by (induction ys) auto
  with True show ?thesis by (simp add: by_key_def put_by_def)
next
  case False
  then have "List.find (\<lambda>y. key y = key x) xs = None" by (auto simp: find_None_iff list_ex_iff)
  then show ?thesis using False
    by (auto simp: by_key_def put_by_def find_append split: option.splits)
qed

lemma put_by_distinct:
  assumes "distinct (map key xs)"
  shows "distinct (map key (put_by key xs x))"
proof (cases "list_ex (\<lambda>y. key y = key x) xs")
  case True
  have "map key (map (\<lambda>y. if key y = key x then x else y) xs) = map key xs" by simp
  then have "distinct (map key (map (\<lambda>y. if key y = key x then x else y) xs))" using assms by (rule ssubst)
  with True show ?thesis by (simp only: put_by_def if_True)
next
  case False
  then show ?thesis using assms by (auto simp: put_by_def list_ex_iff)
qed

lemma foldl_put_by:
  assumes "\<And>x. key (stamp x) = key x"
  shows "by_key key (foldl (\<lambda>xs x. put_by key xs (stamp x)) ms xs) k =
      (case by_key key (rev xs) k of Some x \<Rightarrow> Some (stamp x) | None \<Rightarrow> by_key key ms k)"
    and "distinct (map key ms) \<Longrightarrow> distinct (map key (foldl (\<lambda>xs x. put_by key xs (stamp x)) ms xs))"
proof -
  show "by_key key (foldl (\<lambda>xs x. put_by key xs (stamp x)) ms xs) k =
      (case by_key key (rev xs) k of Some x \<Rightarrow> Some (stamp x) | None \<Rightarrow> by_key key ms k)"
    by (induction xs rule: rev_induct) (auto simp: put_by_lookup assms)
  show "distinct (map key (foldl (\<lambda>xs x. put_by key xs (stamp x)) ms xs))" if "distinct (map key ms)"
    using that by (induction xs rule: rev_induct) (simp_all add: put_by_distinct)
qed

text \<open>
  When a source is merged, the accepted risk that stands for an id is the source's last entry
  for it, attributed to the source, or else the one that stood before; ids stay unique.  The same
  holds of expected services by port and protocol.
\<close>
theorem context_merge_latest:
  "by_key risk_id (cx_acceptedRisks (merge_structured m s source)) i =
     (case by_key risk_id (rev (cx_acceptedRisks s)) i of
        Some r \<Rightarrow> Some (r\<lparr>risk_source := source\<rparr>) | None \<Rightarrow> by_key risk_id (cx_acceptedRisks m) i) \<and>
   by_key svc_key (cx_expectedServices (merge_structured m s source)) k =
     (case by_key svc_key (rev (cx_expectedServices s)) k of
        Some v \<Rightarrow> Some (v\<lparr>svc_source := source\<rparr>) | None \<Rightarrow> by_key svc_key (cx_expectedServices m) k) \<and>
   (distinct (map risk_id (cx_acceptedRisks m)) \<longrightarrow>
      distinct (map risk_id (cx_acceptedRisks (merge_structured m s source)))) \<and>
   (distinct (map svc_key (cx_expectedServices m)) \<longrightarrow>
      distinct (map svc_key (cx_expectedServices (merge_structured m s source))))"
  using foldl_put_by [of risk_id "risk_source_update (\<lambda>_. source)" "cx_acceptedRisks m" "cx_acceptedRisks s"]
    foldl_put_by [of svc_key "svc_source_update (\<lambda>_. source)" "cx_expectedServices m" "cx_expectedServices s"]
  by (simp add: merge_structured_def svc_key_def)

lemma keep_at_rune_le: "keep_at_rune s n \<le> n"
  by (induction n) auto

text \<open>What a piece of prose becomes when \<open>keep\<close> of its bytes are kept.\<close>

definition kept_as :: "nat \<Rightarrow> prose \<Rightarrow> prose \<Rightarrow> bool" where
  "kept_as keep p p' =
     (keep = length (pr_text p) \<and> p' = p \<or>
      keep \<le> length (pr_text p) \<and> pr_source p' = pr_source p \<and> pr_truncated p' \<and>
      pr_text p' = take keep (pr_text p) @ [CHR 0x0A] @ ''[TRUNCATED:'' @ show_nat (length (pr_text p) - keep) @ '' bytes]'')"

lemma kept_whole: "kept_as (length (pr_text p)) p p"
  by (simp add: kept_as_def)

lemma kept_cut:
  "keep_at_rune (pr_text p) (nat (budget - used)) \<le> length (pr_text p) \<Longrightarrow>
   cut_prose budget used p = (p', dropped) \<Longrightarrow>
   kept_as (keep_at_rune (pr_text p) (nat (budget - used))) p p'"
  by (auto simp: kept_as_def cut_prose_def Let_def)

lemma budget_prose_keeps:
  "\<exists>keeps. list_all2 (case_prod kept_as) (zip keeps ps) (fst (budget_prose budget used ps)) \<and>
    length keeps = length ps \<and> used + (\<Sum>k\<leftarrow>keeps. int k) \<le> max budget used"
proof (induction ps arbitrary: used)
  case Nil
  then show ?case by simp
next
  case (Cons p ps)
  show ?case
  proof (cases "used + int (length (pr_text p)) \<le> budget")
    case True
    obtain keeps where "list_all2 (case_prod kept_as) (zip keeps ps)
          (fst (budget_prose budget (used + int (length (pr_text p))) ps))" "length keeps = length ps"
        "used + int (length (pr_text p)) + (\<Sum>k\<leftarrow>keeps. int k) \<le> max budget (used + int (length (pr_text p)))"
      using Cons.IH by blast
    then show ?thesis
      using True by (intro exI [of _ "length (pr_text p) # keeps"])
        (auto simp: kept_whole split: prod.splits)
  next
    case False
    define keep where "keep = keep_at_rune (pr_text p) (nat (budget - used))"
    have k: "int keep \<le> max 0 (budget - used)" using keep_at_rune_le [of "pr_text p" "nat (budget - used)"]
      by (simp add: keep_def)
    have le: "keep \<le> length (pr_text p)" using k False by linarith
    obtain keeps where "list_all2 (case_prod kept_as) (zip keeps ps)
          (fst (budget_prose budget budget ps))" "length keeps = length ps" "budget + (\<Sum>k\<leftarrow>keeps. int k) \<le> max budget budget"
      using Cons.IH by blast
    then show ?thesis
      using False k le by (intro exI [of _ "keep # keeps"])
        (auto simp: keep_def intro: kept_cut split: prod.splits)
  qed
qed

text \<open>
  The byte budget over operator context holds and cuts nothing silently: every piece of prose
  is kept whole or cut with a marker that counts the bytes dropped and flagged as truncated, and
  with the structured block the bytes kept stay within the budget, unless the block alone exceeds it.
\<close>
theorem context_budget_bounds:
  assumes "0 < mg_budget m"
  shows "\<exists>keeps. list_all2 (case_prod kept_as) (zip keeps (mg_prose m)) (mg_prose (applyBudget render m)) \<and>
    length keeps = length (mg_prose m) \<and>
    int (length (structuredText render m)) + (\<Sum>k\<leftarrow>keeps. int k) \<le>
      max (mg_budget m) (int (length (structuredText render m)))"
  using budget_prose_keeps [of "mg_prose m" "mg_budget m" "int (length (structuredText render m))"] assms
  by (simp add: applyBudget_def Let_def case_prod_beta)

definition no_structured :: structured where
  "no_structured = \<lparr>cx_role = [], cx_exposure = [], cx_environment = [], cx_dataClassification = [], cx_compliance = [],
     cx_expectedServices = [], cx_acceptedRisks = [], cx_owner = [], cx_extra = []\<rparr>"

theorem context_merge_latest_witness:
  "distinct (map risk_id (cx_acceptedRisks (merge_structured no_structured no_structured ''f'')))"
  using context_merge_latest [of no_structured no_structured "''f''"] by (simp add: no_structured_def)

theorem context_budget_bounds_witness:
  "\<exists>keeps. length keeps = 1 \<and> (\<Sum>k\<leftarrow>keeps. int k) \<le> 3 \<and>
     list_all2 (case_prod kept_as)
       (zip keeps [\<lparr>pr_source = ''n'', pr_text = ''hello'', pr_truncated = False\<rparr>])
       (mg_prose (applyBudget (\<lambda>_. []) \<lparr>mg_structured = no_structured, mg_origins = [],
          mg_prose = [\<lparr>pr_source = ''n'', pr_text = ''hello'', pr_truncated = False\<rparr>], mg_sources = [], mg_budget = 3,
          mg_used = 0, mg_warnings = []\<rparr>))"
  using context_budget_bounds [of "\<lparr>mg_structured = no_structured, mg_origins = [],
      mg_prose = [\<lparr>pr_source = ''n'', pr_text = ''hello'', pr_truncated = False\<rparr>], mg_sources = [], mg_budget = 3,
      mg_used = 0, mg_warnings = []\<rparr>" "\<lambda>_. []"]
  by (auto simp: structuredText_def no_structured_def structured_isZero_def)

end
