(* ===== verification/Posture.thy ===== *)
theory Posture
  imports Runner Severity
begin

text \<open>
  Posture rules: \<open>internal/finding/rule.go\<close>, \<open>join.go\<close>, \<open>evaluate.go\<close> and \<open>facts.go\<close>.  A
  predicate is a value of \<open>predicate\<close> with its patterns compiled, and reads a parsed fact into one
  of three answers.  A fact sheet is a map from check ids to results; a Go \<open>nil\<close> parsed value is
  \<open>None\<close>.
\<close>

section \<open>Verdicts and predicates (rule.go)\<close>

datatype assess_status = Matched | NotMatched | NotApplicable | NotAssessed

record verdict =
  v_status :: assess_status
  v_reason :: string
  v_excerpt :: string
  v_withExcerpt :: string

definition matched :: "string \<Rightarrow> string \<Rightarrow> verdict" where
  "matched reason excerpt = \<lparr>v_status = Matched, v_reason = reason, v_excerpt = excerpt, v_withExcerpt = []\<rparr>"

definition notMatched :: "string \<Rightarrow> string \<Rightarrow> verdict" where
  "notMatched reason excerpt = \<lparr>v_status = NotMatched, v_reason = reason, v_excerpt = excerpt, v_withExcerpt = []\<rparr>"

definition notAssessed :: "string \<Rightarrow> verdict" where
  "notAssessed reason = \<lparr>v_status = NotAssessed, v_reason = reason, v_excerpt = [], v_withExcerpt = []\<rparr>"

lemma verdict_status [simp]:
  "v_status (matched a b) = Matched" "v_status (notMatched a b) = NotMatched" "v_status (notAssessed a) = NotAssessed"
  by (simp_all add: matched_def notMatched_def notAssessed_def)

datatype predicate =
    KeyEquals string string "string list"
  | RawMatch re "re option"
  | AnyLine re
  | FieldEquals string string "string list"
  | AnyRecord
  | FieldOutside string "string list" re
  | StatusWithLoginShell string string "string list"

definition known_value :: "string \<Rightarrow> string list \<Rightarrow> bool" where
  "known_value v vs = list_ex (equal_fold v) vs"

definition excerptFields :: "string list" where
  "excerptFields = [FieldName, FieldLabel, FieldStatus, FieldState, FieldVersion, FieldMode, FieldSymbolic,
     FieldUser, FieldGroup, FieldUID, FieldShell, FieldProtocol, FieldAddress, FieldPort, FieldProcess, FieldPID]"

definition recordExcerpt :: "row \<Rightarrow> string" where
  "recordExcerpt r =
     (let parts = map (\<lambda>f. f @ ''='' @ field r f) (filter (\<lambda>f. field r f \<noteq> []) excerptFields)
      in if parts = [] then ''(empty record)'' else join_with '' '' parts)"

definition unexpected_shape :: verdict where
  "unexpected_shape = notAssessed ''unexpected-parsed-shape''"

definition eval_key_equals :: "string \<Rightarrow> string \<Rightarrow> string list \<Rightarrow> row \<Rightarrow> verdict" where
  "eval_key_equals key val vs kv =
     (case map_of kv key of
        None \<Rightarrow> notAssessed ''key-absent''
      | Some v \<Rightarrow>
          if hasMarker v then notAssessed ''value-redacted-or-truncated''
          else
            (let got = to_lower (trim_space v) in
             if got = to_lower val then matched ''recognized-matching-value'' (key @ '' '' @ v)
             else if \<not> known_value got vs then notAssessed ''unrecognized-value''
             else notMatched ''recognized-other-value'' (key @ '' '' @ v)))"

definition eval_raw_match :: "re \<Rightarrow> re option \<Rightarrow> string \<Rightarrow> verdict" where
  "eval_raw_match r req s =
     (if hasMarker s then notAssessed ''value-redacted-or-truncated''
      else
        (let line = join_with '' '' (str_fields s) in
         if (case req of None \<Rightarrow> False | Some q \<Rightarrow> \<not> match_string q line) then notAssessed ''unrecognized-state''
         else if match_string r line then matched ''recognized-matching-state'' line
         else notMatched ''recognized-other-state'' line))"

primrec eval_any_line :: "re \<Rightarrow> bool \<Rightarrow> string list \<Rightarrow> verdict" where
  "eval_any_line r partial [] = (if partial then notAssessed ''partial-output'' else notMatched ''no-matching-line'' [])"
| "eval_any_line r partial (l # ls) =
     (if isMarkerLine l then eval_any_line r True ls
      else if match_string r l then matched ''matching-line'' (join_with '' '' (str_fields l))
      else eval_any_line r (partial \<or> hasMarker l) ls)"

text \<open>A field of a record whose value cannot be read.\<close>

definition unreadable :: "string \<Rightarrow> bool" where
  "unreadable v = (v = [] \<or> hasMarker v)"

primrec eval_field_equals :: "string \<Rightarrow> string \<Rightarrow> string list \<Rightarrow> bool \<Rightarrow> bool \<Rightarrow> row list \<Rightarrow> verdict" where
  "eval_field_equals f val vs partial unrec [] =
     (if partial then notAssessed ''partial-output''
      else if unrec then notAssessed ''unrecognized-value''
      else notMatched ''no-matching-record'' [])"
| "eval_field_equals f val vs partial unrec (r # rs) =
     (let v = trim_space (field r f) in
      if unreadable v then eval_field_equals f val vs partial True rs
      else if equal_fold v val then matched ''recognized-matching-record'' (recordExcerpt r)
      else eval_field_equals f val vs partial (unrec \<or> \<not> known_value (to_lower v) vs) rs)"

definition eval_any_record :: "records \<Rightarrow> verdict" where
  "eval_any_record recs =
     (case rs_items recs of
        r # rs \<Rightarrow>
          matched ''records-present'' (recordExcerpt r @
            (if rs_partial recs then '' (at least '' @ show_nat (length (rs_items recs)) @ '')''
             else if rs \<noteq> [] then '' (+'' @ show_nat (length rs) @ '' more)'' else []))
      | [] \<Rightarrow> if rs_partial recs then notAssessed ''partial-output'' else notMatched ''no-records'' [])"

primrec eval_field_outside :: "string \<Rightarrow> string list \<Rightarrow> re \<Rightarrow> row \<Rightarrow> row list \<Rightarrow> verdict" where
  "eval_field_outside f allowed rec first_r [] = notMatched ''recognized-expected-value'' (recordExcerpt first_r)"
| "eval_field_outside f allowed rec first_r (r # rs) =
     (let v = trim_space (field r f) in
      if unreadable v \<or> \<not> match_string rec v then notAssessed ''unrecognized-value''
      else if \<not> known_value v allowed then matched ''recognized-value-outside-expected-set'' (recordExcerpt r)
      else eval_field_outside f allowed rec first_r rs)"

section \<open>The join of two checks (join.go)\<close>

definition ReasonWithUnread :: string where "ReasonWithUnread = ''with-unread''"
definition ReasonWith :: string where "ReasonWith = ''with-''"

record account_outcome =
  ao_account :: string
  ao_uid :: string
  ao_status :: assess_status
  ao_reason :: string
  ao_excerpt :: string
  ao_withExcerpt :: string

record join_outcome =
  jo_accounts :: "account_outcome list"
  jo_verdict :: verdict

definition row_marked :: "row \<Rightarrow> bool" where
  "row_marked r = list_ex (\<lambda>(_, v). str_contains v ''[REDACTED'' \<or> str_contains v ''[TRUNCATED'' \<or> hasMarker v) r"

text \<open>The first line of an account that is not a NIS compat line, and whether it is the last line.\<close>

primrec account_named :: "string \<Rightarrow> row list \<Rightarrow> (row \<times> bool) option" where
  "account_named name [] = None"
| "account_named name (r # rs) =
     (let n = field r FieldName in
      if has_prefix n ''+'' \<or> has_prefix n ''-'' then account_named name rs
      else if n = name then Some (r, rs = []) else account_named name rs)"

text \<open>The classes of a record of the first check: undecided, with the status, or neither.\<close>

datatype account_class = Undecided | Candidate | Other

definition classify_account :: "string \<Rightarrow> string \<Rightarrow> string list \<Rightarrow> row \<Rightarrow> account_class" where
  "classify_account f val vs r =
     (let v = trim_space (field r f); name = trim_space (field r FieldName) in
      if unreadable v \<or> unreadable name then Undecided
      else if equal_fold v val then Candidate
      else if \<not> known_value (to_lower v) vs then Undecided
      else Other)"

definition undecided_outcome :: "row \<Rightarrow> account_outcome" where
  "undecided_outcome r =
     (let name = trim_space (field r FieldName) in
      \<lparr>ao_account = (if unreadable name then ''(an account whose name was not read)'' else name), ao_uid = [],
       ao_status = NotAssessed, ao_reason = ''unrecognized-value'', ao_excerpt = [], ao_withExcerpt = []\<rparr>)"

text \<open>One account with the status, read against the accounts listing.\<close>

definition decide_account :: "records option \<Rightarrow> row \<Rightarrow> account_outcome" where
  "decide_account shells r =
     (let name = trim_space (field r FieldName);
          a = \<lparr>ao_account = name, ao_uid = [], ao_status = NotAssessed, ao_reason = [], ao_excerpt = recordExcerpt r,
               ao_withExcerpt = []\<rparr>
      in case shells of
           None \<Rightarrow> a\<lparr>ao_reason := ReasonWithUnread\<rparr>
         | Some sh \<Rightarrow>
             (case account_named name (rs_items sh) of
                None \<Rightarrow> a\<lparr>ao_reason := ''account-not-in-passwd''\<rparr>
              | Some (acct, is_last) \<Rightarrow>
                  (let a1 = (if row_marked acct then a else a\<lparr>ao_uid := trim_space (field acct FieldUID)\<rparr>);
                       shell = field acct FieldShell
                   in if map_of acct FieldShell = None \<or> row_marked acct then a1\<lparr>ao_reason := ''shell-unknown''\<rparr>
                      else if is_last \<and> rs_partial sh then a1\<lparr>ao_reason := ''account-line-cut''\<rparr>
                      else if refusesLogin shell
                        then a1\<lparr>ao_status := NotMatched, ao_withExcerpt := recordExcerpt acct\<rparr>
                      else if interactiveShell shell
                        then a1\<lparr>ao_status := Matched, ao_withExcerpt := recordExcerpt acct @
                          (if trim_space shell = [] then '' shell=(empty, runs /bin/sh)'' else [])\<rparr>
                      else a1\<lparr>ao_reason := ''unrecognized-shell:'' @ trim_space shell\<rparr>)))"

definition join_verdict :: "records \<Rightarrow> bool \<Rightarrow> account_outcome list \<Rightarrow> verdict" where
  "join_verdict recs unrecognized outs =
     (let fired = filter (\<lambda>a. ao_status a = Matched) outs;
          refused = filter (\<lambda>a. ao_status a = NotMatched) outs;
          unknown = filter (\<lambda>a. ao_status a = NotAssessed) outs
      in if fired \<noteq> [] then
           (matched ''recognized-matching-record-with-login-shell'' (join_with ''; '' (map ao_excerpt fired)))
             \<lparr>v_withExcerpt := join_with ''; '' (map ao_withExcerpt fired)\<rparr>
         else if rs_partial recs then notAssessed ''partial-output''
         else if unrecognized then notAssessed ''unrecognized-value''
         else if unknown \<noteq> [] then notAssessed (ao_reason (List.last unknown))
         else if refused \<noteq> [] then notMatched ''matching-records-refuse-login'' (join_with ''; '' (map ao_excerpt refused))
         else notMatched ''no-matching-record'' [])"

definition decide_join :: "string \<Rightarrow> string \<Rightarrow> string list \<Rightarrow> parsed option \<Rightarrow> parsed option \<Rightarrow> join_outcome" where
  "decide_join f val vs p w =
     (case p of
        Some (PRecords recs) \<Rightarrow>
          if rs_items recs = [] then \<lparr>jo_accounts = [], jo_verdict = notAssessed ''no-records''\<rparr>
          else
            (let undecided = filter (\<lambda>r. classify_account f val vs r = Undecided) (rs_items recs);
                 candidates = filter (\<lambda>r. classify_account f val vs r = Candidate) (rs_items recs);
                 shells = (case w of Some (PRecords sh) \<Rightarrow> Some sh | _ \<Rightarrow> None);
                 outs = map (decide_account shells) candidates
             in \<lparr>jo_accounts = map undecided_outcome undecided @ outs,
                 jo_verdict = join_verdict recs (undecided \<noteq> []) outs\<rparr>)
      | _ \<Rightarrow> \<lparr>jo_accounts = [], jo_verdict = unexpected_shape\<rparr>)"

definition eval_with :: "predicate \<Rightarrow> parsed option \<Rightarrow> parsed option \<Rightarrow> verdict option" where
  "eval_with p x w =
     (case p of StatusWithLoginShell f val vs \<Rightarrow> Some (jo_verdict (decide_join f val vs x w)) | _ \<Rightarrow> None)"

fun eval :: "predicate \<Rightarrow> parsed option \<Rightarrow> verdict" where
  "eval (KeyEquals key val vs) x = (case x of Some (PKV kv) \<Rightarrow> eval_key_equals key val vs kv | _ \<Rightarrow> unexpected_shape)"
| "eval (RawMatch r req) x = (case x of Some (PRaw s) \<Rightarrow> eval_raw_match r req s | _ \<Rightarrow> unexpected_shape)"
| "eval (AnyLine r) x = (case x of Some (PLines ls) \<Rightarrow> eval_any_line r False ls | _ \<Rightarrow> unexpected_shape)"
| "eval (FieldEquals f val vs) x =
     (case x of Some (PRecords recs) \<Rightarrow> eval_field_equals f val vs (rs_partial recs) False (rs_items recs)
      | _ \<Rightarrow> unexpected_shape)"
| "eval AnyRecord x = (case x of Some (PRecords recs) \<Rightarrow> eval_any_record recs | _ \<Rightarrow> unexpected_shape)"
| "eval (FieldOutside f allowed rec) x =
     (case x of
        Some (PRecords recs) \<Rightarrow>
          (case rs_items recs of
             [] \<Rightarrow> notAssessed ''no-records''
           | r # rs \<Rightarrow> eval_field_outside f allowed rec r (r # rs))
      | _ \<Rightarrow> unexpected_shape)"
| "eval (StatusWithLoginShell f val vs) x = jo_verdict (decide_join f val vs x None)"

fun accepts :: "predicate \<Rightarrow> parser_kind \<Rightarrow> bool" where
  "accepts (KeyEquals key val vs) k = (k = ParseKV)"
| "accepts (RawMatch r req) k = (k = ParseRaw)"
| "accepts (AnyLine r) k = (k = ParseLines)"
| "accepts (FieldEquals f val vs) k = isTyped k"
| "accepts AnyRecord k = isTyped k"
| "accepts (FieldOutside f allowed rec) k = isTyped k"
| "accepts (StatusWithLoginShell f val vs) k = isTyped k"

section \<open>The rule table (rule.go)\<close>

record posture_rule =
  pr_finding :: string
  pr_check :: string
  pr_platform :: platform
  pr_when :: predicate
  pr_with :: string

definition IDFileVaultOff :: string where "IDFileVaultOff = ''disk.filevault_off''"
definition IDSIPDisabled :: string where "IDSIPDisabled = ''integrity.sip_disabled''"
definition IDGatekeeperDisabled :: string where "IDGatekeeperDisabled = ''integrity.gatekeeper_disabled''"
definition IDAppFirewallDisabled :: string where "IDAppFirewallDisabled = ''fw.app_firewall_disabled''"
definition IDRemoteLoginEnabled :: string where "IDRemoteLoginEnabled = ''remote.login_enabled''"
definition IDNTPDisabled :: string where "IDNTPDisabled = ''time.ntp_disabled''"
definition IDPasswordAuthEnabled :: string where "IDPasswordAuthEnabled = ''sshd.password_auth_enabled''"
definition IDRootLoginEnabled :: string where "IDRootLoginEnabled = ''sshd.root_login_enabled''"
definition IDEmptyPassword :: string where "IDEmptyPassword = ''accounts.empty_password''"
definition IDShadowPermissions :: string where "IDShadowPermissions = ''accounts.shadow_permissions_unexpected''"
definition IDSELinuxDisabled :: string where "IDSELinuxDisabled = ''mac.selinux_disabled''"
definition IDAuditdInactive :: string where "IDAuditdInactive = ''log.auditd_inactive''"
definition IDNTPUnsynced :: string where "IDNTPUnsynced = ''time.ntp_unsynced''"
definition IDUpdatesPending :: string where "IDUpdatesPending = ''updates.pending''"
definition IDWorldWritablePresent :: string where "IDWorldWritablePresent = ''fs.world_writable_present''"

lemmas finding_ids = IDFileVaultOff_def IDSIPDisabled_def IDGatekeeperDisabled_def IDAppFirewallDisabled_def
  IDRemoteLoginEnabled_def IDNTPDisabled_def IDPasswordAuthEnabled_def IDRootLoginEnabled_def IDEmptyPassword_def
  IDShadowPermissions_def IDSELinuxDisabled_def IDAuditdInactive_def IDNTPUnsynced_def IDUpdatesPending_def
  IDWorldWritablePresent_def

definition one_rule :: "string \<Rightarrow> string \<Rightarrow> platform \<Rightarrow> predicate \<Rightarrow> posture_rule" where
  "one_rule i c p w = \<lparr>pr_finding = i, pr_check = c, pr_platform = p, pr_when = w, pr_with = []\<rparr>"

definition ialts :: "string list \<Rightarrow> re" where
  "ialts ws = Grp 1 (alts (map ilit ws))"

definition re_spaces :: re where "re_spaces = Star True re_space"

definition posture_rules :: "posture_rule list" where
  "posture_rules =
     [one_rule IDFileVaultOff ''disk.fdesetup'' platform_macos
        (RawMatch (ilit ''FileVault is Off'') (Some (Seq (ilit ''FileVault is '') (ialts [''On'', ''Off''])))),
      one_rule IDSIPDisabled ''integrity.csrutil'' platform_macos
        (RawMatch (seqs [ilit ''status:'', re_spaces, ilit ''disabled''])
           (Some (seqs [ilit ''status:'', re_spaces, ialts [''enabled'', ''disabled'']]))),
      one_rule IDGatekeeperDisabled ''integrity.spctl'' platform_macos
        (RawMatch (ilit ''assessments disabled'') (Some (Seq (ilit ''assessments '') (ialts [''enabled'', ''disabled''])))),
      one_rule IDAppFirewallDisabled ''fw.global'' platform_macos
        (RawMatch (Seq (ilit ''State = 0'') WordB) (Some (Seq (ilit ''State = '') (plus re_digit)))),
      one_rule IDRemoteLoginEnabled ''remote.login'' platform_macos
        (RawMatch (seqs [ilit ''remote login:'', re_spaces, ilit ''on''])
           (Some (seqs [ilit ''remote login:'', re_spaces, ialts [''on'', ''off'']]))),
      one_rule IDNTPDisabled ''time.ntp'' platform_macos
        (RawMatch (seqs [ilit ''network time:'', re_spaces, ilit ''off''])
           (Some (seqs [ilit ''network time:'', re_spaces, ialts [''on'', ''off'']]))),
      one_rule IDPasswordAuthEnabled ''sshd.config'' platform_any
        (KeyEquals ''passwordauthentication'' ''yes'' [''yes'', ''no'']),
      one_rule IDRootLoginEnabled ''sshd.config'' platform_any
        (KeyEquals ''permitrootlogin'' ''yes''
           [''yes'', ''no'', ''without-password'', ''prohibit-password'', ''forced-commands-only'']),
      (one_rule IDEmptyPassword ''accounts.passwd_status'' platform_linux
        (StatusWithLoginShell FieldStatus ''NP'' [''p'', ''l'', ''np'', ''ps'', ''lk'']))\<lparr>pr_with := ''accounts.passwd''\<rparr>,
      one_rule IDShadowPermissions ''accounts.shadow_meta'' platform_linux
        (FieldOutside FieldMode [''0'', ''600'', ''640'']
           (seqs [TextStart, Cls [(48, 55)], upto_times 3 (Cls [(48, 55)]), TextEnd])),
      one_rule IDSELinuxDisabled ''mac.sestatus'' platform_linux
        (KeyEquals ''selinux status'' ''disabled'' [''enabled'', ''disabled'']),
      one_rule IDAuditdInactive ''log.auditd'' platform_linux
        (RawMatch (seqs [TextStart, ialts [''inactive'', ''failed''], TextEnd])
           (Some (seqs [TextStart, ialts [''active'', ''inactive'', ''failed'', ''activating'', ''deactivating'',
              ''reloading'', ''unknown''], TextEnd]))),
      one_rule IDNTPUnsynced ''time.timedatectl'' platform_linux
        (KeyEquals ''ntpsynchronized'' ''no'' [''yes'', ''no'']),
      one_rule IDUpdatesPending ''pkg.apt_upgradable'' platform_linux AnyRecord,
      one_rule IDUpdatesPending ''pkg.dnf_check_update'' platform_linux AnyRecord,
      one_rule IDUpdatesPending ''pkg.zypper_lp'' platform_linux AnyRecord,
      one_rule IDUpdatesPending ''pkg.softwareupdate'' platform_macos AnyRecord,
      one_rule IDWorldWritablePresent ''fs.world_writable'' platform_any (AnyLine re_nonspace)]"

definition Rules :: "posture_rule list" where
  "Rules = sort_key (\<lambda>r. (pr_finding r, pr_check r)) posture_rules"

definition rulesFor :: "string \<Rightarrow> posture_rule list" where
  "rulesFor i = filter (\<lambda>r. pr_finding r = i) posture_rules"

definition RulesFor :: "string \<Rightarrow> posture_rule list" where
  "RulesFor c = filter (\<lambda>r. pr_check r = c \<or> pr_with r = c) Rules"

definition DecideJoin :: "string \<Rightarrow> parsed option \<Rightarrow> parsed option \<Rightarrow> join_outcome option" where
  "DecideJoin i x w =
     map_option (\<lambda>r. case pr_when r of StatusWithLoginShell f val vs \<Rightarrow> decide_join f val vs x w
         | _ \<Rightarrow> \<lparr>jo_accounts = [], jo_verdict = unexpected_shape\<rparr>)
       (List.find (\<lambda>r. (case pr_when r of StatusWithLoginShell _ _ _ \<Rightarrow> True | _ \<Rightarrow> False) \<and>
          pr_finding r = i \<and> pr_with r \<noteq> []) posture_rules)"

section \<open>Evaluation (evaluate.go)\<close>

record fact_sheet =
  fs_platform :: platform
  fs_order :: "string list"
  fs_results :: "(string \<times> run_result) list"
  fs_incomplete :: bool
  fs_lost :: string

record eval_input =
  in_sheet :: "fact_sheet option"
  in_profile :: profile
  in_disabled :: "string list"

record assessment =
  as_observation :: string
  as_finding :: string
  as_check :: string
  as_with :: string
  as_withObservation :: string
  as_status :: assess_status
  as_reason :: string

record ruled_out =
  ro_id :: string
  ro_note :: string
  ro_evidence :: "evidence list"

record eval_result =
  er_findings :: "finding list"
  er_assessments :: "assessment list"
  er_ruledOut :: "ruled_out list"

definition sheet_result :: "fact_sheet \<Rightarrow> string \<Rightarrow> run_result option" where
  "sheet_result sheet i = map_of (fs_results sheet) i"

definition sheet_observation :: "fact_sheet \<Rightarrow> string \<Rightarrow> string" where
  "sheet_observation sheet i = (case sheet_result sheet i of None \<Rightarrow> [] | Some r \<Rightarrow> res_observation r)"

definition reasonCode_of :: "run_result \<Rightarrow> string" where
  "reasonCode_of r = (if res_reasonCode r \<noteq> [] then res_reasonCode r else ''unknown'')"

definition usable :: "string \<Rightarrow> string list \<Rightarrow> fact_sheet \<Rightarrow> string + run_result" where
  "usable i disabled sheet =
     (if i \<in> set disabled then Inl ''check-disabled-by-config''
      else
        (case sheet_result sheet i of
           None \<Rightarrow> Inl ''check-not-run''
         | Some r \<Rightarrow>
             (case res_status r of
                StatusDenied \<Rightarrow> Inl (''check-denied:'' @ reasonCode_of r)
              | StatusUnavailable \<Rightarrow> Inl (''check-unavailable:'' @ reasonCode_of r)
              | _ \<Rightarrow> Inr r)))"

definition evalRule :: "catalog \<Rightarrow> posture_rule \<Rightarrow> platform \<Rightarrow> string list \<Rightarrow> fact_sheet \<Rightarrow> verdict" where
  "evalRule cat rule p disabled sheet =
     (if (case lookup cat (pr_check rule) p of None \<Rightarrow> True | Some c \<Rightarrow> \<not> appliesTo c p)
      then \<lparr>v_status = NotApplicable, v_reason = ''check-not-in-platform-catalog'', v_excerpt = [], v_withExcerpt = []\<rparr>
      else
        (case usable (pr_check rule) disabled sheet of
           Inl why \<Rightarrow> notAssessed why
         | Inr r \<Rightarrow>
             if pr_with rule = [] then eval (pr_when rule) (res_parsed r)
             else
               (case usable (pr_with rule) disabled sheet of
                  Inr w \<Rightarrow>
                    (case eval_with (pr_when rule) (res_parsed r) (res_parsed w) of
                       None \<Rightarrow> notAssessed ''rule-with-check-needs-join-predicate'' | Some v \<Rightarrow> v)
                | Inl whyWith \<Rightarrow>
                    (case eval_with (pr_when rule) (res_parsed r) None of
                       None \<Rightarrow> notAssessed ''rule-with-check-needs-join-predicate''
                     | Some v \<Rightarrow>
                         if v_status v = NotAssessed \<and> v_reason v = ReasonWithUnread
                         then v\<lparr>v_reason := ReasonWith @ whyWith\<rparr> else v))))"

definition appendEvidence :: "evidence list \<Rightarrow> evidence \<Rightarrow> evidence list" where
  "appendEvidence es e = (if e \<in> set es then es else es @ [e])"

definition rule_assessment :: "posture_rule \<Rightarrow> fact_sheet \<Rightarrow> verdict \<Rightarrow> assessment" where
  "rule_assessment rule sheet v =
     \<lparr>as_observation = sheet_observation sheet (pr_check rule), as_finding = pr_finding rule, as_check = pr_check rule,
      as_with = pr_with rule,
      as_withObservation = (if pr_with rule = [] then [] else sheet_observation sheet (pr_with rule)),
      as_status = v_status v, as_reason = v_reason v\<rparr>"

definition rule_evidence :: "posture_rule \<Rightarrow> fact_sheet \<Rightarrow> verdict \<Rightarrow> evidence list" where
  "rule_evidence rule sheet v =
     \<lparr>ev_observation = sheet_observation sheet (pr_check rule), ev_check = pr_check rule, ev_excerpt = v_excerpt v\<rparr> #
     (if pr_with rule \<noteq> [] \<and> v_withExcerpt v \<noteq> []
      then [\<lparr>ev_observation = sheet_observation sheet (pr_with rule), ev_check = pr_with rule, ev_excerpt = v_withExcerpt v\<rparr>]
      else [])"

text \<open>A finding as a rule raises it from a definition.\<close>

definition rule_finding :: "def \<Rightarrow> string \<Rightarrow> evidence list \<Rightarrow> finding" where
  "rule_finding d p ev =
     \<lparr>f_id = def_id d, f_title = def_title d, f_category = def_category d, f_severityBase = def_baseSeverity d,
      f_severity = def_baseSeverity d, f_adjustments = [], f_status = FindingOpen, f_acceptedReason = [],
      f_source = SourceRule, f_confidence = ConfidenceHigh, f_platform = p, f_evidence = ev,
      f_impact = def_impact d, f_remediation = def_remediation d, f_contextNote = [], f_service = None,
      f_custom = False, f_cappedBy = []\<rparr>"

definition add_matched :: "def list \<Rightarrow> platform \<Rightarrow> string \<Rightarrow> evidence list \<Rightarrow> finding list \<Rightarrow> finding list" where
  "add_matched defs p i ev fs =
     (case def_lookup defs i of
        None \<Rightarrow> fs
      | Some d \<Rightarrow>
          if list_ex (\<lambda>f. f_id f = i) fs
          then map (\<lambda>f. if f_id f = i then f\<lparr>f_evidence := foldl appendEvidence (f_evidence f) ev\<rparr> else f) fs
          else fs @ [rule_finding d p ev])"

definition eval_step :: "def list \<Rightarrow> catalog \<Rightarrow> string list \<Rightarrow> fact_sheet \<Rightarrow> eval_result \<Rightarrow> posture_rule \<Rightarrow> eval_result" where
  "eval_step defs cat disabled sheet res rule =
     (if pr_platform rule \<noteq> platform_any \<and> pr_platform rule \<noteq> fs_platform sheet then res
      else
        (let v = evalRule cat rule (fs_platform sheet) disabled sheet;
             res1 = res\<lparr>er_assessments := er_assessments res @ [rule_assessment rule sheet v]\<rparr>
         in if v_status v \<noteq> Matched then res1
            else res1\<lparr>er_findings := add_matched defs (fs_platform sheet) (pr_finding rule)
                   (rule_evidence rule sheet v) (er_findings res1)\<rparr>))"

definition evaluate :: "def list \<Rightarrow> catalog \<Rightarrow> eval_input \<Rightarrow> eval_result" where
  "evaluate defs cat inp =
     (case in_sheet inp of
        None \<Rightarrow> \<lparr>er_findings = [], er_assessments = [], er_ruledOut = []\<rparr>
      | Some sheet \<Rightarrow>
          (let res = foldl (eval_step defs cat (in_disabled inp) sheet)
                 \<lparr>er_findings = [], er_assessments = [], er_ruledOut = []\<rparr> Rules
           in res\<lparr>er_findings := sort_key (\<lambda>f. (- sev_rank (f_severity f), f_id f)) (er_findings res)\<rparr>))"

definition openAtOrAbove :: "finding list \<Rightarrow> severity \<Rightarrow> nat" where
  "openAtOrAbove fs t = length (filter (\<lambda>f. finding_open f \<and> atLeast_sev (f_severity f) t) fs)"

definition countBySeverity :: "finding list \<Rightarrow> (severity \<times> nat) list" where
  "countBySeverity fs =
     filter (\<lambda>(s, n). 0 < n)
       (map (\<lambda>s. (s, length (filter (\<lambda>f. f_severity f = s) fs))) [SevCritical, SevHigh, SevMedium, SevLow, SevInfo])"

section \<open>Facts for engagement rules (facts.go)\<close>

record fact =
  fact_check :: string
  fact_observation :: string
  fact_parsed :: "parsed option"
  fact_partial :: bool

definition fact_of :: "fact_sheet option \<Rightarrow> string list \<Rightarrow> string \<Rightarrow> fact \<times> string" where
  "fact_of sheet disabled i =
     (let none = \<lparr>fact_check = i, fact_observation = [], fact_parsed = None, fact_partial = False\<rparr> in
      case sheet of
        None \<Rightarrow> (none, ''check-not-run'')
      | Some sh \<Rightarrow>
          (case usable i disabled sh of
             Inl why \<Rightarrow> (none\<lparr>fact_observation := (if i \<in> set disabled then [] else sheet_observation sh i)\<rparr>, why)
           | Inr r \<Rightarrow>
               (\<lparr>fact_check = i, fact_observation = res_observation r, fact_parsed = res_parsed r,
                 fact_partial = (res_truncated r \<or> 0 < res_redactions r \<or>
                   (case res_parsed r of Some (PRecords recs) \<Rightarrow> rs_partial recs | _ \<Rightarrow> False))\<rparr>, [])))"

end
