(* ===== verification/Posture_Proofs.thy ===== *)
theory Posture_Proofs
  imports Posture
begin

text \<open>
  What a posture rule's answer means.  A predicate disproves only on complete evidence, with one
  exception that is shown; what it proves from part of a record set it proves from all of it; the
  two-check join fires and disproves exactly on accounts that can and cannot log in; and the
  evaluator gives one assessment per applicable rule and a finding only for a matched one.
\<close>

section \<open>Three answers\<close>



lemma eval_any_line_matched:
  "v_status (eval_any_line r partial ls) = Matched \<longleftrightarrow> (\<exists>l\<in>set ls. \<not> isMarkerLine l \<and> match_string r l)"
  by (induction ls arbitrary: partial) auto


lemma eval_field_equals_matched:
  "v_status (eval_field_equals f val vs partial unrec rs) = Matched \<longleftrightarrow>
   (\<exists>r\<in>set rs. \<not> unreadable (trim_space (field r f)) \<and> equal_fold (trim_space (field r f)) val)"
  by (induction rs arbitrary: unrec) (auto simp: Let_def)

lemma eval_any_record_status:
  "v_status (eval_any_record recs) = Matched \<longleftrightarrow> rs_items recs \<noteq> []"
  "v_status (eval_any_record recs) = NotMatched \<longleftrightarrow> rs_items recs = [] \<and> \<not> rs_partial recs"
  by (auto simp: eval_any_record_def split: list.splits)




text \<open>
  The exception: \<open>FieldOutside\<close> does not look at whether the record set is partial.  On a set
  whose one readable record has an allowed value it answers "not matched" although the set is known
  to be incomplete.
\<close>
theorem field_outside_disproves_partial:
  "v_status (eval (FieldOutside FieldMode [''600''] (Cls [(48, 57)]))
     (Some (PRecords \<lparr>rs_kind = ParseFileMode, rs_items = [[(FieldMode, ''600'')]], rs_partial = True,
        rs_note = truncated_note\<rparr>))) = NotMatched"
proof -
  have "trim_space ''600'' = ''600''" "\<not> unreadable ''600''" "match_string (Cls [(48, 57)]) ''600''" "known_value ''600'' [''600'']"
    by code_simp+
  then show ?thesis by (simp add: field_def)
qed

text \<open>
  A proof from part of the evidence is a proof from all of it: when an existential predicate
  fires on a record set, it fires on every set that has those records, complete or not.
\<close>
theorem existential_proof_monotone:
  assumes "v_status (eval p (Some (PRecords recs))) = Matched"
    and "p = AnyRecord \<or> (\<exists>f val vs. p = FieldEquals f val vs)"
    and "set (rs_items recs) \<subseteq> set (rs_items recs')"
  shows "v_status (eval p (Some (PRecords recs'))) = Matched"
  using assms by (auto simp: eval_any_record_status eval_field_equals_matched) blast

theorem existential_proof_monotone_witness:
  "v_status (eval AnyRecord (Some (PRecords \<lparr>rs_kind = ParseUpdates, rs_items = [[], []], rs_partial = True, rs_note = []\<rparr>))) = Matched"
  using existential_proof_monotone [of AnyRecord "\<lparr>rs_kind = ParseUpdates, rs_items = [[]], rs_partial = False, rs_note = []\<rparr>"
      "\<lparr>rs_kind = ParseUpdates, rs_items = [[], []], rs_partial = True, rs_note = []\<rparr>"]
  by (simp add: eval_any_record_def)

section \<open>The join\<close>

text \<open>The account's line in the listing, read in full, and what its shell says.\<close>

definition account_line :: "records \<Rightarrow> row \<Rightarrow> row \<Rightarrow> bool" where
  "account_line sh r acct =
     (\<exists>is_last. account_named (trim_space (field r FieldName)) (rs_items sh) = Some (acct, is_last) \<and>
        map_of acct FieldShell \<noteq> None \<and> \<not> row_marked acct \<and> \<not> (is_last \<and> rs_partial sh))"

lemma decide_account_matched:
  "ao_status (decide_account shells r) = Matched \<longleftrightarrow>
   (\<exists>sh acct. shells = Some sh \<and> account_line sh r acct \<and> \<not> refusesLogin (field acct FieldShell) \<and>
      interactiveShell (field acct FieldShell))"
  by (auto simp: decide_account_def account_line_def Let_def split: option.splits)

lemma decide_account_refused:
  "ao_status (decide_account shells r) = NotMatched \<longleftrightarrow>
   (\<exists>sh acct. shells = Some sh \<and> account_line sh r acct \<and> refusesLogin (field acct FieldShell))"
  by (auto simp: decide_account_def account_line_def Let_def split: option.splits)

lemma decide_account_status: "ao_status (decide_account shells r) \<noteq> NotApplicable"
  by (auto simp: decide_account_def Let_def split: option.splits)

lemma join_verdict_matched: "v_status (join_verdict recs u outs) = Matched \<longleftrightarrow> (\<exists>a\<in>set outs. ao_status a = Matched)"
  by (auto simp: join_verdict_def Let_def filter_empty_conv)

lemma join_verdict_disproved:
  assumes "\<forall>a\<in>set outs. ao_status a \<noteq> NotApplicable"
  shows "v_status (join_verdict recs u outs) = NotMatched \<longleftrightarrow>
    \<not> rs_partial recs \<and> \<not> u \<and> (\<forall>a\<in>set outs. ao_status a = NotMatched)"
proof -
  have "ao_status a = NotMatched" if "a \<in> set outs" "ao_status a \<noteq> Matched" "ao_status a \<noteq> NotAssessed" for a
    using assms that by (cases "ao_status a") auto
  moreover have "NotMatched \<noteq> Matched" "NotMatched \<noteq> NotAssessed" by simp_all
  ultimately show ?thesis by (auto simp: join_verdict_def Let_def filter_empty_conv) (metis assess_status.distinct)+
qed

definition shell_listing :: "parsed option \<Rightarrow> records option" where
  "shell_listing w = (case w of Some (PRecords sh) \<Rightarrow> Some sh | _ \<Rightarrow> None)"

text \<open>
  C27: The empty-password join fires exactly when some readable account has the status and a line in
  the listing, read in full, whose shell lets someone log in; it disproves exactly when the status
  listing is complete, every account in it is readable with a known status, and every account with
  the status has a line, read in full, whose shell refuses logins.
\<close>
theorem join_decides_logins:
  "(v_status (jo_verdict (decide_join f val vs (Some (PRecords recs)) w)) = Matched \<longleftrightarrow>
     (\<exists>r\<in>set (rs_items recs). classify_account f val vs r = Candidate \<and>
        (\<exists>sh acct. shell_listing w = Some sh \<and> account_line sh r acct \<and>
           \<not> refusesLogin (field acct FieldShell) \<and> interactiveShell (field acct FieldShell)))) \<and>
   (v_status (jo_verdict (decide_join f val vs (Some (PRecords recs)) w)) = NotMatched \<longleftrightarrow>
     rs_items recs \<noteq> [] \<and> \<not> rs_partial recs \<and>
     (\<forall>r\<in>set (rs_items recs). classify_account f val vs r \<noteq> Undecided) \<and>
     (\<forall>r\<in>set (rs_items recs). classify_account f val vs r = Candidate \<longrightarrow>
        (\<exists>sh acct. shell_listing w = Some sh \<and> account_line sh r acct \<and> refusesLogin (field acct FieldShell))))"
proof (cases "rs_items recs = []")
  case True
  then show ?thesis by (simp add: decide_join_def)
next
  case False
  let ?outs = "map (decide_account (shell_listing w)) (filter (\<lambda>r. classify_account f val vs r = Candidate) (rs_items recs))"
  have v: "jo_verdict (decide_join f val vs (Some (PRecords recs)) w) =
      join_verdict recs (filter (\<lambda>r. classify_account f val vs r = Undecided) (rs_items recs) \<noteq> []) ?outs"
    using False by (simp add: decide_join_def shell_listing_def Let_def)
  have "\<forall>a\<in>set ?outs. ao_status a \<noteq> NotApplicable" by (simp add: decide_account_status)
  then show ?thesis
    unfolding v join_verdict_matched join_verdict_disproved [OF \<open>\<forall>a\<in>set ?outs. ao_status a \<noteq> NotApplicable\<close>]
    using False by (simp add: decide_account_matched decide_account_refused filter_empty_conv) blast
qed

theorem join_decides_logins_witness:
  "v_status (jo_verdict (decide_join FieldStatus ''NP'' [''p'', ''l'']
     (Some (PRecords \<lparr>rs_kind = ParsePasswdStatus, rs_items = [[(FieldName, ''bob''), (FieldStatus, ''NP'')]],
        rs_partial = False, rs_note = []\<rparr>))
     (Some (PRecords \<lparr>rs_kind = ParseAccounts, rs_items = [[(FieldName, ''bob''), (FieldShell, ''/bin/bash'')]],
        rs_partial = False, rs_note = []\<rparr>)))) = Matched"
proof -
  define r where "r = [(FieldName, ''bob''), (FieldStatus, ''NP'')]"
  define acct where "acct = [(FieldName, ''bob''), (FieldShell, ''/bin/bash'')]"
  let ?sh = "\<lparr>rs_kind = ParseAccounts, rs_items = [acct], rs_partial = False, rs_note = []\<rparr>"
  have "classify_account FieldStatus ''NP'' [''p'', ''l''] r = Candidate"
    "\<not> refusesLogin (field acct FieldShell)" "interactiveShell (field acct FieldShell)"
    unfolding r_def acct_def by code_simp+
  moreover have "account_named (trim_space (field r FieldName)) [acct] = Some (acct, True)"
    "map_of acct FieldShell \<noteq> None" "\<not> row_marked acct"
    unfolding r_def acct_def by code_simp+
  then have "account_line ?sh r acct" by (auto simp: account_line_def simp del: account_named.simps)
  ultimately show ?thesis
    unfolding r_def [symmetric] acct_def [symmetric]
    by (subst join_decides_logins [THEN conjunct1]) (auto simp: shell_listing_def)
qed

section \<open>The evaluator\<close>

definition rule_applies :: "fact_sheet \<Rightarrow> posture_rule \<Rightarrow> bool" where
  "rule_applies sheet r = (pr_platform r = platform_any \<or> pr_platform r = fs_platform sheet)"

definition rule_matches :: "def list \<Rightarrow> catalog \<Rightarrow> string list \<Rightarrow> fact_sheet \<Rightarrow> posture_rule \<Rightarrow> bool" where
  "rule_matches defs cat disabled sheet r =
     (rule_applies sheet r \<and> v_status (evalRule cat r (fs_platform sheet) disabled sheet) = Matched \<and>
      def_lookup defs (pr_finding r) \<noteq> None)"

abbreviation sheet_input :: "fact_sheet \<Rightarrow> profile \<Rightarrow> string list \<Rightarrow> eval_input" where
  "sheet_input sheet prof disabled \<equiv> \<lparr>in_sheet = Some sheet, in_profile = prof, in_disabled = disabled\<rparr>"

lemma def_lookup_id: "def_lookup defs i = Some d \<Longrightarrow> def_id d = i"
  by (auto simp: def_lookup_def find_Some_iff)

lemma foldl_eval_assessments:
  "er_assessments (foldl (eval_step defs cat disabled sheet) res rs) =
   er_assessments res @ map (\<lambda>r. rule_assessment r sheet (evalRule cat r (fs_platform sheet) disabled sheet))
     (filter (rule_applies sheet) rs)"
proof (induction rs arbitrary: res)
  case (Cons r rs)
  have "er_assessments (eval_step defs cat disabled sheet res r) = er_assessments res @
      (if rule_applies sheet r then [rule_assessment r sheet (evalRule cat r (fs_platform sheet) disabled sheet)] else [])"
    by (auto simp: eval_step_def rule_applies_def Let_def)
  then show ?case using Cons.IH by simp
qed simp

text \<open>
  Coverage is complete: evaluation gives exactly one assessment for every rule of the table that
  applies to the platform, in the table's order, with that rule's verdict, and none for any other.
\<close>
theorem evaluate_one_per_rule:
  "er_assessments (evaluate defs cat (sheet_input sheet prof disabled)) =
   map (\<lambda>r. rule_assessment r sheet (evalRule cat r (fs_platform sheet) disabled sheet))
     (filter (rule_applies sheet) Rules)"
  by (simp add: evaluate_def foldl_eval_assessments Let_def)

lemma add_matched_ids:
  assumes "distinct (map f_id fs)" "def_lookup defs i \<noteq> None"
  shows "distinct (map f_id (add_matched defs p i ev fs)) \<and> f_id ` set (add_matched defs p i ev fs) = insert i (f_id ` set fs)"
proof -
  obtain d where d: "def_lookup defs i = Some d" using assms(2) by blast
  show ?thesis
  proof (cases "list_ex (\<lambda>f. f_id f = i) fs")
    case True
    let ?g = "\<lambda>f. if f_id f = i then f\<lparr>f_evidence := foldl appendEvidence (f_evidence f) ev\<rparr> else f"
    have ids: "map f_id (map ?g fs) = map f_id fs" by simp
    then have "distinct (map f_id (map ?g fs))" "f_id ` set (map ?g fs) = f_id ` set fs"
      using assms(1) by (metis, metis list.set_map)
    moreover have "i \<in> f_id ` set fs" using True by (auto simp: list_ex_iff)
    ultimately show ?thesis using True by (simp only: add_matched_def d option.case if_True) blast
  next
    case False
    then show ?thesis
      using assms(1) def_lookup_id [OF d] by (auto simp: add_matched_def d rule_finding_def list_ex_iff)
  qed
qed

lemma foldl_eval_findings:
  "distinct (map f_id (er_findings res)) \<Longrightarrow>
   distinct (map f_id (er_findings (foldl (eval_step defs cat disabled sheet) res rs))) \<and>
   f_id ` set (er_findings (foldl (eval_step defs cat disabled sheet) res rs)) =
     f_id ` set (er_findings res) \<union> pr_finding ` {r \<in> set rs. rule_matches defs cat disabled sheet r}"
proof (induction rs arbitrary: res)
  case (Cons r rs)
  let ?res = "eval_step defs cat disabled sheet res r"
  have "distinct (map f_id (er_findings ?res)) \<and> f_id ` set (er_findings ?res) =
      f_id ` set (er_findings res) \<union> (if rule_matches defs cat disabled sheet r then {pr_finding r} else {})"
  proof (cases "rule_applies sheet r \<and> v_status (evalRule cat r (fs_platform sheet) disabled sheet) = Matched")
    case True
    then have e: "er_findings ?res = add_matched defs (fs_platform sheet) (pr_finding r)
        (rule_evidence r sheet (evalRule cat r (fs_platform sheet) disabled sheet)) (er_findings res)"
      by (auto simp: eval_step_def rule_applies_def Let_def)
    show ?thesis
    proof (cases "def_lookup defs (pr_finding r) = None")
      case True
      then show ?thesis using Cons.prems by (simp add: e add_matched_def rule_matches_def)
    next
      case False
      with True have "rule_matches defs cat disabled sheet r" by (simp add: rule_matches_def)
      then show ?thesis unfolding e using add_matched_ids [OF Cons.prems False] by simp
    qed
  next
    case False
    then have "er_findings ?res = er_findings res" by (auto simp: eval_step_def rule_applies_def Let_def)
    with False Cons.prems show ?thesis by (auto simp: rule_matches_def)
  qed
  then show ?case using Cons.IH [of ?res] by (auto split: if_splits)
qed simp

lemma evaluate_findings_set:
  "set (er_findings (evaluate defs cat (sheet_input sheet prof disabled))) =
   set (er_findings (foldl (eval_step defs cat disabled sheet) \<lparr>er_findings = [], er_assessments = [], er_ruledOut = []\<rparr> Rules))"
  by (simp add: evaluate_def Let_def)

text \<open>
  C29: Findings are exactly the matches: a finding id is reported if and only if some applicable rule
  for it matched and it is defined, no id is reported twice, and findings come in order of severity,
  the most serious first.
\<close>
theorem evaluate_findings_exact:
  "f_id ` set (er_findings (evaluate defs cat (sheet_input sheet prof disabled))) =
     pr_finding ` {r \<in> set posture_rules. rule_matches defs cat disabled sheet r} \<and>
   distinct (map f_id (er_findings (evaluate defs cat (sheet_input sheet prof disabled)))) \<and>
   sorted_wrt (\<lambda>a b. f_severity b \<le> f_severity a) (er_findings (evaluate defs cat (sheet_input sheet prof disabled)))"
proof -
  let ?fs = "er_findings (foldl (eval_step defs cat disabled sheet) \<lparr>er_findings = [], er_assessments = [], er_ruledOut = []\<rparr> Rules)"
  let ?key = "\<lambda>f. (- sev_rank (f_severity f), f_id f)"
  have ev: "er_findings (evaluate defs cat (sheet_input sheet prof disabled)) = sort_key ?key ?fs"
    by (simp add: evaluate_def Let_def)
  have fs: "distinct (map f_id ?fs)" "f_id ` set ?fs = pr_finding ` {r \<in> set posture_rules. rule_matches defs cat disabled sheet r}"
    using foldl_eval_findings [of "\<lparr>er_findings = [], er_assessments = [], er_ruledOut = []\<rparr>" defs cat disabled sheet Rules]
    by (simp_all add: Rules_def)
  have "distinct (map f_id (sort_key ?key ?fs))"
    using fs(1) by (simp add: distinct_map)
  moreover have "sorted_wrt (\<lambda>a b. f_severity b \<le> f_severity a) (sort_key ?key ?fs)"
  proof -
    have "sorted_wrt (\<lambda>a b. ?key a \<le> ?key b) (sort_key ?key ?fs)"
      using sorted_sort_key [of ?key ?fs] by (simp add: sorted_map)
    then show ?thesis
      by (rule sorted_wrt_mono_rel [rotated]) (auto simp: less_eq_prod_def sev_order)
  qed
  ultimately show ?thesis using fs(2) by (simp add: ev)
qed

lemma evalRule_matched:
  "v_status (evalRule cat r p disabled sheet) = Matched \<Longrightarrow> \<exists>res. usable (pr_check r) disabled sheet = Inr res"
  by (auto simp: evalRule_def split: sum.splits if_splits option.splits)

lemma usable_Inr:
  "usable i disabled sheet = Inr res \<Longrightarrow>
   i \<notin> set disabled \<and> sheet_result sheet i = Some res \<and> res_status res \<noteq> StatusDenied \<and> res_status res \<noteq> StatusUnavailable"
  by (auto simp: usable_def split: if_splits option.splits status.splits)

text \<open>
  No finding rests on a check that gave no fact: behind every finding there is a rule for its id
  whose check was not disabled, ran, and was neither denied nor unavailable.
\<close>
theorem finding_rests_on_fact:
  assumes "f \<in> set (er_findings (evaluate defs cat (sheet_input sheet prof disabled)))"
  shows "\<exists>r\<in>set posture_rules. \<exists>res. pr_finding r = f_id f \<and> pr_check r \<notin> set disabled \<and>
    sheet_result sheet (pr_check r) = Some res \<and> res_status res \<noteq> StatusDenied \<and> res_status res \<noteq> StatusUnavailable"
proof -
  have "f_id f \<in> pr_finding ` {r \<in> set posture_rules. rule_matches defs cat disabled sheet r}"
    using assms foldl_eval_findings [of "\<lparr>er_findings = [], er_assessments = [], er_ruledOut = []\<rparr>" defs cat disabled sheet Rules]
    by (auto simp: evaluate_findings_set Rules_def)
  then show ?thesis
    using evalRule_matched usable_Inr by (fastforce simp: rule_matches_def)
qed

definition sample_sheet :: fact_sheet where
  "sample_sheet = \<lparr>fs_platform = platform_linux, fs_order = [''fs.world_writable''],
     fs_results = [(''fs.world_writable'', zero_result\<lparr>res_status := StatusOK, res_parsed := Some (PLines [''/tmp/x''])\<rparr>)],
     fs_incomplete = False, fs_lost = []\<rparr>"

definition sample_catalog :: catalog where
  "sample_catalog = [zero_check\<lparr>check_id := ''fs.world_writable'', check_platform := platform_any, check_parser := ParseLines\<rparr>]"

definition sample_defs :: "def list" where
  "sample_defs = [\<lparr>def_id = IDWorldWritablePresent, def_title = ''t'', def_category = ''fs'', def_area = AreaHosts,
     def_exposure = NotExposure, def_judges = ''j'', def_baseSeverity = SevMedium, def_impact = ''i'',
     def_remediation = \<lparr>rem_summary = ''s'', rem_commands = [], rem_caveat = []\<rparr>, def_premise = [], def_subject = [],
     def_ceiling = None, def_hostAccess = False, def_attributes = [], def_multiFact = False\<rparr>]"

lemma sample_match:
  "rule_matches sample_defs sample_catalog [] sample_sheet
     (one_rule IDWorldWritablePresent ''fs.world_writable'' platform_any (AnyLine re_nonspace))"
proof -
  have "match_string re_nonspace ''/tmp/x''" "\<not> isMarkerLine ''/tmp/x''" by code_simp+
  then show ?thesis
    by (simp add: rule_matches_def rule_applies_def one_rule_def evalRule_def usable_def sheet_result_def sample_sheet_def
        sample_catalog_def sample_defs_def lookup_def zero_check_def appliesTo_def def_lookup_def finding_ids)
qed

theorem finding_rests_on_fact_witness:
  "\<exists>r\<in>set posture_rules. \<exists>res. pr_finding r = IDWorldWritablePresent \<and>
     sheet_result sample_sheet (pr_check r) = Some res"
proof -
  have "one_rule IDWorldWritablePresent ''fs.world_writable'' platform_any (AnyLine re_nonspace) \<in> set posture_rules"
    unfolding posture_rules_def by simp
  then have "IDWorldWritablePresent \<in>
      f_id ` set (er_findings (evaluate sample_defs sample_catalog (sheet_input sample_sheet ProfileBaseline [])))"
    using foldl_eval_findings [of "\<lparr>er_findings = [], er_assessments = [], er_ruledOut = []\<rparr>" sample_defs sample_catalog
        "[]" sample_sheet Rules] sample_match
    by (simp add: evaluate_findings_set Rules_def) (force simp: one_rule_def)
  then show ?thesis using finding_rests_on_fact by fastforce
qed

end
