(* ===== verification/Grading.thy ===== *)
theory Grading
  imports Severity_Table Operator_Context Posture
begin

text \<open>
  The host grader, \<open>internal/finding/grade.go\<close>: base severity, context adjustments, caps,
  acceptance, final severity, with the steps it records.  The clock reading of a grader without a
  \<open>Now\<close> is its field \<open>g_now\<close> too.
\<close>

section \<open>The grader\<close>

record grader =
  g_context :: "structured option"
  g_origins :: "(string \<times> string) list"
  g_emulatedToolCalling :: bool
  g_now :: int

record grade_step =
  gs_stage :: string
  gs_from :: string
  gs_to :: string
  gs_reason :: string

record adjustment =
  aj_rule :: string
  aj_source :: string
  aj_delta :: int

definition CategoryRemoteAccess :: string where "CategoryRemoteAccess = ''remote-access''"
definition CategoryNetwork :: string where "CategoryNetwork = ''network''"
definition CategoryGovernance :: string where "CategoryGovernance = ''governance''"

definition sref_key :: "service_ref \<Rightarrow> string" where
  "sref_key s = show_int (sref_port s) @ ''/'' @ to_lower (sref_proto s)"

definition baseReason :: "finding \<Rightarrow> string" where
  "baseReason f =
     (if f_custom f then ''proposed by the model for a custom finding, capped at medium''
      else ''catalog base severity for '' @ f_id f)"

definition expected_service :: "structured \<Rightarrow> service_ref \<Rightarrow> service option" where
  "expected_service c s =
     List.find (\<lambda>v. svc_port v = sref_port s \<and> equal_fold (svc_proto v) (sref_proto s)) (cx_expectedServices c)"

definition acceptance :: "structured \<Rightarrow> string \<Rightarrow> risk option" where
  "acceptance c i = List.find (\<lambda>r. risk_id r = i) (cx_acceptedRisks c)"

definition grade_source :: "grader \<Rightarrow> string \<Rightarrow> string \<Rightarrow> string" where
  "grade_source g key entrySource =
     (let s0 = (if entrySource = [] then map_get (g_origins g) key else entrySource);
          s = (if s0 = [] then ''context'' else s0)
      in if has_prefix s ''flag '' then s
         else if has_suffix s ''#context'' then s @ ''.'' @ key
         else s @ ''#context.'' @ key)"

definition deltaString :: "int \<Rightarrow> string" where
  "deltaString d = (if 0 < d then ''+'' @ show_int d else show_int d)"

definition adjustments :: "grader \<Rightarrow> structured \<Rightarrow> finding \<Rightarrow> adjustment list" where
  "adjustments g c f =
     (case f_service f of
        None \<Rightarrow> []
      | Some s \<Rightarrow>
          if cx_expectedServices c = [] then []
          else
            (case expected_service c s of
               Some v \<Rightarrow> [\<lparr>aj_rule = ''expected_service:'' @ svc_key v,
                   aj_source = grade_source g ''expected_services'' (svc_source v),
                   aj_delta = sev_rank SevInfo - sev_rank (f_severityBase f)\<rparr>]
             | None \<Rightarrow>
                 if f_category f = CategoryNetwork
                 then [\<lparr>aj_rule = ''unexpected_service:'' @ sref_key s,
                     aj_source = grade_source g ''expected_services'' [], aj_delta = 1\<rparr>]
                 else [])) @
     (if cx_exposure c = ''internet'' then
        (if f_category f = CategoryRemoteAccess \<or> f_category f = CategoryNetwork
         then [\<lparr>aj_rule = ''exposure:internet'', aj_source = grade_source g ''exposure'' [], aj_delta = 1\<rparr>] else [])
      else if cx_exposure c = ''airgapped'' then
        (if f_category f = CategoryRemoteAccess
         then [\<lparr>aj_rule = ''exposure:airgapped'', aj_source = grade_source g ''exposure'' [], aj_delta = - 2\<rparr>] else [])
      else []) @
     (if cx_environment c = ''dev''
      then [\<lparr>aj_rule = ''environment:dev'', aj_source = grade_source g ''environment'' [], aj_delta = - 1\<rparr>] else [])"

definition gstep :: "string \<Rightarrow> string \<Rightarrow> string \<Rightarrow> string \<Rightarrow> grade_step" where
  "gstep stage a b reason = \<lparr>gs_stage = stage, gs_from = a, gs_to = b, gs_reason = reason\<rparr>"

text \<open>One adjustment; the state is the finding, the steps and the rule that took it past high.\<close>

type_synonym grade_state = "finding \<times> grade_step list \<times> string"

definition adjust :: "grade_state \<Rightarrow> adjustment \<Rightarrow> grade_state" where
  "adjust gs adj = (case gs of (f, steps, raisedBy) \<Rightarrow>
     (let s = f_severity f; next_sev = shift s (aj_delta adj) in
      if f_custom f \<and> sev_rank next_sev > sev_rank s then
        (f, steps @ [gstep ''adjustment'' (sev_string s) (sev_string s)
           (aj_rule adj @ '' ignored: custom findings are never escalated'')], raisedBy)
      else if next_sev = s then
        (f, steps @ [gstep ''adjustment'' (sev_string s) (sev_string next_sev)
           (aj_rule adj @ '' (already at the scale's end)'')], raisedBy)
      else
        (f\<lparr>f_adjustments := f_adjustments f @ [\<lparr>adj_rule = aj_rule adj, adj_source = aj_source adj,
             adj_delta = deltaString (aj_delta adj)\<rparr>], f_severity := next_sev\<rparr>,
         steps @ [gstep ''adjustment'' (sev_string s) (sev_string next_sev) (aj_rule adj @ '' from '' @ aj_source adj)],
         if sev_rank next_sev > sev_rank SevHigh \<and> sev_rank s \<le> sev_rank SevHigh then aj_rule adj else raisedBy)))"

definition grade_reset :: "finding \<Rightarrow> finding" where
  "grade_reset f = f\<lparr>f_adjustments := [], f_severity := f_severityBase f, f_status := FindingOpen,
     f_acceptedReason := [], f_cappedBy := []\<rparr>"

definition cap_high :: "grade_state \<Rightarrow> finding \<times> grade_step list" where
  "cap_high gs = (case gs of (f, steps, raisedBy) \<Rightarrow>
     if raisedBy \<noteq> [] \<and> sev_rank (f_severity f) > sev_rank SevHigh
     then (f\<lparr>f_severity := SevHigh, f_cappedBy := raisedBy\<rparr>,
           steps @ [gstep ''cap'' (sev_string (f_severity f)) (sev_string SevHigh) (WhyPastHigh raisedBy)])
     else (f, steps))"

definition cap_custom :: "finding \<times> grade_step list \<Rightarrow> finding \<times> grade_step list" where
  "cap_custom fs = (case fs of (f, steps) \<Rightarrow>
     if f_custom f \<and> sev_rank (f_severity f) > sev_rank SevMedium
     then (f\<lparr>f_severity := SevMedium\<rparr>,
           steps @ [gstep ''cap'' (sev_string (f_severity f)) (sev_string SevMedium) ''custom findings are capped at medium''])
     else (f, steps))"

definition cap_confidence :: "grader \<Rightarrow> finding \<times> grade_step list \<Rightarrow> finding \<times> grade_step list" where
  "cap_confidence g fs = (case fs of (f, steps) \<Rightarrow>
     if g_emulatedToolCalling g \<and> f_source f = SourceModel \<and> f_confidence f = ConfidenceHigh
     then (f\<lparr>f_confidence := ConfidenceMedium\<rparr>,
           steps @ [gstep ''cap'' ''confidence high'' ''confidence medium'' ''tool calling was emulated (parsed from text)''])
     else (f, steps))"

definition accept_status :: "grader \<Rightarrow> finding \<times> grade_step list \<Rightarrow> finding \<times> grade_step list" where
  "accept_status g fs = (case fs of (f, steps) \<Rightarrow>
     (case Option.bind (g_context g) (\<lambda>c. acceptance c (f_id f)) of
        None \<Rightarrow> (f, steps)
      | Some r \<Rightarrow>
          if expired r (g_now g) then
            (f, steps @ [gstep ''status'' FindingOpen FindingOpen (''acceptance in '' @ risk_source r @ '' expired on '' @
               risk_expires r @ ''; it no longer suppresses this finding'')])
          else
            (f\<lparr>f_status := FindingAccepted, f_acceptedReason := risk_reason r\<rparr>,
             steps @ [gstep ''status'' FindingOpen FindingAccepted (''accepted in '' @ risk_source r @ '': '' @ risk_reason r)])))"

definition grade :: "grader \<Rightarrow> finding \<Rightarrow> finding \<times> grade_step list" where
  "grade g f0 =
     (let f = grade_reset f0;
          start = (f, [gstep ''base'' [] (sev_string (f_severity f)) (baseReason f)], []);
          adjusted = (case g_context g of None \<Rightarrow> start | Some c \<Rightarrow> foldl adjust start (adjustments g c f));
          (f', steps) = accept_status g (cap_confidence g (cap_custom (cap_high adjusted)))
      in (f', steps @ [gstep ''final'' [] (sev_string (f_severity f')) (f_status f')]))"

definition IDAcceptanceExpired :: string where "IDAcceptanceExpired = ''risk.acceptance_expired''"

text \<open>A lookup that fails gives the zero definition, whose severity the scale here does not have.\<close>

definition expiredAcceptances :: "def list \<Rightarrow> grader \<Rightarrow> string \<Rightarrow> finding list" where
  "expiredAcceptances defs g platform =
     (case (g_context g, def_lookup defs IDAcceptanceExpired) of
        (Some c, Some d) \<Rightarrow>
          map (\<lambda>r. (rule_finding d platform [\<lparr>ev_observation = [], ev_check = ''context'',
               ev_excerpt = risk_source r @ '': accepted_risks '' @ risk_id r @ '' expired '' @ risk_expires r @
                 '' ('' @ risk_reason r @ '')''\<rparr>])
              \<lparr>f_contextNote := ''acceptance of '' @ risk_id r @ '' expired on '' @ risk_expires r\<rparr>)
            (filter (\<lambda>r. expired r (g_now g)) (cx_acceptedRisks c))
      | _ \<Rightarrow> [])"

section \<open>Properties\<close>

lemma adjust_fixed:
  "f_severityBase (fst (adjust gs a)) = f_severityBase (fst gs)" "f_custom (fst (adjust gs a)) = f_custom (fst gs)"
  "f_id (fst (adjust gs a)) = f_id (fst gs)" "f_status (fst (adjust gs a)) = f_status (fst gs)"
  by (cases gs; simp add: adjust_def Let_def)+

text \<open>While no rule has taken it past high, a finding stays at high or its base.\<close>

definition adjust_inv :: "grade_state \<Rightarrow> bool" where
  "adjust_inv gs = (case gs of (f, steps, raisedBy) \<Rightarrow>
     (raisedBy = [] \<longrightarrow> f_severity f \<le> max (f_severityBase f) SevHigh) \<and>
     (f_custom f \<longrightarrow> f_severity f \<le> f_severityBase f))"

lemma critical_top: "\<not> sev_rank a \<le> 3 \<Longrightarrow> sev_rank a \<le> sev_rank b \<Longrightarrow> sev_rank c \<le> sev_rank b"
  using sev_rank_bounds(2) [of c] by linarith

lemma adjust_keeps_inv: "adjust_inv gs \<Longrightarrow> aj_rule a \<noteq> [] \<Longrightarrow> adjust_inv (adjust gs a)"
  by (cases gs) (auto simp: adjust_inv_def adjust_def Let_def sev_order max_def intro: critical_top)

lemma adjustments_named: "a \<in> set (adjustments g c f) \<Longrightarrow> aj_rule a \<noteq> []"
  by (auto simp: adjustments_def split: option.splits if_splits)

lemma foldl_adjust_inv:
  "adjust_inv gs \<Longrightarrow> \<forall>a\<in>set as. aj_rule a \<noteq> [] \<Longrightarrow>
   adjust_inv (foldl adjust gs as) \<and> f_severityBase (fst (foldl adjust gs as)) = f_severityBase (fst gs) \<and>
   f_custom (fst (foldl adjust gs as)) = f_custom (fst gs)"
  by (induction as arbitrary: gs) (auto simp: adjust_keeps_inv adjust_fixed)

lemma accept_status_severity [simp]:
  "f_severity (fst (accept_status g fs)) = f_severity (fst fs)"
  "f_severityBase (fst (accept_status g fs)) = f_severityBase (fst fs)"
  "f_adjustments (fst (accept_status g fs)) = f_adjustments (fst fs)"
  "f_custom (fst (accept_status g fs)) = f_custom (fst fs)"
  by (cases fs; simp add: accept_status_def split: option.split)+

lemma cap_confidence_severity [simp]:
  "f_severity (fst (cap_confidence g fs)) = f_severity (fst fs)"
  "f_severityBase (fst (cap_confidence g fs)) = f_severityBase (fst fs)"
  "f_adjustments (fst (cap_confidence g fs)) = f_adjustments (fst fs)"
  "f_custom (fst (cap_confidence g fs)) = f_custom (fst fs)"
  "f_id (fst (cap_confidence g fs)) = f_id (fst fs)" "f_status (fst (cap_confidence g fs)) = f_status (fst fs)"
  by (cases fs; simp add: cap_confidence_def)+

lemma cap_custom_sel [simp]:
  "f_severityBase (fst (cap_custom fs)) = f_severityBase (fst fs)" "f_custom (fst (cap_custom fs)) = f_custom (fst fs)"
  "f_id (fst (cap_custom fs)) = f_id (fst fs)" "f_status (fst (cap_custom fs)) = f_status (fst fs)"
  by (cases fs; simp add: cap_custom_def)+

lemma cap_high_sel [simp]:
  "f_severityBase (fst (cap_high gs)) = f_severityBase (fst gs)" "f_custom (fst (cap_high gs)) = f_custom (fst gs)"
  "f_id (fst (cap_high gs)) = f_id (fst gs)" "f_status (fst (cap_high gs)) = f_status (fst gs)"
  by (cases gs; simp add: cap_high_def)+

definition adjusted_state :: "grader \<Rightarrow> finding \<Rightarrow> grade_state" where
  "adjusted_state g f0 =
     (let f = grade_reset f0; start = (f, [gstep ''base'' [] (sev_string (f_severity f)) (baseReason f)], [])
      in case g_context g of None \<Rightarrow> start | Some c \<Rightarrow> foldl adjust start (adjustments g c f))"

lemma grade_finding:
  "fst (grade g f) = fst (accept_status g (cap_confidence g (cap_custom (cap_high (adjusted_state g f)))))"
  by (simp add: grade_def adjusted_state_def Let_def case_prod_beta)

lemma adjusted_state_inv:
  "adjust_inv (adjusted_state g f) \<and> f_severityBase (fst (adjusted_state g f)) = f_severityBase f \<and>
   f_custom (fst (adjusted_state g f)) = f_custom f"
proof -
  have "adjust_inv (grade_reset f, steps, [])" for steps
    by (simp add: adjust_inv_def grade_reset_def sev_order max_def)
  then show ?thesis
    using foldl_adjust_inv [OF _ ballI [OF adjustments_named]]
    by (auto simp: adjusted_state_def Let_def grade_reset_def split: option.split)
qed





text \<open>Until an adjustment is recorded, nothing has moved.\<close>

definition attributed :: "grade_state \<Rightarrow> bool" where
  "attributed gs = (case gs of (f, steps, raisedBy) \<Rightarrow>
     f_adjustments f = [] \<longrightarrow> f_severity f = f_severityBase f \<and> raisedBy = [])"

lemma foldl_attributed: "attributed gs \<Longrightarrow> attributed (foldl adjust gs as)"
proof (induction as arbitrary: gs)
  case (Cons a as)
  have "attributed (adjust gs a)"
    using Cons.prems by (cases gs) (auto simp: attributed_def adjust_def Let_def)
  then show ?case using Cons.IH by simp
qed simp

lemma caps_adjustments [simp]:
  "f_adjustments (fst (cap_high gs)) = f_adjustments (fst gs)"
  "f_adjustments (fst (cap_custom fs)) = f_adjustments (fst fs)"
  by (cases gs; simp add: cap_high_def) (cases fs; simp add: cap_custom_def)

text \<open>
  Every change of severity is attributed: a graded finding with no adjustment recorded is at
  its base, or at medium where a custom finding's base was above it.  Without context, as under
  \<open>--ignore-context\<close>, no adjustment is recorded.
\<close>
theorem grade_attributed:
  "(f_adjustments (fst (grade g f)) = [] \<longrightarrow>
     f_severity (fst (grade g f)) = (if f_custom f then min (f_severityBase f) SevMedium else f_severityBase f)) \<and>
   (g_context g = None \<longrightarrow> f_adjustments (fst (grade g f)) = [])"
proof -
  let ?gs = "adjusted_state g f"
  have "attributed (grade_reset f, steps, [])" for steps
    by (simp add: attributed_def grade_reset_def)
  then have "attributed ?gs"
    using foldl_attributed by (auto simp: adjusted_state_def Let_def split: option.split)
  then have "f_severity (fst (cap_custom (cap_high ?gs))) =
      (if f_custom f then min (f_severityBase f) SevMedium else f_severityBase f)"
    if "f_adjustments (fst ?gs) = []"
    using that adjusted_state_inv [of g f]
    by (cases ?gs) (auto simp: attributed_def cap_high_def cap_custom_def sev_order min_def)
  then show ?thesis
    by (auto simp: grade_finding adjusted_state_def Let_def grade_reset_def)
qed

text \<open>
  A finding is accepted exactly when the context's entry for its id has not expired, and then
  it carries the operator's reason; otherwise it is open and counts towards the exit code.
\<close>
theorem grade_status:
  "f_status (fst (grade g f)) =
     (case Option.bind (g_context g) (\<lambda>c. acceptance c (f_id f)) of
        Some r \<Rightarrow> if expired r (g_now g) then FindingOpen else FindingAccepted
      | None \<Rightarrow> FindingOpen) \<and>
   (f_status (fst (grade g f)) = FindingAccepted \<longrightarrow>
      (\<exists>c r. g_context g = Some c \<and> acceptance c (f_id f) = Some r \<and> f_acceptedReason (fst (grade g f)) = risk_reason r))"
proof -
  let ?fs = "cap_confidence g (cap_custom (cap_high (adjusted_state g f)))"
  have fold: "f_id (fst (foldl adjust gs as)) = f_id (fst gs) \<and> f_status (fst (foldl adjust gs as)) = f_status (fst gs)" for gs as
    by (induction as arbitrary: gs) (simp_all add: adjust_fixed)
  have "f_id (fst ?fs) = f_id f \<and> f_status (fst ?fs) = FindingOpen"
    using fold by (simp add: adjusted_state_def grade_reset_def Let_def split: option.split)
  then show ?thesis
    by (cases ?fs) (auto simp: grade_finding accept_status_def finding_consts split: option.splits bind_splits)
qed

text \<open>Grading again gives the same finding, although the confidence cap may have been applied before.\<close>

definition with_conf :: "string \<Rightarrow> finding \<Rightarrow> finding" where
  "with_conf c f = f\<lparr>f_confidence := c\<rparr>"

lemma adjust_conf: "adjust (with_conf c f, steps, r) a = apfst (with_conf c) (adjust (f, steps, r) a)"
  by (simp add: adjust_def with_conf_def Let_def)

lemma foldl_adjust_conf: "foldl adjust (apfst (with_conf c) gs) as = apfst (with_conf c) (foldl adjust gs as)"
proof (induction as arbitrary: gs)
  case (Cons a as)
  have "adjust (apfst (with_conf c) gs) a = apfst (with_conf c) (adjust gs a)"
    using adjust_conf by (cases gs) simp
  then show ?case using Cons.IH by simp
qed simp

lemma adjustments_conf: "adjustments g cx (with_conf c f) = adjustments g cx f"
  by (simp add: adjustments_def with_conf_def split: option.split)

lemma adjusted_conf: "adjusted_state g (with_conf c f) = apfst (with_conf c) (adjusted_state g f)"
proof -
  have r: "grade_reset (with_conf c f) = with_conf c (grade_reset f)" by (simp add: grade_reset_def with_conf_def)
  have b: "baseReason (with_conf c h) = baseReason h" "f_severity (with_conf c h) = f_severity h" for h
    by (simp_all add: baseReason_def with_conf_def)
  show ?thesis
    using foldl_adjust_conf [of c "(grade_reset f, _, _)"]
    by (simp add: adjusted_state_def Let_def r b adjustments_conf split: option.split)
qed

lemma caps_conf: "cap_custom (cap_high (apfst (with_conf c) gs)) = apfst (with_conf c) (cap_custom (cap_high gs))"
  by (cases gs) (simp add: cap_high_def cap_custom_def with_conf_def)

lemma grade_reset_steps [simp]:
  "grade_reset (fst (adjust gs a)) = grade_reset (fst gs)" "grade_reset (fst (cap_high gs)) = grade_reset (fst gs)"
  "grade_reset (fst (cap_custom fs)) = grade_reset (fst fs)"
  "grade_reset (fst (accept_status g fs)) = grade_reset (fst fs)"
  "grade_reset (fst (cap_confidence g fs)) = with_conf (f_confidence (fst (cap_confidence g fs))) (grade_reset (fst fs))"
  "grade_reset (grade_reset f) = grade_reset f"
  by (cases gs; cases fs; simp add: adjust_def cap_high_def cap_custom_def accept_status_def cap_confidence_def
      grade_reset_def with_conf_def Let_def split: option.split)+

lemma adjusted_reset: "grade_reset f = grade_reset f' \<Longrightarrow> adjusted_state g f = adjusted_state g f'"
  by (simp add: adjusted_state_def)

lemma foldl_adjust_reset: "grade_reset (fst (foldl adjust gs as)) = grade_reset (fst gs)"
  by (induction as arbitrary: gs) simp_all

lemma adjusted_state_reset [simp]: "grade_reset (fst (adjusted_state g f)) = grade_reset f"
  by (simp add: adjusted_state_def foldl_adjust_reset Let_def split: option.split)

lemma accept_status_fst: "fst fs = fst fs' \<Longrightarrow> fst (accept_status g fs) = fst (accept_status g fs')"
  by (cases fs; cases fs') (simp add: accept_status_def split: option.split)

lemma accept_conf [simp]: "f_confidence (fst (accept_status g fs)) = f_confidence (fst fs)"
  by (cases fs) (simp add: accept_status_def split: option.split)

lemma cap_confidence_again:
  "fst (cap_confidence g (apfst (with_conf (f_confidence (fst (cap_confidence g fs)))) fs)) = fst (cap_confidence g fs)"
  by (cases fs) (simp add: cap_confidence_def with_conf_def finding_consts)

text \<open>
  Grading is idempotent: the store grades a finding whenever it is read or merged, and a finding
  graded again is the same finding.
\<close>
theorem grade_idempotent: "fst (grade g (fst (grade g f))) = fst (grade g f)"
proof -
  let ?Y = "cap_custom (cap_high (adjusted_state g f))" and ?f1 = "fst (grade g f)"
  let ?c = "f_confidence ?f1"
  have c: "?c = f_confidence (fst (cap_confidence g ?Y))" by (simp add: grade_finding)
  have "grade_reset ?f1 = with_conf ?c (grade_reset f)" by (simp add: grade_finding)
  also have "\<dots> = grade_reset (with_conf ?c f)" by (simp add: grade_reset_def with_conf_def)
  finally have "adjusted_state g ?f1 = apfst (with_conf ?c) (adjusted_state g f)"
    using adjusted_reset adjusted_conf by metis
  then have "cap_custom (cap_high (adjusted_state g ?f1)) = apfst (with_conf ?c) ?Y" by (simp add: caps_conf)
  then show ?thesis
    using cap_confidence_again [of g ?Y] accept_status_fst unfolding c
    by (metis grade_finding)
qed

section \<open>Witnesses\<close>

definition sample_finding :: finding where
  "sample_finding = (rule_finding (sample_def NotExposure SevHigh None) ''linux'' [])\<lparr>f_custom := True\<rparr>"

definition sample_grader :: grader where
  "sample_grader = \<lparr>g_context = Some (no_structured\<lparr>cx_exposure := ''internet'', cx_acceptedRisks :=
       [\<lparr>risk_id = ''svc.listens_beyond_declared'', risk_reason = ''ok'', risk_expires = [], risk_source = ''f'',
         risk_zone = None\<rparr>]\<rparr>), g_origins = [], g_emulatedToolCalling = False, g_now = 0\<rparr>"

lemma sample_finding_sel [simp]: "f_custom sample_finding" "f_severityBase sample_finding = SevHigh"
  by (simp_all add: sample_finding_def rule_finding_def sample_def_def)


theorem grade_attributed_witness:
  "f_severity (fst (grade (sample_grader\<lparr>g_context := None\<rparr>) sample_finding)) = SevMedium"
  using grade_attributed [of "sample_grader\<lparr>g_context := None\<rparr>" sample_finding] by (simp add: min_def sev_order)

theorem grade_status_witness: "f_status (fst (grade sample_grader sample_finding)) = FindingAccepted"
  using grade_status [of sample_grader sample_finding]
  by (simp add: sample_grader_def sample_finding_def rule_finding_def sample_def_def acceptance_def expired_def no_structured_def)

end
