(* ===== verification/Finding_Store.thy ===== *)
theory Finding_Store
  imports Grading Posture_Proofs
begin

text \<open>
  The finding store, \<open>internal/finding/store.go\<close>: seeded by the posture rules, it validates, merges
  and grades what a model reports.  A refused candidate is an error value and leaves the store as it
  was.  The registered definitions and the check catalog are arguments, as in the grader and the
  evaluator.
\<close>

section \<open>Data\<close>

record store =
  so_grader :: grader
  so_output :: "(string \<Rightarrow> run_result option) option"
  so_input :: eval_input
  so_findings :: "finding list"
  so_assessments :: "assessment list"
  so_byID :: "(string \<times> nat) list"
  so_ruledOut :: "ruled_out list"

record candidate =
  cd_id :: string
  cd_verdict :: string
  cd_note :: string
  cd_title :: string
  cd_confidence :: string
  cd_evidence :: "evidence list"
  cd_impact :: string
  cd_remediation :: "remediation option"
  cd_contextNote :: string
  cd_proposedSeverity :: string
  cd_service :: "service_ref option"

datatype store_error =
    BadConfidence string
  | NoEvidence
  | EvidenceIncomplete nat
  | EvidenceNoOutput nat
  | EvidenceUnusable nat string
  | EvidenceNotQuoted nat string
  | PortRange int
  | BadServiceProto
  | BadCustomID
  | NoProposedSeverity
  | CustomIncomplete
  | UnknownID string
  | OtherPlatform string platform
  | RuleDisproved string string string
  | PremiseDisproved string string string string
  | AlreadyFinding string string
  | NoNote string

definition cls_slug :: "(nat \<times> nat) list" where "cls_slug = [az, d09, (95, 95), (45, 45)]"

definition customSlug :: re where
  "customSlug = seqs [TextStart, lit ''custom:'', Cls [az, d09], times 2 (Cls cls_slug), upto_times 61 (Cls cls_slug), TextEnd]"

definition input_platform :: "eval_input \<Rightarrow> platform" where
  "input_platform i = (case in_sheet i of None \<Rightarrow> [] | Some s \<Rightarrow> fs_platform s)"

definition newStore :: "def list \<Rightarrow> catalog \<Rightarrow> eval_input \<Rightarrow> grader \<Rightarrow> (string \<Rightarrow> run_result option) option \<Rightarrow> store" where
  "newStore defs cat inp g out =
     (let res = evaluate defs cat inp in
      \<lparr>so_grader = g, so_output = out, so_input = inp, so_findings = er_findings res,
       so_assessments = er_assessments res,
       so_byID = rev (zip (map f_id (er_findings res)) [0..<length (er_findings res)]), so_ruledOut = []\<rparr>)"

section \<open>Validation\<close>

definition fold_space :: "string \<Rightarrow> string" where
  "fold_space s = join_with '' '' (str_fields s)"

definition excerptIn :: "string \<Rightarrow> string \<Rightarrow> bool" where
  "excerptIn excerpt out = (fold_space excerpt \<noteq> [] \<and> str_contains (fold_space out) (fold_space excerpt))"

definition check_evidence :: "store \<Rightarrow> nat \<Rightarrow> evidence \<Rightarrow> store_error + evidence" where
  "check_evidence s i ev =
     (if ev_observation ev = [] \<or> trim_space (ev_excerpt ev) = [] then Inl (EvidenceIncomplete i)
      else
        (case so_output s of
           None \<Rightarrow> Inl (EvidenceNoOutput i)
         | Some out \<Rightarrow>
             (case out (ev_observation ev) of
                None \<Rightarrow> Inl (EvidenceUnusable i (ev_observation ev))
              | Some res \<Rightarrow>
                  if res_status res \<noteq> StatusOK \<or> ev_check ev \<noteq> [] \<and> ev_check ev \<noteq> res_checkID res
                  then Inl (EvidenceUnusable i (ev_observation ev))
                  else if \<not> excerptIn (ev_excerpt ev) (res_raw res) then Inl (EvidenceNotQuoted i (ev_observation ev))
                  else Inr \<lparr>ev_observation = ev_observation ev, ev_check = res_checkID res,
                         ev_excerpt = trim_space (ev_excerpt ev)\<rparr>)))"

primrec store_evidence :: "store \<Rightarrow> nat \<Rightarrow> evidence list \<Rightarrow> evidence list \<Rightarrow> store_error + evidence list" where
  "store_evidence s i out [] = Inr out"
| "store_evidence s i out (e # es) =
     (case check_evidence s i e of
        Inl err \<Rightarrow> Inl err
      | Inr e' \<Rightarrow> store_evidence s (Suc i) (appendEvidence out e') es)"

definition disproved :: "store \<Rightarrow> string \<Rightarrow> assessment option" where
  "disproved s i = List.find (\<lambda>a. as_finding a = i \<and> as_status a = NotMatched) (so_assessments s)"

primrec premise_error :: "store \<Rightarrow> string \<Rightarrow> string list \<Rightarrow> store_error option" where
  "premise_error s d [] = None"
| "premise_error s d (i # is) =
     (if map_of (so_byID s) i \<noteq> None then premise_error s d is
      else
        (case disproved s i of
           Some a \<Rightarrow> Some (PremiseDisproved d i (as_check a) (as_reason a))
         | None \<Rightarrow> premise_error s d is))"

definition ruleAllows :: "store \<Rightarrow> def \<Rightarrow> store_error option" where
  "ruleAllows s d =
     (let p = input_platform (so_input s); rs = rulesFor (def_id d) in
      if rs \<noteq> [] \<and> p \<noteq> [] \<and> \<not> list_ex (\<lambda>r. pr_platform r = platform_any \<or> pr_platform r = p) rs
        then Some (OtherPlatform (def_id d) p)
      else
        (case (if map_of (so_byID s) (def_id d) = None then disproved s (def_id d) else None) of
           Some a \<Rightarrow> Some (RuleDisproved (def_id d) (as_check a) (as_reason a))
         | None \<Rightarrow> premise_error s (def_id d) (def_premise d)))"

definition model_finding :: "store \<Rightarrow> candidate \<Rightarrow> evidence list \<Rightarrow> service_ref option \<Rightarrow> finding" where
  "model_finding s c ev svc =
     \<lparr>f_id = cd_id c, f_title = [], f_category = [], f_severityBase = SevInfo, f_severity = SevInfo,
      f_adjustments = [], f_status = FindingOpen, f_acceptedReason = [], f_source = SourceModel,
      f_confidence = cd_confidence c, f_platform = input_platform (so_input s), f_evidence = ev, f_impact = [],
      f_remediation = \<lparr>rem_summary = [], rem_commands = [], rem_caveat = []\<rparr>, f_contextNote = cd_contextNote c,
      f_service = svc, f_custom = False, f_cappedBy = []\<rparr>"

definition validate_ref :: "service_ref option \<Rightarrow> store_error + service_ref option" where
  "validate_ref so =
     (case so of
        None \<Rightarrow> Inr None
      | Some v \<Rightarrow>
          if sref_port v < 1 \<or> 65535 < sref_port v then Inl (PortRange (sref_port v))
          else
            (let p0 = to_lower (sref_proto v); p = (if p0 = [] then ''tcp'' else p0) in
             if p \<noteq> ''tcp'' \<and> p \<noteq> ''udp'' then Inl BadServiceProto
             else Inr (Some \<lparr>sref_port = sref_port v, sref_proto = p\<rparr>)))"

definition host_def :: "def list \<Rightarrow> string \<Rightarrow> def option" where
  "host_def defs i =
     (case def_lookup defs i of
        None \<Rightarrow> None
      | Some d \<Rightarrow> if def_area d \<noteq> AreaHosts \<or> def_multiFact d then None else Some d)"

definition validate_custom :: "candidate \<Rightarrow> finding \<Rightarrow> store_error + finding" where
  "validate_custom c f =
     (if \<not> match_string customSlug (cd_id c) then Inl BadCustomID
      else
        (case sev_of_string (cd_proposedSeverity c) of
           None \<Rightarrow> Inl NoProposedSeverity
         | Some sev0 \<Rightarrow>
             (let sev = (if sev_rank sev0 > sev_rank SevMedium then SevMedium else sev0) in
              case cd_remediation c of
                None \<Rightarrow> Inl CustomIncomplete
              | Some r \<Rightarrow>
                  if cd_title c = [] \<or> cd_impact c = [] \<or> rem_summary r = [] then Inl CustomIncomplete
                  else Inr (f\<lparr>f_custom := True, f_title := cd_title c, f_category := CategoryCustom,
                    f_severityBase := sev, f_severity := sev, f_impact := cd_impact c, f_remediation := r\<rparr>))))"

definition validate_catalog :: "def list \<Rightarrow> store \<Rightarrow> candidate \<Rightarrow> finding \<Rightarrow> store_error + finding" where
  "validate_catalog defs s c f =
     (case host_def defs (cd_id c) of
        None \<Rightarrow> Inl (UnknownID (cd_id c))
      | Some d \<Rightarrow>
          (case ruleAllows s d of
             Some e \<Rightarrow> Inl e
           | None \<Rightarrow>
               Inr (f\<lparr>f_title := def_title d, f_category := def_category d, f_severityBase := def_baseSeverity d,
                 f_severity := def_baseSeverity d,
                 f_impact := (if cd_impact c \<noteq> [] then cd_impact c else def_impact d),
                 f_remediation := (case cd_remediation c of
                    Some r \<Rightarrow> if rem_summary r \<noteq> [] then r else def_remediation d | None \<Rightarrow> def_remediation d)\<rparr>)))"

definition store_validate :: "def list \<Rightarrow> store \<Rightarrow> candidate \<Rightarrow> store_error + finding" where
  "store_validate defs s c =
     (if cd_confidence c \<notin> {ConfidenceHigh, ConfidenceMedium, ConfidenceLow} then Inl (BadConfidence (cd_confidence c))
      else if cd_evidence c = [] then Inl NoEvidence
      else
        (case store_evidence s 0 [] (cd_evidence c) of
           Inl e \<Rightarrow> Inl e
         | Inr ev \<Rightarrow>
             (case validate_ref (cd_service c) of
                Inl e \<Rightarrow> Inl e
              | Inr svc \<Rightarrow>
                  (let f = model_finding s c ev svc in
                   if has_prefix (cd_id c) ''custom:'' then validate_custom c f
                   else validate_catalog defs s c f))))"

section \<open>Operations\<close>

definition merge_finding :: "finding \<Rightarrow> finding \<Rightarrow> finding" where
  "merge_finding old inn =
     old\<lparr>f_evidence := foldl appendEvidence (f_evidence old) (f_evidence inn),
         f_contextNote :=
           (if f_contextNote inn \<noteq> [] \<and> \<not> str_contains (f_contextNote old) (f_contextNote inn)
            then (if f_contextNote old \<noteq> [] then f_contextNote old @ '' '' else []) @ ''model: '' @ f_contextNote inn
            else f_contextNote old),
         f_service := (if f_service old = None then f_service inn else f_service old),
         f_confidence :=
           (if f_source old = SourceModel \<and> f_confidence inn \<noteq> [] \<and>
               confidence_rank (f_confidence inn) > confidence_rank (f_confidence old)
            then f_confidence inn else f_confidence old)\<rparr>"

definition report :: "def list \<Rightarrow> store \<Rightarrow> candidate \<Rightarrow> store_error + finding \<times> store" where
  "report defs s c =
     (case store_validate defs s c of
        Inl e \<Rightarrow> Inl e
      | Inr f \<Rightarrow>
          (case map_of (so_byID s) (f_id f) of
             Some i \<Rightarrow>
               (let f' = merge_finding (so_findings s ! i) f
                in Inr (fst (grade (so_grader s) f'), s\<lparr>so_findings := (so_findings s)[i := f']\<rparr>))
           | None \<Rightarrow>
               Inr (fst (grade (so_grader s) f),
                 s\<lparr>so_ruledOut := filter (\<lambda>r. ro_id r \<noteq> f_id f) (so_ruledOut s),
                   so_byID := (f_id f, length (so_findings s)) # so_byID s,
                   so_findings := so_findings s @ [f]\<rparr>)))"

definition merge_ruled_out :: "ruled_out \<Rightarrow> ruled_out \<Rightarrow> ruled_out" where
  "merge_ruled_out old r =
     old\<lparr>ro_note := (if str_contains (ro_note old) (ro_note r) then ro_note old else ro_note old @ '' '' @ ro_note r),
         ro_evidence := foldl appendEvidence (ro_evidence old) (ro_evidence r)\<rparr>"

primrec merge_first :: "ruled_out \<Rightarrow> ruled_out list \<Rightarrow> ruled_out list" where
  "merge_first r [] = []"
| "merge_first r (x # xs) = (if ro_id x = ro_id r then merge_ruled_out x r # xs else x # merge_first r xs)"

definition rule_out_id_error :: "def list \<Rightarrow> string \<Rightarrow> store_error option" where
  "rule_out_id_error defs i =
     (if has_prefix i ''custom:'' then (if match_string customSlug i then None else Some BadCustomID)
      else if host_def defs i = None then Some (UnknownID i) else None)"

definition ruleOut :: "def list \<Rightarrow> store \<Rightarrow> candidate \<Rightarrow> store_error + ruled_out \<times> store" where
  "ruleOut defs s c =
     (let note = trim_space (cd_note c) in
      case rule_out_id_error defs (cd_id c) of
        Some e \<Rightarrow> Inl e
      | None \<Rightarrow>
          (case map_of (so_byID s) (cd_id c) of
             Some i \<Rightarrow> Inl (AlreadyFinding (cd_id c) (f_source (so_findings s ! i)))
           | None \<Rightarrow>
               if note = [] then Inl (NoNote (cd_id c))
               else
                 (case store_evidence s 0 [] (cd_evidence c) of
                    Inl e \<Rightarrow> Inl e
                  | Inr ev \<Rightarrow>
                      (let r = \<lparr>ro_id = cd_id c, ro_note = note, ro_evidence = ev\<rparr> in
                       case List.find (\<lambda>x. ro_id x = cd_id c) (so_ruledOut s) of
                         Some old \<Rightarrow>
                           Inr (merge_ruled_out old r,
                             s\<lparr>so_ruledOut := merge_first r (so_ruledOut s)\<rparr>)
                       | None \<Rightarrow> Inr (r, s\<lparr>so_ruledOut := so_ruledOut s @ [r]\<rparr>)))))"

definition store_findings :: "store \<Rightarrow> finding list" where
  "store_findings s = map (\<lambda>f. fst (grade (so_grader s) f)) (so_findings s)"

definition listenersCheck :: string where "listenersCheck = ''net.listeners''"
definition IDExpectedMissing :: string where "IDExpectedMissing = ''svc.expected_missing''"

definition missing_assessment :: "string \<Rightarrow> assess_status \<Rightarrow> string \<Rightarrow> assessment" where
  "missing_assessment obs st reason =
     \<lparr>as_observation = obs, as_finding = IDExpectedMissing, as_check = listenersCheck, as_with = [],
      as_withObservation = [], as_status = st, as_reason = reason\<rparr>"

primrec status_string :: "status \<Rightarrow> string" where
  "status_string StatusUnset = []"
| "status_string StatusOK = ''ok''"
| "status_string StatusUnavailable = ''unavailable''"
| "status_string StatusDenied = ''denied''"

text \<open>The declared services nothing listens for, as evidence.\<close>

definition missing_evidence :: "string \<Rightarrow> records \<Rightarrow> service list \<Rightarrow> evidence list" where
  "missing_evidence obs recs svcs =
     (let listening = map (\<lambda>r. to_lower (field r FieldPort @ ''/'' @ field r FieldProtocol)) (rs_items recs)
      in map (\<lambda>v. \<lparr>ev_observation = obs, ev_check = listenersCheck,
            ev_excerpt = ''no listener on '' @ svc_key v @ ''; '' @ svc_source v @ '' declares '' @ svc_key v @ '' ('' @ svc_purpose v @ '')''\<rparr>)
          (filter (\<lambda>v. svc_key v \<notin> set listening) svcs))"

definition expectedMissing :: "def list \<Rightarrow> store \<Rightarrow> finding list \<times> assessment option" where
  "expectedMissing defs s =
     (case g_context (so_grader s) of
        None \<Rightarrow> ([], None)
      | Some c \<Rightarrow>
          if cx_expectedServices c = [] then ([], None)
          else
            (case in_sheet (so_input s) of
               None \<Rightarrow> ([], Some (missing_assessment [] NotAssessed ''check-not-run''))
             | Some sheet \<Rightarrow>
                 (case sheet_result sheet listenersCheck of
                    None \<Rightarrow> ([], Some (missing_assessment [] NotAssessed ''check-not-run''))
                  | Some r \<Rightarrow>
                      if res_status r \<noteq> StatusOK then
                        ([], Some (missing_assessment (res_observation r) NotAssessed
                          (''check-'' @ status_string (res_status r) @ '':'' @ reasonCode_of r)))
                      else
                        (case res_parsed r of
                           Some (PRecords recs) \<Rightarrow>
                             if rs_partial recs then
                               ([], Some (missing_assessment (res_observation r) NotAssessed ''partial-output''))
                             else
                               (case missing_evidence (res_observation r) recs (cx_expectedServices c) of
                                  [] \<Rightarrow> ([], Some (missing_assessment (res_observation r) NotMatched ''every-declared-service-is-listening''))
                                | e # es \<Rightarrow>
                                    ((case def_lookup defs IDExpectedMissing of
                                        None \<Rightarrow> []
                                      | Some d \<Rightarrow> [rule_finding d (input_platform (so_input s)) (foldl appendEvidence [e] es)]),
                                     Some (missing_assessment (res_observation r) Matched ''declared-service-not-listening'')))
                         | _ \<Rightarrow> ([], Some (missing_assessment (res_observation r) NotAssessed ''unexpected-parsed-shape''))))))"

definition store_result :: "def list \<Rightarrow> store \<Rightarrow> eval_result" where
  "store_result defs s =
     (let (missing, a) = expectedMissing defs s;
          all = so_findings s @ missing @ expiredAcceptances defs (so_grader s) (input_platform (so_input s));
          graded = map (\<lambda>f. fst (grade (so_grader s) f)) all
      in \<lparr>er_findings = sort_key (\<lambda>f. (if finding_open f then 0 else 1 :: nat, - sev_rank (f_severity f), f_id f)) graded,
          er_assessments = so_assessments s @ (case a of None \<Rightarrow> [] | Some x \<Rightarrow> [x]),
          er_ruledOut = so_ruledOut s\<rparr>)"

end
