(* ===== verification/Store_Proofs.thy ===== *)
theory Store_Proofs
  imports Finding_Store
begin

text \<open>
  What the store keeps through any sequence of reports and rulings-out: its index, one finding per
  id, no finding that is also ruled out, the rule findings with their curated text, and evidence
  that quotes the output of a check of this run.
\<close>

section \<open>The index\<close>

definition store_wf :: "store \<Rightarrow> bool" where
  "store_wf s =
     (distinct (map f_id (so_findings s)) \<and>
      (\<forall>i k. map_of (so_byID s) i = Some k \<longleftrightarrow> k < length (so_findings s) \<and> f_id (so_findings s ! k) = i) \<and>
      distinct (map ro_id (so_ruledOut s)) \<and>
      ro_id ` set (so_ruledOut s) \<inter> f_id ` set (so_findings s) = {})"

inductive store_step :: "def list \<Rightarrow> store \<Rightarrow> store \<Rightarrow> bool" for defs where
  step_report: "report defs s c = Inr (f, s') \<Longrightarrow> store_step defs s s'"
| step_ruleOut: "ruleOut defs s c = Inr (r, s') \<Longrightarrow> store_step defs s s'"

lemma zip_index: "distinct xs \<Longrightarrow> map_of (zip xs [0..<length xs]) i = Some k \<longleftrightarrow> k < length xs \<and> xs ! k = i"
proof -
  assume "distinct xs"
  then have "map_of (zip xs [0..<length xs]) i = Some k \<longleftrightarrow> (i, k) \<in> set (zip xs [0..<length xs])"
    by (simp add: map_of_eq_Some_iff)
  then show ?thesis by (auto simp: in_set_zip)
qed

lemma newStore_wf: "store_wf (newStore defs cat inp g out)"
proof -
  let ?fs = "er_findings (evaluate defs cat inp)"
  have d: "distinct (map f_id ?fs)"
  proof (cases "in_sheet inp")
    case None
    then show ?thesis by (simp add: evaluate_def)
  next
    case (Some sheet)
    have "distinct (map f_id (er_findings (foldl (eval_step defs cat (in_disabled inp) sheet)
        \<lparr>er_findings = [], er_assessments = [], er_ruledOut = []\<rparr> Rules)))"
      using foldl_eval_findings [of "\<lparr>er_findings = [], er_assessments = [], er_ruledOut = []\<rparr>"] by simp
    then show ?thesis by (simp add: evaluate_def Some Let_def distinct_map)
  qed
  have "distinct (map fst (zip (map f_id ?fs) [0..<length ?fs]))" using d by simp
  then have "map_of (rev (zip (map f_id ?fs) [0..<length ?fs])) = map_of (zip (map f_id ?fs) [0..<length ?fs])"
    by (subst map_of_inject_set) (simp_all add: rev_map [symmetric])
  then show ?thesis using d zip_index [OF d] by (auto simp: store_wf_def newStore_def Let_def)
qed

lemma merge_finding_id [simp]: "f_id (merge_finding old f) = f_id old"
  by (simp add: merge_finding_def)

lemma report_cases:
  assumes "report defs s c = Inr (g, s')"
  obtains (merge) f i where "store_validate defs s c = Inr f" "map_of (so_byID s) (f_id f) = Some i"
      "s' = s\<lparr>so_findings := (so_findings s)[i := merge_finding (so_findings s ! i) f]\<rparr>"
  | (add) f where "store_validate defs s c = Inr f" "map_of (so_byID s) (f_id f) = None"
      "s' = s\<lparr>so_ruledOut := filter (\<lambda>r. ro_id r \<noteq> f_id f) (so_ruledOut s),
         so_byID := (f_id f, length (so_findings s)) # so_byID s, so_findings := so_findings s @ [f]\<rparr>"
  using assms by (auto simp: report_def Let_def split: sum.splits option.splits)

lemma merge_wf:
  assumes "store_wf s" "map_of (so_byID s) i = Some k"
  shows "store_wf (s\<lparr>so_findings := (so_findings s)[k := merge_finding (so_findings s ! k) f]\<rparr>)"
proof -
  let ?fs = "(so_findings s)[k := merge_finding (so_findings s ! k) f]"
  have k: "k < length (so_findings s)" using assms by (auto simp: store_wf_def)
  have "map f_id ?fs = map f_id (so_findings s)"
    using k by (simp add: map_update list_update_same_conv)
  then have "f_id ` set ?fs = f_id ` set (so_findings s)" "distinct (map f_id ?fs) = distinct (map f_id (so_findings s))"
    by (metis list.set_map, metis)
  moreover have "f_id (?fs ! j) = f_id (so_findings s ! j)" if "j < length (so_findings s)" for j
    using that k by (simp add: nth_list_update)
  ultimately show ?thesis using assms(1) by (auto simp: store_wf_def)
qed

lemma add_wf:
  assumes "store_wf s" "map_of (so_byID s) (f_id f) = None"
  shows "store_wf (s\<lparr>so_ruledOut := filter (\<lambda>r. ro_id r \<noteq> f_id f) (so_ruledOut s),
    so_byID := (f_id f, length (so_findings s)) # so_byID s, so_findings := so_findings s @ [f]\<rparr>)"
proof -
  have idx: "map_of (so_byID s) i = Some k \<longleftrightarrow> k < length (so_findings s) \<and> f_id (so_findings s ! k) = i" for i k
    using assms(1) by (simp add: store_wf_def)
  have new: "f_id (so_findings s ! k) \<noteq> f_id f" if "k < length (so_findings s)" for k
    using idx [of "f_id f" k] that assms(2) by auto
  have "f_id f \<notin> f_id ` set (so_findings s)" using new by (metis imageE in_set_conv_nth)
  then show ?thesis
    using assms(1) idx new unfolding store_wf_def
    by (auto simp: nth_append less_Suc_eq distinct_map_filter)
qed

lemma merge_first_ids: "map ro_id (merge_first r rs) = map ro_id rs"
  by (induction rs) (auto simp: merge_ruled_out_def)

lemma ruleOut_wf:
  assumes "store_wf s" "ruleOut defs s c = Inr (r, s')"
  shows "store_wf s'"
proof -
  have none: "map_of (so_byID s) (cd_id c) = None"
    using assms(2) by (auto simp: ruleOut_def Let_def split: option.splits)
  have nf: "cd_id c \<notin> f_id ` set (so_findings s)"
  proof
    assume "cd_id c \<in> f_id ` set (so_findings s)"
    then obtain k where "k < length (so_findings s)" "f_id (so_findings s ! k) = cd_id c"
      by (metis imageE in_set_conv_nth)
    then have "map_of (so_byID s) (cd_id c) = Some k" using assms(1) by (simp add: store_wf_def)
    with none show False by simp
  qed
  consider (old) q where "s' = s\<lparr>so_ruledOut := merge_first q (so_ruledOut s)\<rparr>"
    | (new) "s' = s\<lparr>so_ruledOut := so_ruledOut s @ [r]\<rparr>" "ro_id r = cd_id c"
        "\<forall>x. x \<in> set (so_ruledOut s) \<longrightarrow> ro_id x \<noteq> cd_id c"
    using assms(2) by (auto simp: ruleOut_def Let_def find_None_iff split: option.splits sum.splits if_splits)
  then show ?thesis
  proof cases
    case old
    have "ro_id ` set (merge_first q (so_ruledOut s)) = ro_id ` set (so_ruledOut s)"
      using merge_first_ids [of q "so_ruledOut s"] by (metis list.set_map)
    then show ?thesis using assms(1) old by (simp add: store_wf_def merge_first_ids)
  next
    case new
    then show ?thesis using assms(1) nf by (auto simp: store_wf_def)
  qed
qed

inductive store_run :: "def list \<Rightarrow> store \<Rightarrow> store \<Rightarrow> bool" for defs where
  run_start: "store_run defs s s"
| run_step: "store_run defs s s1 \<Longrightarrow> store_step defs s1 s2 \<Longrightarrow> store_run defs s s2"

lemma store_step_wf: "store_step defs s s' \<Longrightarrow> store_wf s \<Longrightarrow> store_wf s'"
proof (induction rule: store_step.induct)
  case (step_report s c f s')
  from step_report(1) show ?case
    by (cases rule: report_cases) (use step_report(2) merge_wf add_wf in auto)
next
  case (step_ruleOut s c r s')
  then show ?case using ruleOut_wf by blast
qed

lemma store_run_wf: "store_run defs s s' \<Longrightarrow> store_wf s \<Longrightarrow> store_wf s'"
  by (induction rule: store_run.induct) (auto intro: store_step_wf)

text \<open>
  C26: Through any sequence of reports and rulings-out the store has at most one finding per id, its
  index finds each finding at its place and nothing else, and no id is both a finding and ruled out.
\<close>
theorem store_invariant:
  assumes "store_run defs (newStore defs cat inp g out) s"
  shows "distinct (map f_id (so_findings s)) \<and>
    (\<forall>i k. map_of (so_byID s) i = Some k \<longleftrightarrow> k < length (so_findings s) \<and> f_id (so_findings s ! k) = i) \<and>
    ro_id ` set (so_ruledOut s) \<inter> f_id ` set (so_findings s) = {}"
  using store_run_wf [OF assms newStore_wf] by (simp add: store_wf_def)

section \<open>Steps of the store\<close>

text \<open>What one operation may do to the findings: nothing, merge a validated one, or add it.\<close>

lemma store_step_findings:
  assumes "store_step defs s s'"
  obtains (same) "so_findings s' = so_findings s"
  | (merge) c f k where "store_validate defs s c = Inr f" "map_of (so_byID s) (f_id f) = Some k"
      "so_findings s' = (so_findings s)[k := merge_finding (so_findings s ! k) f]"
  | (add) c f where "store_validate defs s c = Inr f" "map_of (so_byID s) (f_id f) = None"
      "so_findings s' = so_findings s @ [f]"
  using assms
proof (cases rule: store_step.cases)
  case (step_report c f)
  then show ?thesis by (cases rule: report_cases) (auto intro: merge add)
next
  case (step_ruleOut c r)
  then have "so_findings s' = so_findings s"
    by (auto simp: ruleOut_def Let_def split: option.splits sum.splits if_splits)
  then show ?thesis by (rule same)
qed

lemma store_step_rest:
  assumes "store_step defs s s'"
  shows "so_output s' = so_output s" "so_assessments s' = so_assessments s" "so_input s' = so_input s"
  using assms
  by (auto simp: ruleOut_def report_def Let_def elim!: store_step.cases split: option.splits sum.splits if_splits)

lemma store_run_rest:
  "store_run defs s s' \<Longrightarrow> so_output s' = so_output s \<and> so_assessments s' = so_assessments s"
  by (induction rule: store_run.induct) (auto simp: store_step_rest)

section \<open>Rule findings are the floor\<close>

definition same_claim :: "finding \<Rightarrow> finding \<Rightarrow> bool" where
  "same_claim f f' =
     (f_id f' = f_id f \<and> f_title f' = f_title f \<and> f_category f' = f_category f \<and> f_severityBase f' = f_severityBase f \<and>
      f_source f' = f_source f \<and> f_impact f' = f_impact f \<and> f_remediation f' = f_remediation f \<and>
      f_custom f' = f_custom f \<and> set (f_evidence f) \<subseteq> set (f_evidence f') \<and>
      (f_source f = SourceRule \<longrightarrow> f_confidence f' = f_confidence f))"

lemma set_appendEvidence: "set (foldl appendEvidence es ns) = set es \<union> set ns"
  by (induction ns arbitrary: es) (auto simp: appendEvidence_def)

lemma same_claim_refl [simp]: "same_claim f f"
  by (simp add: same_claim_def)

lemma same_claim_merge: "same_claim f0 f \<Longrightarrow> same_claim f0 (merge_finding f g)"
  by (auto simp: same_claim_def merge_finding_def set_appendEvidence finding_consts)

lemma store_step_floor:
  assumes "store_step defs s s'" "length fs \<le> length (so_findings s)" "list_all2 same_claim fs (take (length fs) (so_findings s))"
  shows "length fs \<le> length (so_findings s') \<and> list_all2 same_claim fs (take (length fs) (so_findings s'))"
  using assms(1)
proof (cases rule: store_step_findings)
  case (merge c f k)
  have old: "same_claim (fs ! i) (so_findings s ! i)" if "i < length fs" for i
    using assms(2,3) that by (simp add: list_all2_conv_all_nth)
  have "same_claim (fs ! i) ((so_findings s)[k := merge_finding (so_findings s ! k) f] ! i)" if "i < length fs" for i
    using old [OF that] same_claim_merge that assms(2) by (cases "k = i") simp_all
  then show ?thesis using assms(2) by (simp add: merge(3) list_all2_conv_all_nth)
qed (use assms(2,3) in auto)

text \<open>
  C23: A rule finding is the floor: nothing a model reports removes it, changes its title, category,
  base severity, confidence, impact or remediation, or takes away evidence.
\<close>
theorem rule_findings_are_the_floor:
  assumes "store_run defs (newStore defs cat inp g out) s" and "f \<in> set (so_findings (newStore defs cat inp g out))"
  shows "\<exists>f' \<in> set (so_findings s). same_claim f f'"
proof -
  let ?fs = "so_findings (newStore defs cat inp g out)"
  have "store_run defs s0 s \<Longrightarrow> so_findings s0 = ?fs \<Longrightarrow>
      length ?fs \<le> length (so_findings s) \<and> list_all2 same_claim ?fs (take (length ?fs) (so_findings s))" for s0
    by (induction rule: store_run.induct) (auto simp: list_all2_same intro: store_step_floor [THEN conjunct1] store_step_floor [THEN conjunct2])
  then have "length ?fs \<le> length (so_findings s)" "list_all2 same_claim ?fs (take (length ?fs) (so_findings s))"
    using assms(1) by blast+
  moreover obtain i where "i < length ?fs" "?fs ! i = f" using assms(2) by (auto simp: in_set_conv_nth)
  ultimately have "so_findings s ! i \<in> set (so_findings s)" "same_claim f (so_findings s ! i)"
    by (auto simp: list_all2_conv_all_nth)
  then show ?thesis by blast
qed

section \<open>Evidence is quoted\<close>

definition quoted :: "store \<Rightarrow> evidence \<Rightarrow> bool" where
  "quoted s e =
     (\<exists>find_output res ex. so_output s = Some find_output \<and> find_output (ev_observation e) = Some res \<and>
        res_status res = StatusOK \<and> ev_check e = res_checkID res \<and> ev_excerpt e = trim_space ex \<and> excerptIn ex (res_raw res))"

lemma check_evidence_quoted:
  assumes "check_evidence s i e = Inr e'"
  shows "quoted s e'"
proof -
  obtain fo res where fo: "so_output s = Some fo" "fo (ev_observation e) = Some res" "res_status res = StatusOK"
      "excerptIn (ev_excerpt e) (res_raw res)"
      "e' = \<lparr>ev_observation = ev_observation e, ev_check = res_checkID res, ev_excerpt = trim_space (ev_excerpt e)\<rparr>"
    using assms by (auto simp: check_evidence_def split: option.splits if_splits)
  show ?thesis
    unfolding quoted_def
    by (rule exI [of _ fo], rule exI [of _ res], rule exI [of _ "ev_excerpt e"]) (simp add: fo)
qed

lemma store_evidence_quoted:
  "store_evidence s i out es = Inr ev \<Longrightarrow> \<forall>e\<in>set out. quoted s e \<Longrightarrow> \<forall>e\<in>set ev. quoted s e"
proof (induction es arbitrary: i out)
  case (Cons e es)
  obtain e' where e': "check_evidence s i e = Inr e'" "store_evidence s (Suc i) (appendEvidence out e') es = Inr ev"
    using Cons.prems(1) by (auto split: sum.splits)
  have "\<forall>x\<in>set (appendEvidence out e'). quoted s x"
    using Cons.prems(2) check_evidence_quoted [OF e'(1)] by (simp add: appendEvidence_def)
  then show ?case by (rule Cons.IH [OF e'(2)])
qed simp

lemma validate_evidence:
  assumes "store_validate defs s c = Inr f"
  shows "\<forall>e\<in>set (f_evidence f). quoted s e"
proof -
  obtain ev where ev: "store_evidence s 0 [] (cd_evidence c) = Inr ev" "f_evidence f = ev"
    using assms
    by (auto simp: store_validate_def validate_custom_def validate_catalog_def model_finding_def Let_def
        split: if_splits sum.splits option.splits)
  then show ?thesis using store_evidence_quoted [OF ev(1)] by simp
qed

definition evidence_ok :: "store \<Rightarrow> store \<Rightarrow> bool" where
  "evidence_ok s0 s =
     (\<forall>f \<in> set (so_findings s). \<forall>e \<in> set (f_evidence f). quoted s0 e \<or>
        (\<exists>f0 \<in> set (so_findings s0). e \<in> set (f_evidence f0)))"

lemma store_step_evidence:
  assumes "store_step defs s s'" "evidence_ok s0 s" "so_output s = so_output s0" "store_wf s"
  shows "evidence_ok s0 s'"
  using assms(1)
proof (cases rule: store_step_findings)
  case same
  then show ?thesis using assms(2) by (simp add: evidence_ok_def)
next
  case (merge c f k)
  have k: "k < length (so_findings s)" using merge(2) assms(4) by (auto simp: store_wf_def)
  have "quoted s0 e" if "e \<in> set (f_evidence f)" for e
    using validate_evidence [OF merge(1)] that assms(3) by (simp add: quoted_def)
  then have merged: "quoted s0 e \<or> (\<exists>f0 \<in> set (so_findings s0). e \<in> set (f_evidence f0))"
    if "e \<in> set (f_evidence (merge_finding (so_findings s ! k) f))" for e
    using that assms(2) nth_mem [OF k] by (auto simp: merge_finding_def set_appendEvidence evidence_ok_def)
  show ?thesis
    unfolding evidence_ok_def merge(3)
  proof (intro ballI)
    fix h e
    assume h: "h \<in> set ((so_findings s)[k := merge_finding (so_findings s ! k) f])" and e: "e \<in> set (f_evidence h)"
    from h have "h = merge_finding (so_findings s ! k) f \<or> h \<in> set (so_findings s)"
      using set_update_subset_insert by fastforce
    then show "quoted s0 e \<or> (\<exists>f0 \<in> set (so_findings s0). e \<in> set (f_evidence f0))"
      using merged e assms(2) by (auto simp: evidence_ok_def)
  qed
next
  case (add c f)
  have "quoted s0 e" if "e \<in> set (f_evidence f)" for e
    using validate_evidence [OF add(1)] that assms(3) by (simp add: quoted_def)
  then show ?thesis using assms(2) by (auto simp: evidence_ok_def add(3))
qed

text \<open>
  C24: A model cannot make evidence up: every evidence entry a finding has beyond those of the rules
  names an observation of this run that succeeded, carries that observation's check id, and quotes
  an excerpt found in its redacted output.
\<close>
theorem model_evidence_is_quoted:
  assumes "store_run defs (newStore defs cat inp g out) s" and "f \<in> set (so_findings s)" and "e \<in> set (f_evidence f)"
  shows "quoted s e \<or> (\<exists>f0 \<in> set (so_findings (newStore defs cat inp g out)). e \<in> set (f_evidence f0))"
proof -
  let ?s0 = "newStore defs cat inp g out"
  have "store_run defs s0 s \<Longrightarrow> s0 = ?s0 \<Longrightarrow> evidence_ok ?s0 s" for s0
  proof (induction rule: store_run.induct)
    case (run_start s)
    then show ?case by (auto simp: evidence_ok_def)
  next
    case (run_step s0 s1 s2)
    then show ?case
      using store_step_evidence [OF run_step(2)] store_run_rest [OF run_step(1)]
        store_run_wf [OF run_step(1)] newStore_wf by auto
  qed
  then show ?thesis
    using assms store_run_rest [OF assms(1)] by (auto simp: evidence_ok_def quoted_def)
qed

section \<open>The rules' readings stand\<close>

lemma validate_disproved:
  assumes "store_validate defs s c = Inr f" "disproved s (cd_id c) \<noteq> None" "map_of (so_byID s) (cd_id c) = None"
  shows "has_prefix (cd_id c) ''custom:''"
proof (rule ccontr)
  assume "\<not> ?thesis"
  then obtain h where "validate_catalog defs s c h = Inr f"
    using assms(1) by (auto simp: store_validate_def Let_def split: if_splits sum.splits)
  then obtain d where d: "host_def defs (cd_id c) = Some d" "ruleAllows s d = None"
    by (auto simp: validate_catalog_def split: option.splits)
  have "def_id d = cd_id c"
    using d(1) def_lookup_id by (auto simp: host_def_def split: option.splits if_splits)
  then show False using d(2) assms(2,3) by (auto simp: ruleAllows_def Let_def split: if_splits option.splits)
qed

lemma validate_id: "store_validate defs s c = Inr f \<Longrightarrow> f_id f = cd_id c"
  by (auto simp: store_validate_def validate_custom_def validate_catalog_def model_finding_def Let_def
      split: if_splits sum.splits option.splits)

text \<open>
  C25: The rule's reading of a fact stands: a catalog id that a posture rule disproved on this host
  and that no rule raised never becomes a finding, whatever a model reports.
\<close>
theorem disproved_stays_disproved:
  assumes "store_run defs (newStore defs cat inp g out) s"
    and "disproved (newStore defs cat inp g out) i \<noteq> None" and "\<not> has_prefix i ''custom:''"
    and "i \<notin> f_id ` set (so_findings (newStore defs cat inp g out))"
  shows "i \<notin> f_id ` set (so_findings s)"
proof -
  let ?s0 = "newStore defs cat inp g out"
  have "store_run defs s0 s \<Longrightarrow> s0 = ?s0 \<Longrightarrow> i \<notin> f_id ` set (so_findings s)" for s0
  proof (induction rule: store_run.induct)
    case (run_start s)
    then show ?case using assms(4) by simp
  next
    case (run_step s0 s1 s2)
    have IH: "i \<notin> f_id ` set (so_findings s1)" using run_step by simp
    have wf: "store_wf s1" using store_run_wf [OF run_step(1)] run_step(4) newStore_wf by simp
    have dis: "disproved s1 i \<noteq> None"
      using store_run_rest [OF run_step(1)] run_step(4) assms(2) by (simp add: disproved_def)
    from run_step(2) show ?case
    proof (cases rule: store_step_findings)
      case (merge c f k)
      then have "k < length (so_findings s1)" using wf by (auto simp: store_wf_def)
      then have "map f_id (so_findings s2) = map f_id (so_findings s1)"
        by (simp add: merge(3) map_update list_update_same_conv)
      then show ?thesis using IH by (metis list.set_map)
    next
      case (add c f)
      have "f_id f \<noteq> i"
        using validate_disproved [OF add(1)] validate_id [OF add(1)] dis add(2) assms(3) by auto
      then show ?thesis using IH by (simp add: add(3))
    qed (use IH in simp)
  qed
  then show ?thesis using assms(1) by blast
qed

section \<open>Witnesses\<close>

definition sample_store :: store where
  "sample_store = newStore sample_defs sample_catalog (sheet_input sample_sheet ProfileBaseline []) sample_grader None"

theorem store_invariant_witness: "distinct (map f_id (so_findings sample_store))"
  using store_invariant [of sample_defs sample_catalog "sheet_input sample_sheet ProfileBaseline []" sample_grader None]
  by (simp add: sample_store_def run_start)

lemma sample_store_finding: "\<exists>f \<in> set (so_findings sample_store). f_id f = IDWorldWritablePresent"
proof -
  have "one_rule IDWorldWritablePresent ''fs.world_writable'' platform_any (AnyLine re_nonspace) \<in> set posture_rules"
    unfolding posture_rules_def by simp
  then have "IDWorldWritablePresent \<in> f_id ` set (so_findings sample_store)"
    using foldl_eval_findings [of "\<lparr>er_findings = [], er_assessments = [], er_ruledOut = []\<rparr>" sample_defs sample_catalog
        "[]" sample_sheet Rules] sample_match
    by (simp add: sample_store_def newStore_def Let_def evaluate_findings_set Rules_def) (force simp: one_rule_def)
  then show ?thesis by (metis imageE)
qed

theorem rule_findings_are_the_floor_witness:
  "\<exists>f \<in> set (so_findings sample_store). f_id f = IDWorldWritablePresent \<and> (\<exists>f' \<in> set (so_findings sample_store). same_claim f f')"
  using sample_store_finding rule_findings_are_the_floor [OF run_start] unfolding sample_store_def by blast

lemma eval_evidence:
  "\<forall>f \<in> set (er_findings res). f_evidence f \<noteq> [] \<Longrightarrow>
   \<forall>f \<in> set (er_findings (foldl (eval_step defs cat disabled sheet) res rs)). f_evidence f \<noteq> []"
proof (induction rs arbitrary: res)
  case (Cons r rs)
  have app: "foldl appendEvidence es ns \<noteq> []" if "es \<noteq> []" for es ns
    using set_appendEvidence [of es ns] that by (metis Un_empty set_empty)
  have ev: "rule_evidence r sheet v \<noteq> []" for v by (simp add: rule_evidence_def)
  have "\<forall>f \<in> set (er_findings (eval_step defs cat disabled sheet res r)). f_evidence f \<noteq> []"
    using Cons.prems app ev
    by (auto simp: eval_step_def add_matched_def rule_finding_def Let_def split: option.splits)
  then show ?case using Cons.IH by simp
qed simp

theorem model_evidence_is_quoted_witness:
  "\<exists>f \<in> set (so_findings sample_store). \<exists>e \<in> set (f_evidence f). quoted sample_store e \<or>
     (\<exists>f0 \<in> set (so_findings sample_store). e \<in> set (f_evidence f0))"
proof -
  obtain f where f: "f \<in> set (so_findings sample_store)" using sample_store_finding by blast
  then have "f_evidence f \<noteq> []"
    using eval_evidence [of "\<lparr>er_findings = [], er_assessments = [], er_ruledOut = []\<rparr>" sample_defs sample_catalog "[]" sample_sheet Rules]
    by (simp add: sample_store_def newStore_def Let_def evaluate_findings_set)
  then obtain e where "e \<in> set (f_evidence f)" by (meson last_in_set)
  then show ?thesis using f model_evidence_is_quoted [OF run_start] unfolding sample_store_def by blast
qed

definition clean_sheet :: fact_sheet where
  "clean_sheet = sample_sheet\<lparr>fs_results := [(''fs.world_writable'', zero_result\<lparr>res_status := StatusOK, res_parsed := Some (PLines [])\<rparr>)]\<rparr>"

definition clean_store :: store where
  "clean_store = newStore [] sample_catalog (sheet_input clean_sheet ProfileBaseline []) sample_grader None"

theorem disproved_stays_disproved_witness: "IDWorldWritablePresent \<notin> f_id ` set (so_findings clean_store)"
proof -
  let ?r = "one_rule IDWorldWritablePresent ''fs.world_writable'' platform_any (AnyLine re_nonspace)"
  have "?r \<in> set posture_rules" unfolding posture_rules_def by simp
  then have "?r \<in> set Rules" by (simp add: Rules_def)
  moreover have "rule_applies clean_sheet ?r"
    "v_status (evalRule sample_catalog ?r (fs_platform clean_sheet) [] clean_sheet) = NotMatched"
    by (simp_all add: rule_applies_def one_rule_def evalRule_def usable_def sheet_result_def clean_sheet_def sample_sheet_def
        sample_catalog_def lookup_def zero_check_def appliesTo_def)
  ultimately have "\<exists>a \<in> set (so_assessments clean_store). as_finding a = IDWorldWritablePresent \<and> as_status a = NotMatched"
    by (auto simp: clean_store_def newStore_def evaluate_def foldl_eval_assessments Let_def rule_assessment_def one_rule_def
        intro!: bexI [of _ ?r])
  then have "disproved clean_store IDWorldWritablePresent \<noteq> None" by (auto simp: disproved_def find_None_iff)
  moreover have "IDWorldWritablePresent \<notin> f_id ` set (so_findings clean_store)"
    using foldl_eval_findings [of "\<lparr>er_findings = [], er_assessments = [], er_ruledOut = []\<rparr>" "[]" sample_catalog "[]" clean_sheet Rules]
    by (simp add: clean_store_def newStore_def Let_def evaluate_findings_set rule_matches_def def_lookup_def)
  ultimately show ?thesis
    using disproved_stays_disproved [OF run_start] unfolding clean_store_def by (simp add: finding_ids)
qed

end
