(* ===== verification/Baseline.thy ===== *)
theory Baseline
  imports Runner_Shipped Posture
begin

text \<open>
  Phase 1, \<open>internal/baseline/baseline.go\<close>: the plan of baseline checks, and their run into a fact
  sheet, one after the other.  Whether the run's context has ended is asked before every check; here
  it is a function of the runner's state.
\<close>

section \<open>Plan and run\<close>

definition plan :: "catalog \<Rightarrow> platform \<Rightarrow> string list \<Rightarrow> check list" where
  "plan cat p disabled = filter (\<lambda>c. check_id c \<notin> set disabled) (baseline cat p)"




definition sheet_raw :: "fact_sheet \<Rightarrow> string \<Rightarrow> string" where
  "sheet_raw fs i =
     (case sheet_result fs i of
        Some r \<Rightarrow> if res_status r = StatusOK then trim_space (res_raw r) else []
      | None \<Rightarrow> [])"

definition detectRoot :: "runner \<Rightarrow> rn_state \<Rightarrow> bool \<times> rn_state" where
  "detectRoot e st =
     (let (res, st') = run e st ''sys.uid'' []
      in (res_status res = StatusOK \<and> trim_space (res_raw res) = ''0'', st'))"

section \<open>The result of a run is stored\<close>








section \<open>The fact sheet\<close>

definition sheet_ok :: "fact_sheet \<Rightarrow> rn_state \<Rightarrow> bool" where
  "sheet_ok fs st =
     (obs_wf st \<and> fst ` set (fs_results fs) = set (fs_order fs) \<and>
      list_all (\<lambda>(i, r). obs_get st (res_observation r) = Some r) (fs_results fs))"


lemma sheet_ok_flags [simp]:
  "sheet_ok (fs\<lparr>fs_incomplete := b\<rparr>) st = sheet_ok fs st" "sheet_ok (fs\<lparr>fs_lost := l\<rparr>) st = sheet_ok fs st"
  by (simp_all add: sheet_ok_def)




end
