(* ===== verification/Host_View.thy ===== *)
theory Host_View
  imports Posture Severity_Table
begin

text \<open>
  The framework of the engagement's multi-fact rules over a host: \<open>internal/engagement/rules/rules.go\<close>
  and \<open>internal/finding/coverage_plan.go\<close>.  A rule sees a host through a view, which answers only the
  reads the rule declared and records what was read; the framework finishes what the rule answers.
  The view is a state passed along.  \<open>Details\<close> of an outcome, which no rule over a host sets, and the
  selection of a coverage group are left out.
\<close>

section \<open>Coverage plans (coverage_plan.go)\<close>

record coverage_reason =
  cr_reason :: string
  cr_detail :: string

record coverage_group =
  cg_name :: string
  cg_rules :: "string list"
  cg_always :: bool
  cg_empty :: coverage_reason
  cg_limit :: string
  cg_gap :: "coverage_reason option"
  cg_notOnPlan :: "coverage_reason option"
  cg_collapse :: "coverage_reason option"
  cg_unassessed :: string
  cg_hostDomain :: string
  cg_hostJudges :: string

record coverage_unread =
  cu_name :: string
  cu_detail :: string
  cu_unassessed :: string
  cu_fixed :: string

record coverage_plan =
  cp_area :: string
  cp_label :: string
  cp_groups :: "coverage_group list"
  cp_incomplete :: coverage_reason
  cp_unread :: "coverage_unread list"
  cp_rowAlso :: string

definition OnPlan :: "coverage_plan \<Rightarrow> bool" where
  "OnPlan p = list_ex (\<lambda>g. cg_notOnPlan g = None) (cp_groups p)"

section \<open>Verdicts, reads and outcomes\<close>

definition Disproved :: string where "Disproved = ''disproved''"
definition Abstained :: string where "Abstained = ''abstained''"
definition ReasonIncomplete :: string where "ReasonIncomplete = ''unavailable:incomplete_read''"

lemma verdicts_distinct [simp]:
  "Fired \<noteq> Disproved" "Fired \<noteq> Abstained" "Disproved \<noteq> Abstained"
  "Disproved \<noteq> Fired" "Abstained \<noteq> Fired" "Abstained \<noteq> Disproved"
  by (simp_all add: Fired_def Disproved_def Abstained_def)

definition ReadCheck :: string where "ReadCheck = ''check''"
definition ReadDeclared :: string where "ReadDeclared = ''declared''"
definition DeclaredServices :: string where "DeclaredServices = ''expected_services''"
definition DeclaredExposure :: string where "DeclaredExposure = ''exposure''"

record read =
  rd_kind :: string
  rd_name :: string

record service =
  svc_port :: int
  svc_proto :: string
  svc_audience :: string
  svc_purpose :: string
  svc_key :: string

record host =
  h_asset :: string
  h_name :: string
  h_sheet :: "fact_sheet option"
  h_disabled :: "string list"
  h_services :: "service list"
  h_exposure :: string

record excerpt =
  ex_check :: string
  ex_text :: string

record outcome =
  o_subject :: subject
  o_verdict :: string
  o_reason :: string
  o_excerpts :: "excerpt list"
  o_attributes :: "attribute list"
  o_notChecked :: "string list"
  o_why :: string
  o_listed :: "string list"
  o_incomplete :: bool

definition zero_outcome :: outcome where
  "zero_outcome = \<lparr>o_subject = zero_subject, o_verdict = [], o_reason = [], o_excerpts = [], o_attributes = [],
     o_notChecked = [], o_why = [], o_listed = [], o_incomplete = False\<rparr>"

definition excerpt_of :: "string \<Rightarrow> string \<Rightarrow> excerpt" where
  "excerpt_of c t = \<lparr>ex_check = c, ex_text = t\<rparr>"

section \<open>The view\<close>

record view =
  v_host :: host
  v_reads :: "read list"
  v_touched :: "fact list"
  v_undeclared :: "string list"
  v_used :: "read list"

definition new_view :: "host \<Rightarrow> read list \<Rightarrow> view" where
  "new_view h reads = \<lparr>v_host = h, v_reads = reads, v_touched = [], v_undeclared = [], v_used = []\<rparr>"

definition declares :: "view \<Rightarrow> string \<Rightarrow> string \<Rightarrow> bool \<times> view" where
  "declares v kind name =
     (let r = \<lparr>rd_kind = kind, rd_name = name\<rparr> in
      if r \<in> set (v_reads v) then (True, v\<lparr>v_used := add_new (v_used v) r\<rparr>)
      else (False, v\<lparr>v_undeclared := v_undeclared v @ [kind @ '':'' @ name]\<rparr>))"

definition host_fact :: "host \<Rightarrow> string \<Rightarrow> fact \<times> string" where
  "host_fact h i = fact_of (h_sheet h) (h_disabled h) i"

definition view_fact :: "view \<Rightarrow> string \<Rightarrow> fact \<times> string \<times> view" where
  "view_fact v i =
     (let (ok, v1) = declares v ReadCheck i in
      if \<not> ok then
        (\<lparr>fact_check = i, fact_observation = [], fact_parsed = None, fact_partial = False\<rparr>, ''undeclared-read'', v1)
      else
        (let (f, why) = host_fact (v_host v1) i in
         (f, why, if list_ex (\<lambda>t. fact_check t = i) (v_touched v1) then v1 else v1\<lparr>v_touched := v_touched v1 @ [f]\<rparr>)))"

definition view_services :: "view \<Rightarrow> service list \<times> view" where
  "view_services v =
     (let (ok, v1) = declares v ReadDeclared DeclaredServices in (if ok then h_services (v_host v1) else [], v1))"

definition view_exposure :: "view \<Rightarrow> string \<times> view" where
  "view_exposure v =
     (let (ok, v1) = declares v ReadDeclared DeclaredExposure in (if ok then h_exposure (v_host v1) else [], v1))"

section \<open>Rules and their run\<close>

record host_rule =
  hr_id :: string
  hr_platform :: platform
  hr_reads :: "read list"
  hr_judge :: "view \<Rightarrow> outcome list \<times> view"
  hr_group :: string
  hr_unbuilt :: string
  hr_incomplete :: coverage_reason
  hr_hostDomain :: string
  hr_hostJudges :: string

record fact_read =
  fr_check :: string
  fr_observation :: string
  fr_excerpt :: string

record host_judgment = rule_judgment +
  hj_reason :: string
  hj_notChecked :: "string list"
  hj_listed :: "string list"
  hj_sources :: "string list"
  hj_facts :: "fact_read list"

definition Decided :: "host_judgment \<Rightarrow> bool" where
  "Decided j = (jd_verdict j \<noteq> Abstained \<and> hj_reason j = [])"

definition withdraw :: "bool \<Rightarrow> outcome \<Rightarrow> outcome" where
  "withdraw partial o' =
     (if o_verdict o' = Disproved \<and> partial then o'\<lparr>o_verdict := Abstained, o_reason := ReasonIncomplete\<rparr> else o')"

text \<open>The observation of the last fact read for a check.\<close>

definition observed :: "fact list \<Rightarrow> string \<Rightarrow> string" where
  "observed touched c = foldl (\<lambda>obs t. if fact_check t = c then fact_observation t else obs) [] touched"

definition attribute_sources :: "attribute list \<Rightarrow> string list" where
  "attribute_sources as =
     foldl (\<lambda>ss a. if ref_key (att_ref a) \<noteq> [] then add_new ss (ref_key (att_ref a)) else ss) [] as"

definition judgment_of :: "host_rule \<Rightarrow> host \<Rightarrow> fact list \<Rightarrow> outcome \<Rightarrow> host_judgment" where
  "judgment_of r h touched o' =
     \<lparr>jd_id = hr_id r, jd_asset = h_asset h, jd_subject = o_subject o', jd_verdict = o_verdict o', jd_reads = [],
      jd_excerpt = [], jd_attributes = o_attributes o', jd_superseded = False, jd_why = o_why o', jd_chain = None,
      hj_reason = o_reason o', hj_notChecked = o_notChecked o', hj_listed = o_listed o',
      hj_sources = attribute_sources (o_attributes o'),
      hj_facts = map (\<lambda>e. \<lparr>fr_check = ex_check e, fr_observation = observed touched (ex_check e), fr_excerpt = ex_text e\<rparr>)
        (o_excerpts o')\<rparr>"

definition run_rule :: "host_rule \<Rightarrow> host \<Rightarrow> host_judgment list \<times> bool" where
  "run_rule r h =
     (let (outcomes, v) = hr_judge r (new_view h (hr_reads r));
          partial = list_ex fact_partial (v_touched v);
          done = map (withdraw partial) outcomes
      in (map (judgment_of r h (v_touched v)) done,
          list_ex (\<lambda>o'. o_incomplete o' \<or> o_reason o' = ReasonIncomplete) done))"

record rules_result =
  rr_judged :: "host_judgment list"
  rr_coverage :: "coverage_plan list"
  rr_populationIncomplete :: bool

definition empty_plan :: "host \<Rightarrow> host_rule \<Rightarrow> string \<Rightarrow> coverage_plan" where
  "empty_plan h r area =
     \<lparr>cp_area = area, cp_label = h_name h, cp_groups = [], cp_incomplete = hr_incomplete r, cp_unread = [], cp_rowAlso = []\<rparr>"

definition no_reason :: coverage_reason where
  "no_reason = \<lparr>cr_reason = [], cr_detail = []\<rparr>"

definition rule_coverage :: "host_rule \<Rightarrow> string \<Rightarrow> coverage_group" where
  "rule_coverage r judges =
     \<lparr>cg_name = hr_group r, cg_rules = [hr_id r], cg_always = False, cg_empty = no_reason, cg_limit = [], cg_gap = None,
      cg_notOnPlan = None, cg_collapse = None, cg_unassessed = [], cg_hostDomain = hr_hostDomain r, cg_hostJudges = judges\<rparr>"

text \<open>The plan of an area, created with the first rule that reads it.\<close>

definition ensure_plan :: "host \<Rightarrow> host_rule \<Rightarrow> string \<Rightarrow> coverage_plan list \<Rightarrow> coverage_plan list" where
  "ensure_plan h r area ps = (if list_ex (\<lambda>p. cp_area p = area) ps then ps else ps @ [empty_plan h r area])"

definition in_plan :: "string \<Rightarrow> (coverage_plan \<Rightarrow> coverage_plan) \<Rightarrow> coverage_plan list \<Rightarrow> coverage_plan list" where
  "in_plan area f ps = map (\<lambda>p. if cp_area p = area then f p else p) ps"

definition judge_step :: "def list \<Rightarrow> host \<Rightarrow> rules_result \<Rightarrow> host_rule \<Rightarrow> rules_result" where
  "judge_step defs h res r =
     (let area = (case def_lookup defs (hr_id r) of Some d \<Rightarrow> def_area d | None \<Rightarrow> []);
          djudges = (case def_lookup defs (hr_id r) of Some d \<Rightarrow> def_judges d | None \<Rightarrow> []);
          ps = ensure_plan h r area (rr_coverage res);
          platform = (case h_sheet h of None \<Rightarrow> [] | Some sh \<Rightarrow> fs_platform sh)
      in if hr_platform r \<noteq> platform_any \<and> platform \<noteq> hr_platform r then
           res\<lparr>rr_coverage := in_plan area (\<lambda>p. p\<lparr>cp_unread := cp_unread p @
             [\<lparr>cu_name = hr_group r, cu_detail = hr_unbuilt r, cu_unassessed = [], cu_fixed = []\<rparr>]\<rparr>) ps\<rparr>
         else
           (let judges = (if hr_hostJudges r = [] then djudges else hr_hostJudges r);
                (js, incomplete) = run_rule r h
            in \<lparr>rr_judged = rr_judged res @ js,
                rr_coverage = in_plan area (\<lambda>p. p\<lparr>cp_groups := cp_groups p @ [rule_coverage r judges]\<rparr>) ps,
                rr_populationIncomplete = (rr_populationIncomplete res \<or> incomplete)\<rparr>))"

definition judge_host :: "def list \<Rightarrow> host_rule list \<Rightarrow> host \<Rightarrow> rules_result" where
  "judge_host defs rs h =
     foldl (judge_step defs h) \<lparr>rr_judged = [], rr_coverage = [], rr_populationIncomplete = False\<rparr> rs"

text \<open>The results by asset: a later host with the same asset id replaces an earlier one.\<close>

definition Judge :: "def list \<Rightarrow> host_rule list \<Rightarrow> host list \<Rightarrow> (string \<rightharpoonup> rules_result)" where
  "Judge defs rs hosts = foldl (\<lambda>m h. m(h_asset h \<mapsto> judge_host defs rs h)) Map.empty hosts"

section \<open>What the framework guarantees\<close>

lemma withdraw_verdict: "o_verdict (withdraw True o') \<noteq> Disproved"
  by (simp add: withdraw_def)

lemma run_rule_disproved:
  assumes "j \<in> set (fst (run_rule r h))" and "jd_verdict j = Disproved"
    and "hr_judge r (new_view h (hr_reads r)) = (outs, v)"
  shows "\<not> list_ex fact_partial (v_touched v)"
proof
  assume "list_ex fact_partial (v_touched v)"
  then have "\<exists>o'\<in>set outs. j = judgment_of r h (v_touched v) (withdraw True o')"
    using assms by (auto simp: run_rule_def Let_def)
  then show False using assms(2) withdraw_verdict by (auto simp: judgment_of_def)
qed

end
