(* ===== verification/Netip.thy ===== *)
theory Netip
  imports Prelude "HOL-Library.Word"
begin

text \<open>
  Go's \<open>net/netip\<close>, as far as the repository uses it: addresses, their text, prefixes and the
  address classes.  An IPv4 address is a 32-bit word; an IPv6 address is a 128-bit word with a zone,
  empty where there is none.  An IPv4-mapped IPv6 address stays an IPv6 address until it is unmapped.
\<close>

unbundle bit_operations_syntax

type_synonym v4 = "32 word"
type_synonym v6 = "128 word"

datatype addr = NoAddr | V4 v4 | V6 v6 string

text \<open>A prefix of an invalid length has no bits.\<close>

record net_prefix =
  pfx_addr :: addr
  pfx_len :: "nat option"

section \<open>Addresses\<close>

primrec bit_len :: "addr \<Rightarrow> nat" where
  "bit_len NoAddr = 0"
| "bit_len (V4 _) = 32"
| "bit_len (V6 _ _) = 128"

definition is_valid :: "addr \<Rightarrow> bool" where
  "is_valid a = (a \<noteq> NoAddr)"

primrec is4 :: "addr \<Rightarrow> bool" where
  "is4 NoAddr = False"
| "is4 (V4 _) = True"
| "is4 (V6 _ _) = False"

primrec is6 :: "addr \<Rightarrow> bool" where
  "is6 NoAddr = False"
| "is6 (V4 _) = False"
| "is6 (V6 _ _) = True"

primrec addr_zone :: "addr \<Rightarrow> string" where
  "addr_zone NoAddr = []"
| "addr_zone (V4 _) = []"
| "addr_zone (V6 _ z) = z"

primrec with_zone :: "addr \<Rightarrow> string \<Rightarrow> addr" where
  "with_zone NoAddr z = NoAddr"
| "with_zone (V4 x) z = V4 x"
| "with_zone (V6 x _) z = V6 x z"

definition v6_mapped :: "v6 \<Rightarrow> bool" where
  "v6_mapped x = (drop_bit 32 x = 0xffff)"

definition is4in6 :: "addr \<Rightarrow> bool" where
  "is4in6 a = (case a of V6 x _ \<Rightarrow> v6_mapped x | _ \<Rightarrow> False)"

definition unmap :: "addr \<Rightarrow> addr" where
  "unmap a = (case a of V6 x _ \<Rightarrow> if v6_mapped x then V4 (ucast x) else a | _ \<Rightarrow> a)"

text \<open>The 16 bits an IPv6 address starts with.\<close>

definition v6_top :: "v6 \<Rightarrow> v6" where
  "v6_top x = drop_bit 112 x"

definition is_loopback :: "addr \<Rightarrow> bool" where
  "is_loopback a = (case unmap a of V4 x \<Rightarrow> drop_bit 24 x = 127 | V6 x _ \<Rightarrow> x = 1 | NoAddr \<Rightarrow> False)"

definition is_link_local_unicast :: "addr \<Rightarrow> bool" where
  "is_link_local_unicast a =
     (case unmap a of V4 x \<Rightarrow> drop_bit 16 x = 0xa9fe | V6 x _ \<Rightarrow> v6_top x AND 0xffc0 = 0xfe80 | NoAddr \<Rightarrow> False)"

definition is_link_local_multicast :: "addr \<Rightarrow> bool" where
  "is_link_local_multicast a =
     (case unmap a of V4 x \<Rightarrow> drop_bit 8 x = 0xe00000 | V6 x _ \<Rightarrow> v6_top x AND 0xff0f = 0xff02 | NoAddr \<Rightarrow> False)"

definition is_interface_local_multicast :: "addr \<Rightarrow> bool" where
  "is_interface_local_multicast a =
     (case a of V6 x _ \<Rightarrow> \<not> v6_mapped x \<and> v6_top x AND 0xff0f = 0xff01 | _ \<Rightarrow> False)"

definition is_multicast :: "addr \<Rightarrow> bool" where
  "is_multicast a =
     (case unmap a of V4 x \<Rightarrow> drop_bit 28 x = 0xe | V6 x _ \<Rightarrow> drop_bit 120 x = 0xff | NoAddr \<Rightarrow> False)"

definition is_private :: "addr \<Rightarrow> bool" where
  "is_private a =
     (case unmap a of
        V4 x \<Rightarrow> drop_bit 24 x = 10 \<or> drop_bit 20 x = 0xac1 \<or> drop_bit 16 x = 0xc0a8
      | V6 x _ \<Rightarrow> drop_bit 121 x = 0x7e
      | NoAddr \<Rightarrow> False)"

definition is_unspecified :: "addr \<Rightarrow> bool" where
  "is_unspecified a = (a = V4 0 \<or> a = V6 0 [])"

definition is_global_unicast :: "addr \<Rightarrow> bool" where
  "is_global_unicast a =
     (let u = unmap a in
      u \<noteq> NoAddr \<and> u \<noteq> V4 0 \<and> u \<noteq> V4 0xffffffff \<and> u \<noteq> V6 0 [] \<and>
      \<not> is_loopback u \<and> \<not> is_multicast u \<and> \<not> is_link_local_unicast u)"

section \<open>Prefixes\<close>

definition no_prefix :: net_prefix where
  "no_prefix = \<lparr>pfx_addr = NoAddr, pfx_len = None\<rparr>"

definition prefix_from :: "addr \<Rightarrow> int \<Rightarrow> net_prefix" where
  "prefix_from a n =
     \<lparr>pfx_addr = with_zone a [], pfx_len = (if a \<noteq> NoAddr \<and> 0 \<le> n \<and> n \<le> int (bit_len a) then Some (nat n) else None)\<rparr>"

definition pfx_bits :: "net_prefix \<Rightarrow> int" where
  "pfx_bits p = (case pfx_len p of None \<Rightarrow> -1 | Some n \<Rightarrow> int n)"

definition pfx_contains :: "net_prefix \<Rightarrow> addr \<Rightarrow> bool" where
  "pfx_contains p a =
     (case pfx_len p of
        None \<Rightarrow> False
      | Some n \<Rightarrow>
          (case (pfx_addr p, a) of
             (V4 x, V4 y) \<Rightarrow> drop_bit (32 - n) x = drop_bit (32 - n) y
           | (V6 x _, V6 y z) \<Rightarrow> z = [] \<and> drop_bit (128 - n) x = drop_bit (128 - n) y
           | _ \<Rightarrow> False))"

definition pfx_masked :: "net_prefix \<Rightarrow> net_prefix" where
  "pfx_masked p =
     (case pfx_len p of
        None \<Rightarrow> no_prefix
      | Some n \<Rightarrow>
          (case pfx_addr p of
             V4 x \<Rightarrow> \<lparr>pfx_addr = V4 (push_bit (32 - n) (drop_bit (32 - n) x)), pfx_len = Some n\<rparr>
           | V6 x z \<Rightarrow> \<lparr>pfx_addr = V6 (push_bit (128 - n) (drop_bit (128 - n) x)) [], pfx_len = Some n\<rparr>
           | NoAddr \<Rightarrow> no_prefix))"

section \<open>Reading text\<close>

definition octet :: "string \<Rightarrow> nat option" where
  "octet s =
     (if s = [] \<or> \<not> list_all is_digit s \<or> (1 < length s \<and> hd s = CHR ''0'') then None
      else (case read_digits 0 s of Some n \<Rightarrow> if n \<le> 255 then Some n else None | None \<Rightarrow> None))"

primrec octets :: "string list \<Rightarrow> nat list option" where
  "octets [] = Some []"
| "octets (f # fs) =
     (case octet f of None \<Rightarrow> None | Some n \<Rightarrow> (case octets fs of None \<Rightarrow> None | Some ns \<Rightarrow> Some (n # ns)))"

definition v4_fields :: "string \<Rightarrow> nat list option" where
  "v4_fields s = (let fs = split_on CHR ''.'' s in if length fs = 4 then octets fs else None)"

definition big_endian :: "nat list \<Rightarrow> int" where
  "big_endian bs = foldl (\<lambda>v b. v * 256 + int b) 0 bs"

definition parse_ipv4 :: "string \<Rightarrow> addr option" where
  "parse_ipv4 s = map_option (\<lambda>bs. V4 (of_int (big_endian bs))) (v4_fields s)"

definition hex_value :: "char \<Rightarrow> nat option" where
  "hex_value c =
     (let n = of_char c :: nat in
      if 48 \<le> n \<and> n \<le> 57 then Some (n - 48)
      else if 97 \<le> n \<and> n \<le> 102 then Some (n - 87)
      else if 65 \<le> n \<and> n \<le> 70 then Some (n - 55)
      else None)"

definition is_hex :: "char \<Rightarrow> bool" where
  "is_hex c = (hex_value c \<noteq> None)"

definition hex_group :: "string \<Rightarrow> int" where
  "hex_group s = foldl (\<lambda>v c. v * 16 + int (the (hex_value c))) 0 s"

text \<open>
  The loop over the groups: at most eight, two bytes each; an embedded IPv4 address ends it.  The
  answer is the bytes read, where the ellipsis stood and the text left.
\<close>

primrec v6_loop :: "nat \<Rightarrow> nat list \<Rightarrow> nat option \<Rightarrow> string \<Rightarrow> (nat list \<times> nat option \<times> string) option" where
  "v6_loop 0 acc ell s = Some (acc, ell, s)"
| "v6_loop (Suc n) acc ell s =
     (let digits = takeWhile is_hex s; r = dropWhile is_hex s; 
          acc' = acc @ [nat (hex_group digits div 256), nat (hex_group digits mod 256)]
      in
      if digits = [] \<or> 4 < length digits then None
      else if has_prefix r ''.'' then
        (if (ell = None \<and> length acc \<noteq> 12) \<or> 12 < length acc then None
         else map_option (\<lambda>f. (acc @ f, ell, [])) (v4_fields s))
      else if r = [] then Some (acc', ell, [])
      else if \<not> has_prefix r '':'' \<or> tl r = [] then None
      else if has_prefix r ''::'' then
        (if ell \<noteq> None then None
         else if tl (tl r) = [] then Some (acc', Some (length acc'), [])
         else v6_loop n acc' (Some (length acc')) (tl (tl r)))
      else v6_loop n acc' ell (tl r))"

definition v6_finish :: "nat list \<times> nat option \<times> string \<Rightarrow> nat list option" where
  "v6_finish st = (case st of (bs, ell, rest) \<Rightarrow>
     if rest \<noteq> [] then None
     else if length bs < 16 then
       map_option (\<lambda>e. take e bs @ replicate (16 - length bs) 0 @ drop e bs) ell
     else if ell \<noteq> None then None
     else Some bs)"

definition parse_ipv6 :: "string \<Rightarrow> addr option" where
  "parse_ipv6 s =
     (let body = takeWhile (\<lambda>c. c \<noteq> CHR ''%'') s; zone = tl (dropWhile (\<lambda>c. c \<noteq> CHR ''%'') s) in
      if CHR ''%'' \<in> set s \<and> zone = [] then None
      else if body = ''::'' then Some (V6 0 zone)
      else map_option (\<lambda>bs. V6 (of_int (big_endian bs)) zone)
        (Option.bind
          (if has_prefix body ''::'' then v6_loop 8 [] (Some 0) (drop 2 body) else v6_loop 8 [] None body)
          v6_finish))"

definition parse_addr :: "string \<Rightarrow> addr option" where
  "parse_addr s =
     (case find (\<lambda>c. c \<in> {CHR ''.'', CHR '':'', CHR ''%''}) s of
        None \<Rightarrow> None
      | Some c \<Rightarrow> if c = CHR ''.'' then parse_ipv4 s else if c = CHR '':'' then parse_ipv6 s else None)"

definition parse_prefix :: "string \<Rightarrow> net_prefix option" where
  "parse_prefix s =
     (case last_index s ''/'' of
        None \<Rightarrow> None
      | Some i \<Rightarrow>
          (case parse_addr (take i s) of
             None \<Rightarrow> None
           | Some a \<Rightarrow>
               (let b = drop (Suc i) s in
                if addr_zone a \<noteq> [] then None
                else if 1 < length b \<and> \<not> (is_digit (hd b) \<and> hd b \<noteq> CHR ''0'') then None
                else (case atoi b of
                        None \<Rightarrow> None
                      | Some n \<Rightarrow> if n < 0 \<or> int (bit_len a) < n then None else Some (prefix_from a n)))))"

end
