(* ===== verification/Host_Listeners.thy ===== *)
theory Host_Listeners
  imports Host_View Netip
begin

text \<open>
  What a host listens on: \<open>internal/engagement/rules/listeners.go\<close>.  The records of the listening
  sockets become listeners, classed by the addresses they reach, and the listeners of one port and
  protocol a group.
\<close>

section \<open>Listeners\<close>

definition checkListeners :: string where "checkListeners = ''net.listeners''"
definition reasonListeners :: string where "reasonListeners = ''unavailable:listeners''"
definition reasonListenerOwner :: string where "reasonListenerOwner = ''unavailable:listener_owner''"
definition reasonContainerPort :: string where "reasonContainerPort = ''unavailable:container_port''"

record database =
  db_process :: string
  db_ports :: "int list option"

definition databases :: "database list" where
  "databases =
     map (\<lambda>p. \<lparr>db_process = p, db_ports = None\<rparr>)
       [''postgres'', ''mysqld'', ''mariadbd'', ''redis-server'', ''valkey-server'', ''mongod'', ''memcached'',
        ''clickhouse-serv'', ''clickhouse'', ''influxd'', ''couchdb''] @
     [\<lparr>db_process = ''beam.smp'', db_ports = Some [5984]\<rparr>]"

definition tablePorts :: "int list" where
  "tablePorts = [5432, 3306, 33060, 6379, 27017, 11211, 8123, 9000, 8086, 5984]"

definition containerOwners :: "(string \<times> string) list" where
  "containerOwners =
     [(''docker-proxy'', ''Docker publishes this port; its rules bypass ufw and firewalld, and scheck does not read them in this version''),
      (''conmon'', ''Podman publishes this port; its rules bypass ufw and firewalld, and scheck does not read them in this version'')]"

definition portProxies :: "string list" where
  "portProxies = [''rootlessport'', ''pasta'', ''pasta.avx2'', ''slirp4netns'']"

definition isDatabase :: "string \<Rightarrow> int \<Rightarrow> bool" where
  "isDatabase process port =
     list_ex (\<lambda>d. db_process d = process \<and> (case db_ports d of None \<Rightarrow> True | Some ps \<Rightarrow> port \<in> set ps)) databases"

record listener =
  l_proto :: string
  l_address :: string
  l_process :: string
  l_port :: int
  l_loopback :: bool
  l_v4 :: bool
  l_v6 :: bool
  l_known :: bool

definition port_key :: "int \<Rightarrow> string \<Rightarrow> string" where
  "port_key port proto = show_int port @ ''/'' @ proto"

definition listener_key :: "listener \<Rightarrow> string" where
  "listener_key l = port_key (l_port l) (l_proto l)"

definition listener_excerpt :: "listener \<Rightarrow> string" where
  "listener_excerpt l =
     (let addr = (if str_contains (l_address l) '':'' then ''['' @ l_address l @ '']'' else l_address l);
          owner = (if l_process l = [] then ''owner not shown'' else l_process l)
      in l_proto l @ '' '' @ addr @ '':'' @ show_int (l_port l) @ '' ('' @ owner @ '')'')"

definition bind_families :: "string \<Rightarrow> (bool \<times> bool \<times> bool) option" where
  "bind_families addr =
     (if addr = ''*'' then Some (False, True, True)
      else if addr = ''0.0.0.0'' then Some (False, True, False)
      else if addr = ''::'' then Some (False, True, True)
      else map_option (\<lambda>a. (is_loopback (unmap a), is4 (unmap a), is6 (unmap a))) (parse_addr addr))"

definition classify_listener :: "listener \<Rightarrow> listener" where
  "classify_listener l =
     (case str_cut (l_address l) ''%'' of (addr, zone, _) \<Rightarrow>
       (case bind_families addr of
          None \<Rightarrow> l\<lparr>l_known := False\<rparr>
        | Some (lo, v4, v6) \<Rightarrow>
            (if lo \<or> zone = ''lo'' then l\<lparr>l_known := True, l_loopback := True, l_v4 := False, l_v6 := False\<rparr>
             else l\<lparr>l_known := True, l_loopback := False, l_v4 := v4, l_v6 := v6\<rparr>)))"

datatype record_read = NotListening | BadPort | Listening listener

definition read_record :: "row \<Rightarrow> record_read" where
  "read_record r =
     (let proto = to_lower (field r FieldProtocol); state = to_upper (field r FieldState) in
      if \<not> (proto = ''tcp'' \<and> state = ''LISTEN'' \<or> proto = ''udp'' \<and> state = ''UNCONN'') then NotListening
      else (case atoi (field r FieldPort) of
              None \<Rightarrow> BadPort
            | Some port \<Rightarrow>
                if port \<le> 0 \<or> 65535 < port then BadPort
                else Listening (classify_listener
                  \<lparr>l_proto = proto, l_address = field r FieldAddress, l_process = field r FieldProcess, l_port = port,
                   l_loopback = False, l_v4 = False, l_v6 = False, l_known = False\<rparr>)))"

text \<open>An IPv6 wildcard takes IPv4 too, unless an IPv4 wildcard holds the same port.\<close>

definition v6_only :: "listener list \<Rightarrow> listener \<Rightarrow> listener" where
  "v6_only ls l =
     (if l_address l = ''::'' \<and> list_ex (\<lambda>k. l_address k = ''0.0.0.0'' \<and> listener_key k = listener_key l) ls
      then l\<lparr>l_v4 := False\<rparr> else l)"

definition listeners :: "records \<Rightarrow> listener list \<times> bool" where
  "listeners recs =
     (let rs = map read_record (rs_items recs);
          ls = List.map_filter (\<lambda>r. case r of Listening l \<Rightarrow> Some l | _ \<Rightarrow> None) rs
      in (map (v6_only ls) ls, \<not> list_ex (\<lambda>r. r = BadPort) rs))"

record port_group =
  g_port :: int
  g_proto :: string
  g_all :: "listener list"

definition group_key :: "port_group \<Rightarrow> string" where
  "group_key g = port_key (g_port g) (g_proto g)"

definition beyond :: "port_group \<Rightarrow> listener list" where
  "beyond g = filter (\<lambda>l. \<not> l_loopback l) (g_all g)"

definition cited :: "listener list \<Rightarrow> excerpt" where
  "cited ls = excerpt_of checkListeners (join_with ''; '' (map listener_excerpt ls))"

record listening =
  ln_groups :: "port_group list"
  ln_complete :: bool
  ln_portsOK :: bool

definition same_port :: "listener \<Rightarrow> port_group \<Rightarrow> bool" where
  "same_port l g = (g_port g = l_port l \<and> g_proto g = l_proto l)"

primrec add_listener :: "port_group list \<Rightarrow> listener \<Rightarrow> port_group list" where
  "add_listener [] l = [\<lparr>g_port = l_port l, g_proto = l_proto l, g_all = [l]\<rparr>]"
| "add_listener (g # gs) l = (if same_port l g then g\<lparr>g_all := g_all g @ [l]\<rparr> # gs else g # add_listener gs l)"

definition unnamed :: "listener \<Rightarrow> bool" where
  "unnamed l = (\<not> l_loopback l \<and> (\<not> l_known l \<or> l_process l = []))"

definition readListening :: "view \<Rightarrow> (outcome + listening) \<times> view" where
  "readListening v =
     (let (f, why, v1) = view_fact v checkListeners in
      case (why, fact_parsed f) of
        ([], Some (PRecords recs)) \<Rightarrow>
          (let (ls, portsOK) = listeners recs
           in (Inr \<lparr>ln_groups = foldl add_listener [] ls,
                 ln_complete = (\<not> fact_partial f \<and> portsOK \<and> \<not> list_ex unnamed ls), ln_portsOK = portsOK\<rparr>, v1))
      | _ \<Rightarrow>
          (Inl (zero_outcome\<lparr>o_verdict := Abstained, o_reason := reasonListeners, o_incomplete := True,
             o_notChecked := [''the listening sockets could not be read ('' @ why @ '')'']\<rparr>), v1))"

definition listening_at :: "listening \<Rightarrow> int \<Rightarrow> string \<Rightarrow> port_group option" where
  "listening_at l port proto = List.find (\<lambda>g. g_port g = port \<and> equal_fold (g_proto g) proto) (ln_groups l)"

definition ownerDoubt :: "listener \<Rightarrow> string \<times> string" where
  "ownerDoubt l =
     (case map_of containerOwners (l_process l) of
        Some detail \<Rightarrow> (reasonContainerPort, detail)
      | None \<Rightarrow>
          if l_process l \<in> set portProxies
          then (reasonContainerPort, ''a container port proxy owns this port; the service behind it is not known'')
          else ([], []))"

record database_seen =
  ds_process :: string
  ds_address :: string
  ds_proto :: string
  ds_port :: int

definition Databases :: "host \<Rightarrow> database_seen list" where
  "Databases h =
     (case host_fact h checkListeners of (f, why) \<Rightarrow>
       (case (why, fact_parsed f) of
          ([], Some (PRecords recs)) \<Rightarrow>
            map (\<lambda>l. \<lparr>ds_process = l_process l, ds_address = l_address l, ds_proto = l_proto l, ds_port = l_port l\<rparr>)
              (filter (\<lambda>l. isDatabase (l_process l) (l_port l)) (fst (listeners recs)))
        | _ \<Rightarrow> []))"

end
