(* ===== verification/Host_Firewall.thy ===== *)
theory Host_Firewall
  imports Host_Listeners
begin

text \<open>
  Whether the host firewall leaves a port open to every source, per address family:
  \<open>internal/engagement/rules/firewall.go\<close>.  The firewall is read on first use, so the reader is a
  state: the view and the firewall once read.  The patterns are transcribed as terms of \<^typ>\<open>re\<close>.
\<close>

section \<open>Answers\<close>

definition checkUFW :: string where "checkUFW = ''fw.ufw''"
definition checkNFT :: string where "checkNFT = ''fw.nft''"
definition checkFirewalld :: string where "checkFirewalld = ''fw.firewalld''"
definition checkBackend :: string where "checkBackend = ''fw.iptables_backend''"
definition checkOSRelease :: string where "checkOSRelease = ''os.release''"

definition read_check :: "string \<Rightarrow> read" where
  "read_check name = \<lparr>rd_kind = ReadCheck, rd_name = name\<rparr>"

definition firewallReads :: "read list" where
  "firewallReads = map read_check [checkUFW, checkNFT, checkFirewalld, checkBackend, checkOSRelease]"

datatype fw_filter = FilterUnknown | FilterFiltered | FilterOpen

record answer =
  a_filter :: fw_filter
  a_excerpts :: "excerpt list"
  a_reason :: string
  a_detail :: string
  a_notChecked :: string
  a_sources :: "string list"

definition answer_of :: "fw_filter \<Rightarrow> excerpt list \<Rightarrow> answer" where
  "answer_of flt ex = \<lparr>a_filter = flt, a_excerpts = ex, a_reason = [], a_detail = [], a_notChecked = [], a_sources = []\<rparr>"

definition unknown_answer :: "string \<Rightarrow> string \<Rightarrow> answer" where
  "unknown_answer reason detail = (answer_of FilterUnknown [])\<lparr>a_reason := reason, a_detail := detail\<rparr>"

record port_spec =
  ps_ports :: "(int \<times> int) list"
  ps_proto :: string

record ufw_rule =
  ur_line :: string
  ur_action :: string
  ur_v6 :: bool
  ur_iface :: bool
  ur_open :: bool
  ur_from :: string
  ur_srcPort :: string
  ur_all :: bool
  ur_spec :: port_spec
  ur_to :: net_prefix

record ufw_state =
  us_active :: bool
  us_status :: string
  us_defaults :: string
  us_incoming :: string
  us_rules :: "ufw_rule list"
  us_v6 :: bool
  us_partial :: bool

datatype firewall =
    FwUFW ufw_state
  | FwNone "excerpt list"
  | FwUnknown answer

definition notCheckedUFW :: string where
  "notCheckedUFW = ''Only ufw's own rule listing was read: rules added outside ufw (by scripts, Docker, kube-proxy or a network plugin, in iptables or other nftables tables) and custom lines in /etc/ufw/before.rules were not, and they can open or close this port whatever ufw shows''"

definition notCheckedNone :: string where
  "notCheckedNone = ''Filters outside nftables (eBPF programs such as Cilium's) were not read''"

definition reasonUFW :: string where "reasonUFW = ''unavailable:firewall_ufw''"

section \<open>The listing of ufw\<close>

definition lazy_plus :: "re \<Rightarrow> re" where "lazy_plus r = Seq r (Star False r)"

definition ufwRuleLine :: re where
  "ufwRuleLine = seqs [TextStart, Grp 1 (lazy_plus re_not_newline), plus re_space,
     Grp 2 (alts (map lit [''ALLOW'', ''DENY'', ''REJECT'', ''LIMIT''])), plus re_space,
     Grp 3 (alts (map lit [''IN'', ''OUT'', ''FWD''])), plus re_space, Grp 4 (plus re_not_newline), TextEnd]"

definition ufwDefault :: re where
  "ufwDefault = seqs [Grp 1 (plus (Cls [(48, 57), (65, 90), (95, 95), (97, 122)])), lit '' (incoming)'']"

definition re_port :: re where
  "re_port = Seq (plus re_digit) (opt (Seq (byte 58) (plus re_digit)))"

definition ufwPorts :: re where
  "ufwPorts = seqs [TextStart, Grp 1 (Seq re_port (Star True (Seq (byte 44) re_port))),
     opt (Seq (byte 47) (Grp 2 (Alt (lit ''tcp'') (lit ''udp'')))), TextEnd]"

definition re_attrib :: re where
  "re_attrib = alts (map lit [''log'', ''log-all'', ''out''])"

definition ufwAttrib :: re where
  "ufwAttrib = seqs [plus re_space, byte 40, re_attrib, Star True (Seq (lit '', '') re_attrib), byte 41, TextEnd]"

definition ufwIface :: re where
  "ufwIface = seqs [lit '' on '', plus (Cls [(0, 8), (11, 11), (14, 31), (33, 39), (42, 255)]), TextEnd]"

definition ufwProto :: re where
  "ufwProto = seqs [TextStart, alts (map lit [''tcp'', ''udp'', ''gre'', ''esp'', ''ah'', ''igmp'', ''ipv6'', ''vrrp'']), TextEnd]"

definition cidr :: "string \<Rightarrow> string" where
  "cidr s = (if str_contains s ''/'' then s else if str_contains s '':'' then s @ ''/128'' else s @ ''/32'')"

definition isAddress :: "string \<Rightarrow> bool" where
  "isAddress s = (parse_prefix (cidr s) \<noteq> None)"

definition prefix_of :: "string \<Rightarrow> net_prefix" where
  "prefix_of s = (case parse_prefix (cidr s) of Some p \<Rightarrow> p | None \<Rightarrow> no_prefix)"

definition addressProto :: "string \<Rightarrow> bool" where
  "addressProto s =
     (case last_index s ''/'' of
        None \<Rightarrow> False
      | Some i \<Rightarrow> 0 < i \<and> match_string ufwProto (drop (Suc i) s) \<and> isAddress (take i s))"

definition anywhereProto :: "string \<Rightarrow> bool" where
  "anywhereProto s = (has_prefix s ''Anywhere/'' \<and> match_string ufwProto (drop 9 s))"

definition recognized :: "string \<Rightarrow> bool" where
  "recognized from =
     (case str_fields from of
        [a] \<Rightarrow> isAddress a \<or> addressProto a \<or> match_string ufwPorts a
      | [a, b] \<Rightarrow> isAddress a \<and> match_string ufwPorts b
      | _ \<Rightarrow> False)"

definition int_or_zero :: "string \<Rightarrow> int" where
  "int_or_zero s = (case atoi s of Some n \<Rightarrow> n | None \<Rightarrow> 0)"

definition port_range :: "string \<Rightarrow> int \<times> int" where
  "port_range part =
     (case str_cut part '':'' of (lo, hi, isRange) \<Rightarrow> (int_or_zero lo, if isRange then int_or_zero hi else int_or_zero lo))"

definition ports :: "string \<Rightarrow> port_spec" where
  "ports s =
     (case find_submatch ufwPorts s of
        Some m \<Rightarrow> \<lparr>ps_ports = map port_range (split_on CHR '','' (submatch_text s m 1)), ps_proto = submatch_text s m 2\<rparr>
      | None \<Rightarrow> \<lparr>ps_ports = [], ps_proto = []\<rparr>)"

definition covers :: "port_spec \<Rightarrow> int \<Rightarrow> string \<Rightarrow> bool" where
  "covers p port proto =
     ((ps_proto p = [] \<or> ps_proto p = proto) \<and> list_ex (\<lambda>(lo, hi). lo \<le> port \<and> port \<le> hi) (ps_ports p))"

text \<open>
  What a column prints after its address and ports: the interface, \<open>(v6)\<close> and the application
  profile, stripped in that order; the answer says whether an interface and IPv6 were seen.
\<close>

definition strip_iface :: "string \<Rightarrow> string \<times> bool" where
  "strip_iface s = (case find_submatch ufwIface s of None \<Rightarrow> (s, False) | Some m \<Rightarrow> (take (found_start m) s, True))"

definition location :: "string \<Rightarrow> (string \<times> bool \<times> bool) option" where
  "location s0 =
     (let (s1, iface) = strip_iface s0;
          v6a = has_suffix s1 '' (v6)'';
          s2 = trim_suffix s1 '' (v6)''
      in case str_index s2 '' ('' of
           None \<Rightarrow> (let s = trim_space s2 in if s = [] then None else Some (s, iface, v6a))
         | Some i \<Rightarrow>
             (if \<not> has_suffix (drop i s2) '')'' then None
              else (let s = trim_space (take i s2) in
                    if s = [] then None else Some (s, iface, v6a \<or> has_suffix (drop i s2) ''(v6))''))))"

definition strip_attrib :: "string \<Rightarrow> string" where
  "strip_attrib s = (case find_submatch ufwAttrib s of None \<Rightarrow> s | Some m \<Rightarrow> take (found_start m) s)"

definition empty_spec :: port_spec where
  "empty_spec = \<lparr>ps_ports = [], ps_proto = []\<rparr>"

text \<open>The destination column: whether every port, the ports and protocol, and the address.\<close>

definition read_to :: "string \<Rightarrow> (bool \<times> port_spec \<times> net_prefix) option" where
  "read_to to =
     (if to = ''Anywhere'' then Some (True, empty_spec, no_prefix)
      else if anywhereProto to then Some (True, empty_spec\<lparr>ps_proto := trim_prefix to ''Anywhere/''\<rparr>, no_prefix)
      else if match_string ufwPorts to then Some (False, ports to, no_prefix)
      else (case str_fields to of
              [a, b] \<Rightarrow> if isAddress a \<and> match_string ufwPorts b then Some (False, ports b, prefix_of a) else None
            | [_] \<Rightarrow>
                if isAddress to then Some (True, empty_spec, prefix_of to)
                else if addressProto to then
                  (let i = the (last_index to ''/'')
                   in Some (True, empty_spec\<lparr>ps_proto := drop (Suc i) to\<rparr>, prefix_of (take i to)))
                else None
            | _ \<Rightarrow> None))"

text \<open>The source column: whether it is every address, and the source ports when it names only those.\<close>

definition read_from :: "string \<Rightarrow> (bool \<times> string) option" where
  "read_from from =
     (if from = ''Anywhere'' \<or> anywhereProto from then Some (True, [])
      else if match_string ufwPorts from then Some (True, from)
      else if recognized from then Some (False, [])
      else None)"

definition v6_source :: "string \<Rightarrow> bool" where
  "v6_source from =
     (case str_fields from of f # _ \<Rightarrow> isAddress f \<and> is6 (pfx_addr (prefix_of f)) | [] \<Rightarrow> False)"

datatype rule_read = RuleBad | RuleOther | RuleIn ufw_rule

definition parseUFWRule :: "string \<Rightarrow> rule_read" where
  "parseUFWRule l =
     (case find_submatch ufwRuleLine l of
        None \<Rightarrow> RuleBad
      | Some m \<Rightarrow>
          if submatch_text l m 3 \<noteq> ''IN'' then RuleOther
          else
            (let to0 = trim_space (submatch_text l m 1);
                 from0 = trim_space (submatch_text l m 4);
                 from1 = (case str_cut from0 '' # '' of (f, _, found) \<Rightarrow> if found then trim_space f else from0);
                 from2 = strip_attrib from1
             in case (location to0, location from2) of
                  (Some (to, iface1, v6a), Some (from, iface2, v6b)) \<Rightarrow>
                    (case (read_from from, read_to to) of
                       (Some (open', srcPort), Some (all', spec, dest)) \<Rightarrow>
                         RuleIn \<lparr>ur_line = join_with '' '' (str_fields l), ur_action = submatch_text l m 2,
                           ur_v6 = (v6a \<or> v6b \<or> v6_source from \<or> is6 (pfx_addr dest)), ur_iface = (iface1 \<or> iface2),
                           ur_open = open', ur_from = from, ur_srcPort = srcPort, ur_all = all',
                           ur_spec = (if all' \<and> ps_proto spec = [] \<and> srcPort \<noteq> []
                             then spec\<lparr>ps_proto := ps_proto (ports srcPort)\<rparr> else spec),
                           ur_to = dest\<rparr>
                     | _ \<Rightarrow> RuleBad)
                | _ \<Rightarrow> RuleBad))"

definition empty_ufw :: ufw_state where
  "empty_ufw = \<lparr>us_active = False, us_status = [], us_defaults = [], us_incoming = [], us_rules = [], us_v6 = False, us_partial = False\<rparr>"

definition ufw_line :: "ufw_state \<Rightarrow> string \<Rightarrow> ufw_state option" where
  "ufw_line st raw =
     (let l = trim_space raw in
      if l = [] \<or> has_prefix l ''Logging:'' \<or> has_prefix l ''New profiles:'' \<or> trim_set l {CHR ''-'', CHR '' ''} = [] then Some st
      else if l = ''Status: active'' then Some (st\<lparr>us_active := True, us_status := l\<rparr>)
      else if l = ''Status: inactive'' then Some (st\<lparr>us_status := l\<rparr>)
      else if has_prefix l ''Status:'' then None
      else if has_prefix l ''Default:'' then
        map_option (\<lambda>m. st\<lparr>us_defaults := l, us_incoming := submatch_text l m 1\<rparr>) (find_submatch ufwDefault l)
      else if has_prefix l ''To '' \<and> str_contains l ''Action'' \<and> str_contains l ''From'' then Some st
      else (case parseUFWRule l of
              RuleBad \<Rightarrow> None
            | RuleOther \<Rightarrow> Some st
            | RuleIn r \<Rightarrow> Some (st\<lparr>us_v6 := (us_v6 st \<or> ur_v6 r), us_rules := us_rules st @ [r]\<rparr>)))"

primrec ufw_lines :: "ufw_state \<Rightarrow> string list \<Rightarrow> ufw_state option" where
  "ufw_lines st [] = Some st"
| "ufw_lines st (l # ls) = (case ufw_line st l of None \<Rightarrow> None | Some st' \<Rightarrow> ufw_lines st' ls)"

text \<open>A status line was seen exactly when the status is not empty.\<close>

definition parseUFW :: "string list \<Rightarrow> ufw_state option" where
  "parseUFW ls =
     (case ufw_lines empty_ufw ls of
        None \<Rightarrow> None
      | Some st \<Rightarrow>
          if us_status st = [] \<or> us_active st \<and> us_incoming st \<notin> {''deny'', ''reject'', ''allow''} then None else Some st)"

definition rule_covers :: "ufw_rule \<Rightarrow> int \<Rightarrow> string \<Rightarrow> bool" where
  "rule_covers r port proto =
     (if ur_all r then ps_proto (ur_spec r) = [] \<or> ps_proto (ur_spec r) = proto else covers (ur_spec r) port proto)"

definition lets_in :: "ufw_rule \<Rightarrow> bool" where
  "lets_in r = (ur_action r = ''ALLOW'' \<or> ur_action r = ''LIMIT'')"

definition keeps_out :: "ufw_rule \<Rightarrow> bool" where
  "keeps_out r = (ur_action r = ''DENY'' \<or> ur_action r = ''REJECT'')"

definition to_valid :: "ufw_rule \<Rightarrow> bool" where
  "to_valid r = (pfx_len (ur_to r) \<noteq> None)"

primrec walk_rules :: "ufw_state \<Rightarrow> int \<Rightarrow> string \<Rightarrow> bool \<Rightarrow> string list \<Rightarrow> ufw_rule list \<Rightarrow> answer" where
  "walk_rules st port proto v6 sources [] =
     (let head = [excerpt_of checkUFW (us_status st @ ''; '' @ us_defaults st)] in
      if us_partial st then unknown_answer reasonUFW ''ufw's status output was cut short, so a later rule may decide this port''
      else if us_incoming st = ''allow'' then answer_of FilterOpen head
      else (answer_of FilterFiltered head)\<lparr>a_sources := sources\<rparr>)"
| "walk_rules st port proto v6 sources (r # rs) =
     (let head = [excerpt_of checkUFW (us_status st @ ''; '' @ us_defaults st)];
          next_rule = walk_rules st port proto v6 sources rs
      in if ur_v6 r \<noteq> v6 \<or> \<not> rule_covers r port proto then next_rule
         else if ur_iface r then
           unknown_answer reasonUFW ''a ufw rule for this port applies to one network interface, and scheck cannot tell which networks that interface faces''
         else if \<not> ur_open r then
           walk_rules st port proto v6 (if lets_in r then add_new sources (ur_from r) else sources) rs
         else if ur_srcPort r \<noteq> [] \<and> keeps_out r then next_rule
         else if to_valid r \<and> keeps_out r then next_rule
         else if to_valid r \<and> is_loopback (pfx_addr (ur_to r)) then next_rule
         else if to_valid r then
           unknown_answer reasonUFW ''a ufw rule opens this port to one of the host's addresses, and scheck does not compare it with the address the database listens on''
         else if ur_srcPort r \<noteq> [] then
           answer_of FilterOpen (head @ [excerpt_of checkUFW (ur_line r @ '': ufw allows this port from any address whose source port is '' @
             ur_srcPort r @ ''; a sender chooses its own source port, so the rule does not restrict who can connect'')])
         else if lets_in r then answer_of FilterOpen (head @ [excerpt_of checkUFW (ur_line r)])
         else (answer_of FilterFiltered (head @ [excerpt_of checkUFW (ur_line r)]))\<lparr>a_sources := sources\<rparr>)"

definition walk :: "ufw_state \<Rightarrow> int \<Rightarrow> string \<Rightarrow> bool \<Rightarrow> answer" where
  "walk st port proto v6 =
     (if v6 \<and> \<not> us_v6 st then
        unknown_answer reasonUFW ''ufw lists no IPv6 rule, so its output does not show whether it filters IPv6''
      else walk_rules st port proto v6 [] (us_rules st))"

section \<open>Reading the firewall\<close>

definition asText :: "parsed option \<Rightarrow> string" where
  "asText p = (case p of Some (PRaw s) \<Rightarrow> s | _ \<Rightarrow> [])"

definition emptyRuleset :: "string \<Rightarrow> bool" where
  "emptyRuleset out =
     list_all (\<lambda>l. let t = trim_space l in t = [] \<or> has_prefix t ''#'') (split_on CHR 0x0A out)"

definition fw_unknown :: "string \<Rightarrow> string \<Rightarrow> firewall" where
  "fw_unknown reason detail = FwUnknown (unknown_answer reason detail)"

definition command_missing :: string where
  "command_missing = ''check-unavailable:command_missing''"

definition alpine :: "view \<Rightarrow> bool \<times> view" where
  "alpine v =
     (let (f, why, v1) = view_fact v checkOSRelease;
          kv = (case fact_parsed f of Some (PKV kv) \<Rightarrow> kv | _ \<Rightarrow> [])
      in (why = [] \<and> equal_fold (trim_set (field kv ''ID'') {CHR 0x22}) ''alpine'', v1))"

text \<open>
  Each fact in turn: a reader either settles the firewall or adds what it saw and passes on.
\<close>

definition read_ufw :: "view \<Rightarrow> (firewall + excerpt list) \<times> view" where
  "read_ufw v =
     (let (f, why, v1) = view_fact v checkUFW in
      (if why = command_missing then Inr [excerpt_of checkUFW ''not installed (command not found)'']
       else if why \<noteq> [] then Inl (fw_unknown reasonUFW (''ufw's status could not be read ('' @ why @ '')''))
       else
         (case parseUFW (case fact_parsed f of Some (PLines ls) \<Rightarrow> ls | _ \<Rightarrow> []) of
            None \<Rightarrow> Inl (fw_unknown reasonUFW ''ufw's status output was not recognized'')
          | Some st \<Rightarrow>
              if us_active st then Inl (FwUFW (st\<lparr>us_partial := fact_partial f\<rparr>))
              else Inr [excerpt_of checkUFW ''Status: inactive'']), v1))"

definition reasonFirewalld :: string where "reasonFirewalld = ''unavailable:firewall_firewalld''"
definition reasonNFT :: string where "reasonNFT = ''unavailable:firewall_nft''"
definition reasonBackend :: string where "reasonBackend = ''unavailable:firewall_backend''"

definition read_firewalld :: "view \<Rightarrow> (firewall + excerpt list) \<times> view" where
  "read_firewalld v =
     (let (f, why, v1) = view_fact v checkFirewalld; state = trim_space (asText (fact_parsed f)) in
      (if why = command_missing then Inr [excerpt_of checkFirewalld ''not installed (command not found)'']
       else if why \<noteq> [] then Inl (fw_unknown reasonFirewalld (''firewalld's state could not be read ('' @ why @ '')''))
       else if state = ''not running'' then Inr [excerpt_of checkFirewalld ''not running'']
       else if state = ''running'' then
         Inl (fw_unknown reasonFirewalld ''firewalld is running and scheck does not read its zones in this version'')
       else Inl (fw_unknown reasonFirewalld ''firewalld's state was not recognized''), v1))"

definition read_nft :: "view \<Rightarrow> (firewall + excerpt list) \<times> view" where
  "read_nft v =
     (let (f, why, v1) = view_fact v checkNFT in
      (if why = command_missing then
         Inl (fw_unknown reasonNFT ''nft is not installed, so the kernel's packet filter rules could not be listed'')
       else if why \<noteq> [] \<or> fact_partial f then Inl (fw_unknown reasonNFT ''the nftables ruleset could not be read'')
       else if \<not> emptyRuleset (asText (fact_parsed f)) then
         Inl (fw_unknown reasonNFT ''nftables holds rules and ufw is inactive; scheck does not read nftables rules in this version'')
       else Inr [excerpt_of checkNFT ''empty ruleset (no tables)''], v1))"

definition read_backend :: "view \<Rightarrow> (firewall + excerpt list) \<times> view" where
  "read_backend v =
     (let (f, why, v1) = view_fact v checkBackend; target = trim_space (asText (fact_parsed f)); base = path_base target in
      if why \<noteq> [] then
        (Inl (fw_unknown reasonBackend (''which iptables backend the host uses could not be read ('' @ why @ '')'')), v1)
      else if target = [] then
        (let (alp, v2) = alpine v1 in
         (if alp then Inl (fw_unknown reasonBackend ''/usr/sbin/iptables is not where this distribution keeps iptables'')
          else Inr [excerpt_of checkBackend ''not installed (no /usr/sbin/iptables)''], v2))
      else if base = ''xtables-nft-multi'' then (Inr [excerpt_of checkBackend target], v1)
      else if base = ''xtables-legacy-multi'' \<or> base = ''xtables-multi'' then
        (Inl (fw_unknown reasonBackend
          ''iptables uses the legacy backend, whose rules nftables does not show and scheck does not read''), v1)
      else (Inl (fw_unknown reasonBackend (''/usr/sbin/iptables resolves to '' @ target @ '', which scheck does not recognize'')), v1))"

primrec read_steps :: "(view \<Rightarrow> (firewall + excerpt list) \<times> view) list \<Rightarrow> excerpt list \<Rightarrow> view \<Rightarrow> firewall \<times> view" where
  "read_steps [] ex v = (FwNone ex, v)"
| "read_steps (s # ss) ex v =
     (case s v of (Inl fw, v1) \<Rightarrow> (fw, v1) | (Inr seen, v1) \<Rightarrow> read_steps ss (ex @ seen) v1)"

definition readFirewall :: "view \<Rightarrow> firewall \<times> view" where
  "readFirewall v = read_steps [read_ufw, read_firewalld, read_nft, read_backend] [] v"

definition fw_open :: "firewall \<Rightarrow> int \<Rightarrow> string \<Rightarrow> bool \<Rightarrow> answer" where
  "fw_open fw port proto v6 =
     (case fw of
        FwUFW st \<Rightarrow> (walk st port proto v6)\<lparr>a_notChecked := notCheckedUFW\<rparr>
      | FwNone ex \<Rightarrow> (answer_of FilterOpen ex)\<lparr>a_notChecked := notCheckedNone\<rparr>
      | FwUnknown a \<Rightarrow> a)"

section \<open>What reaches a port\<close>

type_synonym fw_reader = "view \<times> firewall option"

record reach =
  rc_open :: "answer option"
  rc_unknown :: "answer option"
  rc_openV4 :: bool
  rc_openV6 :: bool
  rc_filtered :: "excerpt list"
  rc_notChecked :: string
  rc_sources :: "string list"

definition dedupe :: "excerpt list \<Rightarrow> excerpt list" where
  "dedupe ex = foldl add_new [] ex"

definition in_family :: "bool \<Rightarrow> listener \<Rightarrow> bool" where
  "in_family v6 l = (l_known l \<and> (v6 \<and> l_v6 l \<or> \<not> v6 \<and> l_v4 l))"

definition reach_family :: "firewall \<Rightarrow> listener list \<Rightarrow> reach \<Rightarrow> bool \<Rightarrow> reach" where
  "reach_family fw ls rc v6 =
     (if \<not> list_ex (in_family v6) ls then rc
      else
        (let a = fw_open fw (l_port (hd ls)) (l_proto (hd ls)) v6 in
         case a_filter a of
           FilterOpen \<Rightarrow>
             (rc\<lparr>rc_open := (if rc_open rc = None then Some a else rc_open rc)\<rparr>)
               \<lparr>rc_openV6 := (v6 \<or> rc_openV6 rc), rc_openV4 := (\<not> v6 \<or> rc_openV4 rc)\<rparr>
         | FilterUnknown \<Rightarrow> rc\<lparr>rc_unknown := (if rc_unknown rc = None then Some a else rc_unknown rc)\<rparr>
         | FilterFiltered \<Rightarrow>
             rc\<lparr>rc_filtered := rc_filtered rc @ a_excerpts a, rc_notChecked := a_notChecked a,
                rc_sources := foldl add_new (rc_sources rc) (a_sources a)\<rparr>))"

definition empty_reach :: reach where
  "empty_reach = \<lparr>rc_open = None, rc_unknown = None, rc_openV4 = False, rc_openV6 = False, rc_filtered = [],
     rc_notChecked = [], rc_sources = []\<rparr>"

definition reach_of :: "firewall \<Rightarrow> listener list \<Rightarrow> reach" where
  "reach_of fw ls =
     (let rc = reach_family fw ls (reach_family fw ls empty_reach False) True;
          rc1 = (if list_ex (\<lambda>l. \<not> l_known l) ls \<and> rc_unknown rc = None \<and> rc_open rc = None
             then rc\<lparr>rc_unknown := Some (unknown_answer reasonListeners ''a listener's bind address was not recognized'')\<rparr>
             else rc)
      in rc1\<lparr>rc_filtered := dedupe (rc_filtered rc1)\<rparr>)"

definition read_reach :: "fw_reader \<Rightarrow> listener list \<Rightarrow> reach \<times> fw_reader" where
  "read_reach fr ls =
     (case fr of
        (v, Some fw) \<Rightarrow> (reach_of fw ls, fr)
      | (v, None) \<Rightarrow> (let (fw, v1) = readFirewall v in (reach_of fw ls, (v1, Some fw))))"

definition allowedFrom :: "reach \<Rightarrow> string \<Rightarrow> string" where
  "allowedFrom r whom =
     (if rc_sources r = [] then []
      else ''ufw allows this port from '' @ join_with '', '' (rc_sources r) @ ''; whether those addresses are only '' @
        whom @ '' was not judged'')"

definition inOpen :: "reach \<Rightarrow> listener list \<Rightarrow> listener list" where
  "inOpen r ls = filter (\<lambda>l. l_known l \<and> (l_v4 l \<and> rc_openV4 r \<or> l_v6 l \<and> rc_openV6 r)) ls"

end
