(* ===== verification/Host_Rules.thy ===== *)
theory Host_Rules
  imports Host_Firewall
begin

text \<open>
  The multi-fact rules over a host: a database that listens unfiltered (\<open>db.go\<close>), an account without
  a password that SSH lets in (\<open>ssh.go\<close>), a service that listens beyond its declared audience
  (\<open>svc.go\<close>), their table and its validation (\<open>validate.go\<close>), all under
  \<open>internal/engagement/rules\<close>.  A rule takes the view and returns its outcomes with the view after
  its reads.
\<close>

section \<open>R1: databases (db.go)\<close>

definition notCheckedDB :: string where
  "notCheckedDB = ''Whether a cloud firewall or security group blocks it was not assessed; who can sign in to the database (pg_hba.conf, database users and passwords) was not read''"

definition whyInternet :: string where
  "whyInternet = ''You declared it internet-facing; a database open to every address is still reported. Restrict it to the addresses that need it.''"

definition contradiction :: "string \<Rightarrow> attribute" where
  "contradiction key = \<lparr>att_name = ''contradiction'', att_asset = [], att_ref = \<lparr>ref_key = key, ref_observation = [], ref_excerpt = []\<rparr>\<rparr>"

primrec declared_as :: "int \<Rightarrow> string \<Rightarrow> service list \<Rightarrow> attribute list \<times> string" where
  "declared_as port proto [] = ([], [])"
| "declared_as port proto (s # ss) =
     (if svc_port s \<noteq> port \<or> \<not> equal_fold (svc_proto s) proto then declared_as port proto ss
      else if svc_audience s \<in> {''localhost'', ''lan'', ''vpn''} then ([contradiction (svc_key s)], [])
      else if svc_audience s = ''internet'' then ([], whyInternet)
      else declared_as port proto ss)"

definition declared :: "view \<Rightarrow> int \<Rightarrow> string \<Rightarrow> (attribute list \<times> string) \<times> view" where
  "declared v port proto = (let (ss, v1) = view_services v in (declared_as port proto ss, v1))"

text \<open>The databases among the listeners of a port, and the last doubt about the others.\<close>

definition db_step :: "bool \<Rightarrow> listener list \<times> string \<times> string \<Rightarrow> listener \<Rightarrow> listener list \<times> string \<times> string" where
  "db_step table st l = (case st of (dbs, doubt) \<Rightarrow>
     (if isDatabase (l_process l) (l_port l) then (dbs @ [l], doubt)
      else if fst (ownerDoubt l) \<noteq> [] \<and> table then (dbs, ownerDoubt l)
      else if table \<and> l_process l = [] then
        (dbs, reasonListenerOwner, ''the owner of this port is not shown to a read without sudo, and it is a database's usual port'')
      else st))"

definition db_scan :: "port_group \<Rightarrow> listener list \<Rightarrow> listener list \<times> string \<times> string" where
  "db_scan g ls = foldl (db_step (g_port g \<in> set tablePorts)) ([], [], []) ls"

definition service_subject :: "string \<Rightarrow> string \<Rightarrow> subject" where
  "service_subject key label = zero_subject\<lparr>sub_kind := ''service'', sub_key := key, sub_label := label\<rparr>"

definition db_outcome :: "fw_reader \<Rightarrow> port_group \<Rightarrow> outcome \<Rightarrow> listener list \<Rightarrow> string \<times> string \<Rightarrow> outcome \<times> fw_reader" where
  "db_outcome fr g o0 dbs doubt =
     (let (r, (v, fw)) = read_reach fr dbs;
          o1 = o0\<lparr>o_notChecked := [notCheckedDB]\<rparr>
      in case rc_open r of
           Some a \<Rightarrow>
             (let ((attrs, why), v1) = declared v (g_port g) (g_proto g)
              in (o1\<lparr>o_verdict := Fired, o_excerpts := o_excerpts o1 @ a_excerpts a,
                     o_notChecked := o_notChecked o1 @ [a_notChecked a], o_attributes := attrs, o_why := why\<rparr>, (v1, fw)))
         | None \<Rightarrow>
             (case rc_unknown r of
                Some a \<Rightarrow>
                  (o1\<lparr>o_verdict := Abstained, o_reason := a_reason a, o_notChecked := [a_detail a, notCheckedDB]\<rparr>, (v, fw))
              | None \<Rightarrow>
                  if fst doubt \<noteq> [] then
                    (o1\<lparr>o_verdict := Abstained, o_reason := fst doubt, o_notChecked := [snd doubt, notCheckedDB]\<rparr>, (v, fw))
                  else
                    (o1\<lparr>o_verdict := Disproved, o_excerpts := o_excerpts o1 @ rc_filtered r,
                        o_notChecked := o_notChecked o1 @ (if rc_notChecked r \<noteq> [] then [rc_notChecked r] else []) @
                          (let line = allowedFrom r ''the ones that need it'' in if line \<noteq> [] then [line] else [])\<rparr>, (v, fw))))"

definition dbSubject :: "fw_reader \<Rightarrow> port_group \<Rightarrow> outcome option \<times> fw_reader" where
  "dbSubject fr g =
     (let grp = beyond g; (dbs, doubt) = db_scan g grp;
          subject = service_subject (group_key g) (if dbs \<noteq> [] then l_process (hd dbs) else group_key g);
          o0 = zero_outcome\<lparr>o_subject := subject, o_excerpts := [cited grp]\<rparr>
      in if dbs = [] \<and> fst doubt = [] then (None, fr)
         else if dbs = [] then
           (Some (o0\<lparr>o_verdict := Abstained, o_reason := fst doubt, o_notChecked := [snd doubt]\<rparr>), fr)
         else (let (o', fr') = db_outcome fr g o0 dbs doubt in (Some o', fr')))"

primrec db_groups :: "fw_reader \<Rightarrow> port_group list \<Rightarrow> outcome list \<times> fw_reader" where
  "db_groups fr [] = ([], fr)"
| "db_groups fr (g # gs) =
     (if beyond g = [] then db_groups fr gs
      else
        (let (o', fr1) = dbSubject fr g; (os, fr2) = db_groups fr1 gs
         in (case o' of None \<Rightarrow> os | Some x \<Rightarrow> x # os, fr2)))"

definition ownersHidden :: string where
  "ownersHidden = ''some listeners' owners are not shown to a read without sudo, so a database on another port could not be ruled out''"

definition dbListensUnfiltered :: "view \<Rightarrow> outcome list \<times> view" where
  "dbListensUnfiltered v =
     (case readListening v of
        (Inl abstain, v1) \<Rightarrow> ([abstain], v1)
      | (Inr l, v1) \<Rightarrow>
          (let (out, (v2, _)) = db_groups (v1, None) (ln_groups l)
           in (if \<not> ln_complete l then
                 out @ [zero_outcome\<lparr>o_verdict := Abstained, o_reason := reasonListenerOwner, o_incomplete := True,
                   o_notChecked := [ownersHidden]\<rparr>]
               else if out = [] then
                 [zero_outcome\<lparr>o_verdict := Disproved,
                   o_excerpts := [excerpt_of checkListeners ''no database in scheck's list listens beyond localhost'']\<rparr>]
               else out, v2)))"

section \<open>R2: accounts without a password over SSH (ssh.go)\<close>

definition checkPasswdStatus :: string where "checkPasswdStatus = ''accounts.passwd_status''"
definition checkPasswd :: string where "checkPasswd = ''accounts.passwd''"
definition checkSSHD :: string where "checkSSHD = ''sshd.config''"
definition reasonAccounts :: string where "reasonAccounts = ''unavailable:accounts''"
definition reasonSSHConfig :: string where "reasonSSHConfig = ''unavailable:sshd_config''"
definition reasonSSHListens :: string where "reasonSSHListens = ''unavailable:sshd_listener''"

definition notCheckedSSH :: string where
  "notCheckedSSH = ''Settings inside Match blocks of sshd_config were not read, and whether PAM accepts an empty password (pam_unix nullok, on by default on Debian, Ubuntu and Fedora) was not read''"

datatype condition = Holds excerpt | Disproves excerpt | Unknown string string

definition no_excerpt :: excerpt where "no_excerpt = excerpt_of [] []"

definition emptyAllowed :: "row \<Rightarrow> condition" where
  "emptyAllowed kv =
     (let v = field kv ''permitemptypasswords'' in
      if v = ''yes'' then Holds no_excerpt
      else if v = ''no'' then Disproves (excerpt_of checkSSHD ''permitemptypasswords no'')
      else Unknown reasonSSHConfig ''sshd's permitemptypasswords value was not recognized'')"

definition passwordMethod :: "row \<Rightarrow> condition" where
  "passwordMethod kv =
     (let kbdKey = (if map_of kv ''kbdinteractiveauthentication'' = None then ''challengeresponseauthentication''
            else ''kbdinteractiveauthentication'');
          pa = field kv ''passwordauthentication''; kbd = field kv kbdKey; pam = field kv ''usepam''
      in if list_ex (\<lambda>v. v \<noteq> ''yes'' \<and> v \<noteq> ''no'') [pa, kbd, pam] then
           Unknown reasonSSHConfig ''sshd's password, keyboard-interactive or PAM setting was not recognized''
         else if pa = ''yes'' then Holds (excerpt_of checkSSHD ''passwordauthentication yes'')
         else if kbd = ''yes'' \<and> pam = ''yes'' then Holds (excerpt_of checkSSHD (kbdKey @ '' yes; usepam yes''))
         else Disproves (excerpt_of checkSSHD (''passwordauthentication '' @ pa @ ''; '' @ kbdKey @ '' '' @ kbd @ ''; usepam '' @ pam)))"

definition methods :: "row \<Rightarrow> condition" where
  "methods kv =
     (let v = field kv ''authenticationmethods'' in
      if v = ''any'' then Holds no_excerpt
      else if v = [] then Unknown reasonSSHConfig ''sshd's authenticationmethods setting was not shown''
      else if list_ex (\<lambda>alt. ''publickey'' \<notin> set (split_on CHR '','' alt)) (str_fields v) then
        Unknown reasonSSHConfig (''sshd requires authentication methods ('' @ v @ '') this version of scheck does not judge'')
      else Disproves (excerpt_of checkSSHD (''authenticationmethods '' @ v)))"

definition user_lists :: "string list" where
  "user_lists = [''allowusers'', ''denyusers'', ''allowgroups'', ''denygroups'']"

definition lists :: "row \<Rightarrow> condition" where
  "lists kv =
     (case List.find (\<lambda>k. map_of kv k \<noteq> None) user_lists of
        Some k \<Rightarrow> Unknown reasonSSHConfig
          (''sshd limits who may sign in ('' @ k @ ''), and this version of scheck does not compare it with the accounts'')
      | None \<Rightarrow> Holds no_excerpt)"

definition ssh_ports :: "row \<Rightarrow> int list" where
  "ssh_ports kv =
     (case atoi (field kv ''port'') of Some p \<Rightarrow> [p] | None \<Rightarrow> []) @
     (case last_index (field kv ''listenaddress'') '':'' of
        None \<Rightarrow> []
      | Some i \<Rightarrow> (case atoi (drop (Suc i) (field kv ''listenaddress'')) of Some n \<Rightarrow> [n] | None \<Rightarrow> []))"

definition ssh_listener :: "int list \<Rightarrow> listener \<Rightarrow> bool" where
  "ssh_listener ps l =
     (\<not> l_loopback l \<and> l_proto l = ''tcp'' \<and> l_known l \<and>
      (l_process l = ''sshd'' \<or> l_port l \<in> set ps \<and> l_process l \<in> {''systemd'', []}))"

text \<open>A listener beyond loopback that may be sshd all the same.\<close>

definition maybe_ssh :: "listener \<Rightarrow> bool" where
  "maybe_ssh l =
     (\<not> l_loopback l \<and> l_proto l = ''tcp'' \<and> (\<not> l_known l \<or> l_process l \<in> {[], ''systemd'', ''inetd'', ''xinetd''}))"

definition sshListens :: "view \<Rightarrow> row \<Rightarrow> condition \<times> view" where
  "sshListens v kv =
     (let (f, why, v1) = view_fact v checkListeners in
      (case (why, fact_parsed f) of
         ([], Some (PRecords recs)) \<Rightarrow>
           (let (ls, portsOK) = listeners recs in
            case List.find (ssh_listener (ssh_ports kv)) ls of
              Some l \<Rightarrow> Holds (excerpt_of checkListeners (listener_excerpt l))
            | None \<Rightarrow>
                if fact_partial f \<or> \<not> portsOK \<or> list_ex maybe_ssh ls then
                  Unknown reasonSSHListens ''whether sshd listens beyond this host could not be established''
                else Disproves (excerpt_of checkListeners ''sshd listens on no address beyond localhost''))
       | _ \<Rightarrow> Unknown reasonSSHListens (''the listening sockets could not be read ('' @ why @ '')''), v1))"

definition orNone :: "string \<Rightarrow> string \<Rightarrow> string" where
  "orNone s none = (if s = [] then none else s)"

text \<open>Which accounts sshd lets in: those that fire, those left undecided, and whether root's setting is the reason.\<close>

definition root_step :: "string \<Rightarrow> account_outcome list \<times> string list \<times> bool \<Rightarrow> account_outcome \<Rightarrow>
    account_outcome list \<times> string list \<times> bool" where
  "root_step permit st a = (case st of (fired, undecided, rootUnknown) \<Rightarrow>
     (if ao_uid a \<noteq> ''0'' \<and> ao_uid a \<noteq> [] \<or> permit = ''yes'' then (fired @ [a], undecided, rootUnknown)
      else if permit \<in> {''no'', ''prohibit-password'', ''without-password'', ''forced-commands-only''} then
        (if ao_uid a = [] then (fired, undecided @ [ao_account a @ '' (uid not read)''], True) else st)
      else (fired, undecided @ [ao_account a @ '' (permitrootlogin '' @ permit @ '' not recognized)''], True)))"

definition ssh_abstain :: "string \<Rightarrow> string \<Rightarrow> outcome list" where
  "ssh_abstain reason detail =
     [zero_outcome\<lparr>o_verdict := Abstained, o_reason := reason, o_notChecked := [detail, notCheckedSSH]\<rparr>]"

definition ssh_disproved :: "excerpt \<Rightarrow> outcome list" where
  "ssh_disproved e = [zero_outcome\<lparr>o_verdict := Disproved, o_excerpts := [e], o_notChecked := [notCheckedSSH]\<rparr>]"

definition cond_excerpt :: "condition \<Rightarrow> excerpt" where
  "cond_excerpt c = (case c of Holds e \<Rightarrow> e | Disproves e \<Rightarrow> e | Unknown _ _ \<Rightarrow> no_excerpt)"

text \<open>The verdict once every condition holds.\<close>

definition ssh_fired :: "row \<Rightarrow> bool \<Rightarrow> condition list \<Rightarrow> account_outcome list \<Rightarrow> string list \<Rightarrow> outcome" where
  "ssh_fired kv partial conds fired undecided =
     (let settings = [''permitemptypasswords yes'', ex_text (cond_excerpt (conds ! 1)),
            ''authenticationmethods '' @ field kv ''authenticationmethods''] @
            (if list_ex (\<lambda>a. ao_uid a \<in> {''0'', []}) fired then [''permitrootlogin yes''] else []);
          cut = (undecided \<noteq> [] \<or> partial)
      in zero_outcome\<lparr>o_verdict := Fired, o_incomplete := cut,
           o_notChecked := [notCheckedSSH] @
             (if cut then [''Other accounts were not decided'' @ (if undecided \<noteq> [] then '': '' @ join_with '', '' undecided else [])]
              else []),
           o_listed := map ao_account fired,
           o_excerpts := [excerpt_of checkPasswdStatus (join_with ''; '' (map ao_excerpt fired)),
             excerpt_of checkPasswd (join_with ''; '' (map ao_withExcerpt fired)),
             excerpt_of checkSSHD (join_with ''; '' settings), cond_excerpt (conds ! 4)]\<rparr>)"

definition ssh_decide :: "row \<Rightarrow> bool \<Rightarrow> condition list \<Rightarrow> account_outcome list \<Rightarrow> outcome list" where
  "ssh_decide kv partial conds accounts =
     (let undecided0 = map (\<lambda>a. ao_account a @ '' ('' @ ao_reason a @ '')'') (filter (\<lambda>a. ao_status a = NotAssessed) accounts);
          (fired, undecided, rootUnknown) =
            foldl (root_step (field kv ''permitrootlogin'')) ([], undecided0, False)
              (filter (\<lambda>a. ao_status a = Matched) accounts)
      in if fired \<noteq> [] then [ssh_fired kv partial conds fired undecided]
         else if rootUnknown then
           ssh_abstain reasonSSHConfig (''whether sshd lets these accounts in was not established: '' @ join_with '', '' undecided)
         else if undecided \<noteq> [] then
           ssh_abstain reasonAccounts
             (''whether these accounts have an empty password and can log in was not established: '' @ join_with '', '' undecided)
         else ssh_disproved (excerpt_of checkSSHD (''permitrootlogin '' @ field kv ''permitrootlogin'')))"

definition ssh_conditions :: "row \<Rightarrow> bool \<Rightarrow> account_outcome list \<Rightarrow> condition list \<Rightarrow> outcome list" where
  "ssh_conditions kv partial accounts conds =
     (case List.find (\<lambda>c. case c of Disproves _ \<Rightarrow> True | _ \<Rightarrow> False) conds of
        Some c \<Rightarrow> ssh_disproved (cond_excerpt c)
      | None \<Rightarrow>
          (case List.find (\<lambda>c. case c of Unknown _ _ \<Rightarrow> True | _ \<Rightarrow> False) conds of
             Some (Unknown reason detail) \<Rightarrow> ssh_abstain reason detail
           | _ \<Rightarrow> ssh_decide kv partial conds accounts))"

definition password_join :: "parsed option \<Rightarrow> parsed option \<Rightarrow> string \<Rightarrow> join_outcome" where
  "password_join ps pw whyPasswd =
     (case DecideJoin IDEmptyPassword ps pw of
        None \<Rightarrow> \<lparr>jo_accounts = [], jo_verdict = notAssessed []\<rparr>
      | Some j \<Rightarrow>
          if v_reason (jo_verdict j) = ReasonWithUnread \<and> whyPasswd \<noteq> []
          then j\<lparr>jo_verdict := (jo_verdict j)\<lparr>v_reason := whyPasswd\<rparr>\<rparr> else j)"

definition ssh_settings :: "view \<Rightarrow> bool \<Rightarrow> account_outcome list \<Rightarrow> outcome list \<times> view" where
  "ssh_settings v partial accounts =
     (let (cfg, why, v1) = view_fact v checkSSHD in
      case (why, fact_parsed cfg) of
        ([], Some (PKV kv)) \<Rightarrow>
          if fact_partial cfg then
            (ssh_abstain reasonSSHConfig
              ''sshd's effective settings were cut short, so a user or group list after the cut could not be ruled out'', v1)
          else if field kv ''permitemptypasswords'' = [] \<or> field kv ''port'' = [] then
            (ssh_abstain reasonSSHConfig ''sshd's effective settings were not recognized'', v1)
          else
            (let (listens, v2) = sshListens v1 kv
             in (ssh_conditions kv partial accounts [emptyAllowed kv, passwordMethod kv, methods kv, lists kv, listens], v2))
      | _ \<Rightarrow> (ssh_abstain reasonSSHConfig (''sshd's effective settings could not be read ('' @ why @ '')''), v1))"

definition emptyPasswordRemote :: "view \<Rightarrow> outcome list \<times> view" where
  "emptyPasswordRemote v =
     (let (ps, why, v1) = view_fact v checkPasswdStatus in
      if why \<noteq> [] then
        (ssh_abstain reasonAccounts (''the account password states could not be read ('' @ why @ '')''), v1)
      else
        (let (pw, whyPasswd, v2) = view_fact v1 checkPasswd;
             join = password_join (fact_parsed ps) (fact_parsed pw) whyPasswd
         in if v_status (jo_verdict join) = NotMatched then
              (ssh_disproved (excerpt_of checkPasswdStatus
                (orNone (v_excerpt (jo_verdict join)) ''no account with an empty password and a login shell'')), v2)
            else if \<not> list_ex (\<lambda>a. ao_status a = Matched) (jo_accounts join) then
              (ssh_abstain reasonAccounts
                (''whether an account with an empty password can log in was not established ('' @ v_reason (jo_verdict join) @ '')''), v2)
            else ssh_settings v2 (fact_partial ps) (jo_accounts join)))"

section \<open>R3: services beyond their audience (svc.go)\<close>

definition reasonAudience :: string where "reasonAudience = ''unavailable:audience''"
definition reasonAudienceNetwork :: string where "reasonAudienceNetwork = ''unavailable:audience_network''"
definition reasonBindNetwork :: string where "reasonBindNetwork = ''unavailable:bind_network''"
definition reasonNoDeclaration :: string where "reasonNoDeclaration = ''unavailable:no_declaration''"

definition notCheckedSvc :: string where
  "notCheckedSvc = ''Whether a cloud firewall or security group blocks it was not assessed; whether the service asks for a password or key was not read''"

definition subjectKey :: "service \<Rightarrow> string" where
  "subjectKey s = port_key (svc_port s) (to_lower (svc_proto s))"

definition r1Owns :: "port_group \<Rightarrow> bool" where
  "r1Owns g =
     list_ex (\<lambda>l. isDatabase (l_process l) (l_port l) \<or>
         g_port g \<in> set tablePorts \<and> (l_process l = [] \<or> fst (ownerDoubt l) \<noteq> [])) (beyond g)"

definition wildcard :: "listener \<Rightarrow> bool" where
  "wildcard l = (l_address l = ''*'' \<or> l_address l = ''0.0.0.0'' \<or> l_address l = ''::'')"

definition carrier_nat :: net_prefix where "carrier_nat = prefix_from (V4 0x64400000) 10"

definition global_bind :: "listener \<Rightarrow> bool" where
  "global_bind l =
     (case parse_addr (fst (str_cut (l_address l) ''%'')) of
        None \<Rightarrow> False
      | Some a \<Rightarrow>
          (let u = unmap a in is_global_unicast u \<and> \<not> is_private u \<and> \<not> pfx_contains carrier_nat u))"

definition container_runtime :: "string \<Rightarrow> string option" where
  "container_runtime p = map_of [(''docker-proxy'', ''Docker''), (''conmon'', ''Podman'')] p"

definition published_detail :: "service \<Rightarrow> port_group \<Rightarrow> listener \<Rightarrow> string" where
  "published_detail s g l =
     (case container_runtime (l_process l) of
        None \<Rightarrow> snd (ownerDoubt l)
      | Some rt \<Rightarrow>
          rt @ '' publishes '' @ group_key g @ '' on '' @ l_address l @ '', though you declared it for '' @ svc_audience s @
          '' only; '' @ rt @ '''s rules bypass ufw and firewalld, and scheck does not read them in this version. '' @
          ''If only this host needs it, publish it on 127.0.0.1 (-p 127.0.0.1:'' @ show_int (g_port g) @ '':'' @ show_int (g_port g) @ '').'')"

text \<open>A declared audience the rule can judge.\<close>

definition closed_audience :: "string \<Rightarrow> bool" where
  "closed_audience a = (a = ''localhost'' \<or> a = ''lan'' \<or> a = ''vpn'')"

definition why_fired :: "service \<Rightarrow> string \<Rightarrow> listener list \<Rightarrow> string" where
  "why_fired s exposure opened =
     (if svc_audience s = ''localhost'' \<and> exposure = ''internet'' then
        ''You declared it for this host only, and the host is internet-facing: unless a cloud firewall blocks it, anyone can connect to it.''
      else if svc_audience s = ''localhost'' then
        ''You declared it for this host only; machines on the networks this host is on can connect to it.''
      else if list_ex wildcard opened then
        ''You declared it for your '' @ svc_audience s @ '' only, but it listens on every address of an internet-facing host and the host firewall lets any address in.''
      else
        ''You declared it for your '' @ svc_audience s @ '' only, but it listens on a public address of an internet-facing host and the host firewall lets any address in.'')"

definition abstain_svc :: "outcome \<Rightarrow> string \<Rightarrow> string \<Rightarrow> outcome" where
  "abstain_svc o' reason detail = o'\<lparr>o_verdict := Abstained, o_reason := reason, o_notChecked := [detail, notCheckedSvc]\<rparr>"

text \<open>The verdict once the firewall's answer is known.\<close>

definition judge_reach :: "service \<Rightarrow> string \<Rightarrow> outcome \<Rightarrow> listener list \<Rightarrow> reach \<Rightarrow> outcome" where
  "judge_reach s exposure o' bs r =
     (case rc_open r of
        None \<Rightarrow>
          (case rc_unknown r of
             Some a \<Rightarrow> abstain_svc o' (a_reason a) (a_detail a)
           | None \<Rightarrow>
               o'\<lparr>o_verdict := Disproved, o_excerpts := o_excerpts o' @ rc_filtered r,
                  o_notChecked := o_notChecked o' @ (if rc_notChecked r \<noteq> [] then [rc_notChecked r] else []) @
                    (let line = allowedFrom r (''your '' @ svc_audience s) in if line \<noteq> [] then [line] else [])\<rparr>)
      | Some a \<Rightarrow>
          (let opened = inOpen r bs in
           if svc_audience s \<noteq> ''localhost'' \<and> exposure \<noteq> ''internet'' then
             abstain_svc o' reasonAudienceNetwork
               (''you declared it for your '' @ svc_audience s @
                ''; on a host not declared internet-facing, scheck cannot tell which networks its addresses face'')
           else if svc_audience s \<noteq> ''localhost'' \<and> opened \<noteq> [] \<and> \<not> list_ex (\<lambda>l. wildcard l \<or> global_bind l) opened then
             abstain_svc o' reasonBindNetwork
               (''bound to '' @ l_address (hd opened) @
                '', a private address; on a cloud VM a public address can forward to it, and scheck did not read the cloud firewall'')
           else
             o'\<lparr>o_verdict := Fired, o_excerpts := o_excerpts o' @ a_excerpts a,
                o_notChecked := o_notChecked o' @ [a_notChecked a], o_attributes := [contradiction (svc_key s)],
                o_why := why_fired s exposure opened\<rparr>))"

definition judgeService :: "fw_reader \<Rightarrow> service \<Rightarrow> subject \<Rightarrow> port_group \<Rightarrow> string \<Rightarrow> outcome \<times> fw_reader" where
  "judgeService fr s subject0 g exposure =
     (let bs = beyond g;
          subject = (case List.find (\<lambda>l. l_process l \<noteq> []) bs of
             Some l \<Rightarrow> subject0\<lparr>sub_label := l_process l\<rparr> | None \<Rightarrow> subject0);
          o0 = zero_outcome\<lparr>o_subject := subject, o_notChecked := [notCheckedSvc]\<rparr>
      in if \<not> closed_audience (svc_audience s) then
           (abstain_svc o0 reasonAudience (svc_audience s @ '' is not an audience a service can have''), fr)
         else if bs = [] then
           (o0\<lparr>o_verdict := Disproved,
               o_excerpts := [excerpt_of checkListeners (''listens only on loopback ('' @ ex_text (cited (g_all g)) @ '')'')]\<rparr>, fr)
         else
           (let o1 = o0\<lparr>o_excerpts := [cited bs]\<rparr> in
            case List.find (\<lambda>l. fst (ownerDoubt l) \<noteq> []) bs of
              Some l \<Rightarrow> (abstain_svc o1 (fst (ownerDoubt l)) (published_detail s g l), fr)
            | None \<Rightarrow> (let (r, fr1) = read_reach fr bs in (judge_reach s exposure o1 bs r, fr1))))"

definition portUnread :: string where
  "portUnread = ''a listening socket's port could not be read, so whether this service listens could not be established''"

text \<open>One declared service.\<close>

definition svc_one :: "fw_reader \<Rightarrow> outcome + listening \<Rightarrow> string \<Rightarrow> service \<Rightarrow> outcome option \<times> fw_reader" where
  "svc_one fr l exposure s =
     (let subject = service_subject (subjectKey s) (if svc_purpose s \<noteq> [] then svc_purpose s else subjectKey s) in
      case l of
        Inl unread \<Rightarrow> (Some (unread\<lparr>o_subject := subject\<rparr>), fr)
      | Inr ln \<Rightarrow>
          (let g = listening_at ln (svc_port s) (svc_proto s) in
           if \<not> ln_portsOK ln \<and> (case g of None \<Rightarrow> True | Some x \<Rightarrow> beyond x = []) then
             (Some (zero_outcome\<lparr>o_subject := subject, o_verdict := Abstained, o_reason := reasonListeners,
                o_incomplete := True, o_notChecked := [portUnread, notCheckedSvc]\<rparr>), fr)
           else
             (case g of
                None \<Rightarrow> (None, fr)
              | Some x \<Rightarrow>
                  if r1Owns x then (None, fr)
                  else (let (out, fr') = judgeService fr s subject x exposure in (Some out, fr')))))"

primrec svc_each :: "fw_reader \<Rightarrow> outcome + listening \<Rightarrow> string \<Rightarrow> service list \<Rightarrow> outcome list \<times> fw_reader" where
  "svc_each fr l exposure [] = ([], fr)"
| "svc_each fr l exposure (s # ss) =
     (let (o', fr1) = svc_one fr l exposure s; (os, fr2) = svc_each fr1 l exposure ss
      in (case o' of None \<Rightarrow> os | Some x \<Rightarrow> x # os, fr2))"

definition listensBeyondDeclared :: "view \<Rightarrow> outcome list \<times> view" where
  "listensBeyondDeclared v =
     (let (services, v1) = view_services v;
          ds = filter (\<lambda>s. svc_audience s \<noteq> ''internet'' \<and> svc_audience s \<noteq> []) services
      in if ds = [] then
           ([zero_outcome\<lparr>o_verdict := Abstained, o_reason := reasonNoDeclaration,
              o_notChecked := [''no service on this host is declared for localhost, lan or vpn (expected_services); scheck judges a service's reach only against what you declared'']\<rparr>], v1)
         else
           (let (l, v2) = readListening v1; (exposure, v3) = view_exposure v2;
                (out, (v4, _)) = svc_each (v3, None) l exposure ds
            in (if out = [] then
                  [zero_outcome\<lparr>o_verdict := Disproved, o_excerpts := [excerpt_of checkListeners
                    ''no service declared for localhost, lan or vpn listens here, other than on database ports R1 judges'']\<rparr>]
                else out, v4)))"

section \<open>The table and its validation (validate.go)\<close>

definition IDEmptyPasswordRemote :: string where "IDEmptyPasswordRemote = ''accounts.empty_password_remote''"
definition DomainFirewall :: string where "DomainFirewall = ''firewall''"
definition DomainSSHD :: string where "DomainSSHD = ''sshd''"

definition read_declared :: "string \<Rightarrow> read" where
  "read_declared name = \<lparr>rd_kind = ReadDeclared, rd_name = name\<rparr>"

definition rule_db :: host_rule where
  "rule_db = \<lparr>hr_id = IDDBListensUnfiltered, hr_platform = platform_linux,
     hr_reads = [read_check checkListeners, read_declared DeclaredServices] @ firewallReads,
     hr_judge = dbListensUnfiltered, hr_group = ''Databases listening beyond localhost'',
     hr_unbuilt = ''this version of scheck has no rule for databases on this platform'',
     hr_incomplete = \<lparr>cr_reason = reasonListenerOwner, cr_detail = ownersHidden\<rparr>,
     hr_hostDomain = DomainFirewall, hr_hostJudges = ''whether database ports are filtered only; see Data stores''\<rparr>"

definition rule_ssh :: host_rule where
  "rule_ssh = \<lparr>hr_id = IDEmptyPasswordRemote, hr_platform = platform_linux,
     hr_reads = map read_check [checkPasswdStatus, checkPasswd, checkSSHD, checkListeners],
     hr_judge = emptyPasswordRemote, hr_group = ''Accounts with no password that SSH lets in'',
     hr_unbuilt = ''this version of scheck has no rule for it on this platform'',
     hr_incomplete = \<lparr>cr_reason = reasonSSHListens, cr_detail = ''whether sshd listens beyond this host could not be read''\<rparr>,
     hr_hostDomain = DomainSSHD, hr_hostJudges = []\<rparr>"

definition rule_svc :: host_rule where
  "rule_svc = \<lparr>hr_id = IDSvcListensBeyond, hr_platform = platform_linux,
     hr_reads = [read_check checkListeners, read_declared DeclaredServices, read_declared DeclaredExposure] @ firewallReads,
     hr_judge = listensBeyondDeclared, hr_group = ''Declared services listening beyond their audience'',
     hr_unbuilt = ''this version of scheck has no rule for declared services on this platform'',
     hr_incomplete = \<lparr>cr_reason = reasonListeners, cr_detail = ''the listening sockets could not be read in full''\<rparr>,
     hr_hostDomain = DomainFirewall,
     hr_hostJudges = ''whether declared services listen beyond their audience only; see External surface''\<rparr>"

definition registry :: "host_rule list" where
  "registry = [rule_db, rule_ssh, rule_svc]"

datatype rule_problem =
    NoDefinition | NotMultiFact | ListedTwice | ReadsNothing | NoWording
  | CheckNotInCatalog string platform | NoSuchDeclaration string | BadReadKind string | DeclaredTwice string string

definition read_problems :: "catalog \<Rightarrow> platform \<Rightarrow> read \<Rightarrow> rule_problem list" where
  "read_problems cat p r =
     (if rd_kind r = ReadCheck then (if lookup cat (rd_name r) p = None then [CheckNotInCatalog (rd_name r) p] else [])
      else if rd_kind r = ReadDeclared then
        (if rd_name r \<noteq> DeclaredServices \<and> rd_name r \<noteq> DeclaredExposure then [NoSuchDeclaration (rd_name r)] else [])
      else [BadReadKind (rd_kind r)])"

primrec repeated_reads :: "read list \<Rightarrow> rule_problem list" where
  "repeated_reads [] = []"
| "repeated_reads (r # rs) = (if r \<in> set rs then [DeclaredTwice (rd_kind r) (rd_name r)] else []) @ repeated_reads rs"

definition rule_problems :: "def list \<Rightarrow> catalog \<Rightarrow> string list \<Rightarrow> host_rule \<Rightarrow> rule_problem list" where
  "rule_problems defs cat seen r =
     (case def_lookup defs (hr_id r) of
        None \<Rightarrow> [NoDefinition]
      | Some d \<Rightarrow> if \<not> def_multiFact d then [NotMultiFact] else []) @
     (if hr_id r \<in> set seen then [ListedTwice] else []) @
     (if hr_reads r = [] then [ReadsNothing] else []) @
     (if hr_group r = [] \<or> hr_unbuilt r = [] \<or> cr_reason (hr_incomplete r) = [] then [NoWording] else []) @
     concat (map (read_problems cat (hr_platform r)) (hr_reads r)) @
     repeated_reads (hr_reads r)"

primrec validate_rules :: "def list \<Rightarrow> catalog \<Rightarrow> string list \<Rightarrow> host_rule list \<Rightarrow> (string \<times> rule_problem) list" where
  "validate_rules defs cat seen [] = []"
| "validate_rules defs cat seen (r # rs) =
     map (\<lambda>p. (hr_id r, p)) (rule_problems defs cat seen r) @ validate_rules defs cat (hr_id r # seen) rs"

definition Validate :: "def list \<Rightarrow> catalog \<Rightarrow> host_rule list \<Rightarrow> (string \<times> rule_problem) list" where
  "Validate defs cat rs = validate_rules defs cat [] rs"

end
