(* ===== verification/Finding_Defs.thy ===== *)
theory Finding_Defs
  imports Finding_Store Host_Rules
begin

text \<open>
  The compiled-in definitions of every finding: \<open>defs\<close> and \<open>judgementDefs\<close> of
  \<open>internal/finding/catalog.go\<close>, and the tables of \<open>multifact.go\<close>, \<open>web.go\<close> and \<open>github*.go\<close>, and those the
  workspace collector registers.  A text is its bytes, so a character beyond ASCII is written byte by
  byte; the maps of the source are lists in the source's order.
\<close>

section \<open>Ids and categories\<close>

definition CategoryDNS :: string where "CategoryDNS = ''dns''"
definition CategoryEmail :: string where "CategoryEmail = ''email''"
definition IDUnexpectedListener :: string where "IDUnexpectedListener = ''net.unexpected_listener''"
definition IDNoFirewallActive :: string where "IDNoFirewallActive = ''fw.no_firewall_active''"
definition IDSudoNopasswdBroad :: string where "IDSudoNopasswdBroad = ''privesc.sudo_nopasswd_broad''"
definition IDUnexpectedSUID :: string where "IDUnexpectedSUID = ''fs.suid_unexpected''"
definition IDUnexpectedPersist :: string where "IDUnexpectedPersist = ''persist.unexpected_entry''"
definition IDUnexpectedAdmin :: string where "IDUnexpectedAdmin = ''accounts.unexpected_admin''"
definition IDPasswordAuthExposed :: string where "IDPasswordAuthExposed = ''sshd.password_auth_exposed''"
definition IDTLSCertificateInvalid :: string where "IDTLSCertificateInvalid = ''tls.certificate_invalid''"
definition IDTLSCertificateExpiring :: string where "IDTLSCertificateExpiring = ''tls.certificate_expiring''"
definition IDTLSLegacyOnly :: string where "IDTLSLegacyOnly = ''tls.legacy_only''"
definition IDWebRestrictedReachable :: string where "IDWebRestrictedReachable = ''web.restricted_reachable''"
definition IDWebHSTSMissing :: string where "IDWebHSTSMissing = ''web.hsts_missing''"
definition IDWebPlaintextHTTP :: string where "IDWebPlaintextHTTP = ''web.plaintext_http''"
definition IDWebPlaintextHTTPClients :: string where "IDWebPlaintextHTTPClients = ''web.plaintext_http_clients''"
definition IDWebSessionCookieFlags :: string where "IDWebSessionCookieFlags = ''web.session_cookie_flags''"
definition IDWebSecurityHeaders :: string where "IDWebSecurityHeaders = ''web.security_headers''"
definition IDWebVersionDisclosed :: string where "IDWebVersionDisclosed = ''web.version_disclosed''"
definition IDWebSecretInResponse :: string where "IDWebSecretInResponse = ''web.secret_in_response''"
definition IDWebSecurityTXT :: string where "IDWebSecurityTXT = ''web.security_txt''"
definition IDEmailDMARCNotEnforced :: string where "IDEmailDMARCNotEnforced = ''email.dmarc_not_enforced''"
definition IDEmailDMARCPartial :: string where "IDEmailDMARCPartial = ''email.dmarc_partial''"
definition IDEmailDMARCSubdomainsOpen :: string where "IDEmailDMARCSubdomainsOpen = ''email.dmarc_subdomains_open''"
definition IDEmailNoMailSpoofable :: string where "IDEmailNoMailSpoofable = ''email.no_mail_spoofable''"
definition IDEmailSPFPermitsAnyone :: string where "IDEmailSPFPermitsAnyone = ''email.spf_permits_anyone''"
definition IDEmailSPFMissing :: string where "IDEmailSPFMissing = ''email.spf_missing''"
definition IDEmailSPFInvalid :: string where "IDEmailSPFInvalid = ''email.spf_invalid''"
definition IDEmailSPFUndeclaredSender :: string where "IDEmailSPFUndeclaredSender = ''email.spf_undeclared_sender''"
definition IDEmailDKIMMissing :: string where "IDEmailDKIMMissing = ''email.dkim_missing''"
definition IDEmailDKIMKeyBreakable :: string where "IDEmailDKIMKeyBreakable = ''email.dkim_key_breakable''"
definition IDEmailDKIMKey1024 :: string where "IDEmailDKIMKey1024 = ''email.dkim_key_1024''"
definition IDDNSTakeoverCandidate :: string where "IDDNSTakeoverCandidate = ''dns.takeover_candidate''"
definition IDDNSUnclaimedAtProvider :: string where "IDDNSUnclaimedAtProvider = ''dns.unclaimed_at_provider''"
definition IDDNSDanglingExternal :: string where "IDDNSDanglingExternal = ''dns.dangling_external''"
definition IDDNSDanglingInternal :: string where "IDDNSDanglingInternal = ''dns.dangling_internal''"
definition IDDNSPrivateAddress :: string where "IDDNSPrivateAddress = ''dns.private_address''"
definition IDGitHubMFANotRequired :: string where "IDGitHubMFANotRequired = ''github.mfa_not_required''"
definition IDGitHubOwnerWithoutMFA :: string where "IDGitHubOwnerWithoutMFA = ''github.owner_without_mfa''"
definition IDGitHubMemberWithoutMFA :: string where "IDGitHubMemberWithoutMFA = ''github.member_without_mfa''"
definition IDIdentityUnexpectedAdmin :: string where "IDIdentityUnexpectedAdmin = ''identity.unexpected_admin''"
definition IDIdentityUnattributedAdmin :: string where "IDIdentityUnattributedAdmin = ''identity.unattributed_admin''"
definition IDIdentityExternalAdmin :: string where "IDIdentityExternalAdmin = ''identity.external_admin''"
definition IDIdentitySharedAdmin :: string where "IDIdentitySharedAdmin = ''identity.shared_admin''"
definition IDIdentityFormerPersonInvited :: string where "IDIdentityFormerPersonInvited = ''identity.former_person_invited''"
definition IDGitHubTooManyOwners :: string where "IDGitHubTooManyOwners = ''github.too_many_owners''"
definition IDGitHubUndeclaredPublicRepository :: string where "IDGitHubUndeclaredPublicRepository = ''github.undeclared_public_repository''"
definition IDGitHubBroadDefaultMemberPermission :: string where "IDGitHubBroadDefaultMemberPermission = ''github.broad_default_member_permission''"
definition IDGitHubOutsideAdminOnProduction :: string where "IDGitHubOutsideAdminOnProduction = ''github.outside_admin_on_production''"
definition IDGitHubOrgSecretAll :: string where "IDGitHubOrgSecretAll = ''github.org_secret_all_repositories''"
definition IDGitHubDependabotHigh :: string where "IDGitHubDependabotHigh = ''github.dependabot_high''"
definition IDGitHubDependabotMedium :: string where "IDGitHubDependabotMedium = ''github.dependabot_medium''"
definition IDGitHubDependabotLow :: string where "IDGitHubDependabotLow = ''github.dependabot_low''"
definition IDGitHubOrganizationWorkflowWrite :: string where "IDGitHubOrganizationWorkflowWrite = ''github.organization_workflow_default_write''"
definition IDGitHubMutableAction :: string where "IDGitHubMutableAction = ''github.mutable_action_reference''"
definition IDGitHubMutableActionWrite :: string where "IDGitHubMutableActionWrite = ''github.mutable_action_with_write_token''"
definition IDGitHubRemoteCredential :: string where "IDGitHubRemoteCredential = ''github.remote_credential''"
definition IDTooManySuperAdmins :: string where "IDTooManySuperAdmins = ''workspace.too_many_super_admins''"
definition IDStaleAccount :: string where "IDStaleAccount = ''workspace.stale_account''"
definition IDNeverSignedIn :: string where "IDNeverSignedIn = ''workspace.never_signed_in''"
definition IDSuspendedAdminAssignment :: string where "IDSuspendedAdminAssignment = ''workspace.suspended_admin_assignment''"
definition IDTwoStepNotEnforced :: string where "IDTwoStepNotEnforced = ''workspace.two_step_not_enforced''"
definition IDAdminWithoutTwoStep :: string where "IDAdminWithoutTwoStep = ''workspace.admin_without_two_step''"

lemmas new_finding_ids =
  IDUnexpectedListener_def IDNoFirewallActive_def IDSudoNopasswdBroad_def IDUnexpectedSUID_def
  IDUnexpectedPersist_def IDUnexpectedAdmin_def IDPasswordAuthExposed_def IDTLSCertificateInvalid_def
  IDTLSCertificateExpiring_def IDTLSLegacyOnly_def IDWebRestrictedReachable_def IDWebHSTSMissing_def
  IDWebPlaintextHTTP_def IDWebPlaintextHTTPClients_def IDWebSessionCookieFlags_def IDWebSecurityHeaders_def
  IDWebVersionDisclosed_def IDWebSecretInResponse_def IDWebSecurityTXT_def IDEmailDMARCNotEnforced_def
  IDEmailDMARCPartial_def IDEmailDMARCSubdomainsOpen_def IDEmailNoMailSpoofable_def IDEmailSPFPermitsAnyone_def
  IDEmailSPFMissing_def IDEmailSPFInvalid_def IDEmailSPFUndeclaredSender_def IDEmailDKIMMissing_def
  IDEmailDKIMKeyBreakable_def IDEmailDKIMKey1024_def IDDNSTakeoverCandidate_def IDDNSUnclaimedAtProvider_def
  IDDNSDanglingExternal_def IDDNSDanglingInternal_def IDDNSPrivateAddress_def IDGitHubMFANotRequired_def
  IDGitHubOwnerWithoutMFA_def IDGitHubMemberWithoutMFA_def IDIdentityUnexpectedAdmin_def IDIdentityUnattributedAdmin_def
  IDIdentityExternalAdmin_def IDIdentitySharedAdmin_def IDIdentityFormerPersonInvited_def IDGitHubTooManyOwners_def
  IDGitHubUndeclaredPublicRepository_def IDGitHubBroadDefaultMemberPermission_def IDGitHubOutsideAdminOnProduction_def IDGitHubOrgSecretAll_def
  IDGitHubDependabotHigh_def IDGitHubDependabotMedium_def IDGitHubDependabotLow_def IDGitHubOrganizationWorkflowWrite_def
  IDGitHubMutableAction_def IDGitHubMutableActionWrite_def IDGitHubRemoteCredential_def IDTooManySuperAdmins_def
  IDStaleAccount_def IDNeverSignedIn_def IDSuspendedAdminAssignment_def IDTwoStepNotEnforced_def
  IDAdminWithoutTwoStep_def

section \<open>Builders\<close>

definition remedy :: "string \<Rightarrow> string list \<Rightarrow> string \<Rightarrow> remediation" where
  "remedy summary commands caveat = \<lparr>rem_summary = summary, rem_commands = commands, rem_caveat = caveat\<rparr>"

text \<open>A definition that is no exposure, with the fields most leave at their zero value.\<close>

definition plain_def :: "string \<Rightarrow> string \<Rightarrow> string \<Rightarrow> string \<Rightarrow> severity \<Rightarrow> string \<Rightarrow> remediation \<Rightarrow> def" where
  "plain_def i title category area base impact fix =
     \<lparr>def_id = i, def_title = title, def_category = category, def_area = area, def_exposure = NotExposure, def_judges = [],
      def_baseSeverity = base, def_impact = impact, def_remediation = fix, def_premise = [], def_subject = [],
      def_ceiling = None, def_hostAccess = False, def_attributes = [], def_multiFact = False\<rparr>"

definition githubDef :: "string \<Rightarrow> string \<Rightarrow> severity \<Rightarrow> string \<Rightarrow> string \<Rightarrow> string \<Rightarrow> def" where
  "githubDef i title severity subject impact fix =
     (plain_def i title ''accounts'' AreaIdentity severity impact (remedy fix [] []))\<lparr>def_subject := subject, def_judges := title\<rparr>"

definition workspaceDef :: "string \<Rightarrow> string \<Rightarrow> severity \<Rightarrow> string \<Rightarrow> string \<Rightarrow> string \<Rightarrow> def" where
  "workspaceDef i title severity subject impact fix =
     (plain_def i title ''accounts'' AreaIdentity severity impact (remedy fix [] []))\<lparr>def_subject := subject, def_judges := title\<rparr>"

section \<open>Host definitions (catalog.go)\<close>

definition the_FileVaultOff :: def where
  "the_FileVaultOff =
    (plain_def IDFileVaultOff
    (''FileVault disk encryption is off'')
    ''disk'' AreaHosts SevHigh
    (''The internal disk is not encrypted at rest, so its contents can be read by anyone who gains physical possession of the machine or its disk.'')
    (remedy (''Turn FileVault on in System Settings > Privacy & Security, or from the command line.'')
      [''sudo fdesetup enable'']
      (''Store the recovery key somewhere safe before rebooting; the initial encryption runs in the background.'')))\<lparr>def_judges := ''FileVault''\<rparr>"

definition the_SIPDisabled :: def where
  "the_SIPDisabled =
    (plain_def IDSIPDisabled
    (''System Integrity Protection is disabled'')
    ''integrity'' AreaHosts SevHigh
    (''Root-level processes can modify system files and load unsigned kernel extensions, so other protections on this machine can be turned off without leaving a trace.'')
    (remedy (''Re-enable SIP from macOS Recovery and reboot.'')
      [''# boot into macOS Recovery, open Terminal:'', ''csrutil enable'']
      (''SIP cannot be re-enabled from the running system; it needs a Recovery boot.'')))\<lparr>def_judges := ''System Integrity Protection''\<rparr>"

definition the_GatekeeperDisabled :: def where
  "the_GatekeeperDisabled =
    (plain_def IDGatekeeperDisabled
    (''Gatekeeper assessment is disabled'')
    ''integrity'' AreaHosts SevMedium
    (''Applications run without any check on their signature or notarisation, so a downloaded binary of unknown origin executes exactly like a trusted one.'')
    (remedy (''Re-enable assessment of downloaded applications.'')
      [''sudo spctl --global-enable'']
      (''On recent macOS the same setting appears as System Settings > Privacy & Security > Allow applications from.'')))\<lparr>def_judges := ''Gatekeeper''\<rparr>"

definition the_AppFirewallDisabled :: def where
  "the_AppFirewallDisabled =
    (plain_def IDAppFirewallDisabled
    (''The macOS application firewall is disabled'')
    ''network'' AreaHosts SevMedium
    (''Every listening service on this machine accepts inbound connections without a per-application decision, so a background agent that opens a port is reachable by default.'')
    (remedy (''Turn the application firewall on in System Settings > Network > Firewall, or from the command line.'')
      [''sudo /usr/libexec/ApplicationFirewall/socketfilterfw --setglobalstate on'']
      (''This is a per-application filter, not a packet filter; it does not replace a network firewall.'')))\<lparr>def_judges := ''the application firewall''\<rparr>"

definition the_RemoteLoginEnabled :: def where
  "the_RemoteLoginEnabled =
    (plain_def IDRemoteLoginEnabled
    (''Remote Login (SSH) is enabled'')
    ''remote-access'' AreaHosts SevInfo
    (''The machine accepts SSH sessions. Whether that is correct depends on the machine's role, so this is reported for confirmation rather than as a defect.'')
    (remedy (''If this machine is not meant to be reachable over SSH, turn Remote Login off.'')
      [''sudo systemsetup -setremotelogin off'']
      (''Turning Remote Login off ends existing SSH sessions, including one you may be auditing through.'')))\<lparr>def_judges := ''Remote Login''\<rparr>"

definition the_NTPDisabled :: def where
  "the_NTPDisabled =
    (plain_def IDNTPDisabled
    (''Network time synchronisation is off'')
    ''time'' AreaHosts SevLow
    (''An unsynchronised clock breaks certificate validity checks and makes this host's log timestamps unusable for correlating an incident with other machines.'')
    (remedy (''Turn network time on.'')
      [''sudo systemsetup -setusingnetworktime on'']
      ([])))\<lparr>def_judges := ''network time''\<rparr>"

definition the_PasswordAuthEnabled :: def where
  "the_PasswordAuthEnabled =
    (plain_def IDPasswordAuthEnabled
    (''sshd accepts password authentication'')
    ''remote-access'' AreaHosts SevMedium
    (''Anyone who can reach this sshd can guess passwords online against every account that has a usable one, at whatever rate the server allows.'')
    (remedy (''Set PasswordAuthentication no and rely on key authentication.'')
      [''# review the effective configuration first:'', ''sudo sshd -T | grep -i passwordauthentication'', ''# then set PasswordAuthentication no in /etc/ssh/sshd_config or a file in /etc/ssh/sshd_config.d/'', ''sudo sshd -t && sudo systemctl reload sshd'']
      (''Confirm at least one working key-based login first, from a second session, or you will lock yourself out.'')))\<lparr>def_judges := ''password login'',
    def_hostAccess := True\<rparr>"

definition the_RootLoginEnabled :: def where
  "the_RootLoginEnabled =
    (plain_def IDRootLoginEnabled
    (''sshd permits direct root login'')
    ''remote-access'' AreaHosts SevHigh
    (''root can authenticate over the network directly, so a single credential is enough for full control and there is no record of which operator escalated.'')
    (remedy (''Set PermitRootLogin no and log in as a user who escalates with sudo.'')
      [''# set PermitRootLogin no in /etc/ssh/sshd_config or a file in /etc/ssh/sshd_config.d/'', ''sudo sshd -t && sudo systemctl reload sshd'']
      (''Make sure an unprivileged account with sudo rights can log in first. '' @ [CHR 0x60] @ ''prohibit-password'' @ [CHR 0x60] @ '' still allows key-based root login.'')))\<lparr>def_judges := ''direct root login'',
    def_hostAccess := True\<rparr>"

definition the_EmptyPassword :: def where
  "the_EmptyPassword =
    (plain_def IDEmptyPassword
    (''A local account with a login shell has no password'')
    ''accounts'' AreaHosts SevHigh
    (''The account has an empty password field and a shell that lets someone log in. Most Linux distributions accept an empty password for local logins by default (su, the console, a provider's serial console), so anyone or anything already running on this host can become this account without a credential, and become root if the account is root. If sshd or another network service accepts empty passwords, the account can be logged into remotely; an engagement judges sshd's case as accounts.empty_password_remote when it reads sshd's settings and listeners.'')
    (remedy (''Lock the account, or set a password if a person really logs in with one.'')
      [''# who is it, and does anyone use it?'', ''sudo passwd -S <account>'', ''last <account> | head'', ''# nobody logs in with a password: lock it'', ''sudo passwd -l <account>'', ''# a service account that should never log in: also'', ''sudo usermod -s /usr/sbin/nologin <account>'', ''# a person who needs it: set one'', ''sudo passwd <account>'', ''# confirm sshd refuses empty passwords (expect '' @ [CHR 0x22] @ ''permitemptypasswords no'' @ [CHR 0x22] @ '')'', ''sudo sshd -T | grep -i permitemptypasswords'']
      (''Find out what the account is for before you change it. Locking stops password logins only; with UsePAM no in sshd it also blocks SSH key logins for that account.'')))\<lparr>def_judges := ''accounts with no password and a login shell'',
    def_hostAccess := True\<rparr>"

definition the_ShadowPermissions :: def where
  "the_ShadowPermissions =
    (plain_def IDShadowPermissions
    (''/etc/shadow has an unexpected mode'')
    ''accounts'' AreaHosts SevHigh
    (''The hashed-password file is expected to be readable only by root (mode 0, 600, or 640 with group shadow). A different mode is a deviation worth explaining; it is not by itself evidence that an unauthorized user has read the file.'')
    (remedy (''Restore the mode this distribution ships.'')
      [''stat -c '%A %a %U:%G' /etc/shadow'', ''# Debian and Ubuntu: 640 root:shadow '' @ [CHR 0xE2, CHR 0x80, CHR 0x94] @ '' Fedora and RHEL: 000 root:root'']
      (''Match the distribution's own default rather than copying a mode from another system.'')))\<lparr>def_judges := ''the mode of /etc/shadow''\<rparr>"

definition the_SELinuxDisabled :: def where
  "the_SELinuxDisabled =
    (plain_def IDSELinuxDisabled
    (''SELinux is disabled'')
    ''integrity'' AreaHosts SevMedium
    (''The mandatory access control layer that confines services is not loaded, so a compromised service is limited only by discretionary file permissions.'')
    (remedy (''Set SELINUX=enforcing in /etc/selinux/config, relabel, and reboot.'')
      [''# review first; a system that has run disabled needs a relabel:'', ''sudo fixfiles -F onboot'', ''# set SELINUX=permissive in /etc/selinux/config, reboot, review denials, then set enforcing'']
      (''Switching straight to enforcing on a host that has run without SELinux can break services. Use permissive first and read the denials.'')))\<lparr>def_judges := ''the SELinux mode''\<rparr>"

definition the_AuditdInactive :: def where
  "the_AuditdInactive =
    (plain_def IDAuditdInactive
    (''auditd is not running'')
    ''logging'' AreaHosts SevLow
    (''Kernel audit events are not being collected, so the host keeps no local record of the syscalls and file accesses an audit policy would have captured.'')
    (remedy (''Enable and start auditd.'')
      [''sudo systemctl enable --now auditd'']
      (''Not every distribution ships auditd, and a host that deliberately logs through journald alone may be configured correctly.'')))\<lparr>def_judges := ''whether auditd runs''\<rparr>"

definition the_NTPUnsynced :: def where
  "the_NTPUnsynced =
    (plain_def IDNTPUnsynced
    (''The system clock is not synchronised'')
    ''time'' AreaHosts SevLow
    (''An unsynchronised clock breaks certificate validity checks and makes this host's log timestamps unusable for correlating an incident with other machines.'')
    (remedy (''Enable network time synchronisation.'')
      [''sudo timedatectl set-ntp true'']
      ([])))\<lparr>def_judges := ''clock synchronisation''\<rparr>"

definition the_UpdatesPending :: def where
  "the_UpdatesPending =
    (plain_def IDUpdatesPending
    (''Software updates are pending'')
    ''updates'' AreaHosts SevLow
    (''Published fixes, including security fixes, are available but not installed. How serious that is depends on which packages are behind.'')
    (remedy (''Review the pending updates and apply them with the host's package manager.'')
      [''# review the list first, then apply with apt / dnf / zypper / softwareupdate'']
      (''Some updates need a restart to take effect; schedule accordingly.'')))\<lparr>def_judges := ''pending updates''\<rparr>"

definition the_WorldWritablePresent :: def where
  "the_WorldWritablePresent =
    (plain_def IDWorldWritablePresent
    (''World-writable paths without the sticky bit'')
    ''fs'' AreaHosts SevMedium
    (''Any local user can replace the contents of these paths. If a privileged process reads, sources or executes one of them, that is a local privilege escalation path.'')
    (remedy (''Review each path and remove world write where it is not deliberate.'')
      [''# review first:'', ''ls -ld <path>'', ''sudo chmod o-w <path>'']
      (''Shared directories that are world-writable by design (/tmp, /var/tmp) carry the sticky bit and are already excluded from this check.'')))\<lparr>def_judges := ''world-writable paths, depth-capped''\<rparr>"

definition host_defs :: "def list" where
  "host_defs =
     [the_FileVaultOff, the_SIPDisabled, the_GatekeeperDisabled, the_AppFirewallDisabled, the_RemoteLoginEnabled,
      the_NTPDisabled, the_PasswordAuthEnabled, the_RootLoginEnabled, the_EmptyPassword, the_ShadowPermissions,
      the_SELinuxDisabled, the_AuditdInactive, the_NTPUnsynced, the_UpdatesPending, the_WorldWritablePresent]"

definition the_ExpectedMissing :: def where
  "the_ExpectedMissing =
    (plain_def IDExpectedMissing
    (''A declared service is not listening'')
    CategoryNetwork AreaHosts SevInfo
    (''Operator context declares a service on this port, but nothing is listening on it. Either the service is down, the context is stale, or the host is not the one the context describes.'')
    (remedy (''Confirm the service is meant to run here and start it, or correct expected_services in the context.'')
      [''# review first:'', ''ss -tulpn   # Linux'', ''lsof -nP +c 0 -iTCP -sTCP:LISTEN   # macOS'']
      ([])))\<lparr>def_judges := ''declared services listening''\<rparr>"

definition the_AcceptanceExpired :: def where
  "the_AcceptanceExpired =
    (plain_def IDAcceptanceExpired
    (''An accepted-risk entry has expired'')
    CategoryGovernance AreaHosts SevLow
    (''The acceptance no longer suppresses the finding it names, and the operator's record of why the risk was tolerable is out of date.'')
    (remedy (''Re-review the risk: extend the acceptance with a new expires date and reason, or remediate the finding.'')
      []
      (''The finding the acceptance named is reported as open until the entry is renewed.'')))"

definition the_UnexpectedListener :: def where
  "the_UnexpectedListener =
    (plain_def IDUnexpectedListener
    (''A service is listening that the context does not explain'')
    CategoryNetwork AreaHosts SevMedium
    (''A listener with no declared purpose is reachable from wherever this host's network allows, and nobody has said it should be.'')
    (remedy (''Identify the process, decide whether the listener is wanted, and either declare it in expected_services or stop and disable it.'')
      [''# review first:'', ''ss -tulpn   # Linux'', ''lsof -nP -iTCP -sTCP:LISTEN   # macOS'']
      ([])))"

definition the_NoFirewallActive :: def where
  "the_NoFirewallActive =
    (plain_def IDNoFirewallActive
    (''No host firewall is active'')
    CategoryNetwork AreaHosts SevMedium
    (''Every listening service is reachable from any network the host is attached to; there is no host-level filter between a service and the network.'')
    (remedy (''Enable the platform's host firewall and allow only the services this host is meant to expose.'')
      [''# Linux: ufw enable / firewall-cmd --state / nft list ruleset'', ''# macOS: sudo /usr/libexec/ApplicationFirewall/socketfilterfw --setglobalstate on'']
      (''Allow the administrative path (SSH) before enabling a default-deny policy.'')))"

definition the_SudoNopasswdBroad :: def where
  "the_SudoNopasswdBroad =
    (plain_def IDSudoNopasswdBroad
    (''A broad NOPASSWD sudo rule is in effect'')
    ''privesc'' AreaHosts SevHigh
    (''An account, or every member of a group, can become root without re-authenticating, so any compromise of that account is a compromise of the host.'')
    (remedy (''Restrict the rule to the specific commands that need it, or remove NOPASSWD.'')
      [''sudo visudo   # edit; never edit sudoers with another tool'']
      ([])))"

definition the_UnexpectedSUID :: def where
  "the_UnexpectedSUID =
    (plain_def IDUnexpectedSUID
    (''An unexpected SUID binary is present'')
    ''fs'' AreaHosts SevMedium
    (''The binary runs with its owner's privileges for any local user; a flaw in it, or a writable path to it, is a local privilege escalation.'')
    (remedy (''Confirm the binary needs the SUID bit; if not, remove it.'')
      [''# review first:'', ''ls -l <path>'', ''sudo chmod u-s <path>'']
      ([])))"

definition the_UnexpectedPersist :: def where
  "the_UnexpectedPersist =
    (plain_def IDUnexpectedPersist
    (''An unexplained persistence entry is enabled'')
    ''persistence'' AreaHosts SevMedium
    (''Something runs at boot or on a schedule that the host's stated role does not account for; persistence is where an intruder or a forgotten tool survives a reboot.'')
    (remedy (''Identify the unit, timer, cron entry or launchd job, and disable it if it is not wanted.'')
      [''# Linux: systemctl cat <unit>; systemctl disable --now <unit>'', ''# macOS: launchctl print system/<label>; sudo launchctl bootout system/<label>'']
      ([])))"

definition the_UnexpectedAdmin :: def where
  "the_UnexpectedAdmin =
    (plain_def IDUnexpectedAdmin
    (''An account has administrative rights the context does not explain'')
    ''accounts'' AreaHosts SevMedium
    (''The account can escalate to root; if it is a service account, a leftover, or unknown to the operator, that is an unmanaged path to full control.'')
    (remedy (''Confirm who the account is for and remove it from the administrative group if it does not need it.'')
      []
      ([])))"

definition the_PasswordAuthExposed :: def where
  "the_PasswordAuthExposed =
    (plain_def IDPasswordAuthExposed
    (''sshd accepts passwords on a listener reachable beyond the host'')
    CategoryRemoteAccess AreaHosts SevHigh
    (''Password authentication is enabled and sshd listens on a non-loopback address, so online password guessing is possible from wherever the listener is reachable.'')
    (remedy (''Set PasswordAuthentication no, or bind sshd to a management address only.'')
      [''sudo sshd -T | grep -iE 'passwordauthentication|listenaddress'' @ [CHR 0x27], ''# then set PasswordAuthentication no and reload sshd'']
      (''Confirm a working key-based login first.'')))\<lparr>def_premise := [IDPasswordAuthEnabled]\<rparr>"

definition judgementDefs :: "def list" where
  "judgementDefs =
     [the_ExpectedMissing, the_AcceptanceExpired, the_UnexpectedListener, the_NoFirewallActive, the_SudoNopasswdBroad,
      the_UnexpectedSUID, the_UnexpectedPersist, the_UnexpectedAdmin, the_PasswordAuthExposed]"

section \<open>Web definitions (web.go)\<close>

definition the_WebRestrictedReachable :: def where
  "the_WebRestrictedReachable =
    (plain_def IDWebRestrictedReachable
    (''A URL declared restricted answered from the internet'')
    ''web'' AreaExternal SevMedium
    (''The endpoint answered from a source declared outside every permitted network. A login page or 401 still means it is reachable; authenticated access and login bypass were not tested.'')
    (remedy (''Restrict access at the reverse proxy, gateway or firewall to the intended network. Repeat this check from outside every permitted source, including office allowlists and VPN.'')
      []
      ([])))\<lparr>def_judges := ''declared restricted URL reachability'',
    def_subject := ''url''\<rparr>"

definition the_TLSCertificateInvalid :: def where
  "the_TLSCertificateInvalid =
    (plain_def IDTLSCertificateInvalid
    (''The certificate failed verification'')
    ''tls'' AreaExternal SevLow
    (''The served certificate is expired, for another name, untrusted, or may lack an intermediate. Browser recovery and other clients can differ.'')
    (remedy (''Renew or reissue the certificate for this name; for a missing intermediate, serve the full chain.'')
      []
      ([])))\<lparr>def_judges := ''The certificate failed verification'',
    def_subject := ''dns_name''\<rparr>"

definition the_TLSCertificateExpiring :: def where
  "the_TLSCertificateExpiring =
    (plain_def IDTLSCertificateExpiring
    (''The certificate expires within 14 days'')
    ''tls'' AreaExternal SevInfo
    (''Expiry is approaching. Short-lived certificates can renew normally within this window; renewal success was not checked.'')
    (remedy (''Confirm automatic renewal is working and monitor the replacement certificate.'')
      []
      ([])))\<lparr>def_judges := ''The certificate expires within 14 days'',
    def_subject := ''dns_name''\<rparr>"

definition the_TLSLegacyOnly :: def where
  "the_TLSLegacyOnly =
    (plain_def IDTLSLegacyOnly
    (''The site did not negotiate TLS 1.2 or later'')
    ''tls'' AreaExternal SevLow
    (''The offered TLS 1.2-or-later handshake was rejected for its protocol version. This does not establish which older versions the server accepts.'')
    (remedy (''Configure the endpoint to support TLS 1.2 or later, then check current-client compatibility.'')
      []
      ([])))\<lparr>def_judges := ''The site did not negotiate TLS 1.2 or later'',
    def_subject := ''dns_name''\<rparr>"

definition the_WebHSTSMissing :: def where
  "the_WebHSTSMissing =
    (plain_def IDWebHSTSMissing
    (''The origin does not tell browsers to always use HTTPS (HSTS)'')
    ''web'' AreaWeb SevLow
    (''Without a recognized HSTS policy browsers may initially use HTTP for this origin.'')
    (remedy (''Set Strict-Transport-Security: max-age=31536000 on HTTPS responses. Add includeSubDomains only after checking all subdomains support HTTPS.'')
      []
      ([])))\<lparr>def_judges := ''The origin does not tell browsers to always use HTTPS (HSTS)'',
    def_subject := ''origin''\<rparr>"

definition the_WebPlaintextHTTP :: def where
  "the_WebPlaintextHTTP =
    (plain_def IDWebPlaintextHTTP
    (''The origin serves plain HTTP instead of redirecting to HTTPS'')
    ''web'' AreaWeb SevLow
    (''Clients configured for HTTP can send and receive unencrypted data.'')
    (remedy (''Redirect HTTP entry points to HTTPS, or close port 80.'')
      []
      ([])))\<lparr>def_judges := ''The origin serves plain HTTP instead of redirecting to HTTPS'',
    def_subject := ''origin'',
    def_attributes := [\<lparr>ar_name = ''password_form'', ar_delta = 1, ar_pastHigh = False, ar_why = ''The HTTP page contains a password input, so it ranks one step higher.''\<rparr>]\<rparr>"

definition the_WebPlaintextHTTPClients :: def where
  "the_WebPlaintextHTTPClients =
    (plain_def IDWebPlaintextHTTPClients
    (''The origin still serves plain HTTP to scripts and API clients'')
    ''web'' AreaWeb SevInfo
    (''Browsers force HTTPS for this preloaded domain ending, but clients explicitly configured for HTTP can send requests unencrypted.'')
    (remedy (''Redirect port 80 to HTTPS, or close it.'')
      []
      ([])))\<lparr>def_judges := ''The origin still serves plain HTTP to scripts and API clients'',
    def_subject := ''origin''\<rparr>"

definition the_WebSessionCookieFlags :: def where
  "the_WebSessionCookieFlags =
    (plain_def IDWebSessionCookieFlags
    (''An observed session cookie lacks Secure or HttpOnly'')
    ''web'' AreaWeb SevLow
    (''A session-like cookie may be readable by scripts or sent without encryption. Names alone do not prove it authenticates a session.'')
    (remedy (''Set Secure and HttpOnly on session cookies, and serve their application over HTTPS.'')
      []
      ([])))\<lparr>def_judges := ''An observed session cookie lacks Secure or HttpOnly'',
    def_subject := ''origin''\<rparr>"

definition the_WebSecurityHeaders :: def where
  "the_WebSecurityHeaders =
    (plain_def IDWebSecurityHeaders
    (''Entry responses lack some browser security instructions'')
    ''web'' AreaWeb SevInfo
    (''These headers tell browsers how to handle content, framing and referrers. Missing hardening does not prove XSS or clickjacking.'')
    (remedy (''Add the listed instructions at the application or proxy; design and test CSP for the application.'')
      []
      ([])))\<lparr>def_judges := ''Entry responses lack some browser security instructions'',
    def_subject := ''origin''\<rparr>"

definition the_WebVersionDisclosed :: def where
  "the_WebVersionDisclosed =
    (plain_def IDWebVersionDisclosed
    (''The URL reveals a software version'')
    ''web'' AreaWeb SevLow
    (''The response reveals a software version or build identifier. This does not establish any vulnerability.'')
    (remedy (''Remove unnecessary version details from headers, generator metadata and public version responses.'')
      []
      ([])))\<lparr>def_judges := ''The URL reveals a software version'',
    def_exposure := IsExposure,
    def_subject := ''url''\<rparr>"

definition the_WebSecretInResponse :: def where
  "the_WebSecretInResponse =
    (plain_def IDWebSecretInResponse
    (''A secret-shaped credential is published in the response'')
    ''web'' AreaSecrets SevCritical
    (''The response contains a credential matching a specific secret detector. Validity was not tested; it may already have been copied.'')
    (remedy (''Revoke the credential at its provider first, then remove it from the response and review its use.'')
      []
      ([])))\<lparr>def_judges := ''A secret-shaped credential is published in the response'',
    def_subject := ''secret_location'',
    def_attributes := [\<lparr>ar_name = ''slack_webhook'', ar_delta = -1, ar_pastHigh = False, ar_why = ''A Slack incoming webhook can post to one channel but not read it, so this ranks one step lower.''\<rparr>]\<rparr>"

definition the_WebSecurityTXT :: def where
  "the_WebSecurityTXT =
    (plain_def IDWebSecurityTXT
    (''The origin has no current published security contact'')
    ''web'' AreaWeb SevInfo
    (''Someone reporting a security issue may not find a current contact at the standard location.'')
    (remedy (''Publish HTTPS /.well-known/security.txt with a Contact URI and a future Expires timestamp; keep it current.'')
      []
      ([])))\<lparr>def_judges := ''The origin has no current published security contact'',
    def_subject := ''origin''\<rparr>"

definition the_EmailDMARCNotEnforced :: def where
  "the_EmailDMARCNotEnforced =
    (plain_def IDEmailDMARCNotEnforced
    (''DMARC does not request its full enforcement policy'')
    CategoryEmail AreaEmail SevMedium
    (''Mail that fails authentication is not subject to the full published DMARC policy. Receivers choose how to handle it; DNS does not prove what they deliver.'')
    (remedy (''If no policy exists, publish v=DMARC1; p=none with an aggregate reporting mailbox. Review two to four weeks of reports and confirm every sender passes before moving to quarantine, then reject. For an existing policy, finish that review before removing testing or sampling.'')
      []
      ([])))\<lparr>def_judges := ''DMARC enforcement'',
    def_subject := ''mail_domain''\<rparr>"

definition the_EmailDMARCPartial :: def where
  "the_EmailDMARCPartial =
    (plain_def IDEmailDMARCPartial
    (''DMARC publishes a partial percentage for legacy receivers'')
    CategoryEmail AreaEmail SevLow
    (''The published pct value asks legacy receivers to apply the policy to only some failing mail. Current DMARC receivers may ignore this historic tag.'')
    (remedy (''Verify each legitimate sender in DMARC reports, then remove pct or set it to 100.'')
      []
      ([])))\<lparr>def_judges := ''DMARC sampling'',
    def_subject := ''mail_domain''\<rparr>"

definition the_EmailDMARCSubdomainsOpen :: def where
  "the_EmailDMARCSubdomainsOpen =
    (plain_def IDEmailDMARCSubdomainsOpen
    (''DMARC leaves subdomains without a requested enforcement policy'')
    CategoryEmail AreaEmail SevLow
    (''The domain requests enforcement for itself but publishes sp=none or np=none for subdomains. A subdomain may publish its own policy; those policies were not all checked.'')
    (remedy (''Inventory subdomain senders, then set sp=reject and remove np=none after confirming their mail authenticates.'')
      []
      ([])))\<lparr>def_judges := ''DMARC subdomain policy'',
    def_subject := ''mail_domain''\<rparr>"

definition the_EmailNoMailSpoofable :: def where
  "the_EmailNoMailSpoofable =
    (plain_def IDEmailNoMailSpoofable
    (''A domain with no mail use lacks a full no-mail policy'')
    CategoryEmail AreaEmail SevLow
    (''The domain does not publish both SPF denial and a full DMARC rejection policy. Receivers lack that explicit instruction for mail claiming to come from it.'')
    (remedy (''Confirm the domain sends no mail, then publish v=spf1 -all and v=DMARC1; p=reject, and a null MX (MX 0 .).'')
      []
      ([])))\<lparr>def_judges := ''no-mail policy'',
    def_subject := ''mail_domain''\<rparr>"

definition the_EmailSPFPermitsAnyone :: def where
  "the_EmailSPFPermitsAnyone =
    (plain_def IDEmailSPFPermitsAnyone
    (''SPF authorizes any sender or a very broad address range'')
    CategoryEmail AreaEmail SevHigh
    (''The published SPF policy grants a passing result to any address or to a very broad range. SPF checks the envelope sender; whether mail aligns with the visible From address was not assessed.'')
    (remedy (''Remove +all or bare all and replace broad IP ranges with the exact sender ranges documented by your mail services.'')
      []
      ([])))\<lparr>def_judges := ''SPF authorization'',
    def_subject := ''mail_domain''\<rparr>"

definition the_EmailSPFMissing :: def where
  "the_EmailSPFMissing =
    (plain_def IDEmailSPFMissing
    (''A mail domain publishes no SPF record'')
    CategoryEmail AreaEmail SevLow
    (''Receivers cannot use SPF to check which servers may send with this envelope domain. DKIM may still authenticate mail.'')
    (remedy (''Publish one SPF record covering all legitimate senders, using each service'' @ [CHR 0xE2, CHR 0x80, CHR 0x99] @ ''s documented include or IP ranges.'')
      []
      ([])))\<lparr>def_judges := ''SPF presence'',
    def_subject := ''mail_domain''\<rparr>"

definition the_EmailSPFInvalid :: def where
  "the_EmailSPFInvalid =
    (plain_def IDEmailSPFInvalid
    (''SPF contains an error or can exceed its lookup limit'')
    CategoryEmail AreaEmail SevLow
    (''The observed error can prevent SPF authentication. Lookup counts describe the static include tree; actual evaluation depends on the sender and the path it takes.'')
    (remedy (''Keep one syntactically valid SPF record, repair broken includes and redirects, and reduce DNS-querying terms to at most ten on each evaluation path. Check with your mail providers before removing a sender.'')
      []
      ([])))\<lparr>def_judges := ''SPF validity'',
    def_subject := ''mail_domain''\<rparr>"

definition the_EmailSPFUndeclaredSender :: def where
  "the_EmailSPFUndeclaredSender =
    (plain_def IDEmailSPFUndeclaredSender
    (''SPF includes a service absent from the declared senders'')
    CategoryEmail AreaEmail SevLow
    (''SPF includes a recognized sending service that was not listed for this domain. This may be an incomplete declaration or an obsolete authorization; DNS does not show whether the service is still used.'')
    (remedy (''Confirm who owns and uses this sending service. Add it to mail.senders if intended; otherwise remove its include after checking mail delivery.'')
      []
      ([])))\<lparr>def_judges := ''declared SPF senders'',
    def_subject := ''spf_mechanism''\<rparr>"

definition the_EmailDKIMMissing :: def where
  "the_EmailDKIMMissing =
    (plain_def IDEmailDKIMMissing
    (''A declared DKIM selector has no usable published key'')
    CategoryEmail AreaEmail SevLow
    (''The declared selector has no DKIM key or publishes a revoked key. Mail using this selector cannot be verified with that key; the service may use another selector.'')
    (remedy (''Check s= in a recent message'' @ [CHR 0xE2, CHR 0x80, CHR 0x99] @ ''s DKIM-Signature header, correct the declared selector if stale, or publish the service'' @ [CHR 0xE2, CHR 0x80, CHR 0x99] @ ''s current DKIM record.'')
      []
      ([])))\<lparr>def_judges := ''declared DKIM keys'',
    def_subject := ''dkim_selector''\<rparr>"

definition the_EmailDKIMKeyBreakable :: def where
  "the_EmailDKIMKeyBreakable =
    (plain_def IDEmailDKIMKeyBreakable
    (''A DKIM RSA key is shorter than 1024 bits'')
    CategoryEmail AreaEmail SevHigh
    (''This RSA key is below the minimum DKIM key size and is weak enough to put signatures at risk of forgery. Whether the selector signs current mail was not checked.'')
    (remedy (''Rotate to a 2048-bit RSA key at your sender, publish its new selector, verify delivery, then retire the old key.'')
      []
      ([])))\<lparr>def_judges := ''DKIM key strength'',
    def_subject := ''dkim_selector''\<rparr>"

definition the_EmailDKIMKey1024 :: def where
  "the_EmailDKIMKey1024 =
    (plain_def IDEmailDKIMKey1024
    (''A DKIM RSA key is 1024-bit'')
    CategoryEmail AreaEmail SevInfo
    (''The key meets the minimum size but is below the recommended 2048 bits. Whether the selector signs current mail was not checked.'')
    (remedy (''Ask the sending service to rotate to a 2048-bit RSA DKIM key and publish its new selector before retiring the old one.'')
      []
      ([])))\<lparr>def_judges := ''DKIM key strength'',
    def_subject := ''dkim_selector''\<rparr>"

definition the_DNSTakeoverCandidate :: def where
  "the_DNSTakeoverCandidate =
    (plain_def IDDNSTakeoverCandidate
    (''A DNS name may be claimable at its provider'')
    CategoryDNS AreaExternal SevHigh
    (''The provider says nothing is set up at the name your DNS points at. Another account may be able to claim it and serve content under your name. This is a candidate, not proof that the name can be claimed.'')
    (remedy (''Delete the DNS record today, or restore the service in your provider account; then check whether anyone already served content there.'')
      []
      ([])))\<lparr>def_judges := ''names pointing at a provider with a verified takeover fingerprint'',
    def_subject := ''dns_name''\<rparr>"

definition the_DNSUnclaimedAtProvider :: def where
  "the_DNSUnclaimedAtProvider =
    (plain_def IDDNSUnclaimedAtProvider
    (''A DNS name points at an unconfigured service that checks domain ownership'')
    CategoryDNS AreaExternal SevLow
    (''The provider says nothing is set up there. Its policy requires ownership verification when moving a domain from another account. This binding's ownership was not checked; the record leads to an unconfigured service.'')
    (remedy (''Remove the stale DNS record, or finish configuring the domain in your provider account.'')
      []
      ([])))\<lparr>def_judges := ''names pointing at an unconfigured provider service that checks ownership'',
    def_subject := ''dns_name''\<rparr>"

definition the_DNSDanglingExternal :: def where
  "the_DNSDanglingExternal =
    (plain_def IDDNSDanglingExternal
    (''A DNS record points at a name that does not exist'')
    CategoryDNS AreaExternal SevMedium
    (''The record sends visitors, or mail, to a name outside your domains that nobody serves. If someone registers that name or claims it at its provider, they receive what was meant for you.'')
    (remedy (''Delete the record, or point it at the service's current name.'')
      []
      ([])))\<lparr>def_judges := ''records pointing at names that do not exist'',
    def_subject := ''dns_name''\<rparr>"

definition the_DNSDanglingInternal :: def where
  "the_DNSDanglingInternal =
    (plain_def IDDNSDanglingInternal
    (''A DNS record points at a name under your own domain that does not exist'')
    CategoryDNS AreaExternal SevInfo
    (''The record leads nowhere. Only you can create the name it points at, so nobody else can take it, but it is a leftover that can confuse the next change.'')
    (remedy (''Delete the stale record, or create the name it points at.'')
      []
      ([])))\<lparr>def_judges := ''records pointing at names that do not exist'',
    def_subject := ''dns_name''\<rparr>"

definition the_DNSPrivateAddress :: def where
  "the_DNSPrivateAddress =
    (plain_def IDDNSPrivateAddress
    (''A public name publishes a private address'')
    CategoryDNS AreaExternal SevInfo
    (''Anyone can read the record, so it tells an outsider part of how your internal network is addressed.'')
    (remedy (''Serve internal names from internal DNS only, or remove the record if it is no longer used.'')
      []
      ([])))\<lparr>def_judges := ''public names publishing private addresses'',
    def_subject := ''dns_name''\<rparr>"

definition webDefs :: "def list" where
  "webDefs =
     [the_WebRestrictedReachable, the_TLSCertificateInvalid, the_TLSCertificateExpiring, the_TLSLegacyOnly, the_WebHSTSMissing,
      the_WebPlaintextHTTP, the_WebPlaintextHTTPClients, the_WebSessionCookieFlags, the_WebSecurityHeaders, the_WebVersionDisclosed,
      the_WebSecretInResponse, the_WebSecurityTXT, the_EmailDMARCNotEnforced, the_EmailDMARCPartial, the_EmailDMARCSubdomainsOpen,
      the_EmailNoMailSpoofable, the_EmailSPFPermitsAnyone, the_EmailSPFMissing, the_EmailSPFInvalid, the_EmailSPFUndeclaredSender,
      the_EmailDKIMMissing, the_EmailDKIMKeyBreakable, the_EmailDKIMKey1024, the_DNSTakeoverCandidate, the_DNSUnclaimedAtProvider,
      the_DNSDanglingExternal, the_DNSDanglingInternal, the_DNSPrivateAddress]"

section \<open>GitHub definitions\<close>

definition the_GitHubMFANotRequired :: def where
  "the_GitHubMFANotRequired =
    githubDef IDGitHubMFANotRequired
    (''The organization does not require two-factor authentication'') SevHigh []
    (''An account can join or remain without the organization's second-factor requirement.'')
    (''Enable GitHub's organization two-factor requirement after checking users and automation; SAML or identity-provider MFA does not replace this GitHub control.'')"

definition the_GitHubOwnerWithoutMFA :: def where
  "the_GitHubOwnerWithoutMFA =
    githubDef IDGitHubOwnerWithoutMFA
    (''An organization owner has no two-factor authentication'') SevHigh ''account''
    (''Compromise of this owner's password can grant organization administration.'')
    (''Enable strong GitHub two-factor authentication for this account, preferably security keys; check it even when SAML sign-in uses MFA.'')"

definition the_GitHubMemberWithoutMFA :: def where
  "the_GitHubMemberWithoutMFA =
    githubDef IDGitHubMemberWithoutMFA
    (''A member has no two-factor authentication'') SevMedium ''account''
    (''Compromise of this member's password can grant the account's repository access.'')
    (''Enable two-factor authentication and require it for the organization.'')"

definition the_IdentityUnexpectedAdmin :: def where
  "the_IdentityUnexpectedAdmin =
    githubDef IDIdentityUnexpectedAdmin
    (''An administrator is not among the declared expected administrators'') SevMedium ''account''
    (''The observed administrative access exceeds the operator's stated expectations.'')
    (''Confirm whether the person needs full administrator access; remove it or correct the expected administrator declaration.'')"

definition the_IdentityUnattributedAdmin :: def where
  "the_IdentityUnattributedAdmin =
    githubDef IDIdentityUnattributedAdmin
    (''An administrator is not tied to a declared person'') SevHigh ''account''
    (''The operator cannot identify who controls this administrative access.'')
    (''Identify the account owner and declare their login, or remove the unnecessary administrative access.'')"

definition the_IdentityExternalAdmin :: def where
  "the_IdentityExternalAdmin =
    githubDef IDIdentityExternalAdmin
    (''A contractor has full administrator access'') SevMedium ''account''
    (''An external person's account has full administrative control.'')
    (''Confirm the administrative need and use a narrower role when possible.'')"

definition the_IdentitySharedAdmin :: def where
  "the_IdentitySharedAdmin =
    githubDef IDIdentitySharedAdmin
    (''A shared account has full administrator access'') SevMedium ''account''
    (''Administrative actions cannot reliably be attributed to one person.'')
    (''Use individually assigned administrator accounts and retain a separate recovery account.'')"

definition the_IdentityFormerPersonHasAccess :: def where
  "the_IdentityFormerPersonHasAccess =
    githubDef IDIdentityFormerPersonHasAccess
    (''A departed person or retired account retains access'') SevHigh ''account''
    (''An account whose declared leaving date has passed retains observed access.'')
    (''Complete offboarding: suspend or remove the account or its access, and review credentials and sessions. If they could push to a repository that deploys to production, also rotate the secrets that repository's workflows can read and its deploy keys, and review its commits and workflow runs since their leaving date.'')"

definition the_IdentityFormerPersonInvited :: def where
  "the_IdentityFormerPersonInvited =
    githubDef IDIdentityFormerPersonInvited
    (''A departed person retains a pending invitation'') SevHigh ''invitation''
    (''The invitation may restore access after the person's declared departure.'')
    (''Cancel the pending invitation and confirm the offboarding declaration.'')"

definition the_GitHubTooManyOwners :: def where
  "the_GitHubTooManyOwners =
    githubDef IDGitHubTooManyOwners
    (''The organization has more owners than its size needs'') SevMedium []
    (''A larger owner population increases the number of accounts that can fully administer the organization.'')
    (''Reduce owner privileges to the people who need them while retaining at least two recovery-capable owners.'')"

definition the_GitHubUndeclaredPublicRepository :: def where
  "the_GitHubUndeclaredPublicRepository =
    githubDef IDGitHubUndeclaredPublicRepository
    (''A repository is public without a public declaration'') SevHigh ''repository''
    (''The repository's contents are publicly available although the operator has not declared that intention.'')
    (''Confirm public visibility is intentional and declare public: true, or change the repository visibility.'')"

definition the_GitHubBroadDefaultMemberPermission :: def where
  "the_GitHubBroadDefaultMemberPermission =
    githubDef IDGitHubBroadDefaultMemberPermission
    (''Organization members receive broad default repository access'') SevMedium []
    (''Every member receives write or administrative access by default.'')
    (''Set a narrow base permission and grant repository access through specific teams.'')"

definition the_GitHubOutsideAdminOnProduction :: def where
  "the_GitHubOutsideAdminOnProduction =
    githubDef IDGitHubOutsideAdminOnProduction
    (''An outside collaborator administers a production repository'') SevHigh ''account''
    (''This external account can administer the repository declared to deploy to production.'')
    (''Confirm the administrative need and reduce repository permissions where possible.'')"

definition the_GitHubWritableDeployKey :: def where
  "the_GitHubWritableDeployKey =
    githubDef IDGitHubWritableDeployKey
    (''A deploy key can write to the repository'') SevMedium ''deploy_key''
    (''Possession of this deploy key permits repository changes.'')
    (''Replace the key with a read-only deploy key or a narrowly scoped application credential.'')"

definition githubDefs :: "def list" where
  "githubDefs =
     [the_GitHubMFANotRequired, the_GitHubOwnerWithoutMFA, the_GitHubMemberWithoutMFA, the_IdentityUnexpectedAdmin, the_IdentityUnattributedAdmin,
      the_IdentityExternalAdmin, the_IdentitySharedAdmin, the_IdentityFormerPersonHasAccess, the_IdentityFormerPersonInvited, the_GitHubTooManyOwners,
      the_GitHubUndeclaredPublicRepository, the_GitHubBroadDefaultMemberPermission, the_GitHubOutsideAdminOnProduction, the_GitHubWritableDeployKey]"

definition github_area :: "def \<Rightarrow> def" where
  "github_area d =
     (if def_id d = IDGitHubUndeclaredPublicRepository \<or> def_id d = IDGitHubWritableDeployKey
      then d\<lparr>def_area := AreaCICD\<rparr> else d)"

definition in_secrets :: "def \<Rightarrow> def" where
  "in_secrets d = d\<lparr>def_area := AreaSecrets, def_category := ''secrets''\<rparr>"

definition in_ci :: "def \<Rightarrow> def" where
  "in_ci d = d\<lparr>def_area := AreaCICD, def_category := ''ci''\<rparr>"

definition the_GitHubOrganizationWorkflowWrite :: def where
  "the_GitHubOrganizationWorkflowWrite =
    githubDef IDGitHubOrganizationWorkflowWrite
    (''Organization workflow tokens default to write permission'') SevMedium []
    (''Inherited write defaults widen what a compromised workflow can request.'')
    (''Use read defaults; grant each job only the permissions it needs.'')"

definition the_GitHubRepositoryWorkflowWrite :: def where
  "the_GitHubRepositoryWorkflowWrite =
    githubDef IDGitHubRepositoryWorkflowWrite
    (''Repository workflow tokens default to write permission'') SevMedium ''repository''
    (''Inherited write defaults widen what a compromised workflow can request.'')
    (''Use read defaults; grant each job only the permissions it needs.'')"

definition the_GitHubDefaultBranchUnprotected :: def where
  "the_GitHubDefaultBranchUnprotected =
    githubDef IDGitHubDefaultBranchUnprotected
    (''Default branch has no observed active protection'') SevMedium ''branch''
    (''Changes to this branch lack observed active protection; review strength and bypass access were not assessed.'')
    (''Add active default-branch protection, then review required PR reviews, checks and bypass access.'')"

definition the_GitHubMutableAction :: def where
  "the_GitHubMutableAction =
    githubDef IDGitHubMutableAction
    (''Workflow action references are mutable'') SevLow ''workflow''
    (''A tag or branch may change the dependency a later workflow run requests.'')
    (''Pin remote dependencies to reviewed full commits or image digests; automate updates.'')"

definition the_GitHubMutableActionWrite :: def where
  "the_GitHubMutableActionWrite =
    githubDef IDGitHubMutableActionWrite
    (''Workflow requests mutable dependencies with write permission'') SevHigh ''workflow''
    (''A changed dependency could act with the mutation permission requested by this job; actual execution was not verified.'')
    (''Pin remote dependencies and reduce the job's token permissions.'')"

definition the_GitHubPRTargetUnsafe :: def where
  "the_GitHubPRTargetUnsafe =
    githubDef IDGitHubPRTargetUnsafe
    (''Workflow requests PR-controlled code execution with write permission'') SevMedium ''workflow''
    (''This configuration requests execution of PR-controlled code in a privileged context; runtime policies, checkout protection, approvals and actual execution were not verified.'')
    (''Run PR code under pull_request; separate privileged reporting and never execute PR-controlled code in that privileged job.'')"

definition github_ci_defs :: "def list" where
  "github_ci_defs =
     [the_GitHubOrganizationWorkflowWrite, the_GitHubRepositoryWorkflowWrite, the_GitHubDefaultBranchUnprotected, the_GitHubMutableAction, the_GitHubMutableActionWrite,
      the_GitHubPRTargetUnsafe]"

definition the_GitHubHistoryCredential :: def where
  "the_GitHubHistoryCredential =
    githubDef IDGitHubHistoryCredential
    (''Credential pattern found in repository history'') SevHigh ''secret_location''
    (''A recognized credential pattern exists in this commit. Authenticity and current usability were not tested.'')
    (''Identify the credential owner and treat the credential as exposed. Revoke or rotate it with its provider, review its use, then remove it from repository history and other copies.'')"

definition the_GitHubRemoteCredential :: def where
  "the_GitHubRemoteCredential =
    githubDef IDGitHubRemoteCredential
    (''Credential found in mirror origin configuration'') SevMedium ''secret_location''
    (''The operator's local mirror configuration holds credential-bearing userinfo or a recognized credential pattern. This does not establish hosted repository exposure.'')
    (''Ask the mirror maintainer to revoke or rotate the credential, then remove it from origin configuration and use the provider's credential helper.'')"

definition github_history_defs :: "def list" where
  "github_history_defs =
     [the_GitHubHistoryCredential, the_GitHubRemoteCredential]"

definition the_GitHubOrgSecretAll :: def where
  "the_GitHubOrgSecretAll =
    githubDef IDGitHubOrgSecretAll
    (''Organization secret is available to all repositories'') SevMedium ''secret_location''
    (''A compromised repository workflow may reach this organization secret; its name does not establish production use or leakage.'')
    (''Limit this organization secret to the repositories that need it. Review workflows in those repositories before changing access.'')"

definition the_GitHubSecretScanningOpen :: def where
  "the_GitHubSecretScanningOpen =
    githubDef IDGitHubSecretScanningOpen
    (''GitHub reports an open secret-scanning alert'') SevHigh ''secret_location''
    (''The provider reports a credential in this location. Its authenticity, current usability and use were not independently tested.'')
    (''Revoke or rotate this credential at its provider first. Review its use, then remove it from the reported locations. Closing an alert or deleting a commit does not revoke a credential.'')"

definition dependabot_def :: "string \<Rightarrow> severity \<Rightarrow> def" where
  "dependabot_def i sev =
     (let label = (if sev = SevHigh then ''high or critical'' else sev_string sev) in
      githubDef i (''GitHub reports an open '' @ label @ '' severity dependency alert'') sev ''dependency_alert''
        (''GitHub reports an affected dependency in this manifest; installed deployed versions and exploitability were not established.'')
        (''Review the affected manifest and upgrade to a patched version where available. Confirm the deployed dependency and test the change; scheck did not establish exploitability.''))"

definition github_alert_defs :: "def list" where
  "github_alert_defs =
     [in_secrets the_GitHubOrgSecretAll] @
     map in_ci [dependabot_def IDGitHubDependabotHigh SevHigh, dependabot_def IDGitHubDependabotMedium SevMedium,
       dependabot_def IDGitHubDependabotLow SevLow] @
     [in_secrets the_GitHubSecretScanningOpen]"

section \<open>Registered definitions (multifact.go and the workspace collector)\<close>

definition the_DBListensUnfiltered :: def where
  "the_DBListensUnfiltered =
    (plain_def IDDBListensUnfiltered
    (''A database listens beyond localhost and the host firewall does not restrict it'')
    CategoryNetwork AreaData SevMedium
    (''The database accepts connections on an address other than localhost, and the host firewall does not restrict that port, so anything that can reach the host on that port can try to sign in to the database. Whether a cloud firewall or security group blocks it was not assessed, and the database's own sign-in rules were not read.'')
    (remedy (''If only this host uses the database, bind it to localhost and restart it. If other machines need it, allow the port only from their addresses. Check your cloud firewall rules too: scheck did not read them.'')
      [''# only this host uses it: bind it to localhost, then restart the database'', ''#   postgres: listen_addresses = 'localhost'' @ [CHR 0x27], ''#   MySQL/MariaDB: bind-address = 127.0.0.1'', ''#   Redis: bind 127.0.0.1'', ''# other machines need it: allow only their addresses'', ''sudo ufw default deny incoming'', ''sudo ufw allow from 10.0.0.5 to any port 5432 proto tcp'']
      (''If ufw lets the port in by source port alone (from any port 53), delete that rule (ufw status numbered, then ufw delete N): ufw already lets in replies to the host's own DNS queries through connection tracking, so a source-port rule is not needed.'')))\<lparr>def_judges := ''databases listening beyond localhost with no host firewall rule in front'',
    def_subject := ''service'',
    def_ceiling := Some SevHigh,
    def_hostAccess := True,
    def_multiFact := True\<rparr>"

definition the_EmptyPasswordRemote :: def where
  "the_EmptyPasswordRemote =
    (plain_def IDEmptyPasswordRemote
    (''An account with no password can log in over SSH'')
    CategoryRemoteAccess AreaHosts SevCritical
    (''These accounts have an empty password and a login shell, and sshd is set to accept an empty password and listens beyond this host, so anyone who can reach sshd can sign in as them with no credential, and become root if the account is root.'')
    (remedy (''Lock or set a password for these accounts, and set PermitEmptyPasswords no in sshd_config, then reload sshd.'')
      [''sudo passwd -l <account>'', ''# in /etc/ssh/sshd_config: PermitEmptyPasswords no'', ''sudo sshd -t && sudo systemctl reload ssh || sudo systemctl reload sshd'', ''sudo sshd -T | grep -i permitemptypasswords'']
      (''Find out what each account is for before you lock it; locking stops password logins only.'')))\<lparr>def_judges := ''accounts with no password that SSH lets in'',
    def_hostAccess := True,
    def_multiFact := True\<rparr>"

definition the_SvcListensBeyond :: def where
  "the_SvcListensBeyond =
    (plain_def IDSvcListensBeyond
    (''A service listens beyond the audience you declared'')
    CategoryNetwork AreaExternal SevLow
    (''The service listens on an address beyond the audience you declared for it, and the host firewall does not restrict that port, so machines outside that audience can try to connect to it. Whether a cloud firewall or security group blocks it was not assessed, and whether the service asks for a password or key was not read.'')
    (remedy (''If only this host uses it, bind it to 127.0.0.1 and restart it; if it serves your LAN or VPN, bind it to that interface's address instead of all addresses. Or allow the port only from the addresses that need it. If Docker publishes it, publish it on 127.0.0.1 or the private address: Docker's rules bypass ufw. Check your cloud firewall rules too: scheck did not read them. If the wider audience is intended, correct expected_services.'')
      [''# only this host uses it: bind it to 127.0.0.1 in its configuration, then restart it'', ''# or allow only the addresses that need it'', ''sudo ufw default deny incoming'', ''sudo ufw allow from 10.0.0.0/24 to any port 8080 proto tcp'', ''# Docker: publish on loopback, -p 127.0.0.1:8080:8080'']
      ([])))\<lparr>def_judges := ''declared services listening beyond their audience'',
    def_subject := ''service'',
    def_ceiling := Some SevHigh,
    def_multiFact := True\<rparr>"

definition multiFactDefs :: "def list" where
  "multiFactDefs =
     [the_DBListensUnfiltered, the_EmptyPasswordRemote, the_SvcListensBeyond]"

definition the_TooManySuperAdmins :: def where
  "the_TooManySuperAdmins =
    workspaceDef IDTooManySuperAdmins
    (''Workspace has more super administrators than its size needs'') SevMedium []
    (''More accounts retain full administrative control.'')
    (''Reduce super-administrator rights to the people who need them, retaining dedicated recovery accounts.'')"

definition the_StaleAccount :: def where
  "the_StaleAccount =
    workspaceDef IDStaleAccount
    (''Google reports no account sign-in for more than 90 days'') SevMedium ''account''
    (''An active account remains available despite no recent reported sign-in; sessions and application activity were not reviewed.'')
    (''Confirm whether this account is needed before suspending it; review its sessions and application grants.'')"

definition the_NeverSignedIn :: def where
  "the_NeverSignedIn =
    workspaceDef IDNeverSignedIn
    (''An active Workspace account has never signed in'') SevLow ''account''
    (''Google reports no sign-in for an account created more than 30 days ago; this does not prove it is unused.'')
    (''Confirm whether the account is needed before suspending it.'')"

definition the_SuspendedAdminAssignment :: def where
  "the_SuspendedAdminAssignment =
    workspaceDef IDSuspendedAdminAssignment
    (''A suspended account retains an administrative assignment'') SevMedium ''account''
    (''Suspension prevents ordinary sign-in. The retained assignment is cleanup risk, not proven usable access.'')
    (''Ask your administrator whether this assignment is still needed, and remove it if not.'')"

definition the_OAuthBroadScope :: def where
  "the_OAuthBroadScope =
    (plain_def IDOAuthBroadScope
    (''A third-party app holds broad access to Workspace data'')
    ''third-party-apps'' AreaIdentity SevMedium
    (''Whoever controls this app (its maker, or anyone who breaches the maker) can use the access listed as the accounts that granted it, without their password or second factor, until the grant is removed.'')
    (remedy (''Confirm someone in the company chose this app and still needs it. If not, remove its access: an administrator can block it under Security '' @ [CHR 0xE2, CHR 0x86, CHR 0x92] @ '' Access and data control '' @ [CHR 0xE2, CHR 0x86, CHR 0x92] @ '' API controls '' @ [CHR 0xE2, CHR 0x86, CHR 0x92] @ '' Manage Third-Party App Access, and each person can remove it at myaccount.google.com/permissions. If it is needed, configure it deliberately on that page: Limited or Specific Google data where it still works, Trusted only if it must reach services you restricted. Trusted widens what the app may reach; it does not limit it, and this finding stays open either way. Prefer a version that asks for less (for example, access to its own files instead of all of Drive). To keep it as it is, accept it by its client id.'')
      []
      ([])))\<lparr>def_judges := ''OAuth app scopes'',
    def_subject := ''oauth_app''\<rparr>"

definition the_TwoStepNotEnforced :: def where
  "the_TwoStepNotEnforced =
    workspaceDef IDTwoStepNotEnforced
    (''Google does not currently require 2-step verification for these accounts'') SevHigh ''org_unit''
    (''For these accounts, a stolen, reused or guessed password may be enough to sign in unless the user has turned on 2-step verification themselves. That gives access to their mail and files and to password resets for other services. While Google does not require it, users can turn it off again, and new accounts in the same place may start without it.'')
    (''In the Admin console, open Security '' @ [CHR 0xE2, CHR 0x86, CHR 0x92] @ '' Authentication '' @ [CHR 0xE2, CHR 0x86, CHR 0x92] @ '' 2-step verification. Check which setting applies to these accounts' organizational unit or groups, and turn on enforcement with a short new-user enrollment period. Tell users before the enforcement date so nobody is locked out. Prefer security keys or passkeys for administrators and for people with access to production or customer data. If people sign in to Google through another identity provider, confirm it requires a second factor for these accounts. Run scheck again to confirm that Google reports them as required.'')"

definition the_AdminWithoutTwoStep :: def where
  "the_AdminWithoutTwoStep =
    workspaceDef IDAdminWithoutTwoStep
    (''An administrator has not enrolled in 2-step verification'') SevHigh ''account''
    (''Anyone who gets this administrator's password, through phishing, reuse from another site's breach or malware on a laptop, can sign in and use its administrative privileges. Depending on the role, that means resetting other users' passwords and taking over their accounts or, for a super administrator, control of the whole organization, including locking you out of it.'')
    (''Have this administrator enroll in 2-step verification now, preferably with a security key or passkey. For a break-glass account, register two hardware keys and store them apart. If the role is not needed, remove it or suspend the account until it is enrolled. Then require 2-step verification for administrators in the Admin console (Security '' @ [CHR 0xE2, CHR 0x86, CHR 0x92] @ '' Authentication '' @ [CHR 0xE2, CHR 0x86, CHR 0x92] @ '' 2-step verification) so it cannot be turned off.'')"

definition the_ExternalForwarding :: def where
  "the_ExternalForwarding =
    (plain_def IDExternalForwarding
    (''A mailbox forwards mail outside your organization'')
    CategoryEmail AreaEmail SevMedium
    (''Mail this setting matches is copied to an address your organization does not control: invoices, contracts, password-reset links and anything people send to this person. Whoever controls that address can read it without signing in to your Workspace, until the forwarding is removed. Attackers who take over a mailbox often add forwarding so they keep reading it after the password is changed.'')
    (remedy (''Ask the person, in person or by phone rather than by email, whether they set this up and still need it. If they did and still need it, note why and accept it for this address; forwarding to any other address stays open. If not, remove it in the person's Gmail: Settings '' @ [CHR 0xE2, CHR 0x86, CHR 0x92] @ '' See all settings '' @ [CHR 0xE2, CHR 0x86, CHR 0x92] @ '' Forwarding and POP/IMAP (forwarding) and Filters and Blocked Addresses (filters). If nobody set it up, treat the account as possibly taken over and contain it before removing anything, so a live session cannot add it back: sign the account out everywhere, reset its password, revoke its app access and check its 2-step verification; then remove the forwarding, and use Email Log Search in the Admin console to see what was forwarded. To stop forwarding outside the organization for everyone, an administrator can allow automatic forwarding to internal addresses only, or turn it off: Admin console '' @ [CHR 0xE2, CHR 0x86, CHR 0x92] @ '' Apps '' @ [CHR 0xE2, CHR 0x86, CHR 0x92] @ '' Google Workspace '' @ [CHR 0xE2, CHR 0x86, CHR 0x92] @ '' Gmail '' @ [CHR 0xE2, CHR 0x86, CHR 0x92] @ '' End User Access '' @ [CHR 0xE2, CHR 0x86, CHR 0x92] @ '' Automatic forwarding. Afterwards, check that existing forwarding stopped; scheck did not test this.'')
      []
      ([])))\<lparr>def_judges := ''Mail forwarding destinations'',
    def_subject := ''mail_forward''\<rparr>"

definition workspace_defs :: "def list" where
  "workspace_defs =
     [the_TooManySuperAdmins, the_StaleAccount, the_NeverSignedIn, the_SuspendedAdminAssignment, the_OAuthBroadScope,
      the_TwoStepNotEnforced, the_AdminWithoutTwoStep, the_ExternalForwarding]"

section \<open>The table of a build\<close>

text \<open>
  The package's own table: the definitions its files put into \<open>defs\<close> at initialization.  The
  multi-fact and workspace definitions go through \<open>Register\<close>.
\<close>

definition package_defs :: "def list" where
  "package_defs =
     host_defs @ judgementDefs @ webDefs @ map github_area githubDefs @ github_alert_defs @ map in_ci github_ci_defs @
     map in_secrets github_history_defs"

primrec register_all :: "def list \<Rightarrow> def list \<Rightarrow> def_error + def list" where
  "register_all defs [] = Inr defs"
| "register_all defs (d # ds) = (case register_def defs d of Inl e \<Rightarrow> Inl e | Inr defs' \<Rightarrow> register_all defs' ds)"

lemmas the_defs =
  the_FileVaultOff_def the_SIPDisabled_def the_GatekeeperDisabled_def the_AppFirewallDisabled_def
  the_RemoteLoginEnabled_def the_NTPDisabled_def the_PasswordAuthEnabled_def the_RootLoginEnabled_def
  the_EmptyPassword_def the_ShadowPermissions_def the_SELinuxDisabled_def the_AuditdInactive_def
  the_NTPUnsynced_def the_UpdatesPending_def the_WorldWritablePresent_def the_ExpectedMissing_def
  the_AcceptanceExpired_def the_UnexpectedListener_def the_NoFirewallActive_def the_SudoNopasswdBroad_def
  the_UnexpectedSUID_def the_UnexpectedPersist_def the_UnexpectedAdmin_def the_PasswordAuthExposed_def
  the_WebRestrictedReachable_def the_TLSCertificateInvalid_def the_TLSCertificateExpiring_def the_TLSLegacyOnly_def
  the_WebHSTSMissing_def the_WebPlaintextHTTP_def the_WebPlaintextHTTPClients_def the_WebSessionCookieFlags_def
  the_WebSecurityHeaders_def the_WebVersionDisclosed_def the_WebSecretInResponse_def the_WebSecurityTXT_def
  the_EmailDMARCNotEnforced_def the_EmailDMARCPartial_def the_EmailDMARCSubdomainsOpen_def the_EmailNoMailSpoofable_def
  the_EmailSPFPermitsAnyone_def the_EmailSPFMissing_def the_EmailSPFInvalid_def the_EmailSPFUndeclaredSender_def
  the_EmailDKIMMissing_def the_EmailDKIMKeyBreakable_def the_EmailDKIMKey1024_def the_DNSTakeoverCandidate_def
  the_DNSUnclaimedAtProvider_def the_DNSDanglingExternal_def the_DNSDanglingInternal_def the_DNSPrivateAddress_def
  the_GitHubMFANotRequired_def the_GitHubOwnerWithoutMFA_def the_GitHubMemberWithoutMFA_def the_IdentityUnexpectedAdmin_def
  the_IdentityUnattributedAdmin_def the_IdentityExternalAdmin_def the_IdentitySharedAdmin_def the_IdentityFormerPersonHasAccess_def
  the_IdentityFormerPersonInvited_def the_GitHubTooManyOwners_def the_GitHubUndeclaredPublicRepository_def the_GitHubBroadDefaultMemberPermission_def
  the_GitHubOutsideAdminOnProduction_def the_GitHubWritableDeployKey_def the_GitHubOrganizationWorkflowWrite_def the_GitHubRepositoryWorkflowWrite_def
  the_GitHubDefaultBranchUnprotected_def the_GitHubMutableAction_def the_GitHubMutableActionWrite_def the_GitHubPRTargetUnsafe_def
  the_GitHubHistoryCredential_def the_GitHubRemoteCredential_def the_GitHubOrgSecretAll_def the_GitHubSecretScanningOpen_def
  the_DBListensUnfiltered_def the_EmptyPasswordRemote_def the_SvcListensBeyond_def the_TooManySuperAdmins_def
  the_StaleAccount_def the_NeverSignedIn_def the_SuspendedAdminAssignment_def the_OAuthBroadScope_def
  the_TwoStepNotEnforced_def the_AdminWithoutTwoStep_def the_ExternalForwarding_def

end
