(* ===== verification/Finding_Invariants.thy ===== *)
theory Finding_Invariants
  imports Finding_Defs Check_Tables
begin

text \<open>
  \<open>internal/finding/invariants.go\<close>: what every definition and every posture rule must satisfy, and
  that the compiled-in tables do.  A violation keeps the values its message is formatted from.  A
  predicate is a value and its patterns are compiled terms, and a severity is one of the scale, so
  the checks for a missing predicate, a pattern that does not compile and an unknown severity have
  nothing to find.
\<close>

section \<open>Definitions\<close>

datatype invariant =
    RuleUnknownFinding | RuleUnknownCheck | RuleParserMismatch | RuleDefIncomplete | RuleDefCategory
  | RuleDefPremise | RuleDefArea | RuleDefExposure | RuleDefJudges | RuleDefSubject | RuleWithCheck

record def_violation =
  dv_subject :: string
  dv_rule :: invariant
  dv_detail :: "string list"

definition Categories :: "string list" where
  "Categories =
     [CategoryRemoteAccess, CategoryNetwork, ''accounts'', ''privesc'', ''integrity'', ''updates'', ''persistence'', ''logging'',
      ''fs'', ''disk'', ''time'', CategoryGovernance, CategoryCustom, CategoryDNS, CategoryEmail, ''tls'', ''web'', ''ci'', ''secrets'']"

definition SubjectKinds :: "string list" where
  "SubjectKinds =
     [''account'', ''org_unit'', ''group'', ''deploy_key'', ''token'', ''principal'', ''oauth_app'', ''service'',
      ''dependency_alert'', ''repository'', ''workflow'', ''branch'', ''webhook'', ''invitation'', ''secret_location'', ''dns_name'',
      ''url'', ''declaration'', ''origin'', ''dns_record'', ''mail_domain'', ''dkim_selector'', ''spf_mechanism'', ''mail_forward'']"

definition knownCategory :: "string \<Rightarrow> bool" where
  "knownCategory c = (c \<in> set Categories)"

definition def_violations :: "def \<Rightarrow> def_violation list" where
  "def_violations d =
     (let bad = (\<lambda>r detail. [\<lparr>dv_subject = def_id d, dv_rule = r, dv_detail = detail\<rparr>]) in
      (if \<not> knownCategory (def_category d) then bad RuleDefCategory [def_category d] else []) @
      (if def_title d = [] \<or> def_impact d = [] \<or> def_category d = [] \<or> rem_summary (def_remediation d) = []
       then bad RuleDefIncomplete [] else []) @
      (if def_area d \<notin> set Areas then bad RuleDefArea [def_area d] else []) @
      (if def_exposure d \<noteq> NotExposure \<and> def_exposure d \<noteq> IsExposure then bad RuleDefExposure [] else []) @
      (if def_judges d = [] \<and> rulesFor (def_id d) \<noteq> [] then bad RuleDefJudges [] else []) @
      (if def_subject d \<noteq> [] \<and> def_subject d \<notin> set SubjectKinds then bad RuleDefSubject [def_subject d] else []) @
      concat (map (\<lambda>i. if rulesFor i = [] then bad RuleDefPremise [i] else []) (def_premise d)))"

section \<open>Rules\<close>

definition is_join :: "predicate \<Rightarrow> bool" where
  "is_join p = (case p of StatusWithLoginShell _ _ _ \<Rightarrow> True | _ \<Rightarrow> False)"

definition acceptsWith :: "predicate \<Rightarrow> parser_kind \<Rightarrow> bool" where
  "acceptsWith p k = (is_join p \<and> k = ParseAccounts)"

definition withViolations :: "catalog \<Rightarrow> string \<Rightarrow> posture_rule \<Rightarrow> platform \<Rightarrow> def_violation list" where
  "withViolations cat name r p =
     (let bad = (\<lambda>detail. [\<lparr>dv_subject = name, dv_rule = RuleWithCheck, dv_detail = detail\<rparr>]) in
      if pr_with r = [] \<and> \<not> is_join (pr_when r) then []
      else if pr_with r = [] then bad []
      else if \<not> is_join (pr_when r) then bad [pr_with r]
      else if pr_with r = pr_check r then bad []
      else (case lookup cat (pr_with r) p of
              None \<Rightarrow> bad [pr_with r, p]
            | Some c \<Rightarrow> if \<not> acceptsWith (pr_when r) (check_parser c) then bad [pr_with r, p] else []))"

definition rule_on :: "catalog \<Rightarrow> string \<Rightarrow> posture_rule \<Rightarrow> platform \<Rightarrow> def_violation list" where
  "rule_on cat name r p =
     (case lookup cat (pr_check r) p of
        None \<Rightarrow> [\<lparr>dv_subject = name, dv_rule = RuleUnknownCheck, dv_detail = [pr_check r, p]\<rparr>]
      | Some c \<Rightarrow>
          (if \<not> accepts (pr_when r) (check_parser c)
           then [\<lparr>dv_subject = name, dv_rule = RuleParserMismatch, dv_detail = [pr_check r, p]\<rparr>] else []) @
          withViolations cat name r p)"

definition rule_violations :: "def list \<Rightarrow> catalog \<Rightarrow> posture_rule \<Rightarrow> def_violation list" where
  "rule_violations defs cat r =
     (let name = pr_finding r @ '' via '' @ pr_check r in
      (if def_lookup defs (pr_finding r) = None
       then [\<lparr>dv_subject = name, dv_rule = RuleUnknownFinding, dv_detail = [pr_finding r]\<rparr>] else []) @
      concat (map (rule_on cat name r)
        (if pr_platform r = platform_any then [platform_linux, platform_macos] else [pr_platform r])))"

definition Defs :: "def list \<Rightarrow> def list" where
  "Defs defs = sort_key def_id defs"

definition ValidateRules :: "def list \<Rightarrow> catalog \<Rightarrow> def_violation list" where
  "ValidateRules defs cat = concat (map def_violations (Defs defs)) @ concat (map (rule_violations defs cat) Rules)"

section \<open>The compiled-in tables\<close>

lemma concat_map_empty: "concat (map f xs) = [] \<longleftrightarrow> list_all (\<lambda>x. f x = []) xs"
  by (induction xs) auto


lemmas category_defs = CategoryRemoteAccess_def CategoryNetwork_def CategoryGovernance_def CategoryCustom_def CategoryDNS_def
  CategoryEmail_def

lemmas area_defs = AreaIdentity_def AreaSecrets_def AreaCloud_def AreaData_def AreaCICD_def AreaExternal_def AreaWeb_def
  AreaHosts_def AreaEmail_def AreaLogging_def

text \<open>An entry that says what it judges and presupposes nothing is checked without the rule table.\<close>

definition plain_valid :: "def \<Rightarrow> bool" where
  "plain_valid d =
     (knownCategory (def_category d) \<and> def_title d \<noteq> [] \<and> def_impact d \<noteq> [] \<and> def_category d \<noteq> [] \<and>
      rem_summary (def_remediation d) \<noteq> [] \<and> def_area d \<in> set Areas \<and> def_exposure d \<noteq> ExposureUndeclared \<and>
      def_judges d \<noteq> [] \<and> (def_subject d = [] \<or> def_subject d \<in> set SubjectKinds) \<and> def_premise d = [])"

lemma plain_valid_ok: "plain_valid d \<Longrightarrow> def_violations d = []"
  by (cases "def_exposure d") (auto simp: plain_valid_def def_violations_def Let_def)

text \<open>The check of an entry, step by step along the way it is written.\<close>

lemma plain_valid_base [simp]:
  "\<lbrakk>knownCategory c; t \<noteq> []; im \<noteq> []; s \<noteq> []; a \<in> set Areas; j \<noteq> []\<rbrakk> \<Longrightarrow>
   plain_valid ((plain_def i t c a base im (remedy s cmds cv))\<lparr>def_judges := j\<rparr>)"
  by (auto simp: plain_valid_def plain_def_def remedy_def knownCategory_def Categories_def CategoryRemoteAccess_def CategoryNetwork_def
      CategoryGovernance_def CategoryCustom_def CategoryDNS_def CategoryEmail_def)

lemma plain_valid_update [simp]:
  "plain_valid (d\<lparr>def_hostAccess := x\<rparr>) = plain_valid d"
  "plain_valid (d\<lparr>def_multiFact := x\<rparr>) = plain_valid d"
  "plain_valid (d\<lparr>def_ceiling := v\<rparr>) = plain_valid d"
  "plain_valid (d\<lparr>def_attributes := as\<rparr>) = plain_valid d"
  by (simp_all add: plain_valid_def)

lemma plain_valid_subject [simp]: "plain_valid d \<Longrightarrow> sub \<in> set SubjectKinds \<Longrightarrow> plain_valid (d\<lparr>def_subject := sub\<rparr>)"
  by (simp add: plain_valid_def)

lemma plain_valid_exposure [simp]: "plain_valid d \<Longrightarrow> plain_valid (d\<lparr>def_exposure := IsExposure\<rparr>)"
  by (simp add: plain_valid_def)

lemma plain_valid_area [simp]:
  "plain_valid d \<Longrightarrow> plain_valid (github_area d)" "plain_valid d \<Longrightarrow> plain_valid (in_secrets d)"
  "plain_valid d \<Longrightarrow> plain_valid (in_ci d)"
  by (simp_all add: plain_valid_def github_area_def in_secrets_def in_ci_def Areas_def knownCategory_def Categories_def)

lemma plain_valid_built [simp]:
  "\<lbrakk>t \<noteq> []; im \<noteq> []; s \<noteq> []; sub = [] \<or> sub \<in> set SubjectKinds\<rbrakk> \<Longrightarrow> plain_valid (githubDef i t base sub im s)"
  "\<lbrakk>t \<noteq> []; im \<noteq> []; s \<noteq> []; sub = [] \<or> sub \<in> set SubjectKinds\<rbrakk> \<Longrightarrow> plain_valid (workspaceDef i t base sub im s)"
  by (simp_all add: plain_valid_def githubDef_def workspaceDef_def plain_def_def remedy_def Areas_def knownCategory_def
      Categories_def)

lemma known_categories [simp]:
  "list_all knownCategory Categories" "list_all (\<lambda>a. a \<in> set Areas) Areas"
  "knownCategory CategoryNetwork" "knownCategory CategoryRemoteAccess" "knownCategory CategoryGovernance"
  "knownCategory CategoryDNS" "knownCategory CategoryEmail"
  by (simp_all add: knownCategory_def Categories_def list_all_iff)

lemma areas_known [simp]:
  "AreaIdentity \<in> set Areas" "AreaSecrets \<in> set Areas" "AreaData \<in> set Areas" "AreaCICD \<in> set Areas"
  "AreaExternal \<in> set Areas" "AreaWeb \<in> set Areas" "AreaHosts \<in> set Areas" "AreaEmail \<in> set Areas"
  by (simp_all add: Areas_def)

lemma literal_categories [simp]:
  "knownCategory ''accounts''" "knownCategory ''integrity''" "knownCategory ''updates''" "knownCategory ''logging''"
  "knownCategory ''fs''" "knownCategory ''disk''" "knownCategory ''time''" "knownCategory ''tls''" "knownCategory ''web''"
  "knownCategory ''network''" "knownCategory ''remote-access''" "knownCategory ''privesc''" "knownCategory ''persistence''"
  by (simp_all add: knownCategory_def Categories_def category_defs)

lemma host_defs_valid: "list_all plain_valid host_defs"
  by (simp add: host_defs_def the_defs)

lemma web_defs_valid: "list_all plain_valid webDefs"
  by (simp add: webDefs_def the_defs SubjectKinds_def)

lemma github_defs_valid: "list_all plain_valid githubDefs" "list_all plain_valid github_alert_defs"
    "list_all plain_valid github_ci_defs" "list_all plain_valid github_history_defs"
  by (simp_all add: githubDefs_def github_alert_defs_def github_ci_defs_def github_history_defs_def dependabot_def_def
      the_defs SubjectKinds_def)

lemma multiFact_defs_valid: "list_all plain_valid multiFactDefs"
  by (simp add: multiFactDefs_def the_defs SubjectKinds_def)

text \<open>A judgement entry says nothing of what it judges, so no posture rule may produce it.\<close>

lemma judgement_valid:
  assumes "knownCategory c" "t \<noteq> []" "im \<noteq> []" "s \<noteq> []" "a \<in> set Areas" "rulesFor i = []"
  shows "def_violations (plain_def i t c a base im (remedy s cmds cv)) = []"
    "rulesFor p \<noteq> [] \<Longrightarrow> def_violations ((plain_def i t c a base im (remedy s cmds cv))\<lparr>def_premise := [p]\<rparr>) = []"
proof -
  have "c \<noteq> []" using assms(1) by (auto simp: knownCategory_def Categories_def category_defs)
  then show "def_violations (plain_def i t c a base im (remedy s cmds cv)) = []"
      "rulesFor p \<noteq> [] \<Longrightarrow> def_violations ((plain_def i t c a base im (remedy s cmds cv))\<lparr>def_premise := [p]\<rparr>) = []"
    using assms by (simp_all add: def_violations_def plain_def_def remedy_def)
qed

lemma judgement_rules:
  "rulesFor IDAcceptanceExpired = []" "rulesFor IDUnexpectedListener = []" "rulesFor IDNoFirewallActive = []"
  "rulesFor IDSudoNopasswdBroad = []" "rulesFor IDUnexpectedSUID = []" "rulesFor IDUnexpectedPersist = []"
  "rulesFor IDUnexpectedAdmin = []" "rulesFor IDPasswordAuthExposed = []" "rulesFor IDPasswordAuthEnabled \<noteq> []"
  by (simp_all add: rulesFor_def posture_rules_def one_rule_def finding_ids new_finding_ids IDAcceptanceExpired_def)

lemma judgement_defs_valid: "list_all (\<lambda>d. def_violations d = []) judgementDefs"
  by (simp add: judgementDefs_def the_defs judgement_valid judgement_rules plain_valid_ok)

lemma plain_list_ok: "list_all plain_valid ds \<Longrightarrow> list_all (\<lambda>d. def_violations d = []) ds"
  by (auto simp: list_all_iff plain_valid_ok)

lemma package_defs_valid: "list_all (\<lambda>d. def_violations d = []) package_defs"
proof -
  have "list_all plain_valid (map github_area githubDefs)" "list_all plain_valid (map in_ci github_ci_defs)"
      "list_all plain_valid (map in_secrets github_history_defs)"
    using github_defs_valid by (auto simp: list_all_iff)
  then show ?thesis
    unfolding package_defs_def list_all_append
    using plain_list_ok host_defs_valid web_defs_valid github_defs_valid(2) judgement_defs_valid by blast
qed

text \<open>The ids of the tables.\<close>

lemma def_id_built [simp]:
  "def_id (plain_def i t c a base im fix) = i" "def_id (githubDef i t base sub im s) = i"
  "def_id (workspaceDef i t base sub im s) = i" "def_id (dependabot_def i base) = i"
  "def_id (github_area d) = def_id d" "def_id (in_ci d) = def_id d" "def_id (in_secrets d) = def_id d"
  by (simp_all add: plain_def_def githubDef_def workspaceDef_def dependabot_def_def github_area_def in_ci_def in_secrets_def Let_def)

lemma host_ids: "map def_id host_defs = [IDFileVaultOff, IDSIPDisabled, IDGatekeeperDisabled, IDAppFirewallDisabled, IDRemoteLoginEnabled, IDNTPDisabled, IDPasswordAuthEnabled, IDRootLoginEnabled, IDEmptyPassword, IDShadowPermissions, IDSELinuxDisabled, IDAuditdInactive, IDNTPUnsynced, IDUpdatesPending, IDWorldWritablePresent]"
  by (simp add: host_defs_def the_defs)

text \<open>The listing of the shipped checks: id, platform and parser.\<close>

definition shipped_index :: "(string \<times> platform \<times> parser_kind) list" where
  "shipped_index =
     [(''sys.canary'', platform_any, ParseRaw), (''sys.platform'', platform_any, ParseRaw),
      (''sys.uname'', platform_any, ParseRaw), (''sys.uid'', platform_any, ParseRaw),
      (''sys.shell'', platform_any, ParseRaw), (''host.hostname'', platform_any, ParseRaw),
      (''sys.which'', platform_any, ParseRaw), (''fs.realpath'', platform_any, ParseRaw),
      (''fs.stat'', platform_linux, ParseRaw), (''fs.stat'', platform_macos, ParseRaw),
      (''fs.list'', platform_any, ParseLines), (''text.cat'', platform_any, ParseRaw),
      (''text.head'', platform_any, ParseRaw), (''os.release'', platform_linux, ParseKV),
      (''host.machine_id'', platform_linux, ParseRaw), (''pkg.apt_upgradable'', platform_linux, ParseUpdates),
      (''pkg.dnf_check_update'', platform_linux, ParseUpdates), (''pkg.zypper_lp'', platform_linux, ParseUpdates),
      (''disk.lsblk'', platform_linux, ParseLines), (''disk.crypttab'', platform_linux, ParseLines),
      (''mac.sestatus'', platform_linux, ParseKV), (''mac.aa_status'', platform_linux, ParseLines),
      (''fw.ufw'', platform_linux, ParseLines), (''fw.firewalld'', platform_linux, ParseRaw),
      (''fw.nft'', platform_linux, ParseRaw), (''fw.iptables_backend'', platform_linux, ParseRaw),
      (''net.listeners'', platform_linux, ParseListeners), (''sshd.config'', platform_linux, ParseKV),
      (''accounts.passwd'', platform_linux, ParseAccounts), (''accounts.shadow_meta'', platform_linux, ParseFileMode),
      (''accounts.passwd_status'', platform_linux, ParsePasswdStatus), (''privesc.sudoers'', platform_linux, ParseLines),
      (''privesc.sudoers_d'', platform_linux, ParseLines), (''remote.sshd_enabled'', platform_linux, ParseLines),
      (''persist.units'', platform_linux, ParseUnits), (''persist.timers'', platform_linux, ParseLines),
      (''persist.cron'', platform_linux, ParseLines), (''fs.suid'', platform_linux, ParseLines),
      (''fs.world_writable'', platform_linux, ParseLines), (''log.auditd'', platform_linux, ParseRaw),
      (''log.journal_usage'', platform_linux, ParseRaw), (''time.timedatectl'', platform_linux, ParseKV),
      (''os.release'', platform_macos, ParseKV), (''host.platform_uuid'', platform_macos, ParseRaw),
      (''pkg.softwareupdate'', platform_macos, ParseUpdates), (''disk.fdesetup'', platform_macos, ParseRaw),
      (''integrity.csrutil'', platform_macos, ParseRaw), (''integrity.spctl'', platform_macos, ParseRaw),
      (''fw.global'', platform_macos, ParseRaw), (''fw.blockall'', platform_macos, ParseRaw),
      (''fw.stealth'', platform_macos, ParseRaw), (''net.listeners'', platform_macos, ParseListeners),
      (''sshd.config'', platform_macos, ParseKV), (''accounts.users'', platform_macos, ParseAccounts),
      (''accounts.admins'', platform_macos, ParseRaw), (''privesc.sudoers'', platform_macos, ParseLines),
      (''privesc.sudoers_d'', platform_macos, ParseLines), (''remote.login'', platform_macos, ParseRaw),
      (''remote.launchd_disabled'', platform_macos, ParseLines), (''persist.launchctl'', platform_macos, ParseLaunchd),
      (''persist.launch_dirs'', platform_macos, ParseLines), (''fs.suid'', platform_macos, ParseLines),
      (''fs.world_writable'', platform_macos, ParseLines), (''log.status'', platform_macos, ParseRaw),
      (''time.ntp'', platform_macos, ParseRaw)]"

lemma shipped_index: "map (\<lambda>c. (check_id c, check_platform c, check_parser c)) shipped = shipped_index"
  by (simp add: shipped_def common_checks_def linux_checks_def macos_checks_def builder_defs shipped_index_def)

definition index_parser :: "(string \<times> platform \<times> parser_kind) list \<Rightarrow> string \<Rightarrow> platform \<Rightarrow> parser_kind option" where
  "index_parser ix i p = map_option (\<lambda>(_, _, k). k) (List.find (\<lambda>(j, q, _). j = i \<and> (q = platform_any \<or> q = p)) ix)"

lemma find_index:
  "map_option check_parser (List.find (\<lambda>c. answers c i p) cs) =
   index_parser (map (\<lambda>c. (check_id c, check_platform c, check_parser c)) cs) i p"
  by (induction cs) (auto simp: index_parser_def answers_def appliesTo_def)

lemma lookup_parser: "map_option check_parser (lookup shipped i p) = index_parser shipped_index i p"
  using find_index [of i p shipped] lookup_find [OF shipped_ok] shipped_index by simp

text \<open>The reads of a rule, by the listing.\<close>

definition index_on :: "posture_rule \<Rightarrow> platform \<Rightarrow> bool" where
  "index_on r p =
     ((case index_parser shipped_index (pr_check r) p of None \<Rightarrow> False | Some k \<Rightarrow> accepts (pr_when r) k) \<and>
      (if pr_with r = [] then \<not> is_join (pr_when r)
       else is_join (pr_when r) \<and> pr_with r \<noteq> pr_check r \<and> index_parser shipped_index (pr_with r) p = Some ParseAccounts))"

lemma index_on_ok: "index_on r p \<Longrightarrow> rule_on shipped name r p = []"
  using lookup_parser [of "pr_check r" p] lookup_parser [of "pr_with r" p]
  by (auto simp: index_on_def rule_on_def withViolations_def acceptsWith_def Let_def split: option.splits if_splits)

lemma index_lookups:
  "index_parser shipped_index ''disk.fdesetup'' platform_macos = Some ParseRaw"
  "index_parser shipped_index ''integrity.csrutil'' platform_macos = Some ParseRaw"
  "index_parser shipped_index ''integrity.spctl'' platform_macos = Some ParseRaw"
  "index_parser shipped_index ''fw.global'' platform_macos = Some ParseRaw"
  "index_parser shipped_index ''remote.login'' platform_macos = Some ParseRaw"
  "index_parser shipped_index ''time.ntp'' platform_macos = Some ParseRaw"
  "index_parser shipped_index ''sshd.config'' platform_linux = Some ParseKV"
  "index_parser shipped_index ''sshd.config'' platform_macos = Some ParseKV"
  "index_parser shipped_index ''accounts.passwd_status'' platform_linux = Some ParsePasswdStatus"
  "index_parser shipped_index ''accounts.passwd'' platform_linux = Some ParseAccounts"
  "index_parser shipped_index ''accounts.shadow_meta'' platform_linux = Some ParseFileMode"
  "index_parser shipped_index ''mac.sestatus'' platform_linux = Some ParseKV"
  "index_parser shipped_index ''log.auditd'' platform_linux = Some ParseRaw"
  "index_parser shipped_index ''time.timedatectl'' platform_linux = Some ParseKV"
  "index_parser shipped_index ''pkg.apt_upgradable'' platform_linux = Some ParseUpdates"
  "index_parser shipped_index ''pkg.dnf_check_update'' platform_linux = Some ParseUpdates"
  "index_parser shipped_index ''pkg.zypper_lp'' platform_linux = Some ParseUpdates"
  "index_parser shipped_index ''pkg.softwareupdate'' platform_macos = Some ParseUpdates"
  "index_parser shipped_index ''fs.world_writable'' platform_linux = Some ParseLines"
  "index_parser shipped_index ''fs.world_writable'' platform_macos = Some ParseLines"
  by code_simp+

lemma posture_index_ok:
  "list_all (\<lambda>r. list_all (index_on r) (if pr_platform r = platform_any then [platform_linux, platform_macos] else [pr_platform r]))
     posture_rules"
proof -
  have "platform_linux \<noteq> platform_any" "platform_macos \<noteq> platform_any"
    by (simp_all add: platform_any_def platform_linux_def platform_macos_def)
  then show ?thesis
    by (simp add: posture_rules_def one_rule_def index_on_def index_lookups is_join_def isTyped_def)
qed

lemma def_lookup_ids: "def_lookup defs i \<noteq> None \<longleftrightarrow> i \<in> set (map def_id defs)"
  by (auto simp: def_lookup_def find_None_iff image_iff)

lemma posture_findings_defined: "list_all (\<lambda>r. pr_finding r \<in> set (map def_id host_defs)) posture_rules"
  unfolding host_ids by (simp add: posture_rules_def one_rule_def)

lemma posture_rules_valid:
  assumes "set host_defs \<subseteq> set defs"
  shows "list_all (\<lambda>r. rule_violations defs shipped r = []) posture_rules"
  unfolding list_all_iff
proof
  fix r
  assume r: "r \<in> set posture_rules"
  then have "def_lookup defs (pr_finding r) \<noteq> None"
    using posture_findings_defined assms unfolding def_lookup_ids by (auto simp: list_all_iff)
  moreover have "\<forall>p\<in>set (if pr_platform r = platform_any then [platform_linux, platform_macos] else [pr_platform r]). index_on r p"
    using posture_index_ok r by (simp add: list_all_iff)
  ultimately show "rule_violations defs shipped r = []"
    using index_on_ok by (auto simp: rule_violations_def Let_def)
qed

text \<open>Every id is used once.\<close>

definition package_ids :: "string list" where
  "package_ids =
     [IDFileVaultOff, IDSIPDisabled, IDGatekeeperDisabled, IDAppFirewallDisabled, IDRemoteLoginEnabled,
      IDNTPDisabled, IDPasswordAuthEnabled, IDRootLoginEnabled, IDEmptyPassword, IDShadowPermissions,
      IDSELinuxDisabled, IDAuditdInactive, IDNTPUnsynced, IDUpdatesPending, IDWorldWritablePresent,
      IDExpectedMissing, IDAcceptanceExpired, IDUnexpectedListener, IDNoFirewallActive, IDSudoNopasswdBroad,
      IDUnexpectedSUID, IDUnexpectedPersist, IDUnexpectedAdmin, IDPasswordAuthExposed, IDWebRestrictedReachable,
      IDTLSCertificateInvalid, IDTLSCertificateExpiring, IDTLSLegacyOnly, IDWebHSTSMissing, IDWebPlaintextHTTP,
      IDWebPlaintextHTTPClients, IDWebSessionCookieFlags, IDWebSecurityHeaders, IDWebVersionDisclosed, IDWebSecretInResponse,
      IDWebSecurityTXT, IDEmailDMARCNotEnforced, IDEmailDMARCPartial, IDEmailDMARCSubdomainsOpen, IDEmailNoMailSpoofable,
      IDEmailSPFPermitsAnyone, IDEmailSPFMissing, IDEmailSPFInvalid, IDEmailSPFUndeclaredSender, IDEmailDKIMMissing,
      IDEmailDKIMKeyBreakable, IDEmailDKIMKey1024, IDDNSTakeoverCandidate, IDDNSUnclaimedAtProvider, IDDNSDanglingExternal,
      IDDNSDanglingInternal, IDDNSPrivateAddress, IDGitHubMFANotRequired, IDGitHubOwnerWithoutMFA, IDGitHubMemberWithoutMFA,
      IDIdentityUnexpectedAdmin, IDIdentityUnattributedAdmin, IDIdentityExternalAdmin, IDIdentitySharedAdmin, IDIdentityFormerPersonHasAccess,
      IDIdentityFormerPersonInvited, IDGitHubTooManyOwners, IDGitHubUndeclaredPublicRepository, IDGitHubBroadDefaultMemberPermission, IDGitHubOutsideAdminOnProduction,
      IDGitHubWritableDeployKey, IDGitHubOrgSecretAll, IDGitHubDependabotHigh, IDGitHubDependabotMedium, IDGitHubDependabotLow,
      IDGitHubSecretScanningOpen, IDGitHubOrganizationWorkflowWrite, IDGitHubRepositoryWorkflowWrite, IDGitHubDefaultBranchUnprotected, IDGitHubMutableAction,
      IDGitHubMutableActionWrite, IDGitHubPRTargetUnsafe, IDGitHubHistoryCredential, IDGitHubRemoteCredential]"

definition registered_ids :: "string list" where
  "registered_ids =
     [IDDBListensUnfiltered, IDEmptyPasswordRemote, IDSvcListensBeyond, IDTooManySuperAdmins, IDStaleAccount,
      IDNeverSignedIn, IDSuspendedAdminAssignment, IDOAuthBroadScope, IDTwoStepNotEnforced, IDAdminWithoutTwoStep,
      IDExternalForwarding]"

lemma package_ids: "map def_id package_defs = package_ids"
  by (simp add: package_defs_def host_ids judgementDefs_def webDefs_def githubDefs_def github_alert_defs_def
      github_ci_defs_def github_history_defs_def the_defs package_ids_def)

lemma registered_ids: "map def_id (multiFactDefs @ workspace_defs) = registered_ids"
  by (simp add: multiFactDefs_def workspace_defs_def the_defs registered_ids_def)

lemma ids_distinct: "distinct (package_ids @ registered_ids)"
  by (simp add: package_ids_def registered_ids_def finding_ids new_finding_ids sev_id_defs IDExpectedMissing_def
      IDAcceptanceExpired_def IDEmptyPasswordRemote_def)

section \<open>Registration\<close>

definition registrable :: "def \<Rightarrow> bool" where
  "registrable d =
     (def_id d \<noteq> [] \<and> def_title d \<noteq> [] \<and> def_impact d \<noteq> [] \<and> rem_summary (def_remediation d) \<noteq> [] \<and> def_area d \<noteq> [] \<and>
      def_exposure d \<noteq> ExposureUndeclared \<and> def_judges d \<noteq> [] \<and>
      (case def_ceiling d of None \<Rightarrow> True | Some c \<Rightarrow> sev_rank (def_baseSeverity d) \<le> sev_rank c))"

lemma register_all_ok:
  "list_all registrable ds \<Longrightarrow> distinct (map def_id (defs @ ds)) \<Longrightarrow> register_all defs ds = Inr (defs @ ds)"
proof (induction ds arbitrary: defs)
  case (Cons d ds)
  have "def_lookup defs (def_id d) = None"
    using Cons.prems(2) def_lookup_ids [of defs "def_id d"] by auto
  then have "register_def defs d = Inr (defs @ [d])"
    using Cons.prems(1) by (auto simp: register_def_def registrable_def split: option.splits)
  then show ?case using Cons.IH [of "defs @ [d]"] Cons.prems by simp
qed simp

text \<open>What \<open>Register\<close> asks of an entry beyond its id, along the way it is written.\<close>

lemma oauth_registrable: "registrable the_OAuthBroadScope" "registrable the_ExternalForwarding"
  by (simp_all add: the_OAuthBroadScope_def the_ExternalForwarding_def registrable_def plain_def_def remedy_def
      IDOAuthBroadScope_def IDExternalForwarding_def area_defs)

lemma registrable_built:
  "\<lbrakk>i \<noteq> []; t \<noteq> []; im \<noteq> []; s \<noteq> []\<rbrakk> \<Longrightarrow> registrable (workspaceDef i t base sub im s)"
  by (simp add: registrable_def workspaceDef_def plain_def_def remedy_def area_defs)

lemma workspace_registrable: "list_all registrable workspace_defs"
  by (simp add: workspace_defs_def oauth_registrable registrable_built the_TooManySuperAdmins_def the_StaleAccount_def
      the_NeverSignedIn_def the_SuspendedAdminAssignment_def the_TwoStepNotEnforced_def the_AdminWithoutTwoStep_def
      new_finding_ids)

lemma multiFact_registrable: "list_all registrable multiFactDefs"
  by (simp add: multiFactDefs_def registrable_def the_DBListensUnfiltered_def the_EmptyPasswordRemote_def
      the_SvcListensBeyond_def plain_def_def remedy_def area_defs sev_id_defs IDEmptyPasswordRemote_def)

lemma registered_registrable: "list_all registrable (multiFactDefs @ workspace_defs)"
  using workspace_registrable multiFact_registrable by simp

section \<open>What a build holds\<close>

text \<open>
  The definitions the collectors register are complete, new and within their ceilings: no
  registration of a build panics, and the table is every definition, once.
\<close>

theorem definitions_register:
  "register_all package_defs (multiFactDefs @ workspace_defs) = Inr (package_defs @ multiFactDefs @ workspace_defs) \<and>
   distinct (map def_id (package_defs @ multiFactDefs @ workspace_defs))"
proof -
  have "distinct (map def_id (package_defs @ multiFactDefs @ workspace_defs))"
    unfolding map_append [of def_id package_defs] package_ids registered_ids by (rule ids_distinct)
  then show ?thesis using register_all_ok [OF registered_registrable, of package_defs] by simp
qed










lemma workspace_others_valid: "list_all (\<lambda>d. d = the_OAuthBroadScope \<or> plain_valid d) workspace_defs"
  by (simp add: workspace_defs_def the_TooManySuperAdmins_def the_StaleAccount_def the_NeverSignedIn_def
      the_SuspendedAdminAssignment_def the_TwoStepNotEnforced_def the_AdminWithoutTwoStep_def the_ExternalForwarding_def
      SubjectKinds_def)

lemma oauth_violations:
  "def_violations the_OAuthBroadScope =
     [\<lparr>dv_subject = IDOAuthBroadScope, dv_rule = RuleDefCategory, dv_detail = [''third-party-apps'']\<rparr>]"
  by (simp add: the_OAuthBroadScope_def def_violations_def plain_def_def remedy_def knownCategory_def Categories_def category_defs
      SubjectKinds_def Let_def)

lemma filter_one: "distinct xs \<Longrightarrow> x \<in> set xs \<Longrightarrow> filter (\<lambda>y. y = x) xs = [x]"
  by (induction xs) (auto simp: filter_empty_conv)

lemma concat_map_filter: "concat (map f (filter (\<lambda>x. f x \<noteq> []) xs)) = concat (map f xs)"
  by (induction xs) auto

text \<open>
  The definition of the third-party app finding names a category that the list of categories does
  not have: in a build with the workspace collector the invariants report exactly that.
\<close>

theorem third_party_category_unknown:
  "ValidateRules (package_defs @ multiFactDefs @ workspace_defs) shipped =
     [\<lparr>dv_subject = IDOAuthBroadScope, dv_rule = RuleDefCategory, dv_detail = [''third-party-apps'']\<rparr>]"
proof -
  let ?all = "package_defs @ multiFactDefs @ workspace_defs"
  let ?bad = "\<lambda>d. def_violations d \<noteq> []"
  have "filter ?bad (package_defs @ multiFactDefs) = []"
    using package_defs_valid plain_list_ok [OF multiFact_defs_valid] by (auto simp: list_all_iff filter_empty_conv)
  moreover have "filter ?bad workspace_defs = filter (\<lambda>d. d = the_OAuthBroadScope) workspace_defs"
    using workspace_others_valid plain_valid_ok oauth_violations by (intro filter_cong) (auto simp: list_all_iff)
  moreover have "filter (\<lambda>d. d = the_OAuthBroadScope) workspace_defs = [the_OAuthBroadScope]"
  proof -
    have "distinct workspace_defs" using ids_distinct registered_ids by (metis distinct_append distinct_map)
    moreover have "the_OAuthBroadScope \<in> set workspace_defs" by (simp add: workspace_defs_def)
    ultimately show ?thesis by (simp add: filter_one)
  qed
  ultimately have "filter ?bad ?all = [the_OAuthBroadScope]" by simp
  then have "filter ?bad (Defs ?all) = [the_OAuthBroadScope]" by (simp add: Defs_def filter_sort)
  then have "concat (map def_violations (Defs ?all)) = def_violations the_OAuthBroadScope"
    using concat_map_filter [of def_violations "Defs ?all"] by simp
  moreover have "concat (map (rule_violations ?all shipped) Rules) = []"
    using posture_rules_valid [of ?all] by (auto simp: concat_map_empty list_all_iff Rules_def package_defs_def)
  ultimately show ?thesis using oauth_violations by (simp add: ValidateRules_def)
qed

end
