(* ===== verification/Gate_Addr.thy ===== *)
theory Gate_Addr
  imports Netip
begin

text \<open>
  \<open>internal/engagement/gate/addr.go\<close>: what an address is to the network gate.  An IPv6 address may
  carry an IPv4 one (IPv4-mapped, NAT64, 6to4); \<open>Carried\<close> is the one place these embeddings are read.
\<close>

section \<open>Addresses that carry addresses\<close>

definition cgnat :: net_prefix where "cgnat = prefix_from (V4 0x64400000) 10"
definition thisNet :: net_prefix where "thisNet = prefix_from (V4 0) 8"
definition reserved :: net_prefix where "reserved = prefix_from (V4 0xf0000000) 4"
definition ietf :: net_prefix where "ietf = prefix_from (V4 0xc0000000) 24"
definition bench :: net_prefix where "bench = prefix_from (V4 0xc6120000) 15"
definition nat64 :: net_prefix where "nat64 = prefix_from (V6 0x64ff9b000000000000000000000000 []) 96"
definition sixTo4 :: net_prefix where "sixTo4 = prefix_from (V6 0x20020000000000000000000000000000 []) 16"
definition mapped :: net_prefix where "mapped = prefix_from (V6 0xffff00000000 []) 96"
definition NAT64Local :: net_prefix where "NAT64Local = prefix_from (V6 0x64ff9b000100000000000000000000 []) 48"

definition metadata :: "addr list" where
  "metadata = [V6 0xfd000ec2000000000000000000000254 [], V4 0x646464c8]"

text \<open>The constants are the values of the texts in the source.\<close>

lemma address_texts:
  "parse_prefix ''100.64.0.0/10'' = Some cgnat" "parse_prefix ''0.0.0.0/8'' = Some thisNet"
  "parse_prefix ''240.0.0.0/4'' = Some reserved" "parse_prefix ''192.0.0.0/24'' = Some ietf"
  "parse_prefix ''198.18.0.0/15'' = Some bench" "parse_prefix ''64:ff9b::/96'' = Some nat64"
  "parse_prefix ''2002::/16'' = Some sixTo4" "parse_prefix ''::ffff:0:0/96'' = Some mapped"
  "parse_prefix ''64:ff9b:1::/48'' = Some NAT64Local"
  "map parse_addr [''fd00:ec2::254'', ''100.100.100.200''] = map Some metadata"
  by code_simp+

definition Carried :: "net_prefix \<Rightarrow> net_prefix option" where
  "Carried p =
     (case pfx_addr p of
        V6 x z \<Rightarrow>
          (if pfx_bits p < pfx_bits mapped \<and> pfx_contains p (pfx_addr mapped) \<or>
              pfx_bits p < pfx_bits nat64 \<and> pfx_contains p (pfx_addr nat64) \<or>
              pfx_bits p < pfx_bits sixTo4 \<and> pfx_contains p (pfx_addr sixTo4)
           then Some (prefix_from (V4 0) 0)
           else if pfx_contains mapped (V6 x z) \<or> pfx_contains nat64 (V6 x z)
           then Some (pfx_masked (prefix_from (V4 (ucast x)) (max (pfx_bits p) 96 - 96)))
           else if pfx_contains sixTo4 (V6 x z)
           then Some (pfx_masked (prefix_from (V4 (ucast (drop_bit 80 x))) (min (pfx_bits p) 48 - 16)))
           else None)
      | _ \<Rightarrow> None)"

definition Forms :: "addr \<Rightarrow> addr list" where
  "Forms a =
     (let b = with_zone a [] in
      b # (case Carried (prefix_from b (int (bit_len b))) of None \<Rightarrow> [] | Some c \<Rightarrow> [pfx_addr c]))"

section \<open>Classes\<close>

datatype addr_class = Public | NotPublic | Never

instantiation addr_class :: linorder
begin

primrec class_rank :: "addr_class \<Rightarrow> nat" where
  "class_rank Public = 0"
| "class_rank NotPublic = 1"
| "class_rank Never = 2"

definition less_eq_addr_class :: "addr_class \<Rightarrow> addr_class \<Rightarrow> bool" where
  "less_eq_addr_class c d = (class_rank c \<le> class_rank d)"

definition less_addr_class :: "addr_class \<Rightarrow> addr_class \<Rightarrow> bool" where
  "less_addr_class c d = (class_rank c < class_rank d)"

instance
proof
  fix x y :: addr_class
  show "x = y" if "x \<le> y" "y \<le> x"
    using that by (cases x; cases y) (auto simp: less_eq_addr_class_def)
qed (auto simp: less_eq_addr_class_def less_addr_class_def)

end

lemma class_rank_le [simp]: "class_rank c \<le> 2"
  by (cases c) simp_all

lemmas class_order = less_eq_addr_class_def less_addr_class_def max_def

text \<open>The checks on the address as written.\<close>

definition classify_plain :: "addr \<Rightarrow> addr_class" where
  "classify_plain a =
     (if a \<in> set metadata then Never
      else if is_loopback a \<or> is_link_local_unicast a \<or> is_link_local_multicast a \<or> is_unspecified a then Never
      else if is_private a \<or> is_multicast a \<or> is_interface_local_multicast a \<or> pfx_contains cgnat a \<or>
        pfx_contains thisNet a \<or> pfx_contains reserved a \<or> pfx_contains ietf a \<or> pfx_contains bench a
        then NotPublic
      else Public)"

lemma Carried_V4 [simp]: "Carried (prefix_from (V4 x) n) = None"
  by (simp add: Carried_def prefix_from_def)

lemma Forms_V4 [simp]: "Forms (V4 x) = [V4 x]"
  by (simp add: Forms_def)

lemma Forms_NoAddr [simp]: "Forms NoAddr = [NoAddr]"
  by (simp add: Forms_def Carried_def prefix_from_def)

text \<open>What is carried is an IPv4 network.\<close>

lemma Carried_is4: "Carried p = Some q \<Longrightarrow> \<exists>x. pfx_addr q = V4 x \<or> pfx_addr q = NoAddr"
  by (auto simp: Carried_def prefix_from_def pfx_masked_def no_prefix_def split: addr.splits if_splits option.splits)

lemma Forms_cases:
  obtains (plain) "Forms a = [with_zone a []]"
  | (carrying) x z c where "a = V6 x z" "Forms a = [V6 x [], c]" "bit_len c < 128"
proof (cases "Carried (prefix_from (with_zone a []) (int (bit_len (with_zone a []))))")
  case None
  then show ?thesis using plain by (simp add: Forms_def)
next
  case (Some q)
  from Carried_is4 [OF this] have "bit_len (pfx_addr q) < 128" by auto
  moreover obtain x z where "a = V6 x z"
    using Some by (cases a) (auto simp: Carried_def prefix_from_def)
  ultimately show ?thesis using Some carrying [of x z "pfx_addr q"] by (simp add: Forms_def)
qed

function classify :: "addr \<Rightarrow> addr_class" where
  "classify a =
     (if pfx_contains NAT64Local a then Never
      else (case Forms a of
              _ # c # _ \<Rightarrow> max NotPublic (classify c)
            | _ \<Rightarrow> classify_plain a))"
  by auto
termination
proof (relation "measure bit_len")
  fix a b :: addr and c ds es
  assume "Forms a = b # ds" "ds = c # es"
  then show "(c, a) \<in> measure bit_len" by (cases a rule: Forms_cases) auto
qed simp

declare classify.simps [simp del]

section \<open>An exclude of more covers more\<close>


lemma drop_push_drop [simp]: "drop_bit k (push_bit k (drop_bit k x)) = drop_bit k x" for x :: "'a::len word"
  by (rule bit_word_eqI) (auto simp: bit_simps dest: bit_imp_le_length)


lemma pfx_contains_masked [simp]: "pfx_contains (pfx_masked p) a = pfx_contains p a"
  by (cases p; cases "pfx_addr p")
    (auto simp: pfx_contains_def pfx_masked_def no_prefix_def split: option.splits addr.splits)




lemma embedding_iffs:
  "pfx_contains mapped (V6 x z) \<longleftrightarrow> z = [] \<and> drop_bit 32 x = 0xffff"
  "pfx_contains nat64 (V6 x z) \<longleftrightarrow> z = [] \<and> drop_bit 32 x = 0x64ff9b0000000000000000"
  "pfx_contains sixTo4 (V6 x z) \<longleftrightarrow> z = [] \<and> drop_bit 112 x = 0x2002"
  by (auto simp: pfx_contains_def mapped_def nat64_def sixTo4_def prefix_from_def)

definition v4_embedded :: "v6 \<Rightarrow> v4 option" where
  "v4_embedded x =
     (if drop_bit 32 x = 0xffff \<or> drop_bit 32 x = 0x64ff9b0000000000000000 then Some (ucast x)
      else if drop_bit 112 x = 0x2002 then Some (ucast (drop_bit 80 x))
      else None)"

lemma embedding_bits [simp]: "pfx_bits mapped = 96" "pfx_bits nat64 = 96" "pfx_bits sixTo4 = 16"
  by (simp_all add: pfx_bits_def mapped_def nat64_def sixTo4_def prefix_from_def)

lemma embedding_addrs [simp]:
  "pfx_addr mapped = V6 0xffff00000000 []" "pfx_addr nat64 = V6 0x64ff9b000000000000000000000000 []"
  "pfx_addr sixTo4 = V6 0x20020000000000000000000000000000 []"
  by (simp_all add: mapped_def nat64_def sixTo4_def prefix_from_def)

lemma one_address [simp]:
  "pfx_addr (prefix_from a n) = with_zone a []" "pfx_bits (prefix_from (V6 x z) 128) = 128"
  "pfx_masked (prefix_from (V4 w) 32) = prefix_from (V4 w) 32"
  by (simp_all add: prefix_from_def pfx_bits_def pfx_masked_def)

lemma Carried_one:
  "Carried (prefix_from (V6 x z) 128) = map_option (\<lambda>w. prefix_from (V4 w) 32) (v4_embedded x)"
  by (simp add: Carried_def v4_embedded_def embedding_iffs)

lemma Forms_V6: "Forms (V6 x z) = V6 x [] # (case v4_embedded x of None \<Rightarrow> [] | Some w \<Rightarrow> [V4 w])"
  by (simp add: Forms_def Carried_one split: option.splits)

definition pfx_wf :: "net_prefix \<Rightarrow> bool" where
  "pfx_wf p = (addr_zone (pfx_addr p) = [] \<and> (case pfx_len p of None \<Rightarrow> True | Some n \<Rightarrow> n \<le> bit_len (pfx_addr p)))"

lemma drop_bit_too_far [simp]: "drop_bit 32 (w :: v4) = 0"
  by (rule bit_word_eqI) (auto simp: bit_simps dest: bit_imp_le_length)

lemma everything_contains [simp]: "pfx_contains (prefix_from (V4 0) 0) (V4 w)"
  by (simp add: pfx_contains_def prefix_from_def)



lemma pfx_wf_from: "pfx_wf (prefix_from a n)"
  by (cases a) (auto simp: pfx_wf_def prefix_from_def)




section \<open>What is never contacted\<close>

lemma classify_V6:
  "classify (V6 x z) =
     (if pfx_contains NAT64Local (V6 x z) then Never
      else (case v4_embedded x of Some w \<Rightarrow> max NotPublic (classify (V4 w)) | None \<Rightarrow> classify_plain (V6 x z)))"
  by (subst classify.simps) (simp add: Forms_V6 split: option.splits)

lemma classify_V4: "classify (V4 w) = classify_plain (V4 w)"
  by (subst classify.simps) (simp add: pfx_contains_def NAT64Local_def prefix_from_def)

text \<open>
  C39: The gate sees through every embedding: the class of an address without a zone is at least the class
  of each of its forms, and an address that carries another is never public.
\<close>
theorem classify_sees_through:
  assumes "addr_zone a = []" and "f \<in> set (Forms a)"
  shows "classify f \<le> classify a \<and> (length (Forms a) > 1 \<longrightarrow> classify a \<noteq> Public)"
proof (cases a)
  case (V6 x z)
  then show ?thesis
    using assms by (cases "v4_embedded x") (auto simp: Forms_V6 classify_V6 class_order)
qed (use assms in auto)

text \<open>The IPv4-mapped spelling of the metadata address 169.254.169.254.\<close>

theorem classify_sees_through_witness:
  "classify (V4 0xa9fea9fe) = Never \<and> classify (V6 0xffffa9fea9fe []) = Never"
proof -
  have f: "Forms (V6 0xffffa9fea9fe []) = [V6 0xffffa9fea9fe [], V4 0xa9fea9fe]" by code_simp
  have never: "classify (V4 0xa9fea9fe) = Never" unfolding classify_V4 by code_simp
  moreover have "classify (V4 0xa9fea9fe) \<le> classify (V6 0xffffa9fea9fe [])"
    using classify_sees_through [of "V6 0xffffa9fea9fe []" "V4 0xa9fea9fe"] f by simp
  ultimately show ?thesis by (cases "classify (V6 0xffffa9fea9fe [])") (auto simp: class_order)
qed

text \<open>
  The zone of an address is not dropped before its own class is read: with a zone, the metadata
  address \<open>fd00:ec2::254\<close> is only not public and the unspecified address is public, while without one
  neither is ever contacted.
\<close>
theorem classify_keeps_zone:
  "classify (V6 0xfd000ec2000000000000000000000254 []) = Never \<and>
   classify (V6 0xfd000ec2000000000000000000000254 ''eth0'') = NotPublic \<and>
   classify (V6 0 []) = Never \<and> classify (V6 0 ''eth0'') = Public"
  unfolding classify_V6 by code_simp

end
