(* ===== verification/Regexp_Groups.thy ===== *)
theory Regexp_Groups
  imports Regexp
begin

text \<open>
  The text of a capture group: every group a match closes holds text its pattern consumed.
\<close>

definition group_texts :: "(nat \<Rightarrow> string \<Rightarrow> bool) \<Rightarrow> string \<Rightarrow> mstate \<Rightarrow> bool" where
  "group_texts L s st =
     (rest st = drop (pos st) s \<and> pos st \<le> length s \<and> (\<forall>(n, i, j) \<in> set (caps st). L n (slice s i j)))"

primrec groups_in :: "(nat \<Rightarrow> string \<Rightarrow> bool) \<Rightarrow> re \<Rightarrow> bool" where
  "groups_in L Eps = True"
| "groups_in L (Cls rs) = True"
| "groups_in L (Seq a b) = (groups_in L a \<and> groups_in L b)"
| "groups_in L (Alt a b) = (groups_in L a \<and> groups_in L b)"
| "groups_in L (Star g r) = groups_in L r"
| "groups_in L (Grp n r) = (groups_in L r \<and> (\<forall>st st' w. re_step r st st' \<and> rest st = w @ rest st' \<longrightarrow> L n w))"
| "groups_in L TextStart = True"
| "groups_in L TextEnd = True"
| "groups_in L WordB = True"

lemma re_step_group_texts:
  "re_step r st st' \<Longrightarrow> groups_in L r \<Longrightarrow> group_texts L s st \<Longrightarrow> group_texts L s st'"
proof (induction rule: re_step.induct)
  case (cls st c cs rs)
  then have "drop (pos st) s = c # cs" "pos st < length s"
    by (auto simp: group_texts_def) (metis drop_all list.distinct(1) not_le)
  then have "cs = drop (Suc (pos st)) s" by (metis drop_Suc list.sel(3) tl_drop)
  with cls \<open>pos st < length s\<close> show ?case by (auto simp: group_texts_def)
next
  case (grp r st st' n)
  then have st': "group_texts L s st'" and st: "rest st = drop (pos st) s" by (auto simp: group_texts_def)
  then have "rest st' = drop (pos st') s" by (simp add: group_texts_def)
  moreover have "pos st \<le> pos st'" using re_step_pos [OF grp.hyps] by simp
  moreover have "drop (pos st) s = slice s (pos st) (pos st') @ drop (pos st') s"
    using \<open>pos st \<le> pos st'\<close> by (simp add: slice_def) (metis append_take_drop_id drop_drop le_add_diff_inverse2)
  ultimately have "rest st = slice s (pos st) (pos st') @ rest st'" using st by simp
  then have "L n (slice s (pos st) (pos st'))" using grp.hyps grp.prems(1) by auto
  then show ?case using st' by (auto simp: group_texts_def)
qed auto

lemma find_from_step:
  "find_from r p i s = Some f \<Longrightarrow> \<exists>k p'. k \<le> length s \<and> found_start f = i + k \<and>
     re_step r (St p' (drop k s) (i + k) []) (found_end f)"
proof (induction s arbitrary: p i)
  case Nil
  then show ?case using re_match_sound [of r "St p [] i []" Some] by auto
next
  case (Cons c cs)
  show ?case
  proof (cases "re_match r (St p (c # cs) i []) Some")
    case None
    with Cons.prems have "find_from r (Some c) (Suc i) cs = Some f" by simp
    from Cons.IH [OF this] obtain k p' where "k \<le> length cs" "found_start f = Suc i + k"
      "re_step r (St p' (drop k cs) (Suc i + k) []) (found_end f)" by blast
    then show ?thesis by (intro exI [of _ "Suc k"] exI [of _ p']) simp
  next
    case (Some st)
    with Cons.prems re_match_sound [OF Some] show ?thesis by (intro exI [of _ 0] exI [of _ p]) auto
  qed
qed

lemma find_submatch_groups:
  assumes "find_submatch r s = Some f" and "groups_in L r" and "group_span f n = Some (i, j)" and "0 < n"
  shows "L n (submatch_text s f n)"
proof -
  from find_from_step [OF assms(1) [unfolded find_submatch_def]] obtain k p'
    where "k \<le> length s" "re_step r (St p' (drop k s) k []) (found_end f)" by auto
  moreover have "group_texts L s (St p' (drop k s) k [])" using \<open>k \<le> length s\<close> by (simp add: group_texts_def)
  ultimately have "group_texts L s (found_end f)" using re_step_group_texts assms(2) by blast
  then show ?thesis
    using assms(3,4) by (auto simp: group_texts_def submatch_text_def group_span_def dest!: map_of_SomeD)
qed

lemma re_step_caps_mono: "re_step r st st' \<Longrightarrow> set (caps st) \<subseteq> set (caps st')"
  by (induction rule: re_step.induct) auto

text \<open>A group that every match closes.\<close>

fun closes :: "nat \<Rightarrow> re \<Rightarrow> bool" where
  "closes n (Seq a b) = (closes n a \<or> closes n b)"
| "closes n (Grp m r) = (m = n \<or> closes n r)"
| "closes n r = False"

lemma re_step_closes: "re_step r st st' \<Longrightarrow> closes n r \<Longrightarrow> \<exists>i j. (n, i, j) \<in> set (caps st')"
proof (induction rule: re_step.induct)
  case (seq a st st1 b st2)
  then show ?case using re_step_caps_mono [OF seq.hyps(2)] by auto
qed auto

lemma find_submatch_closes:
  assumes "find_submatch r s = Some f" and "closes n r" and "0 < n"
  shows "\<exists>i j. group_span f n = Some (i, j)"
proof -
  from find_from_step [OF assms(1) [unfolded find_submatch_def]] re_step_closes [OF _ assms(2)]
  have "\<exists>i j. (n, i, j) \<in> set (caps (found_end f))" by blast
  then have "map_of (caps (found_end f)) n \<noteq> None" by (metis fst_conv image_eqI map_of_eq_None_iff)
  then show ?thesis using assms(3) by (auto simp: group_span_def)
qed

lemma lit_Cons: "lit (c # cs) = (if cs = [] then byte (of_char c) else Seq (byte (of_char c)) (lit cs))"
  by (simp add: lit_def)

lemma byte_step: "re_step (byte (of_char c)) st st' \<Longrightarrow> rest st = c # rest st'"
  unfolding byte_step_iff by (auto simp: of_char_eq_iff)

lemma lit_step: "re_step (lit w) st st' \<Longrightarrow> rest st = w @ rest st'"
proof (induction w arbitrary: st)
  case (Cons c cs)
  show ?case
  proof (cases "cs = []")
    case True
    with Cons.prems byte_step show ?thesis by (simp add: lit_Cons)
  next
    case False
    with Cons.prems obtain s1 where "re_step (byte (of_char c)) st s1" "re_step (lit cs) s1 st'"
      by (auto simp: lit_Cons seq_step_iff)
    with byte_step Cons.IH show ?thesis by fastforce
  qed
qed (auto simp: lit_def elim: eps_E)

lemma alts_step:
  "re_step (alts rs) st st' \<Longrightarrow> \<exists>r\<in>set rs. re_step r st st'"
  by (induction rs) (auto split: if_splits elim!: alt_E cls_E simp: in_class_def in_ranges_def)

lemma alts_lit_step: "re_step (alts (map lit ws)) st st' \<Longrightarrow> rest st = w @ rest st' \<Longrightarrow> w \<in> set ws"
  using alts_step [of "map lit ws" st st'] lit_step by fastforce

end
