(* ===== verification/Ufw_Proofs.thy ===== *)
theory Ufw_Proofs
  imports Host_Firewall Regexp_Groups
begin

text \<open>
  The reading of ufw's rules against what ufw does with a packet.  A packet is what decides whether a
  rule's restrictions match it: its source, source port, destination and interface; the reference is
  the first rule that matches, then the default.  A filtered answer means that no packet is let in
  but those whose source it lists; an open answer means that a packet no restricted rule speaks of is
  let in.
\<close>

section \<open>What ufw does with a packet\<close>

record packet =
  pk_source :: "string \<Rightarrow> bool"
  pk_sourcePort :: "string \<Rightarrow> bool"
  pk_dest :: "net_prefix \<Rightarrow> bool"
  pk_iface :: bool

definition pk_matches :: "packet \<Rightarrow> int \<Rightarrow> string \<Rightarrow> bool \<Rightarrow> ufw_rule \<Rightarrow> bool" where
  "pk_matches pk port proto v6 r =
     (ur_v6 r = v6 \<and> rule_covers r port proto \<and> (ur_open r \<or> pk_source pk (ur_from r)) \<and>
      (ur_srcPort r = [] \<or> pk_sourcePort pk (ur_srcPort r)) \<and> (to_valid r \<longrightarrow> pk_dest pk (ur_to r)) \<and>
      (ur_iface r \<longrightarrow> pk_iface pk))"

definition ufw_accepts :: "ufw_state \<Rightarrow> int \<Rightarrow> string \<Rightarrow> bool \<Rightarrow> packet \<Rightarrow> ufw_rule list \<Rightarrow> bool" where
  "ufw_accepts st port proto v6 pk rs =
     (case List.find (pk_matches pk port proto v6) rs of
        Some r \<Rightarrow> lets_in r
      | None \<Rightarrow> us_incoming st = ''allow'')"

text \<open>Every rule ufw prints lets in or keeps out.\<close>

definition acts :: "ufw_rule \<Rightarrow> bool" where
  "acts r = (lets_in r \<noteq> keeps_out r)"

lemma ufw_accepts_Nil [simp]: "ufw_accepts st port proto v6 pk [] = (us_incoming st = ''allow'')"
  by (simp add: ufw_accepts_def)

lemma ufw_accepts_Cons [simp]:
  "ufw_accepts st port proto v6 pk (r # rs) =
     (if pk_matches pk port proto v6 r then lets_in r else ufw_accepts st port proto v6 pk rs)"
  by (simp add: ufw_accepts_def)

lemma answer_sel [simp]:
  "a_filter (answer_of flt ex) = flt" "a_filter (unknown_answer reason detail) = FilterUnknown"
  "a_sources (answer_of flt ex) = []"
  by (simp_all add: answer_of_def unknown_answer_def)

section \<open>Filtered and open\<close>

text \<open>The packets a filtered answer speaks of: not from a source it lists, and not to a loopback address.\<close>

definition unlisted :: "packet \<Rightarrow> string list \<Rightarrow> bool" where
  "unlisted pk sources = ((\<forall>s\<in>set sources. \<not> pk_source pk s) \<and> (\<forall>p. is_loopback (pfx_addr p) \<longrightarrow> \<not> pk_dest pk p))"

lemma walk_sources_subset:
  "a_filter (walk_rules st port proto v6 sources rs) = FilterFiltered \<Longrightarrow>
   set sources \<subseteq> set (a_sources (walk_rules st port proto v6 sources rs))"
proof (induction rs arbitrary: sources)
  case (Cons r rs)
  then show ?case
    using Cons.IH [of sources] Cons.IH [of "add_new sources (ur_from r)"] by (auto simp: Let_def split: if_splits)
qed (auto simp: Let_def split: if_splits)

text \<open>A rule that does not match a packet decides nothing that keeps it out.\<close>

lemma walk_passes:
  assumes "\<not> pk_matches pk port proto v6 r" and "acts r"
    and "a_filter (walk_rules st port proto v6 sources (r # rs)) = FilterFiltered"
  shows "\<exists>src. walk_rules st port proto v6 sources (r # rs) = walk_rules st port proto v6 src rs"
proof (rule ccontr)
  assume "\<not> ?thesis"
  then have "ur_v6 r = v6" "rule_covers r port proto" "ur_open r" "\<not> ur_iface r" "\<not> to_valid r" "ur_srcPort r = []"
    using assms(2,3) by (auto simp: Let_def acts_def split: if_splits)
  then show False using assms(1) by (simp add: pk_matches_def)
qed

lemma walk_filtered:
  assumes "list_all acts rs" and "a_filter (walk_rules st port proto v6 sources rs) = FilterFiltered"
    and "unlisted pk (a_sources (walk_rules st port proto v6 sources rs))"
  shows "\<not> ufw_accepts st port proto v6 pk rs"
  using assms
proof (induction rs arbitrary: sources)
  case Nil
  then show ?case by (auto simp: Let_def split: if_splits)
next
  case (Cons r rs)
  have IH: "\<not> ufw_accepts st port proto v6 pk rs"
    if "walk_rules st port proto v6 sources (r # rs) = walk_rules st port proto v6 src rs" for src
    using Cons.IH [of src] Cons.prems that by simp
  show ?case
  proof (cases "pk_matches pk port proto v6 r")
    case True
    then have r: "ur_v6 r = v6" "rule_covers r port proto" by (simp_all add: pk_matches_def)
    show ?thesis
    proof
      assume "ufw_accepts st port proto v6 pk (r # rs)"
      with True have lets: "lets_in r" by simp
      then have "\<not> keeps_out r" using Cons.prems(1) by (simp add: acts_def)
      moreover have "ur_from r \<in> set (a_sources (walk_rules st port proto v6 sources (r # rs)))" if "\<not> ur_open r"
        using walk_sources_subset [of st port proto v6 "add_new sources (ur_from r)" rs] Cons.prems(2) that r lets
        by (auto simp: Let_def split: if_splits)
      ultimately show False
        using Cons.prems(2,3) True r lets
        by (cases "ur_open r") (auto simp: Let_def pk_matches_def unlisted_def split: if_splits)
    qed
  next
    case False
    then obtain src where "walk_rules st port proto v6 sources (r # rs) = walk_rules st port proto v6 src rs"
      using walk_passes [OF False _ Cons.prems(2)] Cons.prems(1) by auto
    then show ?thesis using IH False by simp
  qed
qed


text \<open>
  The packets an open answer speaks of: no rule for a source, an interface or a destination matches
  them, and of the rules for source ports exactly those that let in.
\<close>

definition unrestricted :: "packet \<Rightarrow> ufw_rule list \<Rightarrow> bool" where
  "unrestricted pk rs =
     list_all (\<lambda>r. (\<not> ur_open r \<longrightarrow> \<not> pk_source pk (ur_from r)) \<and> (ur_iface r \<longrightarrow> \<not> pk_iface pk) \<and>
       (to_valid r \<longrightarrow> \<not> pk_dest pk (ur_to r)) \<and> (ur_srcPort r \<noteq> [] \<longrightarrow> pk_sourcePort pk (ur_srcPort r) = lets_in r)) rs"

lemma walk_opened:
  assumes "list_all acts rs" and "a_filter (walk_rules st port proto v6 sources rs) = FilterOpen" and "unrestricted pk rs"
  shows "ufw_accepts st port proto v6 pk rs"
  using assms
proof (induction rs arbitrary: sources)
  case Nil
  then show ?case by (auto simp: Let_def split: if_splits)
next
  case (Cons r rs)
  then show ?case
    using Cons.IH [of sources] Cons.IH [of "add_new sources (ur_from r)"]
    by (auto simp: Let_def pk_matches_def unrestricted_def acts_def split: if_splits)
qed

section \<open>The rules of a listing\<close>

definition ufw_actions :: "string list" where
  "ufw_actions = [''ALLOW'', ''DENY'', ''REJECT'', ''LIMIT'']"

lemma ufwRuleLine_action:
  assumes "find_submatch ufwRuleLine l = Some m"
  shows "submatch_text l m 2 \<in> set ufw_actions"
proof -
  let ?L = "\<lambda>n w. n = (2 :: nat) \<longrightarrow> w \<in> set ufw_actions"
  have "groups_in ?L ufwRuleLine"
    using alts_lit_step [of ufw_actions]
    by (auto simp: ufwRuleLine_def lazy_plus_def plus_def re_not_newline_def re_space_def lit_def byte_def ufw_actions_def)
  moreover obtain i j where "group_span m 2 = Some (i, j)"
    using find_submatch_closes [OF assms, of 2] by (auto simp: ufwRuleLine_def)
  ultimately show ?thesis using find_submatch_groups [OF assms, of ?L 2 i j] by simp
qed

lemma parsed_rule_acts:
  assumes "parseUFWRule l = RuleIn r"
  shows "acts r"
proof -
  from assms obtain m where "find_submatch ufwRuleLine l = Some m" "ur_action r = submatch_text l m 2"
    by (auto simp: parseUFWRule_def Let_def split: option.splits if_splits prod.splits)
  with ufwRuleLine_action [of l m] show ?thesis
    by (auto simp: acts_def lets_in_def keeps_out_def ufw_actions_def)
qed

lemma ufw_lines_act: "ufw_lines st ls = Some st' \<Longrightarrow> list_all acts (us_rules st) \<Longrightarrow> list_all acts (us_rules st')"
proof (induction ls arbitrary: st)
  case (Cons l ls)
  then obtain st1 where st1: "ufw_line st l = Some st1" "ufw_lines st1 ls = Some st'"
    by (auto split: option.splits)
  then have "list_all acts (us_rules st1)"
    using Cons.prems(2) parsed_rule_acts by (auto simp: ufw_line_def Let_def split: if_splits rule_read.splits)
  with Cons.IH st1 show ?case by blast
qed simp

lemma parseUFW_acts: "parseUFW ls = Some st \<Longrightarrow> list_all acts (us_rules st)"
  using ufw_lines_act [of empty_ufw ls] by (auto simp: parseUFW_def empty_ufw_def split: option.splits if_splits)

text \<open>
  C36: The reading of ufw is sound for ufw's own first match.  For every listing that parses: when the
  answer is that a port is filtered, no packet to that port is let in unless its source is one of those
  the answer lists or it goes to a loopback address; when the answer is that the port is open, every
  packet that no rule for a source, an interface or a destination speaks of is let in.
\<close>
theorem ufw_walk_sound:
  assumes "parseUFW ls = Some st"
  shows "(a_filter (walk st port proto v6) = FilterFiltered \<longrightarrow> unlisted pk (a_sources (walk st port proto v6)) \<longrightarrow>
            \<not> ufw_accepts st port proto v6 pk (us_rules st)) \<and>
         (a_filter (walk st port proto v6) = FilterOpen \<longrightarrow> unrestricted pk (us_rules st) \<longrightarrow>
            ufw_accepts st port proto v6 pk (us_rules st))"
  using walk_filtered [OF parseUFW_acts [OF assms]] walk_opened [OF parseUFW_acts [OF assms]] by (auto simp: walk_def)

text \<open>A listing with no rule whose default denies: the answer is filtered for every port.\<close>

definition sample_listing :: "string list" where
  "sample_listing = [''Status: active'', ''Default: deny (incoming)'']"

definition stranger :: packet where
  "stranger = \<lparr>pk_source = (\<lambda>_. False), pk_sourcePort = (\<lambda>_. True), pk_dest = (\<lambda>_. False), pk_iface = False\<rparr>"

lemma sample_default:
  "map_option (\<lambda>m. submatch_text ''Default: deny (incoming)'' m 1) (find_submatch ufwDefault ''Default: deny (incoming)'') = Some ''deny''"
  by (simp add: ufwDefault_def re_build re_eval cong: re_congs)

lemma sample_lines:
  "ufw_line empty_ufw ''Status: active'' = Some (empty_ufw\<lparr>us_active := True, us_status := ''Status: active''\<rparr>)"
  "trim_space ''Default: deny (incoming)'' = ''Default: deny (incoming)''"
  "trim_set ''Default: deny (incoming)'' {CHR ''-'', CHR '' ''} \<noteq> []"
  by code_simp+

lemma sample_parsed:
  "\<exists>st. parseUFW sample_listing = Some st \<and> us_rules st = [] \<and> us_incoming st = ''deny'' \<and> \<not> us_partial st"
proof -
  obtain m where "find_submatch ufwDefault ''Default: deny (incoming)'' = Some m"
    "submatch_text ''Default: deny (incoming)'' m 1 = ''deny''"
    using sample_default by auto
  then show ?thesis
    using sample_lines(1) by (simp add: parseUFW_def sample_listing_def ufw_line_def [of _ "''Default: deny (incoming)''"] Let_def sample_lines(2,3) empty_ufw_def)
qed

theorem ufw_walk_sound_witness:
  "\<exists>st. parseUFW sample_listing = Some st \<and> \<not> ufw_accepts st 5432 ''tcp'' False stranger (us_rules st)"
proof -
  from sample_parsed obtain st where st: "parseUFW sample_listing = Some st" "us_rules st = []" "us_incoming st = ''deny''"
    "\<not> us_partial st" by blast
  then have "a_filter (walk st 5432 ''tcp'' False) = FilterFiltered" by (simp add: walk_def Let_def)
  with ufw_walk_sound [OF st(1), of 5432 "''tcp''" False stranger]
  have "\<not> ufw_accepts st 5432 ''tcp'' False stranger (us_rules st)" by (simp add: unlisted_def stranger_def)
  with st(1) show ?thesis by blast
qed

end
