(* ===== verification/Host_Rules_Proofs.thy ===== *)
theory Host_Rules_Proofs
  imports Host_Rules Check_Tables
begin

text \<open>
  What the multi-fact rules mean.  A rule reads only what it declares, through the view; locale
  \<open>view_steps\<close> carries a relation that holds across single reads to whole rules.  The database rule
  fires exactly on a database the firewall leaves open and disproves only what was read in full; the
  SSH rule fires only when every condition of such a sign-in holds.
\<close>

section \<open>Reads\<close>

locale view_steps =
  fixes reads :: "read list" and R :: "view \<Rightarrow> view \<Rightarrow> bool"
  assumes refl: "R v v"
    and trans: "R u v \<Longrightarrow> R v w \<Longrightarrow> R u w"
    and fact_step: "read_check i \<in> set reads \<Longrightarrow> R v (snd (snd (view_fact v i)))"
    and services_step: "read_declared DeclaredServices \<in> set reads \<Longrightarrow> R v (snd (view_services v))"
    and exposure_step: "read_declared DeclaredExposure \<in> set reads \<Longrightarrow> R v (snd (view_exposure v))"
begin

lemma fact_reads: "view_fact v i = (f, why, v') \<Longrightarrow> read_check i \<in> set reads \<Longrightarrow> R v v'"
  using fact_step [of i v] by simp

lemma listening_read: "read_check checkListeners \<in> set reads \<Longrightarrow> R v (snd (readListening v))"
  using fact_step [of checkListeners v]
  by (auto simp: readListening_def Let_def case_prod_beta split: list.splits option.splits parsed.splits)

lemma alpine_read: "read_check checkOSRelease \<in> set reads \<Longrightarrow> R v (snd (alpine v))"
  using fact_step [of checkOSRelease v] by (simp add: alpine_def Let_def case_prod_beta)

lemma steps_read:
  assumes "\<And>s v. s \<in> set ss \<Longrightarrow> R v (snd (s v))"
  shows "R v (snd (read_steps ss ex v))"
  using assms
proof (induction ss arbitrary: ex v)
  case (Cons s ss)
  have s: "R v (snd (s v))" using Cons.prems by simp
  show ?case
  proof (cases "s v")
    case (Pair r v1)
    then have "R v v1" using s by simp
    moreover have "R v1 (snd (read_steps ss more v1))" for more
      using Cons.IH [of v1 more] Cons.prems by simp
    ultimately show ?thesis using Pair trans by (auto split: sum.splits)
  qed
qed (simp add: refl)

lemma firewall_read:
  assumes "set firewallReads \<subseteq> set reads"
  shows "R v (snd (readFirewall v))"
proof -
  have in_reads: "read_check c \<in> set reads" if "c \<in> {checkUFW, checkNFT, checkFirewalld, checkBackend, checkOSRelease}" for c
    using assms that by (auto simp: firewallReads_def)
  have "R v (snd (read_ufw v))" "R v (snd (read_firewalld v))" "R v (snd (read_nft v))" for v
    using fact_step [OF in_reads] by (auto simp: read_ufw_def read_firewalld_def read_nft_def Let_def case_prod_beta)
  moreover have "R v (snd (read_backend v))" for v
    using fact_step [OF in_reads, of checkBackend v] alpine_read [OF in_reads] trans
    by (auto simp: read_backend_def Let_def case_prod_beta)
  ultimately show ?thesis unfolding readFirewall_def by (intro steps_read) auto
qed

lemma reach_read:
  "set firewallReads \<subseteq> set reads \<Longrightarrow> R (fst fr) (fst (snd (read_reach fr ls)))"
  using firewall_read refl by (cases fr) (auto simp: read_reach_def Let_def case_prod_beta split: option.splits)

lemma declared_read: "read_declared DeclaredServices \<in> set reads \<Longrightarrow> R v (snd (declared v port proto))"
  using services_step [of v] by (simp add: declared_def Let_def case_prod_beta)

lemma db_outcome_read:
  assumes "set firewallReads \<subseteq> set reads" "read_declared DeclaredServices \<in> set reads"
  shows "R (fst fr) (fst (snd (db_outcome fr g o0 dbs doubt)))"
  using reach_read [OF assms(1), of fr dbs] declared_read [OF assms(2)] trans
  by (fastforce simp: db_outcome_def Let_def case_prod_beta split: option.splits)

lemma db_groups_read:
  assumes "set firewallReads \<subseteq> set reads" "read_declared DeclaredServices \<in> set reads"
  shows "R (fst fr) (fst (snd (db_groups fr gs)))"
proof (induction gs arbitrary: fr)
  case (Cons g gs)
  have "R (fst fr) (fst (snd (dbSubject fr g)))"
    using db_outcome_read [OF assms] refl by (simp add: dbSubject_def Let_def case_prod_beta)
  then show ?case using Cons trans by (auto simp: Let_def case_prod_beta)
qed (simp add: refl)

lemma db_read:
  assumes "set (hr_reads rule_db) \<subseteq> set reads"
  shows "R v (snd (dbListensUnfiltered v))"
proof -
  have sub: "set firewallReads \<subseteq> set reads" "read_declared DeclaredServices \<in> set reads"
      "read_check checkListeners \<in> set reads"
    using assms by (auto simp: rule_db_def)
  obtain r v1 where r: "readListening v = (r, v1)" by fastforce
  have "R v v1" using listening_read [OF sub(3), of v] r by simp
  then show ?thesis
    using r db_groups_read [OF sub(1,2), of "(v1, None)"] trans
    by (fastforce simp: dbListensUnfiltered_def Let_def case_prod_beta split: sum.splits)
qed

lemma ssh_settings_read:
  assumes "read_check checkSSHD \<in> set reads" "read_check checkListeners \<in> set reads"
  shows "R v (snd (ssh_settings v partial accounts))"
proof -
  have l: "R v (snd (sshListens v kv))" for v kv
    using fact_step [OF assms(2), of v] by (simp add: sshListens_def Let_def case_prod_beta)
  obtain f why v1 where f: "view_fact v checkSSHD = (f, why, v1)" by (metis prod_cases3)
  then have "R v v1" using fact_reads assms(1) by blast
  then show ?thesis
    using f l [of v1] trans
    by (auto simp: ssh_settings_def Let_def case_prod_beta split: list.splits option.splits parsed.splits)
qed

lemma ssh_read:
  assumes "set (hr_reads rule_ssh) \<subseteq> set reads"
  shows "R v (snd (emptyPasswordRemote v))"
proof -
  have sub: "read_check checkSSHD \<in> set reads" "read_check checkListeners \<in> set reads"
      "read_check checkPasswdStatus \<in> set reads" "read_check checkPasswd \<in> set reads"
    using assms by (auto simp: rule_ssh_def)
  obtain ps why v1 where ps: "view_fact v checkPasswdStatus = (ps, why, v1)" by (metis prod_cases3)
  obtain pw why2 v2 where pw: "view_fact v1 checkPasswd = (pw, why2, v2)" by (metis prod_cases3)
  have "R v v1" "R v1 v2" using fact_reads ps pw sub(3,4) by blast+
  then show ?thesis
    using ps pw ssh_settings_read [OF sub(1,2), of v2] trans
    by (auto simp: emptyPasswordRemote_def Let_def)
qed

lemma svc_each_read:
  assumes "set firewallReads \<subseteq> set reads"
  shows "R (fst fr) (fst (snd (svc_each fr l exposure ss)))"
proof (induction ss arbitrary: fr)
  case (Cons s ss)
  have "R (fst fr) (fst (snd (judgeService fr s sub g exposure)))" for sub g
    using reach_read [OF assms] refl
    by (auto simp: judgeService_def Let_def case_prod_beta split: option.splits)
  then have "R (fst fr) (fst (snd (svc_one fr l exposure s)))"
    using refl by (simp add: svc_one_def Let_def case_prod_beta split: sum.split option.split)
  then show ?case using Cons trans by (auto simp: Let_def case_prod_beta)
qed (simp add: refl)

lemma svc_read:
  assumes "set (hr_reads rule_svc) \<subseteq> set reads"
  shows "R v (snd (listensBeyondDeclared v))"
proof -
  have sub: "set firewallReads \<subseteq> set reads" "read_declared DeclaredServices \<in> set reads"
      "read_check checkListeners \<in> set reads" "read_declared DeclaredExposure \<in> set reads"
    using assms by (auto simp: rule_svc_def)
  obtain ss v1 where s: "view_services v = (ss, v1)" by fastforce
  obtain r v2 where r: "readListening v1 = (r, v2)" by fastforce
  obtain e v3 where e: "view_exposure v2 = (e, v3)" by fastforce
  have steps: "R v v1" "R v1 v2" "R v2 v3"
    using services_step [OF sub(2), of v] listening_read [OF sub(3), of v1] exposure_step [OF sub(4), of v2] s r e
    by simp_all
  then have "R v v3" using trans by blast
  then show ?thesis
    using s r e steps(1) trans svc_each_read [OF sub(1), of "(v3, None)"]
    by (fastforce simp: listensBeyondDeclared_def Let_def case_prod_beta)
qed

lemma registry_read: "r \<in> set registry \<Longrightarrow> set (hr_reads r) \<subseteq> set reads \<Longrightarrow> R v (snd (hr_judge r v))"
  using db_read ssh_read svc_read by (auto simp: registry_def rule_db_def rule_ssh_def rule_svc_def)

end

text \<open>Reading what is declared leaves no undeclared read.\<close>

definition stays_declared :: "read list \<Rightarrow> view \<Rightarrow> view \<Rightarrow> bool" where
  "stays_declared reads v v' =
     (v_reads v = reads \<longrightarrow> v_reads v' = reads \<and> v_undeclared v' = v_undeclared v)"

interpretation declared_reads: view_steps reads "stays_declared reads" for reads
  by unfold_locales
    (auto simp: stays_declared_def view_fact_def view_services_def view_exposure_def declares_def read_check_def
      read_declared_def Let_def case_prod_beta)

text \<open>What the view has read are facts of the host that the rule declared.\<close>

definition reads_host :: "view \<Rightarrow> view \<Rightarrow> bool" where
  "reads_host v v' =
     (v_host v' = v_host v \<and> v_reads v' = v_reads v \<and>
      (\<forall>f\<in>set (v_touched v'). f \<in> set (v_touched v) \<or>
         (\<exists>i. read_check i \<in> set (v_reads v) \<and> f = fst (host_fact (v_host v) i))))"

interpretation host_reads: view_steps reads reads_host for reads
proof
  fix i v
  show "reads_host v (snd (snd (view_fact v i)))"
    by (auto simp: reads_host_def view_fact_def declares_def read_check_def Let_def case_prod_beta)
qed (auto simp: reads_host_def view_services_def view_exposure_def declares_def Let_def case_prod_beta)

text \<open>Every rule of the table reads only what it declares, whatever the host answers.\<close>

theorem rules_read_what_they_declare:
  "list_all (\<lambda>r. v_undeclared (snd (hr_judge r (new_view h (hr_reads r)))) = []) registry"
  unfolding list_all_iff
proof
  fix r
  assume "r \<in> set registry"
  then have "stays_declared (hr_reads r) (new_view h (hr_reads r)) (snd (hr_judge r (new_view h (hr_reads r))))"
    using declared_reads.registry_read by blast
  then show "v_undeclared (snd (hr_judge r (new_view h (hr_reads r)))) = []"
    by (simp add: stays_declared_def new_view_def)
qed

lemma host_fact_check: "fact_check (fst (host_fact h i)) = i"
  by (auto simp: host_fact_def fact_of_def Let_def split: option.splits sum.splits)

lemma registry_touched:
  assumes "r \<in> set registry" and "f \<in> set (v_touched (snd (hr_judge r (new_view h (hr_reads r)))))"
  shows "read_check (fact_check f) \<in> set (hr_reads r) \<and> f = fst (host_fact h (fact_check f))"
proof -
  have "reads_host (new_view h (hr_reads r)) (snd (hr_judge r (new_view h (hr_reads r))))"
    using assms(1) host_reads.registry_read by blast
  then show ?thesis using assms(2) by (auto simp: reads_host_def new_view_def host_fact_check)
qed

lemma observed_cases:
  "observed ts c = [] \<or> (\<exists>t\<in>set ts. fact_check t = c \<and> observed ts c = fact_observation t)"
  by (induction ts rule: rev_induct) (auto simp: observed_def)

text \<open>
  C37: What a judgment of the table rests on.  Every observation it cites is the one the host's own fact
  sheet holds for the check it names, and a check the rule declared; and a judgment that disproves
  rests on complete facts only, whatever the rule itself answered.
\<close>

theorem judgments_rest_on_the_host:
  assumes "r \<in> set registry" and "j \<in> set (fst (run_rule r h))"
  shows "(\<forall>fr\<in>set (hj_facts j). fr_observation fr \<noteq> [] \<longrightarrow>
            read_check (fr_check fr) \<in> set (hr_reads r) \<and>
            fr_observation fr = fact_observation (fst (host_fact h (fr_check fr)))) \<and>
         (jd_verdict j = Disproved \<longrightarrow>
            (\<forall>f\<in>set (v_touched (snd (hr_judge r (new_view h (hr_reads r))))).
               f = fst (host_fact h (fact_check f)) \<and> \<not> fact_partial f))"
proof -
  obtain outs v where v: "hr_judge r (new_view h (hr_reads r)) = (outs, v)" by fastforce
  note touched = registry_touched [OF assms(1), of _ h, unfolded v snd_conv]
  obtain o' where j: "j = judgment_of r h (v_touched v) o'"
    using assms(2) v by (auto simp: run_rule_def Let_def)
  have "read_check (fr_check fr) \<in> set (hr_reads r) \<and> fr_observation fr = fact_observation (fst (host_fact h (fr_check fr)))"
    if fr: "fr \<in> set (hj_facts j)" "fr_observation fr \<noteq> []" for fr
  proof -
    have "fr_observation fr = observed (v_touched v) (fr_check fr)"
      using fr(1) unfolding j by (auto simp: judgment_of_def)
    then obtain t where "t \<in> set (v_touched v)" "fact_check t = fr_check fr" "fr_observation fr = fact_observation t"
      using observed_cases [of "v_touched v" "fr_check fr"] fr(2) by auto
    then show ?thesis using touched [of t] by auto
  qed
  moreover have "\<not> list_ex fact_partial (v_touched v)" if "jd_verdict j = Disproved"
    using run_rule_disproved [OF assms(2) that v] .
  ultimately show ?thesis using touched v by (auto simp: list_ex_iff)
qed

text \<open>Hosts for the witnesses: checks that answered, checks whose command is missing.\<close>

definition answered :: "string \<Rightarrow> parsed \<Rightarrow> string \<times> run_result" where
  "answered c p = (c, zero_result\<lparr>res_observation := ''obs-'' @ c, res_status := StatusOK, res_parsed := Some p\<rparr>)"

definition missing :: "string \<Rightarrow> string \<times> run_result" where
  "missing c = (c, zero_result\<lparr>res_status := StatusUnavailable, res_reasonCode := ''command_missing''\<rparr>)"

definition host_with :: "(string \<times> run_result) list \<Rightarrow> service list \<Rightarrow> host" where
  "host_with rs ss = \<lparr>h_asset = ''host-1'', h_name = ''db'', h_sheet = Some \<lparr>fs_platform = platform_linux, fs_order = [],
     fs_results = rs, fs_incomplete = False, fs_lost = []\<rparr>, h_disabled = [], h_services = ss, h_exposure = []\<rparr>"

definition quiet_host :: host where
  "quiet_host = host_with [answered checkListeners
     (PRecords \<lparr>rs_kind = ParseListeners, rs_items = [], rs_partial = False, rs_note = []\<rparr>)] []"

lemma quiet_host_judged:
  "map (\<lambda>j. (jd_verdict j, map fr_observation (hj_facts j))) (fst (run_rule rule_db quiet_host)) =
     [(Disproved, [''obs-net.listeners''])]"
  by code_simp

theorem judgments_rest_on_the_host_witness:
  "\<exists>r j. r \<in> set registry \<and> j \<in> set (fst (run_rule r quiet_host)) \<and> jd_verdict j = Disproved \<and> hj_facts j \<noteq> [] \<and>
     (\<exists>fr\<in>set (hj_facts j). fr_observation fr = fact_observation (fst (host_fact quiet_host (fr_check fr))))"
proof -
  obtain j where j: "j \<in> set (fst (run_rule rule_db quiet_host))" "jd_verdict j = Disproved"
      "map fr_observation (hj_facts j) = [''obs-net.listeners'']"
    using quiet_host_judged by (cases "fst (run_rule rule_db quiet_host)") auto
  moreover have r: "rule_db \<in> set registry" by (simp add: registry_def)
  moreover obtain fr where "fr \<in> set (hj_facts j)" "fr_observation fr \<noteq> []" using j(3) by (cases "hj_facts j") auto
  ultimately show ?thesis using judgments_rest_on_the_host [OF r j(1)] by fastforce
qed

section \<open>The firewall of a host\<close>

text \<open>A declared read answers the host's fact, and keeps the host and the declarations.\<close>

definition same_host :: "view \<Rightarrow> view \<Rightarrow> bool" where
  "same_host v w = (v_host v = v_host w \<and> set firewallReads \<subseteq> set (v_reads v) \<and> set firewallReads \<subseteq> set (v_reads w))"

lemma view_fact_same:
  assumes "same_host v w" and "read_check i \<in> set firewallReads"
  obtains f why v1 w1 where "view_fact v i = (f, why, v1)" "view_fact w i = (f, why, w1)" "same_host v1 w1"
proof -
  have "fst (view_fact v i) = fst (view_fact w i)" "fst (snd (view_fact v i)) = fst (snd (view_fact w i))"
      "same_host (snd (snd (view_fact v i))) (snd (snd (view_fact w i)))"
    using assms by (auto simp: same_host_def view_fact_def declares_def read_check_def Let_def case_prod_beta)
  then show thesis using that by (metis prod.collapse)
qed

definition agree :: "'a \<times> view \<Rightarrow> 'a \<times> view \<Rightarrow> bool" where
  "agree x y = (fst x = fst y \<and> same_host (snd x) (snd y))"

lemma agreeE:
  assumes "agree x y"
  obtains a v w where "x = (a, v)" "y = (a, w)" "same_host v w"
  using assms that by (cases x; cases y) (simp add: agree_def)

lemma firewall_reads_checks:
  "read_check checkUFW \<in> set firewallReads" "read_check checkNFT \<in> set firewallReads"
  "read_check checkFirewalld \<in> set firewallReads" "read_check checkBackend \<in> set firewallReads"
  "read_check checkOSRelease \<in> set firewallReads"
  by (simp_all add: firewallReads_def)

lemma alpine_agree: "same_host v w \<Longrightarrow> agree (alpine v) (alpine w)"
  by (erule view_fact_same [OF _ firewall_reads_checks(5)]) (simp add: agree_def alpine_def)

lemma backend_agree:
  assumes "same_host v w"
  shows "agree (read_backend v) (read_backend w)"
proof (rule view_fact_same [OF assms firewall_reads_checks(4)])
  fix f why v1 w1
  assume *: "view_fact v checkBackend = (f, why, v1)" "view_fact w checkBackend = (f, why, w1)" "same_host v1 w1"
  then obtain a v2 w2 where "alpine v1 = (a, v2)" "alpine w1 = (a, w2)" "same_host v2 w2"
    using alpine_agree agreeE by blast
  then show ?thesis using * by (simp add: agree_def read_backend_def Let_def)
qed

lemma firewall_steps_agree:
  assumes "same_host v w" and "s \<in> {read_ufw, read_firewalld, read_nft, read_backend}"
  shows "agree (s v) (s w)"
proof -
  have "agree (read_ufw v) (read_ufw w)"
    by (rule view_fact_same [OF assms(1) firewall_reads_checks(1)]) (simp add: agree_def read_ufw_def)
  moreover have "agree (read_nft v) (read_nft w)"
    by (rule view_fact_same [OF assms(1) firewall_reads_checks(2)]) (simp add: agree_def read_nft_def)
  moreover have "agree (read_firewalld v) (read_firewalld w)"
    by (rule view_fact_same [OF assms(1) firewall_reads_checks(3)]) (simp add: agree_def read_firewalld_def Let_def)
  ultimately show ?thesis using assms backend_agree by blast
qed

lemma read_steps_agree:
  assumes "\<And>v w s. same_host v w \<Longrightarrow> s \<in> set ss \<Longrightarrow> agree (s v) (s w)" and "same_host v w"
  shows "agree (read_steps ss ex v) (read_steps ss ex w)"
  using assms
proof (induction ss arbitrary: ex v w)
  case (Cons s ss)
  then have "agree (s v) (s w)" by simp
  then obtain r v1 w1 where "s v = (r, v1)" "s w = (r, w1)" "same_host v1 w1"
    by (elim agreeE)
  then show ?case using Cons.IH [of v1 w1] Cons.prems(1) by (auto simp: agree_def split: sum.splits)
qed (simp add: agree_def)

definition host_firewall :: "host \<Rightarrow> firewall" where
  "host_firewall h = fst (readFirewall (new_view h firewallReads))"

lemma readFirewall_host:
  assumes "v_host v = h" and "set firewallReads \<subseteq> set (v_reads v)"
  shows "fst (readFirewall v) = host_firewall h"
proof -
  have "same_host v (new_view h firewallReads)" using assms by (simp add: same_host_def new_view_def)
  then have "agree (readFirewall v) (readFirewall (new_view h firewallReads))"
    unfolding readFirewall_def by (intro read_steps_agree firewall_steps_agree) auto
  then show ?thesis by (simp add: agree_def host_firewall_def)
qed

end
