(* ===== verification/Host_Verdicts.thy ===== *)
theory Host_Verdicts
  imports Host_Rules_Proofs
begin

text \<open>
  The verdicts of the database rule against what they are about.  It fires exactly when a database
  listens beyond loopback in a family the firewall leaves open, and disproves a host only when the
  read is complete and every such database is filtered.
\<close>

section \<open>Groups of listeners\<close>

definition grouped :: "port_group list \<Rightarrow> bool" where
  "grouped gs = (\<forall>g\<in>set gs. \<forall>l\<in>set (g_all g). same_port l g)"

lemma same_port_all [simp]: "same_port l (g\<lparr>g_all := ls\<rparr>) = same_port l g"
  by (simp add: same_port_def)

lemma same_port_new [simp]: "same_port l \<lparr>g_port = l_port l, g_proto = l_proto l, g_all = ls\<rparr>"
  by (simp add: same_port_def)

lemma add_listener_grouped: "grouped gs \<Longrightarrow> grouped (add_listener gs l)"
  by (induction gs) (auto simp: grouped_def)

lemma add_listener_all: "(\<Union>g\<in>set (add_listener gs l). set (g_all g)) = insert l (\<Union>g\<in>set gs. set (g_all g))"
  by (induction gs) auto

lemma groups_grouped: "grouped (foldl add_listener gs ls) = grouped gs" if "grouped gs"
  using that by (induction ls arbitrary: gs) (simp_all add: add_listener_grouped)

lemma groups_all:
  "(\<Union>g\<in>set (foldl add_listener gs ls). set (g_all g)) = set ls \<union> (\<Union>g\<in>set gs. set (g_all g))"
  by (induction ls arbitrary: gs) (auto simp: add_listener_all)

section \<open>The firewall's answer about a group\<close>

text \<open>What the firewall answers about a listener, in a family.\<close>

definition fw_answer :: "firewall \<Rightarrow> listener \<Rightarrow> bool \<Rightarrow> fw_filter" where
  "fw_answer fw l v6 = a_filter (fw_open fw (l_port l) (l_proto l) v6)"

definition open_in :: "firewall \<Rightarrow> listener \<Rightarrow> bool" where
  "open_in fw l = list_ex (\<lambda>v6. in_family v6 l \<and> fw_answer fw l v6 = FilterOpen) [False, True]"

definition filtered_in :: "firewall \<Rightarrow> listener \<Rightarrow> bool" where
  "filtered_in fw l = (l_known l \<and> list_all (\<lambda>v6. in_family v6 l \<longrightarrow> fw_answer fw l v6 = FilterFiltered) [False, True])"

definition same_socket :: "listener list \<Rightarrow> bool" where
  "same_socket ls = (\<forall>l\<in>set ls. l_port l = l_port (hd ls) \<and> l_proto l = l_proto (hd ls))"

lemma fw_answer_group:
  "same_socket ls \<Longrightarrow> l \<in> set ls \<Longrightarrow> fw_answer fw l v6 = a_filter (fw_open fw (l_port (hd ls)) (l_proto (hd ls)) v6)"
  by (simp add: fw_answer_def same_socket_def)

lemma family_answer:
  assumes "same_socket ls"
  shows "(list_ex (in_family v6) ls \<and> a_filter (fw_open fw (l_port (hd ls)) (l_proto (hd ls)) v6) = flt) =
    list_ex (\<lambda>l. in_family v6 l \<and> fw_answer fw l v6 = flt) ls"
  using fw_answer_group [OF assms] by (auto simp: list_ex_iff)

lemma reach_open:
  assumes "same_socket ls"
  shows "(rc_open (reach_of fw ls) \<noteq> None) = list_ex (open_in fw) ls"
proof -
  have "(rc_open (reach_of fw ls) \<noteq> None) =
      (list_ex (\<lambda>l. in_family False l \<and> fw_answer fw l False = FilterOpen) ls \<or>
       list_ex (\<lambda>l. in_family True l \<and> fw_answer fw l True = FilterOpen) ls)"
    unfolding family_answer [OF assms, symmetric]
    by (auto simp: reach_of_def reach_family_def empty_reach_def Let_def split: fw_filter.splits)
  then show ?thesis by (auto simp: open_in_def list_ex_iff)
qed

lemma reach_unknown:
  assumes "same_socket ls" and "rc_open (reach_of fw ls) = None"
  shows "(rc_unknown (reach_of fw ls) = None) = list_all (filtered_in fw) ls"
proof -
  have "(rc_unknown (reach_of fw ls) \<noteq> None) =
      (list_ex (\<lambda>l. in_family False l \<and> fw_answer fw l False = FilterUnknown) ls \<or>
       list_ex (\<lambda>l. in_family True l \<and> fw_answer fw l True = FilterUnknown) ls \<or> list_ex (\<lambda>l. \<not> l_known l) ls)"
    unfolding family_answer [OF assms(1), symmetric] using assms(2)
    by (auto simp: reach_of_def reach_family_def empty_reach_def Let_def split: fw_filter.splits if_splits)
  moreover have "\<not> list_ex (open_in fw) ls" using reach_open [OF assms(1), of fw] assms(2) by simp
  moreover have "(flt \<noteq> FilterUnknown \<and> flt \<noteq> FilterOpen) = (flt = FilterFiltered)" for flt
    by (cases flt) simp_all
  ultimately show ?thesis by (auto simp: filtered_in_def open_in_def list_ex_iff list_all_iff) (metis+)
qed

section \<open>The database rule\<close>

definition is_db :: "listener \<Rightarrow> bool" where
  "is_db l = isDatabase (l_process l) (l_port l)"

text \<open>A listener on a database's usual port whose owner may hide one.\<close>

definition doubtful :: "listener \<Rightarrow> bool" where
  "doubtful l = (\<not> is_db l \<and> l_port l \<in> set tablePorts \<and> (fst (ownerDoubt l) \<noteq> [] \<or> l_process l = []))"

lemma db_step_dbs: "fst (db_step t st l) = fst st @ (if is_db l then [l] else [])"
  by (cases st) (simp add: db_step_def is_db_def)

lemma db_step_doubt:
  "(fst (snd (db_step (l_port l \<in> set tablePorts) st l)) = []) = (fst (snd st) = [] \<and> \<not> doubtful l)"
  by (cases st) (auto simp: db_step_def is_db_def doubtful_def reasonListenerOwner_def)

lemma db_scan_spec:
  assumes "\<forall>l\<in>set ls. same_port l g"
  shows "fst (db_scan g ls) = filter is_db ls" "(fst (snd (db_scan g ls)) = []) = (\<not> list_ex doubtful ls)"
proof -
  have "fst (foldl (db_step (g_port g \<in> set tablePorts)) st ls) = fst st @ filter is_db ls \<and>
      (fst (snd (foldl (db_step (g_port g \<in> set tablePorts)) st ls)) = []) = (fst (snd st) = [] \<and> \<not> list_ex doubtful ls)" for st
    using assms
  proof (induction ls arbitrary: st)
    case (Cons l ls)
    then have "g_port g = l_port l" by (simp add: same_port_def)
    then show ?case using Cons db_step_doubt [of l st] by (simp add: db_step_dbs)
  qed simp
  then show "fst (db_scan g ls) = filter is_db ls" "(fst (snd (db_scan g ls)) = []) = (\<not> list_ex doubtful ls)"
    by (simp_all add: db_scan_def)
qed

text \<open>The reader answers for a firewall, read already or not.\<close>

definition reader_of :: "fw_reader \<Rightarrow> firewall \<Rightarrow> bool" where
  "reader_of fr fw = (case snd fr of Some f \<Rightarrow> f = fw | None \<Rightarrow> fst (readFirewall (fst fr)) = fw)"

lemma read_reach_of:
  assumes "reader_of fr fw"
  obtains v where "read_reach fr ls = (reach_of fw ls, (v, Some fw))"
  using assms that by (cases fr) (auto simp: read_reach_def reader_of_def Let_def case_prod_beta split: option.splits)

definition group_verdict :: "firewall \<Rightarrow> listener list \<Rightarrow> string option" where
  "group_verdict fw ls =
     (if list_ex (open_in fw) (filter is_db ls) then Some Fired
      else if list_ex doubtful ls \<or> \<not> list_all (filtered_in fw) (filter is_db ls) then Some Abstained
      else if filter is_db ls = [] then None
      else Some Disproved)"

lemma db_outcome_verdict:
  assumes "reader_of fr fw"
  shows "o_verdict (fst (db_outcome fr g o0 dbs doubt)) =
      (if rc_open (reach_of fw dbs) \<noteq> None then Fired
       else if rc_unknown (reach_of fw dbs) \<noteq> None \<or> fst doubt \<noteq> [] then Abstained else Disproved) \<and>
    reader_of (snd (db_outcome fr g o0 dbs doubt)) fw"
proof -
  obtain v where "read_reach fr dbs = (reach_of fw dbs, (v, Some fw))" using read_reach_of [OF assms] .
  then show ?thesis by (auto simp: db_outcome_def reader_of_def Let_def case_prod_beta split: option.splits)
qed

lemma dbSubject_verdict:
  assumes "reader_of fr fw" and "\<forall>l\<in>set (g_all g). same_port l g"
  shows "map_option o_verdict (fst (dbSubject fr g)) = group_verdict fw (beyond g) \<and> reader_of (snd (dbSubject fr g)) fw"
proof -
  have port: "\<forall>l\<in>set (beyond g). same_port l g" using assms(2) by (simp add: beyond_def)
  have same: "same_socket (filter is_db (beyond g))"
  proof (cases "filter is_db (beyond g)")
    case (Cons l ls)
    moreover have "\<forall>k\<in>set (filter is_db (beyond g)). same_port k g" using port by simp
    ultimately show ?thesis by (auto simp: same_socket_def same_port_def)
  qed (simp add: same_socket_def)
  obtain dbs doubt where scan: "db_scan g (beyond g) = (dbs, doubt)" by (rule prod.exhaust)
  have dbs: "dbs = filter is_db (beyond g)" and doubt: "(fst doubt = []) = (\<not> list_ex doubtful (beyond g))"
    using db_scan_spec [OF port] scan by simp_all
  have subject: "map_option o_verdict (fst (dbSubject fr g)) =
      (if dbs = [] \<and> fst doubt = [] then None else if dbs = [] then Some Abstained
       else Some (o_verdict (fst (db_outcome fr g (zero_outcome\<lparr>o_subject := service_subject (group_key g) (l_process (hd dbs)),
          o_excerpts := [cited (beyond g)]\<rparr>) dbs doubt)))) \<and> reader_of (snd (dbSubject fr g)) fw"
    using db_outcome_verdict [OF assms(1)] assms(1) by (simp add: dbSubject_def scan Let_def case_prod_beta)
  have "list_all (filtered_in fw) dbs = (rc_unknown (reach_of fw dbs) = None)" if "rc_open (reach_of fw dbs) = None"
    using reach_unknown [of dbs fw] that same dbs by simp
  moreover have "list_ex (open_in fw) dbs = (rc_open (reach_of fw dbs) \<noteq> None)"
    using reach_open [of dbs fw] same dbs by simp
  moreover have "rc_open (reach_of fw dbs) = None \<and> rc_unknown (reach_of fw dbs) = None" if "dbs = []"
    using that by (simp add: reach_of_def reach_family_def empty_reach_def)
  ultimately show ?thesis
    unfolding group_verdict_def dbs [symmetric] using subject doubt db_outcome_verdict [OF assms(1), of g _ dbs doubt]
    by (cases "dbs = []") auto
qed

lemma db_groups_verdicts:
  assumes "reader_of fr fw" and "grouped gs"
  shows "map o_verdict (fst (db_groups fr gs)) = List.map_filter (\<lambda>g. group_verdict fw (beyond g)) gs"
  using assms
proof (induction gs arbitrary: fr)
  case (Cons g gs)
  obtain o' fr1 where s: "dbSubject fr g = (o', fr1)" by (rule prod.exhaust)
  have "map_option o_verdict o' = group_verdict fw (beyond g)" "reader_of fr1 fw"
    using dbSubject_verdict [OF Cons.prems(1), of g] Cons.prems(2) s by (auto simp: grouped_def)
  moreover have "group_verdict fw [] = None" by (simp add: group_verdict_def)
  moreover have "grouped gs" using Cons.prems(2) by (simp add: grouped_def)
  ultimately show ?case
    using Cons.IH [of fr] Cons.IH [of fr1] Cons.prems(1) s
    by (auto simp: List.map_filter_simps Let_def case_prod_beta split: option.splits)
qed (simp add: List.map_filter_simps)

text \<open>What a rule that declares the listeners and the firewall reads of a host.\<close>

lemma view_fact_declared:
  assumes "read_check i \<in> set (v_reads v)"
  obtains v1 where "view_fact v i = (fst (host_fact (v_host v) i), snd (host_fact (v_host v) i), v1)"
    "v_host v1 = v_host v" "v_reads v1 = v_reads v"
  using assms that by (auto simp: view_fact_def declares_def read_check_def Let_def case_prod_beta)

lemma readListening_host:
  assumes "host_fact (v_host v) checkListeners = (f, [])" and "fact_parsed f = Some (PRecords recs)"
    and "read_check checkListeners \<in> set (v_reads v)"
  obtains v1 where "readListening v = (Inr \<lparr>ln_groups = foldl add_listener [] (fst (listeners recs)),
        ln_complete = (\<not> fact_partial f \<and> snd (listeners recs) \<and> \<not> list_ex unnamed (fst (listeners recs))),
        ln_portsOK = snd (listeners recs)\<rparr>, v1)"
    "v_host v1 = v_host v" "v_reads v1 = v_reads v"
proof -
  obtain v1 where v1: "view_fact v checkListeners =
      (fst (host_fact (v_host v) checkListeners), snd (host_fact (v_host v) checkListeners), v1)"
      "v_host v1 = v_host v" "v_reads v1 = v_reads v"
    using view_fact_declared [OF assms(3)] .
  then show thesis using that [of v1] assms(1,2) by (simp add: readListening_def case_prod_beta)
qed

lemma map_filter_set: "x \<in> set (List.map_filter f xs) \<longleftrightarrow> (\<exists>y\<in>set xs. f y = Some x)"
  by (force simp: List.map_filter_def)

lemma group_verdict_cases:
  "group_verdict fw ls = Some Fired \<longleftrightarrow> list_ex (open_in fw) (filter is_db ls)"
  "group_verdict fw ls = Some Abstained \<longleftrightarrow>
     \<not> list_ex (open_in fw) (filter is_db ls) \<and> (list_ex doubtful ls \<or> \<not> list_all (filtered_in fw) (filter is_db ls))"
  by (auto simp: group_verdict_def)

lemma group_verdict_range: "group_verdict fw ls = Some x \<Longrightarrow> x \<in> {Fired, Abstained, Disproved}"
  by (auto simp: group_verdict_def split: if_splits)

lemma filtered_not_open: "filtered_in fw l \<Longrightarrow> \<not> open_in fw l"
  by (auto simp: filtered_in_def open_in_def)

text \<open>What the groups' verdicts say of the listeners.\<close>

lemma groups_verdicts:
  assumes "gs = foldl add_listener [] ls" and "vs = List.map_filter (\<lambda>g. group_verdict fw (beyond g)) gs"
  shows "Fired \<in> set vs \<longleftrightarrow> (\<exists>l\<in>set ls. \<not> l_loopback l \<and> is_db l \<and> open_in fw l)"
    "set vs \<subseteq> {Disproved} \<longleftrightarrow>
      (\<forall>l\<in>set ls. \<not> l_loopback l \<longrightarrow> \<not> doubtful l \<and> (is_db l \<longrightarrow> filtered_in fw l))"
proof -
  have all: "l \<in> set ls \<longleftrightarrow> (\<exists>g\<in>set gs. l \<in> set (g_all g))" for l
    using groups_all [of "[]" ls] assms(1) by auto
  then show "Fired \<in> set vs \<longleftrightarrow> (\<exists>l\<in>set ls. \<not> l_loopback l \<and> is_db l \<and> open_in fw l)"
    unfolding assms(2) map_filter_set group_verdict_cases by (fastforce simp: list_ex_iff beyond_def)
  have "set vs \<subseteq> {Disproved} \<longleftrightarrow> Fired \<notin> set vs \<and> Abstained \<notin> set vs"
    using group_verdict_range unfolding assms(2) by (fastforce simp: map_filter_set)
  also have "\<dots> \<longleftrightarrow> (\<forall>g\<in>set gs. \<not> list_ex doubtful (beyond g) \<and> list_all (filtered_in fw) (filter is_db (beyond g)))"
    unfolding assms(2) map_filter_set group_verdict_cases using filtered_not_open [of fw]
    by (auto simp: list_ex_iff list_all_iff)
  finally show "set vs \<subseteq> {Disproved} \<longleftrightarrow>
      (\<forall>l\<in>set ls. \<not> l_loopback l \<longrightarrow> \<not> doubtful l \<and> (is_db l \<longrightarrow> filtered_in fw l))"
    using all by (auto simp: list_ex_iff list_all_iff beyond_def)
qed

lemma db_verdicts:
  assumes "host_fact h checkListeners = (f, [])" and "fact_parsed f = Some (PRecords recs)"
    and "vs = List.map_filter (\<lambda>g. group_verdict (host_firewall h) (beyond g)) (foldl add_listener [] (fst (listeners recs)))"
  shows "map o_verdict (fst (hr_judge rule_db (new_view h (hr_reads rule_db)))) =
    (if fact_partial f \<or> \<not> snd (listeners recs) \<or> list_ex unnamed (fst (listeners recs)) then vs @ [Abstained]
     else if vs = [] then [Disproved] else vs)"
proof -
  let ?v = "new_view h (hr_reads rule_db)"
  have reads: "read_check checkListeners \<in> set (v_reads ?v)" "set firewallReads \<subseteq> set (v_reads ?v)"
    by (auto simp: new_view_def rule_db_def)
  have h: "v_host ?v = h" by (simp add: new_view_def)
  obtain v1 where v1: "readListening ?v = (Inr \<lparr>ln_groups = foldl add_listener [] (fst (listeners recs)),
        ln_complete = (\<not> fact_partial f \<and> snd (listeners recs) \<and> \<not> list_ex unnamed (fst (listeners recs))),
        ln_portsOK = snd (listeners recs)\<rparr>, v1)" "v_host v1 = h" "v_reads v1 = v_reads ?v"
    using readListening_host [of ?v f recs, unfolded h, OF assms(1,2) reads(1)] by blast
  have "reader_of (v1, None) (host_firewall h)"
    using readFirewall_host [of v1 h] v1 reads(2) by (simp add: reader_of_def)
  moreover have "grouped (foldl add_listener [] (fst (listeners recs)))"
    using groups_grouped [of "[]"] by (simp add: grouped_def)
  ultimately have verdicts: "map o_verdict (fst (db_groups (v1, None) (foldl add_listener [] (fst (listeners recs))))) = vs"
    using db_groups_verdicts assms(3) by simp
  then have "(fst (db_groups (v1, None) (foldl add_listener [] (fst (listeners recs)))) = []) = (vs = [])" by auto
  moreover have "hr_judge rule_db ?v = dbListensUnfiltered ?v" by (simp add: rule_db_def)
  ultimately show ?thesis
    using v1(1) verdicts by (auto simp: dbListensUnfiltered_def Let_def case_prod_beta)
qed

text \<open>The framework keeps what fired, and a disproof only of what the rule disproved.\<close>

lemma run_rule_verdicts:
  assumes "hr_judge r (new_view h (hr_reads r)) = (outs, v)"
  shows "Fired \<in> jd_verdict ` set (fst (run_rule r h)) \<longleftrightarrow> Fired \<in> o_verdict ` set outs"
    "jd_verdict ` set (fst (run_rule r h)) \<subseteq> {Disproved} \<Longrightarrow> o_verdict ` set outs \<subseteq> {Disproved}"
proof -
  let ?w = "withdraw (list_ex fact_partial (v_touched v))"
  have w: "o_verdict (?w o') = Fired \<longleftrightarrow> o_verdict o' = Fired" "o_verdict (?w o') = Disproved \<Longrightarrow> o_verdict o' = Disproved" for o'
    by (simp_all add: withdraw_def split: if_splits)
  have vs: "jd_verdict ` set (fst (run_rule r h)) = (\<lambda>o'. o_verdict (?w o')) ` set outs"
    using assms by (simp add: run_rule_def judgment_of_def image_image Let_def)
  show "Fired \<in> jd_verdict ` set (fst (run_rule r h)) \<longleftrightarrow> Fired \<in> o_verdict ` set outs"
    unfolding vs using w(1) by (auto simp: image_iff eq_commute [of Fired])
  show "o_verdict ` set outs \<subseteq> {Disproved}" if "jd_verdict ` set (fst (run_rule r h)) \<subseteq> {Disproved}"
    using that w(2) unfolding vs by (auto simp: image_subset_iff)
qed

text \<open>
  C34: The database rule, on a host whose listening sockets were read.  It fires exactly when a database
  listens beyond loopback in a family its firewall leaves open to every source; and when all it says
  of the host is disproved, the read was complete, every owner beyond loopback was named, and every
  database beyond loopback is filtered in every family it listens in.
\<close>

theorem databases_judged_exactly:
  assumes "host_fact h checkListeners = (f, [])" and "fact_parsed f = Some (PRecords recs)"
  shows "(Fired \<in> jd_verdict ` set (fst (run_rule rule_db h)) \<longleftrightarrow>
           (\<exists>l\<in>set (fst (listeners recs)). \<not> l_loopback l \<and> is_db l \<and> open_in (host_firewall h) l)) \<and>
         (jd_verdict ` set (fst (run_rule rule_db h)) = {Disproved} \<longrightarrow>
           \<not> fact_partial f \<and> snd (listeners recs) \<and>
           (\<forall>l\<in>set (fst (listeners recs)). \<not> l_loopback l \<longrightarrow>
              l_known l \<and> l_process l \<noteq> [] \<and> \<not> doubtful l \<and> (is_db l \<longrightarrow> filtered_in (host_firewall h) l)))"
proof -
  obtain outs v where outs: "hr_judge rule_db (new_view h (hr_reads rule_db)) = (outs, v)" by fastforce
  define vs where "vs = List.map_filter (\<lambda>g. group_verdict (host_firewall h) (beyond g))
      (foldl add_listener [] (fst (listeners recs)))"
  have verdicts: "o_verdict ` set outs = (if fact_partial f \<or> \<not> snd (listeners recs) \<or> list_ex unnamed (fst (listeners recs))
      then insert Abstained (set vs) else if vs = [] then {Disproved} else set vs)"
    using arg_cong [OF db_verdicts [OF assms vs_def], of set] outs by simp
  note groups = groups_verdicts [OF HOL.refl vs_def]
  have "Fired \<in> o_verdict ` set outs \<longleftrightarrow> Fired \<in> set vs" unfolding verdicts by simp
  then have "Fired \<in> jd_verdict ` set (fst (run_rule rule_db h)) \<longleftrightarrow>
      (\<exists>l\<in>set (fst (listeners recs)). \<not> l_loopback l \<and> is_db l \<and> open_in (host_firewall h) l)"
    using run_rule_verdicts(1) [OF outs] groups(1) by simp
  moreover have "\<not> fact_partial f \<and> snd (listeners recs) \<and> (\<forall>l\<in>set (fst (listeners recs)). \<not> l_loopback l \<longrightarrow>
      l_known l \<and> l_process l \<noteq> [] \<and> \<not> doubtful l \<and> (is_db l \<longrightarrow> filtered_in (host_firewall h) l))"
    if "jd_verdict ` set (fst (run_rule rule_db h)) = {Disproved}"
  proof -
    have "o_verdict ` set outs \<subseteq> {Disproved}" using run_rule_verdicts(2) [OF outs] that by simp
    then have "\<not> fact_partial f" "snd (listeners recs)" "\<not> list_ex unnamed (fst (listeners recs))" "set vs \<subseteq> {Disproved}"
      unfolding verdicts by (auto split: if_splits)
    then show ?thesis using groups(2) by (auto simp: list_ex_iff unnamed_def)
  qed
  ultimately show ?thesis by blast
qed

text \<open>A host on which postgres listens on every IPv4 address and no firewall runs.\<close>

definition db_records :: records where
  "db_records = \<lparr>rs_kind = ParseListeners, rs_items =
     [[(FieldProtocol, ''tcp''), (FieldState, ''LISTEN''), (FieldAddress, ''0.0.0.0''), (FieldPort, ''5432''),
       (FieldProcess, ''postgres'')]], rs_partial = False, rs_note = []\<rparr>"

definition db_host :: host where
  "db_host = host_with [answered checkListeners (PRecords db_records), missing checkUFW, missing checkFirewalld,
     answered checkNFT (PRaw []), answered checkBackend (PRaw []), answered checkOSRelease (PKV [(''ID'', ''debian'')])] []"

definition db_fact :: fact where
  "db_fact = \<lparr>fact_check = checkListeners, fact_observation = ''obs-net.listeners'', fact_parsed = Some (PRecords db_records),
     fact_partial = False\<rparr>"

definition db_listener :: listener where
  "db_listener = \<lparr>l_proto = ''tcp'', l_address = ''0.0.0.0'', l_process = ''postgres'', l_port = 5432, l_loopback = False,
     l_v4 = True, l_v6 = False, l_known = True\<rparr>"

lemma db_host_fact: "host_fact db_host checkListeners = (db_fact, [])"
  by code_simp

lemma db_host_listeners: "fst (listeners db_records) = [db_listener]"
  by code_simp

lemma db_host_open: "open_in (host_firewall db_host) db_listener"
  by code_simp

theorem databases_judged_exactly_witness:
  "\<exists>f recs. host_fact db_host checkListeners = (f, []) \<and> fact_parsed f = Some (PRecords recs) \<and>
     Fired \<in> jd_verdict ` set (fst (run_rule rule_db db_host))"
proof -
  have "is_db db_listener \<and> \<not> l_loopback db_listener" by code_simp
  then have "Fired \<in> jd_verdict ` set (fst (run_rule rule_db db_host))"
    using databases_judged_exactly [OF db_host_fact, of db_records] db_host_listeners db_host_open by (simp add: db_fact_def)
  then show ?thesis using db_host_fact by (auto simp: db_fact_def)
qed

end
