(* ===== verification/Host_Access.thy ===== *)
theory Host_Access
  imports Host_Verdicts Posture_Proofs
begin

text \<open>
  The verdicts of the other multi-fact rules.  The SSH rule fires only when every condition of a
  sign-in without a password holds, the service rule only for a service declared for a closed
  audience that the firewall leaves open; and the table is valid against the shipped catalog.
\<close>

section \<open>The SSH rule\<close>

text \<open>sshd's settings let an account in with an empty password.\<close>

definition admits_empty :: "row \<Rightarrow> bool" where
  "admits_empty kv =
     (field kv ''permitemptypasswords'' = ''yes'' \<and> field kv ''authenticationmethods'' = ''any'' \<and>
      (field kv ''passwordauthentication'' = ''yes'' \<or>
       field kv ''usepam'' = ''yes'' \<and>
       (field kv ''kbdinteractiveauthentication'' = ''yes'' \<or> field kv ''challengeresponseauthentication'' = ''yes'')) \<and>
      list_all (\<lambda>k. map_of kv k = None) user_lists)"

lemma conditions_hold:
  assumes "emptyAllowed kv = Holds e1" "passwordMethod kv = Holds e2" "methods kv = Holds e3" "lists kv = Holds e4"
  shows "admits_empty kv"
proof -
  have "list_all (\<lambda>k. map_of kv k = None) user_lists"
    using assms(4) by (auto simp: lists_def find_None_iff list_all_iff split: option.splits)
  then show ?thesis
    using assms(1-3) by (auto simp: admits_empty_def emptyAllowed_def passwordMethod_def methods_def Let_def split: if_splits)
qed

lemma sshListens_holds:
  assumes "sshListens v kv = (Holds e, v1)" and "read_check checkListeners \<in> set (v_reads v)"
  shows "\<exists>f recs. host_fact (v_host v) checkListeners = (f, []) \<and> fact_parsed f = Some (PRecords recs) \<and>
    (\<exists>l\<in>set (fst (listeners recs)). ssh_listener (ssh_ports kv) l)"
proof -
  obtain w where w: "view_fact v checkListeners =
      (fst (host_fact (v_host v) checkListeners), snd (host_fact (v_host v) checkListeners), w)"
    using view_fact_declared [OF assms(2)] .
  obtain f why where f: "host_fact (v_host v) checkListeners = (f, why)" by (rule prod.exhaust)
  have "why = [] \<and> (\<exists>recs. fact_parsed f = Some (PRecords recs) \<and>
      (\<exists>l\<in>set (fst (listeners recs)). ssh_listener (ssh_ports kv) l))"
    using assms(1) w f
    by (auto simp: sshListens_def Let_def case_prod_beta find_Some_iff
        split: list.splits option.splits parsed.splits if_splits)
  then show ?thesis using f by blast
qed

text \<open>The accounts that fire are matched accounts sshd's setting for root does not refuse.\<close>

definition root_admits :: "string \<Rightarrow> account_outcome \<Rightarrow> bool" where
  "root_admits permit a = (ao_uid a \<noteq> ''0'' \<and> ao_uid a \<noteq> [] \<or> permit = ''yes'')"

lemma root_step_fired: "fst (foldl (root_step permit) st as) = fst st @ filter (root_admits permit) as"
  by (induction as arbitrary: st) (auto simp: root_step_def root_admits_def split: prod.splits if_splits)

lemma ssh_decide_fired:
  assumes "o' \<in> set (ssh_decide kv partial conds accounts)" and "o_verdict o' = Fired"
  shows "o_listed o' \<noteq> [] \<and>
    o_listed o' = map ao_account (filter (\<lambda>a. ao_status a = Matched \<and> root_admits (field kv ''permitrootlogin'') a) accounts)"
proof -
  let ?st = "foldl (root_step (field kv ''permitrootlogin''))
    ([], map (\<lambda>a. ao_account a @ '' ('' @ ao_reason a @ '')'') (filter (\<lambda>a. ao_status a = NotAssessed) accounts), False)
    (filter (\<lambda>a. ao_status a = Matched) accounts)"
  have "fst ?st \<noteq> []" "o_listed o' = map ao_account (fst ?st)"
    using assms by (auto simp: ssh_decide_def ssh_fired_def ssh_abstain_def ssh_disproved_def Let_def case_prod_beta split: if_splits)
  then show ?thesis by (simp add: root_step_fired conj_commute)
qed

lemma ssh_conditions_fired:
  assumes "o' \<in> set (ssh_conditions kv partial accounts conds)" and "o_verdict o' = Fired"
  shows "(\<forall>c\<in>set conds. \<exists>e. c = Holds e) \<and> o' \<in> set (ssh_decide kv partial conds accounts)"
proof -
  have none: "List.find (\<lambda>c. case c of Disproves _ \<Rightarrow> True | _ \<Rightarrow> False) conds = None"
    using assms by (auto simp: ssh_conditions_def ssh_disproved_def split: option.splits)
  have none2: "List.find (\<lambda>c. case c of Unknown _ _ \<Rightarrow> True | _ \<Rightarrow> False) conds = None"
  proof (cases "List.find (\<lambda>c. case c of Unknown _ _ \<Rightarrow> True | _ \<Rightarrow> False) conds")
    case (Some c)
    then have "case c of Unknown _ _ \<Rightarrow> True | _ \<Rightarrow> False" by (auto simp: find_Some_iff)
    then obtain reason detail where "c = Unknown reason detail" by (cases c) auto
    then show ?thesis using assms none Some by (auto simp: ssh_conditions_def ssh_abstain_def)
  qed
  have "\<exists>e. c = Holds e" if "c \<in> set conds" for c
    using none none2 that by (cases c) (auto simp: find_None_iff)
  moreover have "o' \<in> set (ssh_decide kv partial conds accounts)"
    using assms(1) none none2 by (simp add: ssh_conditions_def)
  ultimately show ?thesis by blast
qed

lemma DecideJoin_empty_password:
  "DecideJoin IDEmptyPassword ps pw = Some (decide_join FieldStatus ''NP'' [''p'', ''l'', ''np'', ''ps'', ''lk''] ps pw)"
  by (simp add: DecideJoin_def posture_rules_def one_rule_def finding_ids)

text \<open>An account with an empty password and a shell that lets it work.\<close>

definition can_log_in :: "parsed option \<Rightarrow> parsed option \<Rightarrow> string \<Rightarrow> bool" where
  "can_log_in ps pw name =
     (\<exists>recs r sh acct. ps = Some (PRecords recs) \<and> pw = Some (PRecords sh) \<and> r \<in> set (rs_items recs) \<and>
        trim_space (field r FieldName) = name \<and> equal_fold (trim_space (field r FieldStatus)) ''NP'' \<and>
        account_line sh r acct \<and> \<not> refusesLogin (field acct FieldShell) \<and> interactiveShell (field acct FieldShell))"

lemma decide_account_name: "ao_account (decide_account shells r) = trim_space (field r FieldName)"
  by (auto simp: decide_account_def Let_def split: option.splits)

lemma password_join_matched:
  assumes "a \<in> set (jo_accounts (password_join ps pw why))" and "ao_status a = Matched"
  shows "can_log_in ps pw (ao_account a)"
proof -
  have "jo_accounts (password_join ps pw why) =
      jo_accounts (decide_join FieldStatus ''NP'' [''p'', ''l'', ''np'', ''ps'', ''lk''] ps pw)"
    by (simp add: password_join_def DecideJoin_empty_password)
  then obtain recs r where r: "ps = Some (PRecords recs)" "r \<in> set (rs_items recs)"
      "classify_account FieldStatus ''NP'' [''p'', ''l'', ''np'', ''ps'', ''lk''] r = Candidate"
      "a = decide_account (case pw of Some (PRecords sh) \<Rightarrow> Some sh | _ \<Rightarrow> None) r"
    using assms by (auto simp: decide_join_def undecided_outcome_def Let_def split: option.splits parsed.splits if_splits)
  then have "equal_fold (trim_space (field r FieldStatus)) ''NP''"
    by (auto simp: classify_account_def Let_def split: if_splits)
  then show ?thesis
    using r assms(2) by (auto simp: can_log_in_def decide_account_matched decide_account_name split: option.splits parsed.splits)
qed

lemma ssh_settings_fired:
  assumes "o' \<in> set (fst (ssh_settings v partial accounts))" and "o_verdict o' = Fired" and "v_reads v = hr_reads rule_ssh"
  shows "\<exists>cfg kv. host_fact (v_host v) checkSSHD = (cfg, []) \<and> fact_parsed cfg = Some (PKV kv) \<and> \<not> fact_partial cfg \<and>
    admits_empty kv \<and>
    (\<exists>f recs. host_fact (v_host v) checkListeners = (f, []) \<and> fact_parsed f = Some (PRecords recs) \<and>
       (\<exists>l\<in>set (fst (listeners recs)). ssh_listener (ssh_ports kv) l)) \<and> o_listed o' \<noteq> [] \<and>
    o_listed o' = map ao_account (filter (\<lambda>a. ao_status a = Matched \<and> root_admits (field kv ''permitrootlogin'') a) accounts)"
proof -
  have reads: "read_check checkSSHD \<in> set (v_reads v)" "read_check checkListeners \<in> set (v_reads v)"
    using assms(3) by (simp_all add: rule_ssh_def)
  obtain v1 where v1: "view_fact v checkSSHD = (fst (host_fact (v_host v) checkSSHD), snd (host_fact (v_host v) checkSSHD), v1)"
      "v_host v1 = v_host v" "v_reads v1 = v_reads v"
    using view_fact_declared [OF reads(1)] .
  obtain cfg why where cfg: "host_fact (v_host v) checkSSHD = (cfg, why)" by (rule prod.exhaust)
  have "why = [] \<and> (\<exists>kv. fact_parsed cfg = Some (PKV kv) \<and> \<not> fact_partial cfg \<and>
      o' \<in> set (ssh_conditions kv partial accounts
        [emptyAllowed kv, passwordMethod kv, methods kv, lists kv, fst (sshListens v1 kv)]))"
    using assms(1,2) v1(1) cfg
    by (auto simp: ssh_settings_def ssh_abstain_def Let_def case_prod_beta
        split: list.splits option.splits parsed.splits if_splits)
  then obtain kv where kv: "why = []" "fact_parsed cfg = Some (PKV kv)" "\<not> fact_partial cfg"
      "o' \<in> set (ssh_conditions kv partial accounts
        [emptyAllowed kv, passwordMethod kv, methods kv, lists kv, fst (sshListens v1 kv)])" by blast
  note fired = ssh_conditions_fired [OF kv(4) assms(2)]
  then have "admits_empty kv" using conditions_hold by fastforce
  moreover obtain e where "sshListens v1 kv = (Holds e, snd (sshListens v1 kv))"
    using fired by (auto simp: prod_eq_iff)
  then have "\<exists>f recs. host_fact (v_host v) checkListeners = (f, []) \<and> fact_parsed f = Some (PRecords recs) \<and>
       (\<exists>l\<in>set (fst (listeners recs)). ssh_listener (ssh_ports kv) l)"
    using sshListens_holds [of v1 kv] v1(2,3) reads(2) by simp
  moreover note ssh_decide_fired [OF conjunct2 [OF fired] assms(2)]
  ultimately show ?thesis using cfg kv(1-3) by blast
qed

text \<open>
  C35: The SSH rule fires for a host only when every condition of a remote sign-in without a password was
  read off it: sshd's complete settings admit an empty password, no user or group list is set, sshd
  listens beyond loopback; and every account it lists has an empty password, a line in the accounts
  listing read in full and a shell that lets it work.
\<close>

theorem remote_sign_in_needs_every_condition:
  assumes "j \<in> set (fst (run_rule rule_ssh h))" and "jd_verdict j = Fired"
  shows "(\<exists>cfg kv f recs. host_fact h checkSSHD = (cfg, []) \<and> fact_parsed cfg = Some (PKV kv) \<and> \<not> fact_partial cfg \<and>
           admits_empty kv \<and> host_fact h checkListeners = (f, []) \<and> fact_parsed f = Some (PRecords recs) \<and>
           (\<exists>l\<in>set (fst (listeners recs)). ssh_listener (ssh_ports kv) l)) \<and>
         hj_listed j \<noteq> [] \<and>
         (\<forall>name\<in>set (hj_listed j). can_log_in (fact_parsed (fst (host_fact h checkPasswdStatus)))
            (fact_parsed (fst (host_fact h checkPasswd))) name)"
proof -
  let ?v = "new_view h (hr_reads rule_ssh)"
  have reads: "read_check checkPasswdStatus \<in> set (v_reads ?v)" "read_check checkPasswd \<in> set (v_reads ?v)"
    by (simp_all add: new_view_def rule_ssh_def)
  obtain v1 where v1: "view_fact ?v checkPasswdStatus =
      (fst (host_fact h checkPasswdStatus), snd (host_fact h checkPasswdStatus), v1)" "v_host v1 = h" "v_reads v1 = v_reads ?v"
    using view_fact_declared [OF reads(1)] by (auto simp: new_view_def)
  obtain v2 where v2: "view_fact v1 checkPasswd =
      (fst (host_fact h checkPasswd), snd (host_fact h checkPasswd), v2)" "v_host v2 = h" "v_reads v2 = hr_reads rule_ssh"
    using view_fact_declared [of checkPasswd v1] v1(2,3) reads(2) by (auto simp: new_view_def)
  obtain o' partial where o': "o' \<in> set (fst (hr_judge rule_ssh ?v))" "j = judgment_of rule_ssh h
      (v_touched (snd (hr_judge rule_ssh ?v))) (withdraw partial o')"
    using assms(1) by (auto simp: run_rule_def Let_def case_prod_beta)
  then have fired: "o_verdict o' = Fired" "hj_listed j = o_listed o'"
    using assms(2) by (auto simp: judgment_of_def withdraw_def split: if_splits)
  define accounts where "accounts = jo_accounts (password_join (fact_parsed (fst (host_fact h checkPasswdStatus)))
      (fact_parsed (fst (host_fact h checkPasswd))) (snd (host_fact h checkPasswd)))"
  have "\<exists>p. o' \<in> set (fst (ssh_settings v2 p accounts))"
    using o'(1) fired(1) v1(1) v2(1)
    by (auto simp: rule_ssh_def emptyPasswordRemote_def ssh_abstain_def ssh_disproved_def accounts_def Let_def split: if_splits)
  then obtain p where p: "o' \<in> set (fst (ssh_settings v2 p accounts))" by blast
  note settings = ssh_settings_fired [OF p fired(1) v2(3), unfolded v2(2)]
  then have "\<forall>name\<in>set (hj_listed j). \<exists>a\<in>set accounts. ao_status a = Matched \<and> ao_account a = name"
    unfolding fired(2) by auto
  then have "\<forall>name\<in>set (hj_listed j). can_log_in (fact_parsed (fst (host_fact h checkPasswdStatus)))
            (fact_parsed (fst (host_fact h checkPasswd))) name"
    using password_join_matched unfolding accounts_def by fastforce
  then show ?thesis using settings fired(2) by auto
qed

definition ssh_host :: host where
  "ssh_host = host_with
     [answered checkPasswdStatus (PRecords \<lparr>rs_kind = ParsePasswdStatus, rs_items = [[(FieldName, ''eve''), (FieldStatus, ''NP'')]],
        rs_partial = False, rs_note = []\<rparr>),
      answered checkPasswd (PRecords \<lparr>rs_kind = ParseAccounts,
        rs_items = [[(FieldName, ''eve''), (FieldUID, ''7''), (FieldShell, ''/bin/sh'')]], rs_partial = False, rs_note = []\<rparr>),
      answered checkSSHD (PKV [(''permitemptypasswords'', ''yes''), (''passwordauthentication'', ''yes''),
        (''kbdinteractiveauthentication'', ''no''), (''usepam'', ''no''), (''authenticationmethods'', ''any''), (''port'', ''22'')]),
      answered checkListeners (PRecords \<lparr>rs_kind = ParseListeners, rs_items =
        [[(FieldProtocol, ''tcp''), (FieldState, ''LISTEN''), (FieldAddress, ''::''), (FieldPort, ''22''), (FieldProcess, ''sshd'')]],
        rs_partial = False, rs_note = []\<rparr>)] []"

lemma ssh_host_fires: "map jd_verdict (fst (run_rule rule_ssh ssh_host)) = [Fired]"
  by code_simp

theorem remote_sign_in_needs_every_condition_witness:
  "\<exists>j. j \<in> set (fst (run_rule rule_ssh ssh_host)) \<and> jd_verdict j = Fired \<and>
     (\<exists>name. name \<in> set (hj_listed j) \<and> can_log_in (fact_parsed (fst (host_fact ssh_host checkPasswdStatus)))
            (fact_parsed (fst (host_fact ssh_host checkPasswd))) name)"
proof -
  obtain j where j: "j \<in> set (fst (run_rule rule_ssh ssh_host))" "jd_verdict j = Fired"
    using ssh_host_fires by (cases "fst (run_rule rule_ssh ssh_host)") auto
  have "hj_listed j \<noteq> []" using remote_sign_in_needs_every_condition [OF j] by blast
  then have "hd (hj_listed j) \<in> set (hj_listed j)" by simp
  moreover have "can_log_in (fact_parsed (fst (host_fact ssh_host checkPasswdStatus)))
      (fact_parsed (fst (host_fact ssh_host checkPasswd))) (hd (hj_listed j))"
    using remote_sign_in_needs_every_condition [OF j] \<open>hd (hj_listed j) \<in> set (hj_listed j)\<close> by blast
  ultimately show ?thesis using j by blast
qed

section \<open>The service rule\<close>

definition exposed_to :: "string \<Rightarrow> string \<Rightarrow> bool" where
  "exposed_to audience exposure = (audience = ''localhost'' \<or> exposure = ''internet'')"

lemma judge_reach_fired:
  assumes "o_verdict (judge_reach s exposure o1 bs r) = Fired"
  shows "rc_open r \<noteq> None \<and> exposed_to (svc_audience s) exposure \<and>
    o_attributes (judge_reach s exposure o1 bs r) = [contradiction (svc_key s)]"
  using assms by (auto simp: judge_reach_def abstain_svc_def exposed_to_def Let_def split: option.splits if_splits)

lemma judgeService_fired:
  assumes "judgeService fr s sub g exposure = (o', fr1)" and "reader_of fr fw"
  shows "reader_of fr1 fw \<and>
    (o_verdict o' = Fired \<longrightarrow> closed_audience (svc_audience s) \<and> rc_open (reach_of fw (beyond g)) \<noteq> None \<and>
       exposed_to (svc_audience s) exposure \<and> o_attributes o' = [contradiction (svc_key s)])"
proof -
  obtain v where "read_reach fr (beyond g) = (reach_of fw (beyond g), (v, Some fw))" using read_reach_of [OF assms(2)] .
  moreover have "reader_of (v, Some fw) fw" by (simp add: reader_of_def)
  ultimately show ?thesis
    using assms judge_reach_fired
    by (auto simp: judgeService_def abstain_svc_def Let_def split: option.splits if_splits)
qed

definition svc_explained :: "firewall \<Rightarrow> listening \<Rightarrow> string \<Rightarrow> service \<Rightarrow> outcome \<Rightarrow> bool" where
  "svc_explained fw ln exposure s o' =
     (\<exists>g. listening_at ln (svc_port s) (svc_proto s) = Some g \<and> \<not> r1Owns g \<and> closed_audience (svc_audience s) \<and>
        rc_open (reach_of fw (beyond g)) \<noteq> None \<and> exposed_to (svc_audience s) exposure \<and>
        o_attributes o' = [contradiction (svc_key s)])"

lemma svc_one_fired:
  assumes "svc_one fr (Inr ln) exposure s = (o', fr1)" and "reader_of fr fw"
  shows "reader_of fr1 fw \<and> (\<forall>x. o' = Some x \<longrightarrow> o_verdict x = Fired \<longrightarrow> svc_explained fw ln exposure s x)"
proof (cases "\<exists>g. listening_at ln (svc_port s) (svc_proto s) = Some g \<and> \<not> r1Owns g \<and> (ln_portsOK ln \<or> beyond g \<noteq> [])")
  case True
  then obtain g where g: "listening_at ln (svc_port s) (svc_proto s) = Some g" "\<not> r1Owns g" "ln_portsOK ln \<or> beyond g \<noteq> []"
    by blast
  let ?j = "judgeService fr s (service_subject (subjectKey s) (if svc_purpose s \<noteq> [] then svc_purpose s else subjectKey s)) g exposure"
  have "o' = Some (fst ?j)" "fr1 = snd ?j" using assms(1) g by (auto simp: svc_one_def Let_def case_prod_beta)
  moreover have "?j = (fst ?j, snd ?j)" by simp
  ultimately show ?thesis using judgeService_fired [of fr s _ g exposure "fst ?j" "snd ?j" fw] assms(2) g
    by (auto simp: svc_explained_def)
next
  case False
  then show ?thesis using assms by (auto simp: svc_one_def Let_def split: option.splits if_splits)
qed

lemma svc_each_fired:
  assumes "x \<in> set (fst (svc_each fr (Inr ln) exposure ss))" and "reader_of fr fw" and "o_verdict x = Fired"
  shows "\<exists>s\<in>set ss. svc_explained fw ln exposure s x"
  using assms
proof (induction ss arbitrary: fr)
  case (Cons s ss)
  obtain o' fr1 where one: "svc_one fr (Inr ln) exposure s = (o', fr1)" by (rule prod.exhaust)
  have "o' = Some x \<or> x \<in> set (fst (svc_each fr1 (Inr ln) exposure ss))"
    using Cons.prems(1) one by (auto simp: Let_def case_prod_beta split: option.splits)
  then show ?case using Cons.IH [of fr1] svc_one_fired [OF one Cons.prems(2)] Cons.prems(3) by auto
qed simp

lemma svc_each_unread:
  "o_verdict u \<noteq> Fired \<Longrightarrow> x \<in> set (fst (svc_each fr (Inl u) exposure ss)) \<Longrightarrow> o_verdict x \<noteq> Fired"
  by (induction ss arbitrary: fr) (auto simp: svc_one_def Let_def case_prod_beta)

lemma listening_at_listeners:
  assumes "listening_at ln port proto = Some g" and "ln_groups ln = foldl add_listener [] ls"
  shows "same_socket (beyond g)"
    "\<forall>l\<in>set (beyond g). l \<in> set ls \<and> \<not> l_loopback l \<and> l_port l = port \<and> equal_fold (l_proto l) proto"
proof -
  have g: "g \<in> set (foldl add_listener [] ls)" "g_port g = port" "equal_fold (g_proto g) proto"
    using assms by (auto simp: listening_at_def find_Some_iff)
  have "grouped (foldl add_listener [] ls)" using groups_grouped [of "[]"] by (simp add: grouped_def)
  then have port: "\<forall>l\<in>set (beyond g). same_port l g" using g(1) by (simp add: grouped_def beyond_def)
  show "same_socket (beyond g)"
  proof (cases "beyond g")
    case (Cons l ls')
    then show ?thesis using port by (auto simp: same_socket_def same_port_def)
  qed (simp add: same_socket_def)
  have "set (g_all g) \<subseteq> set ls" using groups_all [of "[]" ls] g(1) by auto
  then show "\<forall>l\<in>set (beyond g). l \<in> set ls \<and> \<not> l_loopback l \<and> l_port l = port \<and> equal_fold (l_proto l) proto"
    using port g(2,3) by (auto simp: beyond_def same_port_def)
qed

lemma view_services_declared:
  assumes "read_declared DeclaredServices \<in> set (v_reads v)"
  obtains v1 where "view_services v = (h_services (v_host v), v1)" "v_host v1 = v_host v" "v_reads v1 = v_reads v"
  using assms that by (auto simp: view_services_def declares_def read_declared_def Let_def)

lemma view_exposure_declared:
  assumes "read_declared DeclaredExposure \<in> set (v_reads v)"
  obtains v1 where "view_exposure v = (h_exposure (v_host v), v1)" "v_host v1 = v_host v" "v_reads v1 = v_reads v"
  using assms that by (auto simp: view_exposure_def declares_def read_declared_def Let_def)

lemma readListening_cases:
  assumes "read_check checkListeners \<in> set (v_reads v)"
  obtains u v1 where "readListening v = (Inl u, v1)" "o_verdict u = Abstained"
  | ln v1 f recs where "readListening v = (Inr ln, v1)" "host_fact (v_host v) checkListeners = (f, [])"
      "fact_parsed f = Some (PRecords recs)" "ln_groups ln = foldl add_listener [] (fst (listeners recs))"
      "v_host v1 = v_host v" "v_reads v1 = v_reads v"
proof (cases "\<exists>f recs. host_fact (v_host v) checkListeners = (f, []) \<and> fact_parsed f = Some (PRecords recs)")
  case True
  then obtain f recs where "host_fact (v_host v) checkListeners = (f, [])" "fact_parsed f = Some (PRecords recs)" by blast
  then show thesis using that(2) readListening_host [OF _ _ assms] by (metis listening.select_convs(1))
next
  case False
  obtain v1 where "view_fact v checkListeners =
      (fst (host_fact (v_host v) checkListeners), snd (host_fact (v_host v) checkListeners), v1)"
    using view_fact_declared [OF assms] .
  then have "\<exists>u. readListening v = (Inl u, v1) \<and> o_verdict u = Abstained"
    using False by (cases "host_fact (v_host v) checkListeners")
      (auto simp: readListening_def split: list.split option.split parsed.split)
  then show thesis using that(1) by blast
qed

text \<open>What the rule fires on, over the view it reads through.\<close>

lemma svc_fired:
  assumes "x \<in> set (fst (listensBeyondDeclared v))" and "o_verdict x = Fired" and "set (hr_reads rule_svc) \<subseteq> set (v_reads v)"
  shows "\<exists>s ln f recs. s \<in> set (h_services (v_host v)) \<and> host_fact (v_host v) checkListeners = (f, []) \<and>
    fact_parsed f = Some (PRecords recs) \<and> ln_groups ln = foldl add_listener [] (fst (listeners recs)) \<and>
    svc_explained (host_firewall (v_host v)) ln (h_exposure (v_host v)) s x"
proof -
  have sub: "read_declared DeclaredServices \<in> set (v_reads v)" "read_check checkListeners \<in> set (v_reads v)"
      "read_declared DeclaredExposure \<in> set (v_reads v)" "set firewallReads \<subseteq> set (v_reads v)"
    using assms(3) by (auto simp: rule_svc_def)
  obtain v1 where v1: "view_services v = (h_services (v_host v), v1)" "v_host v1 = v_host v" "v_reads v1 = v_reads v"
    using view_services_declared [OF sub(1)] .
  define ds where "ds = filter (\<lambda>s. svc_audience s \<noteq> ''internet'' \<and> svc_audience s \<noteq> []) (h_services (v_host v))"
  obtain l v2 e v3 where e: "readListening v1 = (l, v2)" "view_exposure v2 = (e, v3)" by fastforce
  have x: "x \<in> set (fst (svc_each (v3, None) l e ds))"
    using assms(1,2) v1(1) e
    by (auto simp: listensBeyondDeclared_def ds_def Let_def case_prod_beta split: if_splits)
  show ?thesis
  proof (rule readListening_cases [of v1])
    show "read_check checkListeners \<in> set (v_reads v1)" using sub(2) v1(3) by simp
  next
    fix u w
    assume "readListening v1 = (Inl u, w)" "o_verdict u = Abstained"
    then show ?thesis using svc_each_unread [of u x "(v3, None)" e ds] x e(1) assms(2) by auto
  next
    fix ln w f recs
    assume ln: "readListening v1 = (Inr ln, w)" "host_fact (v_host v1) checkListeners = (f, [])"
      "fact_parsed f = Some (PRecords recs)" "ln_groups ln = foldl add_listener [] (fst (listeners recs))"
      "v_host w = v_host v1" "v_reads w = v_reads v1"
    then have w: "v_host v2 = v_host v" "v_reads v2 = v_reads v" "l = Inr ln" using e(1) v1 by auto
    obtain v4 where "view_exposure v2 = (h_exposure (v_host v), v4)" "v_host v4 = v_host v" "v_reads v4 = v_reads v"
      using view_exposure_declared [of v2] sub(3) w(1,2) by auto
    then have "e = h_exposure (v_host v)" "reader_of (v3, None) (host_firewall (v_host v))"
      using e(2) readFirewall_host [of v3] sub(4) by (auto simp: reader_of_def)
    then show ?thesis using svc_each_fired [of x "(v3, None)" ln] x w(3) assms(2) ln(2-4) v1(2) by (fastforce simp: ds_def)
  qed
qed

text \<open>
  The service rule fires only for a service the operator declared for localhost, lan or vpn: a
  listener on its port and protocol is beyond loopback, is not a database, and the firewall leaves it
  open in a family it listens in; a service for lan or vpn only on a host declared internet-facing.
  The judgment carries the declaration it contradicts.
\<close>

theorem service_fires_on_a_contradiction:
  assumes "j \<in> set (fst (run_rule rule_svc h))" and "jd_verdict j = Fired"
  shows "\<exists>s f recs l. s \<in> set (h_services h) \<and> svc_audience s \<in> {''localhost'', ''lan'', ''vpn''} \<and>
    host_fact h checkListeners = (f, []) \<and> fact_parsed f = Some (PRecords recs) \<and> l \<in> set (fst (listeners recs)) \<and>
    \<not> l_loopback l \<and> l_port l = svc_port s \<and> equal_fold (l_proto l) (svc_proto s) \<and> \<not> is_db l \<and>
    open_in (host_firewall h) l \<and> (svc_audience s = ''localhost'' \<or> h_exposure h = ''internet'') \<and>
    jd_attributes j = [contradiction (svc_key s)]"
proof -
  let ?v = "new_view h (hr_reads rule_svc)"
  obtain x partial where x: "x \<in> set (fst (hr_judge rule_svc ?v))" "j = judgment_of rule_svc h
      (v_touched (snd (hr_judge rule_svc ?v))) (withdraw partial x)"
    using assms(1) by (auto simp: run_rule_def Let_def case_prod_beta)
  then have fired: "o_verdict x = Fired" "jd_attributes j = o_attributes x"
    using assms(2) by (auto simp: judgment_of_def withdraw_def split: if_splits)
  have "x \<in> set (fst (listensBeyondDeclared ?v))" "set (hr_reads rule_svc) \<subseteq> set (v_reads ?v)" "v_host ?v = h"
    using x(1) by (simp_all add: rule_svc_def new_view_def)
  then obtain s ln f recs where s: "s \<in> set (h_services h)" "host_fact h checkListeners = (f, [])"
      "fact_parsed f = Some (PRecords recs)" "ln_groups ln = foldl add_listener [] (fst (listeners recs))"
      "svc_explained (host_firewall h) ln (h_exposure h) s x"
    using svc_fired [OF _ fired(1), of ?v] by metis
  then obtain g where g: "listening_at ln (svc_port s) (svc_proto s) = Some g" "\<not> r1Owns g"
      "closed_audience (svc_audience s)" "rc_open (reach_of (host_firewall h) (beyond g)) \<noteq> None"
      "exposed_to (svc_audience s) (h_exposure h)" "o_attributes x = [contradiction (svc_key s)]"
    unfolding svc_explained_def by blast
  note at = listening_at_listeners [OF g(1) s(4)]
  obtain l where l: "l \<in> set (beyond g)" "open_in (host_firewall h) l"
    using reach_open [OF at(1)] g(4) by (auto simp: list_ex_iff)
  moreover have "\<not> is_db l" using g(2) l(1) by (auto simp: r1Owns_def is_db_def list_ex_iff)
  ultimately show ?thesis
    using s(1-3) g(3,5,6) at(2) fired(2)
    by (intro exI [of _ s] exI [of _ f] exI [of _ recs] exI [of _ l])
      (auto simp: closed_audience_def exposed_to_def)
qed

definition svc_host :: host where
  "svc_host = host_with [answered checkListeners (PRecords \<lparr>rs_kind = ParseListeners, rs_items =
       [[(FieldProtocol, ''tcp''), (FieldState, ''LISTEN''), (FieldAddress, ''0.0.0.0''), (FieldPort, ''7''),
         (FieldProcess, ''app'')]], rs_partial = False, rs_note = []\<rparr>),
     missing checkUFW, missing checkFirewalld, answered checkNFT (PRaw []), answered checkBackend (PRaw []),
     answered checkOSRelease (PKV [(''ID'', ''debian'')])]
     [\<lparr>svc_port = 7, svc_proto = ''tcp'', svc_audience = ''localhost'', svc_purpose = ''p'', svc_key = ''k''\<rparr>]"

lemma svc_host_fires: "map jd_verdict (fst (run_rule rule_svc svc_host)) = [Fired]"
  by code_simp

theorem service_fires_on_a_contradiction_witness:
  "\<exists>j s. j \<in> set (fst (run_rule rule_svc svc_host)) \<and> jd_verdict j = Fired \<and> s \<in> set (h_services svc_host) \<and>
     jd_attributes j = [contradiction (svc_key s)]"
proof -
  obtain j where j: "j \<in> set (fst (run_rule rule_svc svc_host))" "jd_verdict j = Fired"
    using svc_host_fires by (cases "fst (run_rule rule_svc svc_host)") auto
  show ?thesis using service_fires_on_a_contradiction [OF j] j by blast
qed

end
