(* ===== verification/Addr_Text.thy ===== *)
theory Addr_Text
  imports Netip
begin

text \<open>
  The texts \<open>net/netip\<close> writes: \<open>Addr.String\<close> (dotted for IPv4; the RFC 5952 form for IPv6, the first
  longest run of at least two zero groups written \<open>::\<close>; an IPv4-mapped address with its IPv4 part
  dotted) and \<open>Prefix.String\<close>.
\<close>

definition v4_text :: "v4 \<Rightarrow> string" where
  "v4_text w = join_with ''.'' (map (\<lambda>k. show_nat (unat (drop_bit k w) mod 256)) [24, 16, 8, 0])"

lemma byte_lt: "n mod 256 < (256 :: nat)"
  by simp

definition hex_digit :: "nat \<Rightarrow> char" where
  "hex_digit n = char_of (if n < 10 then 48 + n else 87 + n)"

fun hex_text :: "nat \<Rightarrow> string" where
  "hex_text n = (if n < 16 then [hex_digit n] else hex_text (n div 16) @ [hex_digit (n mod 16)])"

declare hex_text.simps [simp del]

definition v6_groups :: "v6 \<Rightarrow> nat list" where
  "v6_groups x = map (\<lambda>i. unat (drop_bit (112 - 16 * i) x) mod 65536) [0..<8]"

text \<open>The first longest run of at least two zeros, as its start and its end.\<close>

definition zero_run :: "nat list \<Rightarrow> (nat \<times> nat) option" where
  "zero_run gs =
     foldl (\<lambda>best i.
        let l = length (takeWhile (\<lambda>g. g = 0) (drop i gs)) in
        if 2 \<le> l \<and> (case best of None \<Rightarrow> True | Some (s, e) \<Rightarrow> e - s < l) then Some (i, i + l) else best)
       None [0..<length gs]"

definition groups_text :: "nat list \<Rightarrow> string" where
  "groups_text gs =
     (case zero_run gs of
        None \<Rightarrow> join_with '':'' (map hex_text gs)
      | Some (s, e) \<Rightarrow> join_with '':'' (map hex_text (take s gs)) @ ''::'' @ join_with '':'' (map hex_text (drop e gs)))"

definition zone_text :: "string \<Rightarrow> string" where
  "zone_text z = (if z = [] then [] else CHR ''%'' # z)"

primrec addr_string :: "addr \<Rightarrow> string" where
  "addr_string NoAddr = ''invalid IP''"
| "addr_string (V4 w) = v4_text w"
| "addr_string (V6 x z) =
     (if v6_mapped x then ''::ffff:'' @ v4_text (ucast x) else groups_text (v6_groups x)) @ zone_text z"

definition prefix_string :: "net_prefix \<Rightarrow> string" where
  "prefix_string p =
     (case pfx_len p of
        None \<Rightarrow> ''invalid Prefix''
      | Some n \<Rightarrow> addr_string (pfx_addr p) @ ''/'' @ show_nat n)"

section \<open>Bytes of a number\<close>

text \<open>The big-endian bytes of a number.\<close>

primrec be_bytes :: "nat \<Rightarrow> nat \<Rightarrow> nat list" where
  "be_bytes 0 n = []"
| "be_bytes (Suc k) n = be_bytes k (n div 256) @ [n mod 256]"

declare be_bytes.simps(2) [simp del]

lemma length_be_bytes [simp]: "length (be_bytes k n) = k"
  by (induction k arbitrary: n) (auto simp: be_bytes.simps)

lemma be_bytes_small: "x \<in> set (be_bytes k n) \<Longrightarrow> x < 256"
  by (induction k arbitrary: n) (auto simp: be_bytes.simps)

lemma big_endian_snoc: "big_endian (xs @ [x]) = big_endian xs * 256 + int x"
  by (simp add: big_endian_def)

lemma big_endian_be_bytes: "big_endian (be_bytes k n) = int (n mod 256 ^ k)"
proof (induction k arbitrary: n)
  case (Suc k)
  have "n mod 256 ^ Suc k = n div 256 mod 256 ^ k * 256 + n mod 256"
    by (simp add: mod_mult2_eq)
  with Suc show ?case by (simp add: big_endian_snoc be_bytes.simps)
qed (simp add: big_endian_def)

lemma be_bytes_v4: "of_int (big_endian (be_bytes 4 (unat w))) = w" for w :: v4
  using unsigned_less [of w, where ?'a = nat] by (simp add: big_endian_be_bytes)

lemma be_bytes_v6: "of_int (big_endian (be_bytes 16 (unat w))) = w" for w :: v6
  using unsigned_less [of w, where ?'a = nat] by (simp add: big_endian_be_bytes)

lemma unat_drop_bit: "unat (drop_bit k w) = unat w div 2 ^ k" for w :: "'a::len word"
  by (simp add: unat_drop_bit_eq flip: drop_bit_eq_div)

section \<open>Dotted text reads back\<close>

lemma octet_show: "n < 256 \<Longrightarrow> octet (show_nat n) = Some n"
proof -
  assume n: "n < 256"
  have d: "list_all is_digit (show_nat n)" using show_nat_digits by (auto simp: list_all_iff)
  have "1 < length (show_nat n) \<Longrightarrow> hd (show_nat n) \<noteq> CHR ''0''"
    using n by (auto simp: show_nat.simps [of n] show_nat.simps [of "n div 10"] show_nat.simps [of "n div 10 div 10"]
        digit_char_def char_of_eq_iff take_bit_eq_mod split: if_splits)
  then show ?thesis using n d by (auto simp: octet_def read_show_nat)
qed

lemma octets_show: "\<forall>n\<in>set ns. n < 256 \<Longrightarrow> octets (map show_nat ns) = Some ns"
  by (induction ns) (auto simp: octet_show)

lemma digit_not: "is_digit c \<Longrightarrow> c \<notin> {CHR ''.'', CHR '':'', CHR ''%''}"
  by (auto simp: is_digit_def)

lemma v4_text_bytes: "v4_text w = join_with ''.'' (map show_nat (be_bytes 4 (unat w)))"
proof -
  have "be_bytes (Suc (Suc (Suc (Suc 0)))) n =
      [n div 2 ^ 24 mod 256, n div 2 ^ 16 mod 256, n div 2 ^ 8 mod 256, n div 2 ^ 0 mod 256]" for n
    by (simp add: be_bytes.simps div_mult2_eq [symmetric])
  moreover have "Suc (Suc (Suc (Suc 0))) = 4" by simp
  ultimately have "be_bytes 4 n = [n div 2 ^ 24 mod 256, n div 2 ^ 16 mod 256, n div 2 ^ 8 mod 256, n div 2 ^ 0 mod 256]" for n
    by metis
  then show ?thesis by (simp only: v4_text_def unat_drop_bit list.map)
qed

lemma v4_fields_text: "v4_fields (v4_text w) = Some (be_bytes 4 (unat w))"
proof -
  let ?ts = "map show_nat (be_bytes 4 (unat w))"
  have "\<forall>t\<in>set ?ts. CHR ''.'' \<notin> set t" using show_nat_digits digit_not by auto
  moreover have "?ts \<noteq> []" using length_be_bytes [of 4 "unat w"] by (simp flip: length_greater_0_conv del: length_be_bytes)
  ultimately have "split_on CHR ''.'' (join_with ''.'' ?ts) = ?ts" by (intro split_join) auto
  then show ?thesis
    using be_bytes_small octets_show by (simp add: v4_fields_def v4_text_bytes)
qed

section \<open>IPv6 text reads back\<close>

lemma hex_digit_value: "n < 16 \<Longrightarrow> hex_value (hex_digit n) = Some n"
  by (auto simp: hex_value_def hex_digit_def Let_def of_char_of)

lemma hex_text_digits: "c \<in> set (hex_text n) \<Longrightarrow> \<exists>k<16. c = hex_digit k"
proof (induction n rule: hex_text.induct)
  case (1 n)
  then show ?case by (subst (asm) (2) hex_text.simps) (auto intro: exI [of _ "n mod 16"] split: if_splits)
qed

lemma hex_text_hex: "c \<in> set (hex_text n) \<Longrightarrow> is_hex c"
  by (auto simp: is_hex_def hex_digit_value dest: hex_text_digits)

lemma hex_text_nonempty [simp]: "hex_text n \<noteq> []"
  by (subst hex_text.simps) simp

lemma hex_group_snoc: "hex_group (s @ [c]) = hex_group s * 16 + int (the (hex_value c))"
  by (simp add: hex_group_def)

lemma hex_group_text: "hex_group (hex_text n) = int n"
proof (induction n rule: hex_text.induct)
  case (1 n)
  then show ?case
    by (subst hex_text.simps) (auto simp: hex_group_snoc hex_digit_value hex_group_def [of "[_]"] zdiv_int zmod_int)
qed

lemma length_hex_text: "n < 16 ^ Suc k \<Longrightarrow> length (hex_text n) \<le> Suc k"
proof (induction k arbitrary: n)
  case 0
  then show ?case by (subst hex_text.simps) simp
next
  case (Suc k)
  then have "n div 16 < 16 ^ Suc k" by (simp add: less_mult_imp_div_less mult.commute)
  with Suc.IH show ?case by (subst hex_text.simps) auto
qed

definition group_bytes :: "nat list \<Rightarrow> nat list" where
  "group_bytes gs = concat (map (\<lambda>g. [g div 256, g mod 256]) gs)"

lemma group_bytes_simps [simp]:
  "group_bytes [] = []" "group_bytes (g # gs) = g div 256 # g mod 256 # group_bytes gs"
  "group_bytes (gs @ hs) = group_bytes gs @ group_bytes hs"
  by (simp_all add: group_bytes_def)

lemma length_group_bytes [simp]: "length (group_bytes gs) = 2 * length gs"
  by (induction gs) auto

definition groups_ok :: "nat list \<Rightarrow> bool" where
  "groups_ok gs = (\<forall>g\<in>set gs. g < 65536)"

lemma groups_ok_simps [simp]:
  "groups_ok []" "groups_ok (g # gs) \<longleftrightarrow> g < 65536 \<and> groups_ok gs"
  "groups_ok (gs @ hs) \<longleftrightarrow> groups_ok gs \<and> groups_ok hs"
  by (auto simp: groups_ok_def)

abbreviation hex_groups :: "nat list \<Rightarrow> string" where
  "hex_groups gs \<equiv> join_with '':'' (map hex_text gs)"

lemma hex_split:
  assumes "r = [] \<or> \<not> is_hex (hd r)"
  shows "takeWhile is_hex (hex_text g @ r) = hex_text g" "dropWhile is_hex (hex_text g @ r) = r"
  using assms hex_text_hex by (cases r; simp add: takeWhile_append2 dropWhile_append2)+

lemma hex_text_step:
  assumes "g < 65536" and "r = [] \<or> \<not> is_hex (hd r)"
  shows "v6_loop (Suc n) acc ell (hex_text g @ r) =
    (let acc' = acc @ [g div 256, g mod 256] in
      if has_prefix r ''.'' then
        (if (ell = None \<and> length acc \<noteq> 12) \<or> 12 < length acc then None
         else map_option (\<lambda>f. (acc @ f, ell, [])) (v4_fields (hex_text g @ r)))
      else if r = [] then Some (acc', ell, [])
      else if \<not> has_prefix r '':'' \<or> tl r = [] then None
      else if has_prefix r ''::'' then
        (if ell \<noteq> None then None
         else if tl (tl r) = [] then Some (acc', Some (length acc'), [])
         else v6_loop n acc' (Some (length acc')) (tl (tl r)))
      else v6_loop n acc' ell (tl r))"
proof -
  have "g < 16 ^ Suc 3" using assms(1) by simp
  from length_hex_text [OF this] have "length (hex_text g) \<le> 4" by simp
  then have len: "(hex_text g = [] \<or> 4 < length (hex_text g)) = False" by simp
  have bytes: "nat (int g div 256) = g div 256" "nat (int g mod 256) = g mod 256"
    by (simp_all flip: zdiv_int zmod_int add: nat_div_distrib nat_mod_distrib)
  show ?thesis
    unfolding v6_loop.simps hex_split [OF assms(2), of g] hex_group_text Let_def bytes len if_False by (rule refl)
qed

lemma colon_not_hex [simp]: "\<not> is_hex CHR '':''"
  by code_simp

lemma hex_groups_head:
  assumes "gs \<noteq> []"
  shows "\<exists>c s. hex_groups gs = c # s \<and> is_hex c"
proof -
  from assms obtain g gs' where "gs = g # gs'" by (cases gs) auto
  moreover obtain c s where "hex_text g = c # s" by (cases "hex_text g") auto
  ultimately show ?thesis using hex_text_hex [of c g] by (cases gs') auto
qed

lemma loop_groups:
  "gs \<noteq> [] \<Longrightarrow> groups_ok gs \<Longrightarrow> length gs \<le> n \<Longrightarrow>
   v6_loop n acc ell (hex_groups gs) = Some (acc @ group_bytes gs, ell, [])"
proof (induction gs arbitrary: n acc)
  case (Cons g gs)
  then obtain m where n: "n = Suc m" by (cases n) auto
  show ?case
  proof (cases "gs = []")
    case True
    then show ?thesis using hex_text_step [of g "[]" m acc ell] Cons.prems n by simp
  next
    case False
    obtain c s where head: "hex_groups gs = c # s" "is_hex c" using hex_groups_head [OF False] by auto
    then have "c \<noteq> CHR '':''" by auto
    then show ?thesis
      using hex_text_step [of g "CHR '':'' # hex_groups gs" m acc ell] Cons n False head
      by (simp add: join_with_Cons Let_def)
  qed
qed simp

lemma loop_ellipsis:
  "gs \<noteq> [] \<Longrightarrow> groups_ok gs \<Longrightarrow> groups_ok hs \<Longrightarrow> length gs + length hs \<le> n \<Longrightarrow>
   v6_loop n acc None (hex_groups gs @ ''::'' @ hex_groups hs) =
     Some (acc @ group_bytes gs @ group_bytes hs, Some (length acc + 2 * length gs), [])"
proof (induction gs arbitrary: n acc)
  case (Cons g gs)
  then obtain m where n: "n = Suc m" by (cases n) auto
  show ?case
  proof (cases "gs = []")
    case True
    show ?thesis
    proof (cases "hs = []")
      case hs: True
      then show ?thesis using hex_text_step [of g "''::''" m acc None] Cons.prems n True by (simp add: Let_def)
    next
      case False
      then show ?thesis
        using hex_text_step [of g "''::'' @ hex_groups hs" m acc None] Cons.prems n True hex_groups_head [OF False]
          loop_groups [OF False, of m "acc @ [g div 256, g mod 256]" "Some (Suc (Suc (length acc)))"]
        by (auto simp add: Let_def)
    qed
  next
    case False
    obtain c s where head: "hex_groups gs = c # s" "is_hex c" using hex_groups_head [OF False] by auto
    then have "c \<noteq> CHR '':''" by auto
    then show ?thesis
      using hex_text_step [of g "CHR '':'' # hex_groups gs @ ''::'' @ hex_groups hs" m acc None] Cons n False head
      by (simp add: join_with_Cons Let_def)
  qed
qed simp

lemma v6_loop_plain:
  assumes "length gs = 8" "groups_ok gs"
  shows "Option.bind (v6_loop 8 [] None (hex_groups gs)) v6_finish = Some (group_bytes gs)"
  using loop_groups [of gs 8 "[]" None] assms by (cases gs) (auto simp: v6_finish_def)

lemma group_zeros: "group_bytes (replicate k 0) = replicate (2 * k) 0"
  by (induction k) auto

lemma big_endian_zeros: "big_endian (replicate k 0) = 0"
  unfolding big_endian_def by (induction k) auto

text \<open>A run of zeros left out is filled in where the ellipsis stands.\<close>

lemma v6_finish_fill:
  assumes "2 * (length gs + length hs) < 16"
  shows "v6_finish (group_bytes gs @ group_bytes hs, Some (2 * length gs), []) =
    Some (group_bytes (gs @ replicate (8 - (length gs + length hs)) 0 @ hs))"
proof -
  note zeros = group_zeros
  have "16 - length (group_bytes gs @ group_bytes hs) = 2 * (8 - (length gs + length hs))" by simp
  with assms show ?thesis by (simp add: v6_finish_def zeros)
qed

lemma v6_loop_middle:
  assumes "gs \<noteq> []" "groups_ok gs" "groups_ok hs" "length gs + length hs < 8"
  shows "Option.bind (v6_loop 8 [] None (hex_groups gs @ ''::'' @ hex_groups hs)) v6_finish =
    Some (group_bytes (gs @ replicate (8 - (length gs + length hs)) 0 @ hs))"
  using loop_ellipsis [OF assms(1-3), of 8 "[]"] v6_finish_fill [of gs hs] assms(4) by simp

lemma v6_loop_front:
  assumes "hs \<noteq> []" "groups_ok hs" "length hs < 8"
  shows "Option.bind (v6_loop 8 [] (Some 0) (hex_groups hs)) v6_finish =
    Some (group_bytes (replicate (8 - length hs) 0 @ hs))"
  using loop_groups [OF assms(1,2), of 8 "[]" "Some 0"] v6_finish_fill [of "[]" hs] assms(3) by simp

text \<open>The run found holds only zeros and at least two of them.\<close>

lemma zero_run_sound:
  assumes "zero_run gs = Some (s, e)"
  shows "s + 2 \<le> e \<and> e \<le> length gs \<and> (\<forall>i. s \<le> i \<longrightarrow> i < e \<longrightarrow> gs ! i = 0)"
proof -
  let ?ok = "\<lambda>b. case b of None \<Rightarrow> True
      | Some (s, e) \<Rightarrow> s + 2 \<le> e \<and> e \<le> length gs \<and> (\<forall>i. s \<le> i \<longrightarrow> i < e \<longrightarrow> gs ! i = 0)"
  let ?f = "\<lambda>best i. let l = length (takeWhile (\<lambda>g. g = 0) (drop i gs)) in
      if 2 \<le> l \<and> (case best of None \<Rightarrow> True | Some (s, e) \<Rightarrow> e - s < l) then Some (i, i + l) else best"
  have run: "i + length (takeWhile (\<lambda>g. g = 0) (drop i gs)) \<le> length gs" if "i < length gs" for i
    using length_takeWhile_le [of "\<lambda>g. g = 0" "drop i gs"] that by simp
  have zero: "gs ! j = 0" if "i \<le> j" "j < i + length (takeWhile (\<lambda>g. g = 0) (drop i gs))" "i < length gs" for i j
  proof -
    have j: "j - i < length (takeWhile (\<lambda>g. g = 0) (drop i gs))" using that by simp
    then have "drop i gs ! (j - i) = 0"
      using nth_mem [OF j] set_takeWhileD takeWhile_nth [OF j] by metis
    then show ?thesis using that by simp
  qed
  have step: "?ok (?f b i)" if "?ok b" "i < length gs" for b i
    using that run [of i] zero [of i] by (auto simp: Let_def)
  have "?ok (foldl ?f None is)" if "\<forall>i\<in>set is. i < length gs" for "is"
    using that
  proof (induction "is" rule: rev_induct)
    case (snoc i js)
    then show ?case using step [of "foldl ?f None js" i] by (simp del: prod.case)
  qed simp
  from this [of "[0..<length gs]"] assms show ?thesis by (simp add: zero_run_def)
qed

lemma zero_run_fill:
  assumes "zero_run gs = Some (s, e)"
  shows "gs = take s gs @ replicate (e - s) 0 @ drop e gs"
proof (rule nth_equalityI)
  from zero_run_sound [OF assms] show "length gs = length (take s gs @ replicate (e - s) 0 @ drop e gs)" by auto
  show "gs ! i = (take s gs @ replicate (e - s) 0 @ drop e gs) ! i" if "i < length gs" for i
    using zero_run_sound [OF assms] that by (auto simp: nth_append)
qed

text \<open>The groups of an address are its bytes, two at a time.\<close>

primrec be_groups :: "nat \<Rightarrow> nat \<Rightarrow> nat list" where
  "be_groups 0 n = []"
| "be_groups (Suc k) n = be_groups k (n div 65536) @ [n mod 65536]"

declare be_groups.simps(2) [simp del]

lemma group_bytes_be_groups: "group_bytes (be_groups k n) = be_bytes (2 * k) n"
proof (induction k arbitrary: n)
  case (Suc k)
  have "n mod 65536 = 256 * (n div 256 mod 256) + n mod 256" using mod_mult2_eq [of n 256 256] by simp
  then have "n mod 65536 div 256 = n div 256 mod 256" "n mod 65536 mod 256 = n mod 256" by simp_all
  moreover have "n div 65536 = n div 256 div 256" by (simp add: div_mult2_eq [symmetric])
  ultimately show ?case using Suc by (simp add: be_groups.simps be_bytes.simps)
qed simp

lemma v6_groups_be: "v6_groups x = be_groups 8 (unat x)"
proof -
  have "be_groups (Suc (Suc (Suc (Suc (Suc (Suc (Suc (Suc 0)))))))) n =
      [n div 2 ^ 112 mod 65536, n div 2 ^ 96 mod 65536, n div 2 ^ 80 mod 65536, n div 2 ^ 64 mod 65536,
       n div 2 ^ 48 mod 65536, n div 2 ^ 32 mod 65536, n div 2 ^ 16 mod 65536, n div 2 ^ 0 mod 65536]" for n
    by (simp add: be_groups.simps div_mult2_eq [symmetric])
  moreover have "Suc (Suc (Suc (Suc (Suc (Suc (Suc (Suc 0))))))) = 8" by simp
  ultimately have "be_groups 8 n =
      [n div 2 ^ 112 mod 65536, n div 2 ^ 96 mod 65536, n div 2 ^ 80 mod 65536, n div 2 ^ 64 mod 65536,
       n div 2 ^ 48 mod 65536, n div 2 ^ 32 mod 65536, n div 2 ^ 16 mod 65536, n div 2 ^ 0 mod 65536]" for n
    by metis
  then show ?thesis by (simp add: v6_groups_def unat_drop_bit upt_rec)
qed

lemma length_v6_groups [simp]: "length (v6_groups x) = 8"
  by (simp add: v6_groups_def)

lemma groups_ok_v6 [simp]: "groups_ok (v6_groups x)"
  by (auto simp: groups_ok_def v6_groups_def)

lemma v6_groups_word: "of_int (big_endian (group_bytes (v6_groups x))) = x"
  by (simp add: v6_groups_be group_bytes_be_groups be_bytes_v6)

text \<open>The body of an IPv6 address, without its zone.\<close>

definition v6_body :: "v6 \<Rightarrow> string" where
  "v6_body x = (if v6_mapped x then ''::ffff:'' @ v4_text (ucast x) else groups_text (v6_groups x))"

lemma hex_groups_chars: "c \<in> set (hex_groups gs) \<Longrightarrow> is_hex c \<or> c = CHR '':''"
proof (induction gs)
  case (Cons g gs)
  then show ?case by (cases gs) (auto dest: hex_text_hex)
qed simp

lemma groups_text_chars: "c \<in> set (groups_text gs) \<Longrightarrow> is_hex c \<or> c = CHR '':''"
  by (auto simp: groups_text_def split: option.splits dest: hex_groups_chars)

lemma v4_text_chars: "c \<in> set (v4_text w) \<Longrightarrow> is_digit c \<or> c = CHR ''.''"
  by (auto simp: v4_text_def dest: show_nat_digits)

lemma not_hex_percent: "\<not> is_hex CHR ''%''" "\<not> is_hex CHR ''.''"
  by code_simp+

lemma v6_body_no_percent: "CHR ''%'' \<notin> set (v6_body x)"
  using groups_text_chars [of "CHR ''%''" "v6_groups x"] v4_text_chars [of "CHR ''%''" "ucast x"] not_hex_percent
  by (auto simp: v6_body_def is_digit_def)

text \<open>The first separator of the text is a colon.\<close>

lemma find_colon:
  "list_all is_hex p \<Longrightarrow> find (\<lambda>c. c \<in> {CHR ''.'', CHR '':'', CHR ''%''}) (p @ CHR '':'' # r) = Some CHR '':''"
  using not_hex_percent by (induction p) auto

lemma groups_text_colon:
  assumes "2 \<le> length gs"
  shows "\<exists>p r. groups_text gs = p @ CHR '':'' # r \<and> list_all is_hex p"
proof -
  have hs: "\<exists>p r. hex_groups hs @ CHR '':'' # t = p @ CHR '':'' # r \<and> list_all is_hex p" for hs t
  proof (cases hs)
    case (Cons h hs')
    then show ?thesis using hex_text_hex [of _ h]
      by (cases hs') (simp_all, (rule exI [of _ "hex_text h"], auto simp: list_all_iff)+)
  qed (auto intro: exI [of _ "[]"])
  show ?thesis
  proof (cases "zero_run gs")
    case None
    obtain h h' hs' where "gs = h # h' # hs'" using assms by (cases gs; cases "tl gs") auto
    then show ?thesis using None hex_text_hex [of _ h]
      by (simp add: groups_text_def) (rule exI [of _ "hex_text h"], auto simp: list_all_iff)
  next
    case (Some run)
    then obtain s e where "zero_run gs = Some (s, e)" by (cases run) auto
    then show ?thesis using hs [of "take s gs" "CHR '':'' # hex_groups (drop e gs)"] by (simp add: groups_text_def)
  qed
qed

lemma groups_text_not_ellipsis:
  assumes "zero_run gs = Some (s, e)" "0 < s" "length gs = 8" "t = groups_text gs"
  shows "\<not> has_prefix t ''::''"
proof -
  have "take s gs \<noteq> []" using assms zero_run_sound [OF assms(1)] by auto
  from hex_groups_head [OF this] obtain c r where "hex_groups (take s gs) = c # r" "is_hex c" by auto
  then show ?thesis using assms by (auto simp: groups_text_def)
qed

lemma parse_groups:
  assumes "length gs = 8" "groups_ok gs" and t: "t = groups_text gs"
  shows "(if t = ''::'' then Some 0 else map_option (\<lambda>bs. of_int (big_endian bs))
      (Option.bind (if has_prefix t ''::'' then v6_loop 8 [] (Some 0) (drop 2 t) else v6_loop 8 [] None t) v6_finish)) =
    Some (of_int (big_endian (group_bytes gs)) :: v6)"
proof (cases "zero_run gs")
  case None
  have "gs \<noteq> []" using assms(1) by auto
  moreover from this obtain g gs' where gs: "gs = g # gs'" "gs' \<noteq> []" using assms(1) by (cases gs; cases "tl gs") auto
  ultimately obtain c r where "t = c # r" "is_hex c"
    using hex_groups_head [of gs] None t by (auto simp: groups_text_def)
  then have "\<not> has_prefix t ''::''" "t \<noteq> ''::''" by auto
  then show ?thesis using v6_loop_plain [OF assms(1,2)] None t by (simp add: groups_text_def)
next
  case (Some run)
  then obtain s e where run: "zero_run gs = Some (s, e)" by (cases run) auto
  from zero_run_sound [OF run] assms(1) have se: "s + 2 \<le> e" "e \<le> 8" by auto
  have fill: "take s gs @ replicate (8 - (s + (8 - e))) 0 @ drop e gs = gs"
    using zero_run_fill [OF run] se by (metis Nat.diff_diff_right add.commute diff_diff_left diff_diff_cancel)
  have ok: "groups_ok (take s gs)" "groups_ok (drop e gs)"
    using assms(2) by (auto simp: groups_ok_def dest: in_set_takeD in_set_dropD)
  have tx: "t = hex_groups (take s gs) @ ''::'' @ hex_groups (drop e gs)" using t run by (simp add: groups_text_def)
  show ?thesis
  proof (cases "s = 0")
    case False
    note s = this
    then have "\<not> has_prefix t ''::''" using groups_text_not_ellipsis [OF run _ assms(1) t] by simp
    moreover from this have "t \<noteq> ''::''" by auto
    moreover have "take s gs \<noteq> []" using s assms(1) by auto
    moreover have "length (take s gs) = s" "length (drop e gs) = 8 - e" "s + (8 - e) < 8" using se assms(1) s by auto
    ultimately show ?thesis
      using v6_loop_middle [OF _ ok] tx fill by simp
  next
    case True
    show ?thesis
    proof (cases "e = 8")
      case e8: True
      then have "gs = replicate 8 0" using zero_run_fill [OF run] True assms(1) by simp
      then have "big_endian (group_bytes gs) = 0" by (simp add: group_zeros big_endian_zeros)
      then show ?thesis using tx True e8 assms(1) by simp
    next
      case False
      then have hs: "drop e gs \<noteq> []" "length (drop e gs) < 8" using se assms(1) by auto
      from hex_groups_head [OF hs(1)] obtain c r where "hex_groups (drop e gs) = c # r" by auto
      moreover have "group_bytes (replicate e 0) @ group_bytes (drop e gs) = group_bytes gs"
        using arg_cong [OF fill, of group_bytes] True se by simp
      ultimately show ?thesis using v6_loop_front [OF hs(1) ok(2) hs(2)] tx True fill assms(1) se by simp
    qed
  qed
qed

text \<open>An IPv4-mapped address: two groups and the dotted text of the rest.\<close>

lemma mapped_bytes:
  assumes "v6_mapped x"
  shows "of_int (big_endian (replicate 10 0 @ [255, 255] @ be_bytes 4 (unat (ucast x :: v4)))) = x"
proof -
  have app: "big_endian (xs @ ys) = big_endian xs * 256 ^ length ys + big_endian ys" for xs ys
    by (induction ys rule: rev_induct) (simp_all add: big_endian_snoc algebra_simps flip: append_assoc, simp add: big_endian_def)
  have low: "unat (ucast x :: v4) = unat x mod 2 ^ 32" by (simp add: unsigned_ucast_eq take_bit_eq_mod)
  have high: "unat x div 2 ^ 32 = 0xffff"
    using assms unat_drop_bit [of 32 x] by (simp add: v6_mapped_def)
  have "big_endian (replicate 10 0 @ [255, 255]) = 0xffff"
    by (simp only: app big_endian_zeros) (simp add: big_endian_def)
  then have "big_endian ((replicate 10 0 @ [255, 255]) @ be_bytes 4 (unat (ucast x :: v4))) =
      int (unat x div 2 ^ 32 * 2 ^ 32 + unat x mod 2 ^ 32)"
    unfolding app high low big_endian_be_bytes by simp
  then show ?thesis by simp
qed

lemma digit_hex: "is_digit c \<Longrightarrow> is_hex c"
  by (auto simp: is_digit_def is_hex_def hex_value_def Let_def)

lemma show_nat_short: "n < 1000 \<Longrightarrow> length (show_nat n) \<le> 3"
  by (auto simp: show_nat.simps [of n] show_nat.simps [of "n div 10"] show_nat.simps [of "n div 10 div 10"])

lemma loop_dotted:
  assumes "length acc = 2"
  shows "v6_loop (Suc n) acc (Some e) (v4_text w) = Some (acc @ be_bytes 4 (unat w), Some e, [])"
proof -
  let ?n = "unat (drop_bit 24 w) mod 256"
  define r where "r = drop (length (show_nat ?n)) (v4_text w)"
  have t: "v4_text w = show_nat ?n @ r" "\<exists>s. r = CHR ''.'' # s" by (simp_all add: v4_text_def r_def)
  then obtain s where s: "r = CHR ''.'' # s" by auto
  have digits: "\<forall>c\<in>set (show_nat ?n). is_hex c" using show_nat_digits digit_hex by auto
  have split: "takeWhile is_hex (v4_text w) = show_nat ?n" "dropWhile is_hex (v4_text w) = r"
    unfolding t(1) s using digits not_hex_percent(2) by (simp_all add: takeWhile_append2 dropWhile_append2)
  have "length (show_nat ?n) \<le> 3" by (rule show_nat_short) simp
  then show ?thesis using assms s by (simp add: split Let_def v4_fields_text)
qed

lemma parse_mapped:
  assumes "v6_mapped x"
  shows "Option.bind (v6_loop 8 [] (Some 0) (''ffff:'' @ v4_text (ucast x))) v6_finish =
    Some (replicate 10 0 @ [255, 255] @ be_bytes 4 (unat (ucast x :: v4)))"
proof -
  have "hex_digit 15 = CHR ''f''" by code_simp
  then have h: "hex_text 65535 = ''ffff''"
    by (simp add: hex_text.simps [of 65535] hex_text.simps [of 4095] hex_text.simps [of 255] hex_text.simps [of 15])
  obtain c s where t: "v4_text (ucast x) = c # s" "c \<noteq> CHR '':''"
  proof -
    have "v4_text (ucast x) \<noteq> []" using v4_fields_text [of "ucast x"] by (auto simp: v4_fields_def)
    then obtain c s where "v4_text (ucast x) = c # s" by (cases "v4_text (ucast x)") auto
    moreover from this have "c \<noteq> CHR '':''" using v4_text_chars [of c "ucast x"] by (auto simp: is_digit_def)
    ultimately show ?thesis using that by blast
  qed
  have "v6_loop (Suc 7) [] (Some 0) (hex_text 65535 @ CHR '':'' # v4_text (ucast x)) =
      v6_loop 7 [255, 255] (Some 0) (v4_text (ucast x))"
    using hex_text_step [of 65535 "CHR '':'' # v4_text (ucast x)" 7 "[]" "Some 0"] t by (simp add: Let_def)
  then have "v6_loop 8 [] (Some 0) (''ffff:'' @ v4_text (ucast x)) =
      Some ([255, 255] @ be_bytes 4 (unat (ucast x :: v4)), Some 0, [])"
    using loop_dotted [of "[255, 255]" 6 0 "ucast x"] h by simp
  then show ?thesis by (simp add: v6_finish_def)
qed

lemma v6_text: "addr_string (V6 x z) = v6_body x @ zone_text z"
  by (simp add: v6_body_def)

lemma parse_v6_body:
  "(if v6_body x = ''::'' then Some 0 else map_option (\<lambda>bs. of_int (big_endian bs))
      (Option.bind (if has_prefix (v6_body x) ''::'' then v6_loop 8 [] (Some 0) (drop 2 (v6_body x))
        else v6_loop 8 [] None (v6_body x)) v6_finish)) = Some x"
proof (cases "v6_mapped x")
  case True
  then show ?thesis using parse_mapped [OF True] mapped_bytes [OF True] by (simp add: v6_body_def)
next
  case False
  then show ?thesis using parse_groups [OF length_v6_groups groups_ok_v6, of "v6_body x" x]
    by (simp add: v6_body_def v6_groups_word)
qed

lemma v6_body_colon: "\<exists>p r. v6_body x = p @ CHR '':'' # r \<and> list_all is_hex p"
proof (cases "v6_mapped x")
  case True
  then have "v6_body x = [] @ CHR '':'' # '':ffff:'' @ v4_text (ucast x)" by (simp add: v6_body_def)
  moreover have "list_all is_hex []" by simp
  ultimately show ?thesis by blast
next
  case False
  then show ?thesis using groups_text_colon [of "v6_groups x"] by (simp add: v6_body_def)
qed

lemma parse_v6_text: "parse_addr (addr_string (V6 x z)) = Some (V6 x z)"
proof -
  obtain p r where "v6_body x = p @ CHR '':'' # r" "list_all is_hex p" using v6_body_colon by blast
  then have "find (\<lambda>c. c \<in> {CHR ''.'', CHR '':'', CHR ''%''}) (v6_body x @ zone_text z) = Some CHR '':''"
    using find_colon [of p "r @ zone_text z"] by simp
  moreover have "parse_ipv6 (v6_body x @ zone_text z) = Some (V6 x z)"
  proof -
    let ?b = "v6_body x"
    have b: "\<forall>c\<in>set ?b. c \<noteq> CHR ''%''" using v6_body_no_percent [of x] by auto
    have body: "takeWhile (\<lambda>c. c \<noteq> CHR ''%'') (?b @ zone_text z) = ?b" 
      and zone: "tl (dropWhile (\<lambda>c. c \<noteq> CHR ''%'') (?b @ zone_text z)) = z"
      using b by (auto simp: takeWhile_append2 dropWhile_append2 zone_text_def)
    have ok: "\<not> (CHR ''%'' \<in> set (?b @ zone_text z) \<and> z = [])" using b by (auto simp: zone_text_def)
    show ?thesis
      using parse_v6_body [of x]
      unfolding parse_ipv6_def body zone Let_def by (auto simp: ok option.map_comp comp_def split: if_splits simp del: set_append)
  qed
  ultimately show ?thesis unfolding parse_addr_def v6_text by simp
qed

lemma parse_v4_text: "parse_addr (addr_string (V4 w)) = Some (V4 w)"
proof -
  let ?n = "unat (drop_bit 24 w) mod 256"
  obtain s where t: "v4_text w = show_nat ?n @ CHR ''.'' # s" by (simp add: v4_text_def)
  have "list_all is_digit p \<Longrightarrow> find (\<lambda>c. c \<in> {CHR ''.'', CHR '':'', CHR ''%''}) (p @ CHR ''.'' # r) = Some CHR ''.''" for p r
    using digit_not by (induction p) auto
  moreover have "list_all is_digit (show_nat ?n)" using show_nat_digits by (auto simp: list_all_iff)
  ultimately have "find (\<lambda>c. c \<in> {CHR ''.'', CHR '':'', CHR ''%''}) (v4_text w) = Some CHR ''.''" unfolding t by blast
  then show ?thesis by (simp add: parse_addr_def parse_ipv4_def v4_fields_text be_bytes_v4)
qed

lemma parse_addr_string: "a \<noteq> NoAddr \<Longrightarrow> parse_addr (addr_string a) = Some a"
  by (cases a) (blast intro: parse_v4_text parse_v6_text)+

lemma addr_string_inject: "a \<noteq> NoAddr \<Longrightarrow> b \<noteq> NoAddr \<Longrightarrow> addr_string a = addr_string b \<Longrightarrow> a = b"
  by (metis option.inject parse_addr_string)

end
