(* ===== verification/Dns_Wire.thy ===== *)
theory Dns_Wire
  imports Addr_Text
begin

text \<open>
  The wire format of the gate's DNS client (\<open>internal/engagement/gate/dns.go\<close>) and the names it
  admits (\<open>op.go\<close>): \<open>dnsQuery\<close> encodes a question, \<open>readName\<close> and \<open>parseDNS\<close> decode an answer,
  \<open>checkName\<close> and its users say which texts are names.  A message is a byte string; the 16-bit
  fields are words.  \<open>lr\<close> is the lower-case mapping of Unicode (\<open>unicode.ToLower\<close>) on the
  encodings of the runes outside ASCII: the tables are a parameter, and every theorem holds for any.
\<close>

unbundle bit_operations_syntax

type_synonym lower_rune = "string \<Rightarrow> string"
type_synonym dnsType = "16 word"

section \<open>Constants\<close>

definition typeA :: dnsType where "typeA = 1"
definition typeNS :: dnsType where "typeNS = 2"
definition typeCNAME :: dnsType where "typeCNAME = 5"
definition typeMX :: dnsType where "typeMX = 15"
definition typeTXT :: dnsType where "typeTXT = 16"
definition typeAAAA :: dnsType where "typeAAAA = 28"

lemmas dns_types = typeA_def typeNS_def typeCNAME_def typeMX_def typeTXT_def typeAAAA_def

definition typeNames :: "dnsType \<rightharpoonup> string" where
  "typeNames = [typeA \<mapsto> ''A'', typeNS \<mapsto> ''NS'', typeCNAME \<mapsto> ''CNAME'', typeMX \<mapsto> ''MX'',
     typeTXT \<mapsto> ''TXT'', typeAAAA \<mapsto> ''AAAA'']"

definition type_string :: "dnsType \<Rightarrow> string" where
  "type_string t = (case typeNames t of None \<Rightarrow> [] | Some s \<Rightarrow> s)"

definition rcodeOK :: nat where "rcodeOK = 0"
definition rcodeServFail :: nat where "rcodeServFail = 2"
definition rcodeNXDomain :: nat where "rcodeNXDomain = 3"
definition rcodeRefused :: nat where "rcodeRefused = 5"

lemmas rcodes = rcodeOK_def rcodeServFail_def rcodeNXDomain_def rcodeRefused_def

section \<open>Bytes\<close>

text \<open>\<open>encoding/binary\<close>, big endian: a byte's value, two bytes read and two bytes written.\<close>

definition byte_val :: "bytes \<Rightarrow> nat \<Rightarrow> nat" where
  "byte_val b i = of_char (b ! i)"

definition be16 :: "bytes \<Rightarrow> nat \<Rightarrow> 16 word" where
  "be16 b i = of_nat (256 * byte_val b i + byte_val b (Suc i))"

definition put16 :: "16 word \<Rightarrow> bytes" where
  "put16 w = [char_of (unat w div 256), char_of (unat w mod 256)]"

definition bytes_at :: "bytes \<Rightarrow> nat \<Rightarrow> nat \<Rightarrow> bytes" where
  "bytes_at b i n = take n (drop i b)"

text \<open>
  \<open>strings.ToLower\<close>: byte by byte on ASCII text, else rune by rune.
\<close>

definition ascii :: "string \<Rightarrow> bool" where
  "ascii s = list_all (\<lambda>c. of_char c < (128 :: nat)) s"

definition go_lower :: "lower_rune \<Rightarrow> string \<Rightarrow> string" where
  "go_lower lr s =
     (if ascii s then to_lower s
      else concat (map (\<lambda>r. if ascii r then to_lower r else lr r) (runes s)))"

section \<open>Errors\<close>

datatype dns_error =
    ErrShort | BadPointer | BadLabel | LabelDot | NotResponse | NotOneQuestion
  | RunsPast | NoString | NameTooLong | NotAName

section \<open>Names\<close>

text \<open>
  The label patterns \<open>^[a-z0-9]([a-z0-9-]{0,61}[a-z0-9])?$\<close> and, for names read from an answer,
  the same with an underscore anywhere.
\<close>

definition alnum :: "char \<Rightarrow> bool" where
  "alnum c = (is_lower c \<or> is_digit c)"

definition label_shape :: "(char \<Rightarrow> bool) \<Rightarrow> string \<Rightarrow> bool" where
  "label_shape edge l =
     (l \<noteq> [] \<and> length l \<le> 63 \<and> edge (hd l) \<and> edge (last l) \<and> list_all (\<lambda>c. edge c \<or> c = CHR ''-'') l)"

definition labelRE :: "string \<Rightarrow> bool" where
  "labelRE = label_shape alnum"

definition answerLabelRE :: "string \<Rightarrow> bool" where
  "answerLabelRE = label_shape (\<lambda>c. alnum c \<or> c = CHR ''_'')"

definition digits_text :: string where
  "digits_text = ''0123456789''"

definition checkName :: "lower_rune \<Rightarrow> string \<Rightarrow> (string \<Rightarrow> bool) \<Rightarrow> string option" where
  "checkName lr v label =
     (let d = go_lower lr v; labels = split_on CHR ''.'' d in
      if 253 < length d \<or> length labels < 2 \<or> trim_set (last labels) (set digits_text) = [] then None
      else if list_all label labels then Some d
      else None)"

definition dnsName :: "lower_rune \<Rightarrow> string \<Rightarrow> string option" where
  "dnsName lr v = checkName lr v labelRE"

definition answerName :: "lower_rune \<Rightarrow> string \<Rightarrow> string option" where
  "answerName lr v = checkName lr v answerLabelRE"

text \<open>
  The loop of \<open>recordName\<close> at label \<open>i\<close>: \<open>before\<close> are the labels before it.
\<close>

fun record_labels :: "bool \<Rightarrow> string list \<Rightarrow> string list \<Rightarrow> bool" where
  "record_labels dmarc before [] = True"
| "record_labels dmarc before (l # ls) =
     ((labelRE l \<or> l = ''_dmarc'' \<and> before = [] \<or>
       l = ''_domainkey'' \<and> before \<noteq> [] \<and> \<not> dmarc \<and> ''_domainkey'' \<notin> set before)
      \<and> record_labels dmarc (before @ [l]) ls)"

definition recordName :: "lower_rune \<Rightarrow> string \<Rightarrow> string option" where
  "recordName lr v =
     (case answerName lr v of
        None \<Rightarrow> None
      | Some d \<Rightarrow>
          (let labels = split_on CHR ''.'' d in
           if record_labels (hd labels = ''_dmarc'') [] labels then Some d else None))"

section \<open>Questions\<close>

primrec put_labels :: "string list \<Rightarrow> bytes option" where
  "put_labels [] = Some []"
| "put_labels (l # ls) =
     (if l = [] \<or> 63 < length l then None
      else map_option (\<lambda>r. char_of (length l) # l @ r) (put_labels ls))"

definition query_header :: "16 word \<Rightarrow> bytes" where
  "query_header i = put16 i @ [CHR 0x01, CHR 0x00] @ put16 1 @ replicate 6 (CHR 0x00)"

definition dnsQuery :: "16 word \<Rightarrow> string \<Rightarrow> dnsType \<Rightarrow> dns_error + bytes" where
  "dnsQuery i name t =
     (if 253 < length name then Inl NameTooLong
      else case put_labels (split_on CHR ''.'' name) of
        None \<Rightarrow> Inl NotAName
      | Some ls \<Rightarrow> Inr (query_header i @ ls @ [CHR 0x00] @ put16 t @ put16 1))"

section \<open>Answers\<close>

text \<open>
  The loop of \<open>readName\<close>.  \<open>en\<close> is \<open>end\<close>, absent while it is negative.  The measure is the number of
  pointers the loop may still follow, then the bytes ahead.
\<close>

function readName_from ::
    "lower_rune \<Rightarrow> bytes \<Rightarrow> string list \<Rightarrow> nat option \<Rightarrow> nat \<Rightarrow> nat \<Rightarrow> dns_error + (string \<times> nat)" where
  "readName_from lr b labels en off jumps =
     (if length b \<le> off then Inl ErrShort
      else let n = byte_val b off in
      if n = 0 then Inr (go_lower lr (join_with ''.'' labels), case en of None \<Rightarrow> off + 1 | Some e \<Rightarrow> e)
      else if n AND 0xC0 = 0xC0 then
        (if length b \<le> off + 1 then Inl ErrShort
         else let ptr = unat (be16 b off AND 0x3FFF) in
         if off \<le> ptr \<or> 64 < jumps then Inl BadPointer
         else readName_from lr b labels (Some (case en of None \<Rightarrow> off + 2 | Some e \<Rightarrow> e)) ptr (jumps + 1))
      else if n AND 0xC0 \<noteq> 0 then Inl BadLabel
      else if length b < off + 1 + n then Inl ErrShort
      else if index_byte (bytes_at b (off + 1) n) CHR ''.'' \<noteq> None then Inl LabelDot
      else readName_from lr b (labels @ [bytes_at b (off + 1) n]) en (off + 1 + n) jumps)"
  by pat_completeness auto
termination
  by (relation "measures [\<lambda>(_, _, _, _, _, jumps). 65 - jumps, \<lambda>(_, b, _, _, off, _). length b - off]") auto

declare readName_from.simps [simp del]

definition readName :: "lower_rune \<Rightarrow> bytes \<Rightarrow> nat \<Rightarrow> dns_error + (string \<times> nat)" where
  "readName lr b off = readName_from lr b [] None off 0"

definition rdataName :: "lower_rune \<Rightarrow> bytes \<Rightarrow> nat \<Rightarrow> nat \<Rightarrow> dns_error + string" where
  "rdataName lr b off en =
     (case readName lr b off of
        Inl e \<Rightarrow> Inl e
      | Inr (name, next) \<Rightarrow> if en < next then Inl RunsPast else Inr name)"

text \<open>The character-strings of a TXT record, each a length byte and that many bytes.\<close>

function txt_loop :: "bytes \<Rightarrow> nat \<Rightarrow> dns_error + string list" where
  "txt_loop data i =
     (if length data \<le> i then Inr []
      else let n = byte_val data i in
      if length data < i + 1 + n then Inl ErrShort
      else (case txt_loop data (i + 1 + n) of
              Inl e \<Rightarrow> Inl e
            | Inr out \<Rightarrow> Inr (bytes_at data (i + 1) n # out)))"
  by pat_completeness auto
termination
  by (relation "measure (\<lambda>(data, i). length data - i)") auto

declare txt_loop.simps [simp del]

definition txtStrings :: "bytes \<Rightarrow> dns_error + string list" where
  "txtStrings data =
     (case txt_loop data 0 of
        Inl e \<Rightarrow> Inl e
      | Inr out \<Rightarrow> if out = [] then Inl NoString else Inr out)"

record dnsRR =
  dr_name :: string
  dr_typ :: dnsType
  dr_target :: string
  dr_addr :: addr
  dr_pref :: "16 word"
  dr_txt :: "string list"

record dnsMsg =
  m_id :: "16 word"
  m_rcode :: nat
  m_truncated :: bool
  m_qname :: string
  m_qtype :: dnsType
  m_answers :: "dnsRR list"

definition zero_rr :: dnsRR where
  "zero_rr = \<lparr>dr_name = [], dr_typ = 0, dr_target = [], dr_addr = NoAddr, dr_pref = 0, dr_txt = []\<rparr>"

definition zero_msg :: dnsMsg where
  "zero_msg = \<lparr>m_id = 0, m_rcode = 0, m_truncated = False, m_qname = [], m_qtype = 0, m_answers = []\<rparr>"

text \<open>\<open>netip.AddrFrom4\<close> and \<open>netip.AddrFrom16\<close>.\<close>

definition addr_from4 :: "bytes \<Rightarrow> addr" where
  "addr_from4 d = V4 (of_int (big_endian (map of_char d)))"

definition addr_from16 :: "bytes \<Rightarrow> addr" where
  "addr_from16 d = V6 (of_int (big_endian (map of_char d))) []"

text \<open>
  One record's data, read by its class and type: \<open>None\<close> where the record is skipped.
\<close>

definition read_rdata ::
    "lower_rune \<Rightarrow> bytes \<Rightarrow> nat \<Rightarrow> nat \<Rightarrow> 16 word \<Rightarrow> dnsRR \<Rightarrow> dns_error + dnsRR option" where
  "read_rdata lr b off sz cls rr =
     (let data = bytes_at b off sz; t = dr_typ rr in
      if cls \<noteq> 1 then Inr None
      else if t = typeA \<and> sz = 4 then Inr (Some (rr\<lparr>dr_addr := addr_from4 data\<rparr>))
      else if t = typeAAAA \<and> sz = 16 then Inr (Some (rr\<lparr>dr_addr := addr_from16 data\<rparr>))
      else if t = typeCNAME \<or> t = typeNS then
        (case rdataName lr b off (off + sz) of
           Inl e \<Rightarrow> Inl e
         | Inr n \<Rightarrow> Inr (Some (rr\<lparr>dr_target := n\<rparr>)))
      else if t = typeMX then
        (if sz < 3 then Inl ErrShort
         else case rdataName lr b (off + 2) (off + sz) of
           Inl e \<Rightarrow> Inl e
         | Inr n \<Rightarrow> Inr (Some (rr\<lparr>dr_pref := be16 data 0, dr_target := n\<rparr>)))
      else if t = typeTXT then
        (case txtStrings data of
           Inl e \<Rightarrow> Inl e
         | Inr s \<Rightarrow> Inr (Some (rr\<lparr>dr_txt := s\<rparr>)))
      else Inr None)"

definition read_rr :: "lower_rune \<Rightarrow> bytes \<Rightarrow> nat \<Rightarrow> dns_error + (dnsRR option \<times> nat)" where
  "read_rr lr b off =
     (case readName lr b off of
        Inl e \<Rightarrow> Inl e
      | Inr (name, o1) \<Rightarrow>
          if length b < o1 + 10 then Inl ErrShort
          else let sz = unat (be16 b (o1 + 8)); o2 = o1 + 10 in
          if length b < o2 + sz then Inl ErrShort
          else (case read_rdata lr b o2 sz (be16 b (o1 + 2)) (zero_rr\<lparr>dr_name := name, dr_typ := be16 b o1\<rparr>) of
                  Inl e \<Rightarrow> Inl e
                | Inr r \<Rightarrow> Inr (r, o2 + sz)))"

primrec read_answers :: "lower_rune \<Rightarrow> bytes \<Rightarrow> nat \<Rightarrow> nat \<Rightarrow> dns_error + dnsRR list" where
  "read_answers lr b off 0 = Inr []"
| "read_answers lr b off (Suc k) =
     (case read_rr lr b off of
        Inl e \<Rightarrow> Inl e
      | Inr (r, off') \<Rightarrow>
          (case read_answers lr b off' k of
             Inl e \<Rightarrow> Inl e
           | Inr rs \<Rightarrow> Inr (case r of None \<Rightarrow> rs | Some x \<Rightarrow> x # rs)))"

definition parseDNS :: "lower_rune \<Rightarrow> bytes \<Rightarrow> dns_error + dnsMsg" where
  "parseDNS lr b =
     (if length b < 12 then Inl ErrShort
      else if byte_val b 2 AND 0x80 = 0 then Inl NotResponse
      else if be16 b 4 \<noteq> 1 then Inl NotOneQuestion
      else case readName lr b 12 of
        Inl e \<Rightarrow> Inl e
      | Inr (name, off) \<Rightarrow>
          if length b < off + 4 then Inl ErrShort
          else (case read_answers lr b (off + 4) (unat (be16 b 6)) of
                  Inl e \<Rightarrow> Inl e
                | Inr rs \<Rightarrow> Inr \<lparr>m_id = be16 b 0, m_rcode = byte_val b 3 AND 0x0F,
                    m_truncated = (byte_val b 2 AND 0x02 \<noteq> 0), m_qname = name, m_qtype = be16 b off,
                    m_answers = rs\<rparr>))"

section \<open>The resolver\<close>

primrec nameserver_lines :: "string list \<Rightarrow> addr" where
  "nameserver_lines [] = NoAddr"
| "nameserver_lines (l # ls) =
     (let f = str_fields l in
      if 2 \<le> length f \<and> f ! 0 = ''nameserver'' then
        (case parse_addr (f ! 1) of Some a \<Rightarrow> a | None \<Rightarrow> nameserver_lines ls)
      else nameserver_lines ls)"

definition nameserver :: "string \<Rightarrow> addr" where
  "nameserver conf = nameserver_lines (split_on (CHR 0x0A) conf)"

end
