(* ===== verification/Dns_Proofs.thy ===== *)
theory Dns_Proofs
  imports Dns_Wire
begin

text \<open>
  What \<open>Dns_Wire\<close> promises: decoding a name makes progress and stays inside the message, an admitted
  name's question and the addresses answered to it read back as they were written, and the names
  the decoder may read that were never in the message.
\<close>

section \<open>Reading at an offset\<close>

lemma byte_val_append [simp]: "byte_val (p @ r) (length p + k) = byte_val r k"
  by (simp add: byte_val_def nth_append)

lemma byte_val_append0 [simp]: "byte_val (p @ r) (length p) = byte_val r 0"
  using byte_val_append [of p r 0] by simp

lemma be16_append [simp]: "be16 (p @ r) (length p + k) = be16 r k"
  using byte_val_append [of p r "Suc k"] by (simp add: be16_def)

lemma be16_append0 [simp]: "be16 (p @ r) (length p) = be16 r 0"
  using be16_append [of p r 0] by simp

lemma bytes_at_append [simp]: "bytes_at (p @ r) (length p + k) n = bytes_at r k n"
  by (simp add: bytes_at_def)

lemma byte_val_Cons [simp]: "byte_val (c # cs) 0 = of_char c" "byte_val (c # cs) (Suc k) = byte_val cs k"
  by (simp_all add: byte_val_def)

lemma length_put16 [simp]: "length (put16 w) = 2"
  by (simp add: put16_def)

lemma be16_put16 [simp]: "be16 (put16 w @ r) 0 = w"
proof -
  have "unat w < 65536" using unsigned_less [of w, where ?'a = nat] by simp
  then have "unat w div 256 < 256" by simp
  then have "be16 (put16 w @ r) 0 = of_nat (256 * (unat w div 256) + unat w mod 256)"
    by (simp add: be16_def put16_def byte_val_def del: of_nat_add of_nat_mult mult_div_mod_eq)
  then show ?thesis by simp
qed

lemma bytes_at_here [simp]: "length d = n \<Longrightarrow> bytes_at (d @ r) 0 n = d"
  by (simp add: bytes_at_def)

section \<open>Names in a message\<close>

text \<open>The bits of a length byte: below 64 neither of the two high bits is set.\<close>

lemma low_length: "n < 64 \<Longrightarrow> n AND 0xC0 = 0" for n :: nat
proof -
  assume "n < 64"
  then have n: "take_bit 6 n = n" by (simp add: take_bit_nat_eq_self)
  have "take_bit 6 n AND 0xC0 = take_bit 6 (n AND 0xC0)" by (metis and.left_commute and.commute take_bit_eq_mask)
  also have "\<dots> = n AND take_bit 6 0xC0" by (simp add: take_bit_eq_mask ac_simps)
  also have "take_bit 6 (0xC0 :: nat) = 0" by (simp add: take_bit_eq_mod)
  finally show ?thesis using n by simp
qed

lemma readName_from_bounds:
  "readName_from lr b labels en off j = Inr (s, nx) \<Longrightarrow>
   (case en of Some e \<Rightarrow> nx = e | None \<Rightarrow> off < nx \<and> nx \<le> length b)"
proof (induction lr b labels en off j arbitrary: s nx rule: readName_from.induct)
  case (1 lr b labels en off j)
  show ?case
    using "1.prems" "1.IH"
    by (subst (asm) readName_from.simps) (auto simp: Let_def split: if_splits option.splits; fastforce)
qed

lemma readName_bounds: "readName lr b off = Inr (s, nx) \<Longrightarrow> off < nx \<and> nx \<le> length b"
  unfolding readName_def by (drule readName_from_bounds) simp

text \<open>A sequence of labels reads back as it was written, wherever the reading began.\<close>

lemma readName_from_labels:
  assumes "put_labels ls = Some enc" and "\<forall>l\<in>set ls. CHR ''.'' \<notin> set l"
  shows "readName_from lr (p @ enc @ CHR 0x00 # r) labels en (length p) j =
    Inr (go_lower lr (join_with ''.'' (labels @ ls)),
      case en of None \<Rightarrow> length p + length enc + 1 | Some e \<Rightarrow> e)"
  using assms
proof (induction ls arbitrary: p enc labels)
  case Nil
  then show ?case by (auto simp: readName_from.simps split: option.splits)
next
  case (Cons l ls)
  then obtain enc' where enc: "put_labels ls = Some enc'" "enc = char_of (length l) # l @ enc'"
    and len: "l \<noteq> []" "length l \<le> 63"
    by (auto split: if_splits)
  let ?b = "p @ enc @ CHR 0x00 # r"
  have b: "?b = (p @ char_of (length l) # l) @ enc' @ CHR 0x00 # r" using enc by simp
  have n: "byte_val ?b (length p) = length l" using enc len by simp
  have sl: "bytes_at ?b (Suc (length p)) (length l) = l"
    using bytes_at_append [of "p @ [char_of (length l)]" "l @ enc' @ CHR 0x00 # r" 0 "length l"] enc by simp
  have step: "readName_from lr ?b labels en (length p) j =
      readName_from lr ?b (labels @ [l]) en (length p + 1 + length l) j"
    using n sl len low_length [of "length l"] Cons.prems(2) enc(2)
    by (subst readName_from.simps) (simp add: Let_def index_byte_None [THEN iffD2])
  show ?case
    unfolding step using Cons.IH [OF enc(1), of "p @ char_of (length l) # l" "labels @ [l]"] Cons.prems(2) enc(2)
    by (cases en) simp_all
qed

section \<open>Admitted names\<close>

lemma label_shapeD: "label_shape edge l \<Longrightarrow> l \<noteq> [] \<and> length l \<le> 63"
  by (simp add: label_shape_def)

lemma checkNameD:
  assumes "checkName lr v (label_shape edge) = Some d"
  shows "d = go_lower lr v" "length d \<le> 253" "\<forall>l\<in>set (split_on CHR ''.'' d). label_shape edge l"
  using assms by (auto simp: checkName_def Let_def list_all_iff split: if_splits)

lemma answerNameD:
  assumes "answerName lr v = Some d"
  shows "d = go_lower lr v" "length d \<le> 253" "\<forall>l\<in>set (split_on CHR ''.'' d). l \<noteq> [] \<and> length l \<le> 63"
  using checkNameD [OF assms [unfolded answerName_def answerLabelRE_def]] label_shapeD by auto

lemma put_labels_ok: "\<forall>l\<in>set ls. l \<noteq> [] \<and> length l \<le> 63 \<Longrightarrow> \<exists>enc. put_labels ls = Some enc"
  by (induction ls) auto

lemma readName_question:
  assumes "put_labels (split_on CHR ''.'' n) = Some enc"
  shows "readName_from lr (p @ enc @ CHR 0x00 # r) [] en (length p) j =
    Inr (go_lower lr n, case en of None \<Rightarrow> length p + length enc + 1 | Some e \<Rightarrow> e)"
  using readName_from_labels [OF assms, of lr p r "[]" en j] split_on_no_sep by (auto split: option.splits)

section \<open>Addresses on the wire\<close>

lemma map_of_char_be_bytes: "map (of_char \<circ> char_of) (be_bytes k n) = be_bytes k n"
  by (rule map_idI) (auto dest: be_bytes_small)

primrec addr_bytes :: "addr \<Rightarrow> bytes" where
  "addr_bytes NoAddr = []"
| "addr_bytes (V4 w) = map char_of (be_bytes 4 (unat w))"
| "addr_bytes (V6 w z) = map char_of (be_bytes 16 (unat w))"

lemma addr_from4_bytes: "addr_from4 (addr_bytes (V4 w)) = V4 w"
proof -
  have "unat w < 256 ^ 4" using unsigned_less [of w, where ?'a = nat] by simp
  then show ?thesis
    by (simp add: addr_from4_def map_of_char_be_bytes big_endian_be_bytes)
qed

lemma addr_from16_bytes: "addr_from16 (addr_bytes (V6 w [])) = V6 w []"
proof -
  have "unat w < 256 ^ 16" using unsigned_less [of w, where ?'a = nat] by simp
  then show ?thesis
    by (simp add: addr_from16_def map_of_char_be_bytes big_endian_be_bytes)
qed

text \<open>
  The answer a resolver gives: the question echoed, then each address in a record whose owner is a
  pointer to the question's name.
\<close>

definition address_type :: "addr \<Rightarrow> dnsType" where
  "address_type a = (if is4 a then typeA else typeAAAA)"

definition address_record :: "addr \<Rightarrow> bytes" where
  "address_record a =
     [CHR 0xC0, CHR 0x0C] @ put16 (address_type a) @ put16 1 @ [CHR 0x00, CHR 0x00, CHR 0x01, CHR 0x2C] @
     put16 (of_nat (length (addr_bytes a))) @ addr_bytes a"

definition reply_to :: "bytes \<Rightarrow> addr list \<Rightarrow> bytes" where
  "reply_to q addrs =
     bytes_at q 0 2 @ [CHR 0x81, CHR 0x80] @ bytes_at q 4 2 @ put16 (of_nat (length addrs)) @ replicate 4 (CHR 0x00) @
     drop 12 q @ concat (map address_record addrs)"

definition plain_addr :: "addr \<Rightarrow> bool" where
  "plain_addr a = (is_valid a \<and> addr_zone a = [])"

definition address_rr :: "string \<Rightarrow> addr \<Rightarrow> dnsRR" where
  "address_rr n a = zero_rr\<lparr>dr_name := n, dr_typ := address_type a, dr_addr := a\<rparr>"

section \<open>Decoding what was written\<close>

lemma header_fields:
  fixes i qd an :: "16 word" and x y :: char and rest :: bytes
  defines "b \<equiv> put16 i @ [x, y] @ put16 qd @ put16 an @ replicate 4 (CHR 0x00) @ rest"
  shows "be16 b 0 = i" "byte_val b 2 = of_char x" "byte_val b 3 = of_char y" "be16 b 4 = qd" "be16 b 6 = an"
proof -
  show "be16 b 0 = i" by (simp add: b_def)
  show "byte_val b 2 = of_char x" "byte_val b 3 = of_char y"
    using byte_val_append [of "put16 i" _ 0] byte_val_append [of "put16 i" _ 1] by (simp_all add: b_def)
  show "be16 b 4 = qd"
    using be16_append0 [of "put16 i @ [x, y]" "put16 qd @ put16 an @ replicate 4 (CHR 0x00) @ rest"] by (simp add: b_def)
  show "be16 b 6 = an"
    using be16_append0 [of "put16 i @ [x, y] @ put16 qd" "put16 an @ replicate 4 (CHR 0x00) @ rest"] by (simp add: b_def)
qed

lemma record_fields:
  defines "d \<equiv> \<lambda>a (r :: bytes). address_record a @ r"
  shows "be16 (d a r) 0 = 0xC00C" "byte_val (d a r) 0 = 0xC0" "be16 (d a r) 2 = address_type a" "be16 (d a r) 4 = 1"
    "be16 (d a r) 10 = of_nat (length (addr_bytes a))" "bytes_at (d a r) 12 (length (addr_bytes a)) = addr_bytes a"
proof -
  let ?o = "[CHR 0xC0, CHR 0x0C]" and ?t = "[CHR 0x00, CHR 0x00, CHR 0x01, CHR 0x2C]"
    and ?l = "of_nat (length (addr_bytes a)) :: 16 word"
  show "be16 (d a r) 0 = 0xC00C" "byte_val (d a r) 0 = 0xC0"
    by (simp_all add: d_def address_record_def be16_def)
  show "be16 (d a r) 2 = address_type a"
    using be16_append0 [of ?o "put16 (address_type a) @ put16 1 @ ?t @ put16 ?l @ addr_bytes a @ r"]
    by (simp add: d_def address_record_def numeral_2_eq_2)
  show "be16 (d a r) 4 = 1"
    using be16_append0 [of "?o @ put16 (address_type a)" "put16 1 @ ?t @ put16 ?l @ addr_bytes a @ r"]
    by (simp add: d_def address_record_def)
  show "be16 (d a r) 10 = ?l"
    using be16_append0 [of "?o @ put16 (address_type a) @ put16 1 @ ?t" "put16 ?l @ addr_bytes a @ r"]
    by (simp add: d_def address_record_def)
  show "bytes_at (d a r) 12 (length (addr_bytes a)) = addr_bytes a"
    using bytes_at_append [of "?o @ put16 (address_type a) @ put16 1 @ ?t @ put16 ?l" "addr_bytes a @ r" 0]
    by (simp add: d_def address_record_def)
qed

lemma length_address_record: "length (address_record a) = 12 + length (addr_bytes a)"
  by (simp add: address_record_def)

lemma plain_addrE:
  assumes "plain_addr a"
  obtains (v4) w where "a = V4 w" | (v6) w where "a = V6 w []"
  using assms by (cases a) (auto simp: plain_addr_def is_valid_def)

lemma plain_addr_bytes:
  assumes "plain_addr a"
  shows "length (addr_bytes a) = (if is4 a then 4 else 16)"
    "is4 a \<Longrightarrow> addr_from4 (addr_bytes a) = a" "\<not> is4 a \<Longrightarrow> addr_from16 (addr_bytes a) = a"
proof -
  show "length (addr_bytes a) = (if is4 a then 4 else 16)" by (cases rule: plain_addrE [OF assms]) auto
  show "is4 a \<Longrightarrow> addr_from4 (addr_bytes a) = a"
    by (cases rule: plain_addrE [OF assms]) (simp_all only: addr_from4_bytes is4.simps simp_thms)
  show "\<not> is4 a \<Longrightarrow> addr_from16 (addr_bytes a) = a"
    by (cases rule: plain_addrE [OF assms]) (simp_all only: addr_from16_bytes is4.simps simp_thms)
qed

text \<open>A compressed owner name: the pointer to the question is followed once.\<close>

lemma readName_pointer:
  assumes enc: "put_labels (split_on CHR ''.'' n) = Some enc" and h: "length h = 12"
    and p: "p = h @ enc @ CHR 0x00 # r0" and n: "go_lower lr n = n"
  shows "readName lr (p @ address_record a @ r) (length p) = Inr (n, length p + 2)"
proof -
  let ?b = "p @ address_record a @ r"
  have at: "be16 ?b (length p) = 0xC00C" "byte_val ?b (length p) = 0xC0"
    by (simp_all only: be16_append0 byte_val_append0 record_fields)
  have len: "12 < length p" "length p + 1 < length ?b" using h p by (simp_all add: length_address_record)
  have "readName_from lr ?b [] None (length p) 0 = readName_from lr ?b [] (Some (length p + 2)) 12 1"
    using len by (subst readName_from.simps) (simp add: at Let_def del: length_append be16_append0 byte_val_append0)
  also have "\<dots> = Inr (n, length p + 2)"
    using readName_question [OF enc, of lr h "r0 @ address_record a @ r" "Some (length p + 2)" 1] h p n by simp
  finally show ?thesis by (simp add: readName_def)
qed

lemma read_address:
  assumes "put_labels (split_on CHR ''.'' n) = Some enc" "length h = 12" "p = h @ enc @ CHR 0x00 # r0"
    "go_lower lr n = n" "plain_addr a"
  shows "read_rr lr (p @ address_record a @ r) (length p) =
    Inr (Some (address_rr n a), length p + length (address_record a))"
proof -
  let ?b = "p @ address_record a @ r" and ?k = "length (addr_bytes a)"
  have g: "length p + 2 + 2 = length p + 4" "length p + 2 + 8 = length p + 10" "length p + 2 + 10 = length p + 12"
    by simp_all
  have f: "be16 ?b (length p + 2) = address_type a" "be16 ?b (length p + 2 + 2) = 1"
    "be16 ?b (length p + 2 + 8) = of_nat ?k" "bytes_at ?b (length p + 2 + 10) ?k = addr_bytes a"
    unfolding g by (simp_all only: be16_append bytes_at_append record_fields)
  have k: "unat (of_nat ?k :: 16 word) = ?k" using plain_addr_bytes(1) [OF assms(5)] by (auto simp: unat_of_nat)
  have d: "read_rdata lr ?b (length p + 2 + 10) ?k 1 (zero_rr\<lparr>dr_name := n, dr_typ := address_type a\<rparr>) =
      Inr (Some (address_rr n a))"
    unfolding read_rdata_def f(4) using plain_addr_bytes [OF assms(5)]
    by (auto simp: address_rr_def address_type_def dns_types Let_def zero_rr_def)
  have "\<not> length ?b < length p + 2 + 10" "\<not> length ?b < length p + 2 + 10 + ?k"
    by (simp_all add: length_address_record)
  then show ?thesis
    unfolding read_rr_def readName_pointer [OF assms(1-4)] Let_def sum.case prod.case f k d if_False
    by (simp add: length_address_record)
qed

lemma read_addresses:
  assumes "put_labels (split_on CHR ''.'' n) = Some enc" "length h = 12" "go_lower lr n = n" "\<forall>a\<in>set as. plain_addr a"
  shows "p = h @ enc @ CHR 0x00 # r0 \<Longrightarrow>
    read_answers lr (p @ concat (map address_record as)) (length p) (length as) = Inr (map (address_rr n) as)"
  using assms(4)
proof (induction as arbitrary: p r0)
  case (Cons a as)
  then show ?case
    using read_address [OF assms(1,2) Cons.prems(1) assms(3), of a "concat (map address_record as)"]
      Cons.IH [of "p @ address_record a" "r0 @ address_record a"] by (simp add: add.assoc)
qed simp

section \<open>Properties\<close>

text \<open>
  Decoding a name makes progress and stays inside the message: wherever it starts, and whatever
  pointers it follows, the offset it returns lies after the start and at most at the end.
\<close>
theorem readName_progress:
  assumes "readName lr b off = Inr (name, next)"
  shows "off < next \<and> next \<le> length b"
  using readName_bounds [OF assms] .

theorem readName_progress_witness:
  "\<exists>next. readName id [CHR 0x01, CHR ''a'', CHR 0x00, CHR 0xC0, CHR 0x00] 3 = Inr (''a'', next) \<and> 3 < next \<and> next \<le> 5"
proof -
  let ?b = "[CHR 0x01, CHR ''a'', CHR 0x00, CHR 0xC0, CHR 0x00]"
  have "readName_from id ?b [''a''] (Some 5) (Suc (Suc 0)) 1 = Inr (''a'', 5)"
    by (subst readName_from.simps)
      (simp add: byte_val_def Let_def go_lower_def ascii_def to_lower_def lower_char_def is_upper_def)
  then have "readName_from id ?b [] (Some 5) 0 1 = Inr (''a'', 5)"
    by (subst readName_from.simps) (simp add: byte_val_def bytes_at_def Let_def)
  then have "readName id ?b 3 = Inr (''a'', 5)"
    unfolding readName_def
    by (subst readName_from.simps) (simp add: byte_val_def be16_def Let_def)
  with readName_progress [OF this] show ?thesis by simp
qed

text \<open>
  C17: A name the gate admits from an answer, and any list of addresses a resolver answers it with,
  survive the wire: \<open>dnsQuery\<close> encodes the question, and \<open>parseDNS\<close> reads from the reply the same id,
  name and type and, through a compressed owner name for each, exactly the addresses, in order.
\<close>
theorem answers_round_trip:
  assumes "answerName lr n = Some n" and "length as < 2 ^ 16" and "\<forall>a\<in>set as. plain_addr a"
  shows "\<exists>q. dnsQuery i n t = Inr q \<and>
    parseDNS lr (reply_to q as) =
      Inr \<lparr>m_id = i, m_rcode = rcodeOK, m_truncated = False, m_qname = n, m_qtype = t,
        m_answers = map (address_rr n) as\<rparr>"
proof -
  from answerNameD [OF assms(1)] have n: "go_lower lr n = n" "length n \<le> 253" by simp_all
  from put_labels_ok [OF answerNameD(3) [OF assms(1)]] obtain enc
    where enc: "put_labels (split_on CHR ''.'' n) = Some enc" by auto
  define q where "q = query_header i @ enc @ [CHR 0x00] @ put16 t @ put16 1"
  define h where "h = put16 i @ [CHR 0x81, CHR 0x80] @ put16 1 @ put16 (of_nat (length as)) @ replicate 4 (CHR 0x00)"
  define r where "r = put16 t @ put16 1"
  define b where "b = h @ enc @ CHR 0x00 # r @ concat (map address_record as)"
  have q: "dnsQuery i n t = Inr q" using n(2) enc by (simp add: dnsQuery_def q_def)
  have b: "reply_to q as = b"
    by (simp add: reply_to_def q_def query_header_def bytes_at_def b_def h_def r_def put16_def)
  have h: "length h = 12" by (simp add: h_def)
  have name: "readName lr b 12 = Inr (n, 12 + length enc + 1)"
    using readName_question [OF enc, of lr h "r @ concat (map address_record as)" None 0] h n(1)
    by (simp add: readName_def b_def)
  have f: "be16 b 0 = i" "byte_val b 2 = 0x81" "byte_val b 3 = 0x80" "be16 b 4 = 1" "be16 b 6 = of_nat (length as)"
    using header_fields [of i "CHR 0x81" "CHR 0x80" 1 "of_nat (length as)"] by (simp_all add: b_def h_def)
  have ty: "be16 b (12 + length enc + 1) = t"
    using be16_append0 [of "h @ enc @ [CHR 0x00]" "put16 t @ put16 1 @ concat (map address_record as)"]
    by (simp add: b_def r_def h)
  have an: "read_answers lr b (12 + length enc + 1 + 4) (length as) = Inr (map (address_rr n) as)"
    using read_addresses [OF enc h n(1) assms(3), of "h @ enc @ CHR 0x00 # r" r] by (simp add: b_def h r_def)
  have len: "\<not> length b < 12" "\<not> length b < 12 + length enc + 1 + 4" by (simp_all add: b_def h r_def)
  have k: "unat (of_nat (length as) :: 16 word) = length as" using assms(2) by (simp add: unat_of_nat)
  have "parseDNS lr b = Inr \<lparr>m_id = i, m_rcode = rcodeOK, m_truncated = False, m_qname = n, m_qtype = t,
        m_answers = map (address_rr n) as\<rparr>"
    unfolding parseDNS_def name f k sum.case prod.case ty an using len by (simp add: rcodeOK_def)
  with q b show ?thesis by auto
qed

theorem answers_round_trip_witness:
  "\<exists>q. dnsQuery 7 ''www.example.com'' typeAAAA = Inr q \<and>
    parseDNS id (reply_to q [V4 0x01020304, V6 0x20010db8000000000000000000000001 []]) =
      Inr \<lparr>m_id = 7, m_rcode = rcodeOK, m_truncated = False, m_qname = ''www.example.com'', m_qtype = typeAAAA,
        m_answers = map (address_rr ''www.example.com'') [V4 0x01020304, V6 0x20010db8000000000000000000000001 []]\<rparr>"
proof (rule answers_round_trip)
  show "answerName id ''www.example.com'' = Some ''www.example.com''" by code_simp
qed (simp_all add: plain_addr_def is_valid_def)

text \<open>
  A pointer that points backwards can still make a message loop: a label followed by a pointer to
  itself is read again at every round, each adding the label once more, until the limit of
  pointers ends the reading with an error.
\<close>
theorem backward_pointer_loops:
  defines "b \<equiv> [CHR 0x01, CHR ''a'', CHR 0xC0, CHR 0x00]"
  shows "readName_from lr b labels en 0 j =
      (if 64 < j then Inl BadPointer
       else readName_from lr b (labels @ [''a'']) (Some (case en of None \<Rightarrow> 4 | Some e \<Rightarrow> e)) 0 (j + 1))
    \<and> readName lr b 0 = Inl BadPointer"
proof -
  have four: "Suc (Suc (Suc (Suc 0))) = 4" by simp
  have pointer: "readName_from lr b ls en (Suc (Suc 0)) j =
      (if 64 < j then Inl BadPointer
       else readName_from lr b ls (Some (case en of None \<Rightarrow> 4 | Some e \<Rightarrow> e)) 0 (j + 1))" for ls en j
    by (subst readName_from.simps)
      (simp add: b_def byte_val_def be16_def Let_def four split: option.splits)
  have round: "readName_from lr b labels en 0 j =
      (if 64 < j then Inl BadPointer
       else readName_from lr b (labels @ [''a'']) (Some (case en of None \<Rightarrow> 4 | Some e \<Rightarrow> e)) 0 (j + 1))" for labels en j
    using pointer [of "labels @ [''a'']" en j] 
    by (subst readName_from.simps) (simp add: b_def byte_val_def bytes_at_def Let_def)
  have "readName_from lr b labels en 0 j = Inl BadPointer" for labels en j
  proof (induction "65 - j" arbitrary: labels en j)
    case 0
    then show ?case by (subst round) simp
  next
    case (Suc k)
    then have "readName_from lr b ls e 0 (j + 1) = Inl BadPointer" for ls e by simp
    then show ?case by (subst round) simp
  qed
  with round show ?thesis by (simp add: readName_def)
qed

text \<open>
  A label that spells no ASCII letter can be read as one.  \<open>readName\<close> lowers the name it decoded
  with Unicode's mapping, which takes U+212A (the kelvin sign) to \<open>k\<close>: an answer naming the label of
  its three bytes is read as the name \<open>k.example.com\<close>, which \<open>answerName\<close> admits, although the message
  never held it.
\<close>
theorem kelvin_label_reads_as_k:
  assumes "lr [CHR 0xE2, CHR 0x84, CHR 0xAA] = ''k''"
  shows "readName lr ([CHR 0x03, CHR 0xE2, CHR 0x84, CHR 0xAA, CHR 0x07] @ ''example'' @ [CHR 0x03] @ ''com'' @ [CHR 0x00]) 0 =
      Inr (''k.example.com'', 17) \<and>
    answerName lr ''k.example.com'' = Some ''k.example.com''"
proof -
  let ?k = "[CHR 0xE2, CHR 0x84, CHR 0xAA]"
  have "runes (?k @ ''.example.com'') = ?k # map (\<lambda>c. [c]) ''.example.com''"
    by (simp add: runes.simps utf8_len_def byte_in_def Let_def)
  then have low: "go_lower lr (?k @ ''.example.com'') = ''k.example.com''"
    using assms by (simp add: go_lower_def ascii_def to_lower_def lower_char_def is_upper_def)
  have enc: "put_labels [?k, ''example'', ''com''] =
      Some ([CHR 0x03, CHR 0xE2, CHR 0x84, CHR 0xAA, CHR 0x07] @ ''example'' @ [CHR 0x03] @ ''com'')"
    by (simp, code_simp)
  have "readName lr ([CHR 0x03, CHR 0xE2, CHR 0x84, CHR 0xAA, CHR 0x07] @ ''example'' @ [CHR 0x03] @ ''com'' @ [CHR 0x00]) 0 =
      Inr (''k.example.com'', 17)"
    using readName_from_labels [OF enc, of lr "[]" "[]" "[]" None 0] low by (simp add: readName_def)
  moreover have "answerName lr ''k.example.com'' = Some ''k.example.com''" by code_simp
  ultimately show ?thesis ..
qed

theorem kelvin_label_reads_as_k_witness:
  "\<exists>lr. readName lr ([CHR 0x03, CHR 0xE2, CHR 0x84, CHR 0xAA, CHR 0x07] @ ''example'' @ [CHR 0x03] @ ''com'' @ [CHR 0x00]) 0 =
      Inr (''k.example.com'', 17)"
  using kelvin_label_reads_as_k [of "\<lambda>_. ''k''"] by auto

end
