(* ===== verification/Dns_Client.thy ===== *)
theory Dns_Client
  imports Dns_Wire Redact
begin

text \<open>
  The operations of the gate's DNS client (\<open>internal/engagement/gate/dns.go\<close>): one audited query,
  the chase of a CNAME chain, the discovery lookup, the records read and the follow of a name an
  answer points at.  What a query meets outside the gate (the limiter, the audit log, the resolver's
  bytes, the clock) is a \<open>query_world\<close>; the gate's record holds the worlds of the queries to come, so an
  operation is a function of the gate.  The engagement's scope is the interface the gate asks.  The
  gate is one without a rules identity (\<open>rules == ""\<close>): \<open>dnsIdentity\<close> is then empty, so nothing of a
  prior session is reused and nothing is kept for a later one.  The log holds the entries as the
  operations pass them on, before \<open>record\<close> redacts them; the answers, times and vantage of a line are left
  out.
\<close>

section \<open>Lookups\<close>

datatype Outcome =
    OutcomeNone | OutcomeAddresses | OutcomeRecords | OutcomeNXDomain | OutcomeNoData | OutcomeServFail
  | OutcomeRefused | OutcomeTimeout | OutcomeLoop | OutcomeExcluded | OutcomeError | OutcomeNoResolver
  | OutcomeDeadline | OutcomeCanceled | OutcomeAuditFailed

primrec outcome_text :: "Outcome \<Rightarrow> string" where
  "outcome_text OutcomeNone = []"
| "outcome_text OutcomeAddresses = ''addresses''"
| "outcome_text OutcomeRecords = ''records''"
| "outcome_text OutcomeNXDomain = ''nxdomain''"
| "outcome_text OutcomeNoData = ''nodata''"
| "outcome_text OutcomeServFail = ''servfail''"
| "outcome_text OutcomeRefused = ''refused''"
| "outcome_text OutcomeTimeout = ''timeout''"
| "outcome_text OutcomeLoop = ''loop''"
| "outcome_text OutcomeExcluded = ''excluded''"
| "outcome_text OutcomeError = ''error''"
| "outcome_text OutcomeNoResolver = ''no_resolver''"
| "outcome_text OutcomeDeadline = ''deadline''"
| "outcome_text OutcomeCanceled = ''canceled''"
| "outcome_text OutcomeAuditFailed = ''audit_failed''"

record Lookup =
  lk_name :: string
  lk_chain :: "string list"
  lk_addrs :: "addr list"
  lk_outside :: string
  lk_final_in_root :: bool
  lk_outcome :: Outcome
  lk_excluded_by :: string
  lk_queries :: nat
  lk_target :: string

definition new_lookup :: "string \<Rightarrow> Lookup" where
  "new_lookup n = \<lparr>lk_name = n, lk_chain = [], lk_addrs = [], lk_outside = [], lk_final_in_root = False,
     lk_outcome = OutcomeNone, lk_excluded_by = [], lk_queries = 0, lk_target = []\<rparr>"

definition PointsAt :: "Lookup \<Rightarrow> string \<Rightarrow> bool" where
  "PointsAt l target = (target \<noteq> [] \<and> lk_target l = target)"

definition Final :: "Lookup \<Rightarrow> string" where
  "Final l = (if lk_chain l = [] then lk_name l else last (lk_chain l))"

definition Insufficient :: "Lookup \<Rightarrow> bool" where
  "Insufficient l = (lk_outcome l \<notin> {OutcomeAddresses, OutcomeNXDomain, OutcomeNoData})"

text \<open>
  IPv4 first, each family in order, once each.
\<close>

definition addr_num :: "addr \<Rightarrow> nat" where
  "addr_num a = (case a of NoAddr \<Rightarrow> 0 | V4 w \<Rightarrow> unat w | V6 w _ \<Rightarrow> unat w)"

definition sortAddrs :: "addr list \<Rightarrow> addr list" where
  "sortAddrs addrs =
     remdups_adj (sort_key bit_len (sort_key addr_num (sort_key addr_zone addrs)))"

definition JoinAddrs :: "addr list \<Rightarrow> string" where
  "JoinAddrs addrs = join_with '','' (map addr_string (sortAddrs addrs))"

definition Target :: "Lookup \<Rightarrow> string" where
  "Target l = (if lk_outside l \<noteq> [] then lk_outside l else JoinAddrs (lk_addrs l))"

definition maxChain :: nat where "maxChain = 8"

section \<open>The gate\<close>

record Standing =
  st_under_asset :: bool
  st_root :: string
  st_excluded_by :: string

text \<open>The methods of the interface \<open>Scope\<close> the DNS client asks.\<close>

record Scope =
  sc_subject :: "string \<Rightarrow> string \<Rightarrow> Standing"
  sc_name :: "string \<Rightarrow> string"

datatype net_err = Canceled | TimedOut | OtherErr

text \<open>
  What one query meets: the limiter's answer, whether the deadline has passed when it fails, whether
  the audit line could be written, the random id, and per attempt (UDP, then TCP) the bytes or the
  error with the clock's verdict after it.
\<close>

record query_world =
  w_acquire :: "net_err option"
  w_late :: bool
  w_recorded :: bool
  w_id :: "16 word"
  w_attempts :: "((net_err + bytes) \<times> bool) list"

record dns_line =
  dl_event :: string
  dl_id :: string
  dl_op :: string
  dl_name :: string
  dl_type :: string
  dl_decision :: string
  dl_detail :: string

record pointed =
  pt_asset :: string
  pt_eval :: string
  pt_names :: "string list"
  pt_via :: "string list"
  pt_followed :: "nat set"

record gate =
  g_lower :: lower_rune
  g_scope :: Scope
  g_redactor :: redactor
  g_nameserver :: addr
  g_session :: nat
  g_world :: "nat \<Rightarrow> query_world"
  g_queries :: nat
  g_seq :: nat
  g_log :: "dns_line list"
  g_dns :: nat
  g_invalid_queries :: nat
  g_controls :: nat
  g_invalid :: bool
  g_pointed :: "string \<Rightarrow> pointed option"
  g_spf :: "string \<Rightarrow> nat"

definition g_redact :: "gate \<Rightarrow> string \<Rightarrow> string" where
  "g_redact g v = fst (redact (g_redactor g) v)"

definition pad6 :: "string \<Rightarrow> string" where
  "pad6 s = replicate (6 - length s) (CHR ''0'') @ s"

definition nextID :: "gate \<Rightarrow> string \<times> gate" where
  "nextID g =
     (let n = g_seq g + 1 in
      (if 1 < g_session g then ''g'' @ show_nat (g_session g) @ ''-'' @ pad6 (show_nat n) else ''g'' @ pad6 (show_nat n),
       g\<lparr>g_seq := n\<rparr>))"

text \<open>The entry a request's lines share: its id, operation and asset.\<close>

record dns_entry =
  en_id :: string
  en_op :: string
  en_asset :: string

definition dns_record :: "gate \<Rightarrow> dns_entry \<Rightarrow> string \<Rightarrow> string \<Rightarrow> string \<Rightarrow> string \<Rightarrow> string \<Rightarrow> gate" where
  "dns_record g e event name typ decision detail =
     g\<lparr>g_log := g_log g @ [\<lparr>dl_event = event, dl_id = en_id e, dl_op = en_op e, dl_name = name, dl_type = typ,
        dl_decision = decision, dl_detail = detail\<rparr>]\<rparr>"

definition countDNS :: "gate \<Rightarrow> string \<Rightarrow> gate" where
  "countDNS g name =
     g\<lparr>g_dns := g_dns g + 1,
       g_invalid_queries := g_invalid_queries g + (if has_suffix name ''.invalid'' then 1 else 0)\<rparr>"

definition countControl :: "gate \<Rightarrow> bool \<Rightarrow> gate" where
  "countControl g iv = (if iv then g\<lparr>g_invalid := True\<rparr> else g\<lparr>g_controls := g_controls g + 1\<rparr>)"

section \<open>One query\<close>

text \<open>The attempts over UDP and, on a truncated answer, TCP: the message and what ended the query.\<close>

fun exchange_loop ::
    "lower_rune \<Rightarrow> 16 word \<Rightarrow> string \<Rightarrow> dnsType \<Rightarrow> dnsMsg \<Rightarrow> ((net_err + bytes) \<times> bool) list \<Rightarrow> dnsMsg \<times> Outcome" where
  "exchange_loop lr i name t m [] = (m, OutcomeNone)"
| "exchange_loop lr i name t m ((Inl err, late) # xs) =
     (m, if late then OutcomeDeadline else
         case err of Canceled \<Rightarrow> OutcomeCanceled | TimedOut \<Rightarrow> OutcomeTimeout | OtherErr \<Rightarrow> OutcomeError)"
| "exchange_loop lr i name t m ((Inr raw, late) # xs) =
     (case parseDNS lr raw of
        Inl _ \<Rightarrow> (zero_msg, OutcomeError)
      | Inr m' \<Rightarrow>
          if m_id m' \<noteq> i \<or> m_qname m' \<noteq> name \<or> m_qtype m' \<noteq> t then (m', OutcomeError)
          else if \<not> m_truncated m' then (m', OutcomeNone)
          else exchange_loop lr i name t m' xs)"

definition rcode_outcome :: "nat \<Rightarrow> Outcome" where
  "rcode_outcome rc =
     (if rc = rcodeOK \<or> rc = rcodeNXDomain then OutcomeNone
      else if rc = rcodeServFail then OutcomeServFail
      else if rc = rcodeRefused then OutcomeRefused
      else OutcomeError)"

definition DecisionSent :: string where "DecisionSent = ''sent''"

definition query :: "gate \<Rightarrow> dns_entry \<Rightarrow> string \<Rightarrow> dnsType \<Rightarrow> dnsMsg \<times> Outcome \<times> gate" where
  "query g e name t =
     (if \<not> is_valid (g_nameserver g) then (zero_msg, OutcomeNoResolver, g)
      else let w = g_world g (g_queries g); g1 = g\<lparr>g_queries := g_queries g + 1\<rparr> in
      case w_acquire w of
        Some err \<Rightarrow>
          (zero_msg, if w_late w then OutcomeDeadline else if err = Canceled then OutcomeCanceled else OutcomeTimeout, g1)
      | None \<Rightarrow>
          if \<not> w_recorded w then (zero_msg, OutcomeAuditFailed, g1)
          else let g2 = countDNS (dns_record g1 e ''dns'' name (type_string t) DecisionSent []) name in
          (case dnsQuery (w_id w) name t of
             Inl _ \<Rightarrow> (zero_msg, OutcomeError, g2)
           | Inr q \<Rightarrow>
               (let (m, out0) = exchange_loop (g_lower g) (w_id w) name t zero_msg (w_attempts w);
                    out = (if out0 \<noteq> OutcomeNone then out0 else rcode_outcome (m_rcode m));
                    decision = (if out \<noteq> OutcomeNone then ''unavailable:'' @ outcome_text out
                      else if m_rcode m = rcodeNXDomain then ''unavailable:nxdomain'' else DecisionSent)
                in (m, out, dns_record g2 e ''dns_answer'' name (type_string t) decision []))))"

section \<open>The chain\<close>

primrec cname_in :: "dnsRR list \<Rightarrow> string \<Rightarrow> string" where
  "cname_in [] name = []"
| "cname_in (rr # rrs) name =
     (if dr_typ rr = typeCNAME \<and> dr_name rr = name then dr_target rr else cname_in rrs name)"

definition cname :: "dnsMsg \<Rightarrow> string \<Rightarrow> string" where
  "cname m name = cname_in (m_answers m) name"

text \<open>The answer is the lookup, the names seen and whether the chain ends there.\<close>

function extend_chain :: "gate \<Rightarrow> Lookup \<Rightarrow> dnsMsg \<Rightarrow> string set \<Rightarrow> Lookup \<times> string set \<times> bool" where
  "extend_chain g l m seen =
     (let next = cname m (Final l) in
      if next = [] then (l, seen, False)
      else if next \<in> seen \<or> maxChain \<le> length (lk_chain l) then (l\<lparr>lk_outcome := OutcomeLoop\<rparr>, seen, True)
      else let l1 = l\<lparr>lk_chain := lk_chain l @ [next]\<rparr>; seen1 = insert next seen in
      if answerName (g_lower g) next \<noteq> Some next then (l1\<lparr>lk_outcome := OutcomeError\<rparr>, seen1, True)
      else let x = sc_name (g_scope g) next in
      if x \<noteq> [] then (l1\<lparr>lk_outcome := OutcomeExcluded, lk_excluded_by := x\<rparr>, seen1, True)
      else extend_chain g l1 m seen1)"
  by pat_completeness auto
termination
  by (relation "measure (\<lambda>(g, l, m, seen). maxChain - length (lk_chain l))") auto

declare extend_chain.simps [simp del]

definition count_query :: "Lookup \<Rightarrow> Lookup" where
  "count_query l = l\<lparr>lk_queries := lk_queries l + 1\<rparr>"

text \<open>
  The queries for \<open>cur\<close>, one per type: a lookup that ended, or the state after them with the records
  found at the chain's end and whether a query was answered NXDOMAIN.
\<close>

primrec query_types ::
    "dnsType list \<Rightarrow> gate \<Rightarrow> dns_entry \<Rightarrow> string \<Rightarrow> Lookup \<Rightarrow> string set \<Rightarrow> dnsRR list \<Rightarrow>
     (gate \<times> Lookup) + (gate \<times> Lookup \<times> string set \<times> dnsRR list \<times> bool)" where
  "query_types [] g e cur l seen recs = Inr (g, l, seen, recs, False)"
| "query_types (t # ts) g e cur l seen recs =
     (let (m, out, g1) = query g e cur t; l1 = count_query l in
      if out \<noteq> OutcomeNone then Inl (g1, l1\<lparr>lk_outcome := out\<rparr>)
      else let (l2, seen2, stop) = extend_chain g1 l1 m seen in
      if stop then Inl (g1, l2)
      else let recs2 = recs @ filter (\<lambda>rr. dr_typ rr = t \<and> dr_name rr = Final l2) (m_answers m) in
      if m_rcode m = rcodeNXDomain then Inr (g1, l2, seen2, recs2, True)
      else query_types ts g1 e cur l2 seen2 recs2)"

datatype chase_step =
    Done gate Lookup "dnsRR list"
  | Next gate Lookup "string set" "string set"

text \<open>How a round ends: found, NXDOMAIN, NODATA, or the chain's new end asked next.\<close>

definition settle ::
    "Outcome \<Rightarrow> gate \<Rightarrow> Lookup \<Rightarrow> string set \<Rightarrow> dnsRR list \<Rightarrow> bool \<Rightarrow> string set \<Rightarrow> string set \<Rightarrow> chase_step" where
  "settle found g l seen recs nx asked cnameAsked =
     (if recs \<noteq> [] then Done g (l\<lparr>lk_outcome := found\<rparr>) recs
      else if nx then Done g (l\<lparr>lk_outcome := OutcomeNXDomain\<rparr>) []
      else if Final l \<in> asked then Done g (l\<lparr>lk_outcome := OutcomeNoData\<rparr>) []
      else Next g l seen cnameAsked)"

definition chase_round ::
    "gate \<Rightarrow> dns_entry \<Rightarrow> string \<Rightarrow> Outcome \<Rightarrow> dnsType list \<Rightarrow> Lookup \<Rightarrow> string set \<Rightarrow> string set \<Rightarrow> string set \<Rightarrow>
     chase_step" where
  "chase_round g e cur found types l seen asked cnameAsked =
     (case query_types types g e cur l seen [] of
        Inl (g1, l1) \<Rightarrow> Done g1 l1 []
      | Inr (g1, l1, seen1, recs, nx) \<Rightarrow>
          (let en = Final l1 in
           if recs = [] \<and> en \<notin> cnameAsked \<and> (en = cur \<or> nx) then
             (let (m, out, g2) = query g1 e en typeCNAME; l2 = count_query l1 in
              if out \<noteq> OutcomeNone then Done g2 (l2\<lparr>lk_outcome := out\<rparr>) []
              else let (l3, seen3, stop) = extend_chain g2 l2 m seen1 in
              if stop then Done g2 l3 []
              else if Final l3 \<noteq> en then Next g2 l3 seen3 (insert en cnameAsked)
              else settle found g2 l3 seen3 recs nx asked (insert en cnameAsked))
           else settle found g1 l1 seen1 recs nx asked cnameAsked))"

text \<open>A chain only grows, and never past \<open>maxChain\<close>: the loop over its rounds ends.\<close>

definition grows :: "Lookup \<Rightarrow> Lookup \<Rightarrow> bool" where
  "grows l l' = (lk_name l' = lk_name l \<and>
     (\<exists>hs. lk_chain l' = lk_chain l @ hs \<and> (hs \<noteq> [] \<longrightarrow> length (lk_chain l') \<le> maxChain)))"

lemma growsI: "lk_name l' = lk_name l \<Longrightarrow> lk_chain l' = lk_chain l \<Longrightarrow> grows l l'"
  by (simp add: grows_def)

lemma grows_trans: "grows a b \<Longrightarrow> grows b c \<Longrightarrow> grows a c"
  by (fastforce simp: grows_def)

lemma extend_none: "cname m (Final l) = [] \<Longrightarrow> extend_chain g l m seen = (l, seen, False)"
  by (subst extend_chain.simps) simp

lemma extend_loop:
  "hop = cname m (Final l) \<Longrightarrow> hop \<noteq> [] \<Longrightarrow> hop \<in> seen \<or> maxChain \<le> length (lk_chain l) \<Longrightarrow>
   extend_chain g l m seen = (l\<lparr>lk_outcome := OutcomeLoop\<rparr>, seen, True)"
  by (subst extend_chain.simps) (simp add: Let_def)

lemma extend_bad:
  "hop = cname m (Final l) \<Longrightarrow> hop \<noteq> [] \<Longrightarrow> hop \<notin> seen \<Longrightarrow> length (lk_chain l) < maxChain \<Longrightarrow>
   answerName (g_lower g) hop \<noteq> Some hop \<Longrightarrow>
   extend_chain g l m seen = (l\<lparr>lk_chain := lk_chain l @ [hop], lk_outcome := OutcomeError\<rparr>, insert hop seen, True)"
  by (subst extend_chain.simps) (simp add: Let_def)

lemma extend_excluded:
  "hop = cname m (Final l) \<Longrightarrow> hop \<noteq> [] \<Longrightarrow> hop \<notin> seen \<Longrightarrow> length (lk_chain l) < maxChain \<Longrightarrow>
   answerName (g_lower g) hop = Some hop \<Longrightarrow> sc_name (g_scope g) hop \<noteq> [] \<Longrightarrow>
   extend_chain g l m seen =
     (l\<lparr>lk_chain := lk_chain l @ [hop], lk_outcome := OutcomeExcluded, lk_excluded_by := sc_name (g_scope g) hop\<rparr>,
      insert hop seen, True)"
  by (subst extend_chain.simps) (simp add: Let_def)

lemma extend_step:
  "hop = cname m (Final l) \<Longrightarrow> hop \<noteq> [] \<Longrightarrow> hop \<notin> seen \<Longrightarrow> length (lk_chain l) < maxChain \<Longrightarrow>
   answerName (g_lower g) hop = Some hop \<Longrightarrow> sc_name (g_scope g) hop = [] \<Longrightarrow>
   extend_chain g l m seen = extend_chain g (l\<lparr>lk_chain := lk_chain l @ [hop]\<rparr>) m (insert hop seen)"
  by (subst extend_chain.simps) (simp add: Let_def)

text \<open>Reasoning about \<open>extend_chain\<close>: one case per way a hop can go.\<close>

lemma extend_induct [case_names none loop bad excluded step]:
  assumes
    "\<And>l seen. P l seen (l, seen, False)"
    "\<And>l seen. P l seen (l\<lparr>lk_outcome := OutcomeLoop\<rparr>, seen, True)"
    "\<And>l seen hop. hop \<notin> seen \<Longrightarrow> length (lk_chain l) < maxChain \<Longrightarrow> hop \<noteq> [] \<Longrightarrow>
       P l seen (l\<lparr>lk_chain := lk_chain l @ [hop], lk_outcome := OutcomeError\<rparr>, insert hop seen, True)"
    "\<And>l seen hop x. hop \<notin> seen \<Longrightarrow> length (lk_chain l) < maxChain \<Longrightarrow> hop \<noteq> [] \<Longrightarrow> x = sc_name (g_scope g) hop \<Longrightarrow> x \<noteq> [] \<Longrightarrow>
       P l seen (l\<lparr>lk_chain := lk_chain l @ [hop], lk_outcome := OutcomeExcluded, lk_excluded_by := x\<rparr>, insert hop seen, True)"
    "\<And>l seen hop r. hop \<notin> seen \<Longrightarrow> length (lk_chain l) < maxChain \<Longrightarrow> hop \<noteq> [] \<Longrightarrow>
       answerName (g_lower g) hop = Some hop \<Longrightarrow> sc_name (g_scope g) hop = [] \<Longrightarrow>
       P (l\<lparr>lk_chain := lk_chain l @ [hop]\<rparr>) (insert hop seen) r \<Longrightarrow> P l seen r"
  shows "P l seen (extend_chain g l m seen)"
proof (induction "maxChain - length (lk_chain l)" arbitrary: l seen rule: less_induct)
  case less
  let ?hop = "cname m (Final l)"
  show ?case
  proof (cases "?hop = [] \<or> ?hop \<in> seen \<or> maxChain \<le> length (lk_chain l)")
    case True
    then show ?thesis using assms(1,2) by (cases "?hop = []") (simp_all add: extend_none extend_loop [OF refl])
  next
    case False
    then have ok: "?hop \<noteq> []" "?hop \<notin> seen" "length (lk_chain l) < maxChain" by auto
    show ?thesis
    proof (cases "answerName (g_lower g) ?hop = Some ?hop \<and> sc_name (g_scope g) ?hop = []")
      case True
      then show ?thesis
        using assms(5) [OF ok(2,3,1), of "extend_chain g l m seen"] less [of "l\<lparr>lk_chain := lk_chain l @ [?hop]\<rparr>" "insert ?hop seen"] ok
        by (simp add: extend_step [OF refl])
    next
      case False
      then show ?thesis
        using assms(3,4) ok by (cases "answerName (g_lower g) ?hop = Some ?hop") (simp_all add: extend_bad [OF refl] extend_excluded [OF refl])
    qed
  qed
qed

lemma extend_grows: "extend_chain g l m seen = (l', seen', stop) \<Longrightarrow> grows l l'"
proof -
  have "grows l (fst (extend_chain g l m seen))"
  proof (induction rule: extend_induct [of "\<lambda>l seen r. grows l (fst r)" g l seen m])
    case (step l seen hop r)
    have "grows l (l\<lparr>lk_chain := lk_chain l @ [hop]\<rparr>)" using step(2) by (simp add: grows_def)
    with step show ?case using grows_trans by blast
  qed (auto simp: grows_def)
  then show "extend_chain g l m seen = (l', seen', stop) \<Longrightarrow> grows l l'" by simp
qed

lemma query_types_grows:
  "query_types ts g e cur l seen recs = Inr (g', l', seen', recs', nx) \<Longrightarrow> grows l l'"
proof (induction ts arbitrary: g l seen recs)
  case Nil
  then show ?case by (simp add: growsI)
next
  case (Cons t ts)
  obtain m out g1 where q: "query g e cur t = (m, out, g1)" by (rule prod_cases3)
  obtain l2 seen2 stop where x: "extend_chain g1 (count_query l) m seen = (l2, seen2, stop)" by (rule prod_cases3)
  have "grows l l2"
    using extend_grows [OF x] by (rule grows_trans [OF growsI, rotated 2]) (simp_all add: count_query_def)
  moreover have "grows l2 l'"
    using Cons.prems q x Cons.IH by (auto simp: Let_def growsI split: if_splits)
  ultimately show ?case by (rule grows_trans)
qed

lemma settle_Next:
  "settle found g l seen recs nx asked cn = Next g' l' seen' cn' \<Longrightarrow> l' = l \<and> g' = g \<and> seen' = seen \<and> cn' = cn \<and> Final l \<notin> asked"
  by (simp add: settle_def split: if_splits)

lemma Final_same: "grows l l' \<Longrightarrow> lk_chain l' = lk_chain l \<Longrightarrow> Final l' = Final l"
  by (simp add: grows_def Final_def)

lemma grows_back: "grows a b \<Longrightarrow> grows b c \<Longrightarrow> lk_chain c = lk_chain a \<Longrightarrow> Final c = Final b"
proof -
  assume ab: "grows a b" and bc: "grows b c" and eq: "lk_chain c = lk_chain a"
  from ab obtain xs where "lk_chain b = lk_chain a @ xs" by (auto simp: grows_def)
  moreover from bc obtain ys where "lk_chain c = lk_chain b @ ys" by (auto simp: grows_def)
  ultimately have "lk_chain b = lk_chain a @ xs" "lk_chain c = lk_chain b @ ys" by simp_all
  then have "length (lk_chain c) = length (lk_chain a) + length xs + length ys" "ys = [] \<longrightarrow> lk_chain c = lk_chain b" by simp_all
  with eq show ?thesis by (intro Final_same [OF bc]) simp
qed

lemma chase_round_Next:
  assumes "chase_round g e cur found types l seen asked cn = Next g' l' seen' cn'"
  shows "grows l l' \<and> (lk_chain l' = lk_chain l \<longrightarrow> Final l' \<notin> asked)"
proof -
  from assms obtain g1 l1 seen1 recs nx where t: "query_types types g e cur l seen [] = Inr (g1, l1, seen1, recs, nx)"
  proof (cases "query_types types g e cur l seen []")
    case (Inl a)
    with assms show ?thesis by (cases a) (simp add: chase_round_def)
  next
    case (Inr b)
    with that show ?thesis by (cases b) auto
  qed
  then have l1: "grows l l1" by (rule query_types_grows)
  let ?en = "Final l1"
  obtain m out g2 where q: "query g1 e ?en typeCNAME = (m, out, g2)" by (rule prod_cases3)
  obtain l3 seen3 stop where x: "extend_chain g2 (count_query l1) m seen1 = (l3, seen3, stop)" by (rule prod_cases3)
  have "grows l1 l3"
    using extend_grows [OF x] by (rule grows_trans [OF growsI, rotated 2]) (simp_all add: count_query_def)
  then have l3: "grows l l3" using l1 by (rule grows_trans [rotated])
  have end3: "lk_chain l3 = lk_chain l \<Longrightarrow> Final l3 = ?en"
    using l1 \<open>grows l1 l3\<close> by (rule grows_back)
  show ?thesis
  proof (cases "recs = [] \<and> ?en \<notin> cn \<and> (?en = cur \<or> nx)")
    case False
    then have "settle found g1 l1 seen1 recs nx asked cn = Next g' l' seen' cn'"
      using assms unfolding chase_round_def t sum.case prod.case Let_def if_not_P [OF False] by simp
    with l1 show ?thesis by (auto dest: settle_Next)
  next
    case True
    then have "(if Final l3 \<noteq> ?en then Next g2 l3 seen3 (insert ?en cn)
        else settle found g2 l3 seen3 recs nx asked (insert ?en cn)) = Next g' l' seen' cn'"
      using assms q x unfolding chase_round_def t sum.case prod.case Let_def if_P [OF True] by (simp split: if_splits)
    then have "l' = l3 \<and> (Final l3 \<noteq> ?en \<or> Final l3 \<notin> asked)"
      by (auto dest: settle_Next split: if_splits)
    with l3 end3 show ?thesis by auto
  qed
qed

text \<open>The rounds: the answer is the gate, the lookup and the records found.\<close>

function chase_loop ::
    "gate \<Rightarrow> dns_entry \<Rightarrow> string \<Rightarrow> Outcome \<Rightarrow> dnsType list \<Rightarrow> Lookup \<Rightarrow> string set \<Rightarrow> string set \<Rightarrow> string set \<Rightarrow>
     gate \<times> Lookup \<times> dnsRR list" where
  "chase_loop g e cur found types l seen asked cnameAsked =
     (case chase_round g e cur found types l seen (insert cur asked) cnameAsked of
        Done g' l' recs \<Rightarrow> (g', l', recs)
      | Next g' l' seen' cn' \<Rightarrow> chase_loop g' e (Final l') found types l' seen' (insert cur asked) cn')"
  by pat_completeness auto
termination
proof (relation "measures [\<lambda>(g, e, cur, found, types, l, seen, asked, cn). maxChain - length (lk_chain l),
    \<lambda>(g, e, cur, found, types, l, seen, asked, cn). if Final l \<in> insert cur asked then 0 else 1]")
  fix g e cur found types l seen asked cn g' l' seen' cn'
  assume "chase_round g e cur found types l seen (insert cur asked) cn = Next g' l' seen' cn'"
  then have r: "grows l l'" "lk_chain l' = lk_chain l \<Longrightarrow> Final l' \<notin> insert cur asked"
    using chase_round_Next by blast+
  show "((g', e, Final l', found, types, l', seen', insert cur asked, cn'),
      (g, e, cur, found, types, l, seen, asked, cn))
      \<in> measures [\<lambda>(g, e, cur, found, types, l, seen, asked, cn). maxChain - length (lk_chain l),
        \<lambda>(g, e, cur, found, types, l, seen, asked, cn). if Final l \<in> insert cur asked then 0 else 1]"
  proof (cases "lk_chain l' = lk_chain l")
    case True
    then have "Final l' = Final l" using r(1) by (rule Final_same [rotated])
    with True r(2) show ?thesis by simp
  next
    case False
    then obtain hs where "lk_chain l' = lk_chain l @ hs" "hs \<noteq> []" "length (lk_chain l') \<le> maxChain"
      using r(1) by (auto simp: grows_def)
    then show ?thesis by (cases hs) auto
  qed
qed simp

declare chase_loop.simps [simp del]

definition chase ::
    "gate \<Rightarrow> dns_entry \<Rightarrow> string \<Rightarrow> Outcome \<Rightarrow> dnsType list \<Rightarrow> gate \<times> Lookup \<times> dnsRR list" where
  "chase g e name found types = chase_loop g e name found types (new_lookup name) {name} {} {}"

section \<open>The lookup\<close>

definition redactsAddr :: "gate \<Rightarrow> addr list \<Rightarrow> bool" where
  "redactsAddr g addrs = list_ex (\<lambda>a. g_redact g (addr_string a) \<noteq> addr_string a) addrs"

text \<open>The chain's first name outside every root; the walk stops at a hop that is not a name.\<close>

primrec outside_hop :: "gate \<Rightarrow> string \<Rightarrow> string list \<Rightarrow> string" where
  "outside_hop g asset [] = []"
| "outside_hop g asset (hop # hops) =
     (if answerName (g_lower g) hop \<noteq> Some hop then []
      else if st_root (sc_subject (g_scope g) asset (''domain:'' @ hop)) = [] then hop
      else outside_hop g asset hops)"

definition lookup :: "gate \<Rightarrow> dns_entry \<Rightarrow> string \<Rightarrow> gate \<times> Lookup" where
  "lookup g e name =
     (let (g1, l0, records) = chase g e name OutcomeAddresses [typeA, typeAAAA];
          l1 = l0\<lparr>lk_addrs := map dr_addr records\<rparr>;
          l2 = (if redactsAddr g (lk_addrs l1) then l1\<lparr>lk_addrs := [], lk_outcome := OutcomeError\<rparr> else l1);
          l3 = l2\<lparr>lk_outside := outside_hop g (en_asset e) (lk_chain l2),
            lk_final_in_root := st_root (sc_subject (g_scope g) (en_asset e) (''domain:'' @ Final l2)) \<noteq> []\<rparr>
      in (g1, l3\<lparr>lk_target := Target l3\<rparr>))"

definition redactLookup :: "gate \<Rightarrow> Lookup \<Rightarrow> Lookup" where
  "redactLookup g l =
     (let name = g_redact g (lk_name l);
          l1 = (if name \<noteq> lk_name l then l\<lparr>lk_name := name, lk_outcome := OutcomeError\<rparr> else l)
      in l1\<lparr>lk_chain := map (g_redact g) (lk_chain l1), lk_outside := g_redact g (lk_outside l1)\<rparr>)"

definition placeSubject :: "gate \<Rightarrow> string \<Rightarrow> string \<Rightarrow> string \<times> string" where
  "placeSubject g asset subject =
     (let st = sc_subject (g_scope g) asset subject in
      if \<not> st_under_asset st \<or> st_root st = [] then
        (''out_of_scope'', subject @ '' is outside every root or the request's asset'')
      else if st_excluded_by st \<noteq> [] then (''excluded'', st_excluded_by st)
      else ([], []))"

section \<open>Discovery\<close>

record Resolve =
  rq_asset :: string
  rq_name :: string
  rq_control :: bool

record Resolved =
  rv_id :: string
  rv_decision :: string
  rv_detail :: string
  rv_excluded_by :: string
  rv_lookup :: Lookup

definition resolve_refused :: "gate \<Rightarrow> dns_entry \<Rightarrow> string \<Rightarrow> string \<Rightarrow> string \<Rightarrow> Resolved \<times> gate" where
  "resolve_refused g e name rule detail =
     (\<lparr>rv_id = en_id e, rv_decision = ''refused:'' @ rule, rv_detail = detail,
        rv_excluded_by = (if rule = ''excluded'' then detail else []), rv_lookup = new_lookup (g_redact g name)\<rparr>,
      dns_record g e ''refused'' name [] (''refused:'' @ rule) detail)"

text \<open>\<open>late\<close> is whether \<open>limits.timeout\<close> has passed.\<close>

definition gate_resolve :: "gate \<Rightarrow> Resolve \<Rightarrow> bool \<Rightarrow> Resolved \<times> gate" where
  "gate_resolve g0 r late =
     (let (i, g) = nextID g0; e = \<lparr>en_id = i, en_op = ''dns.lookup'', en_asset = rq_asset r\<rparr>;
          name = trim_suffix (rq_name r) ''.''; iv = has_suffix name ''.invalid'' in
      if dnsName (g_lower g) name \<noteq> Some name then resolve_refused g e (rq_name r) ''bind'' ''not a lowercase DNS name''
      else let (rule, detail) =
          (if iv then ([], [])
           else let (rule0, detail0) = placeSubject g (rq_asset r) (''domain:'' @ name); x = sc_name (g_scope g) name in
                if rule0 = [] \<and> x \<noteq> [] then (''excluded'', x) else (rule0, detail0)) in
      if rule \<noteq> [] then resolve_refused g e (rq_name r) rule detail
      else if late then resolve_refused g e (rq_name r) ''deadline'' ''limits.timeout passed''
      else if \<not> is_valid (g_nameserver g) then
        (\<lparr>rv_id = i, rv_decision = ''unavailable:no_resolver'', rv_detail = ''no nameserver in /etc/resolv.conf'',
           rv_excluded_by = [], rv_lookup = new_lookup (g_redact g name)\<rparr>,
         dns_record g e ''refused'' (rq_name r) [] ''unavailable:no_resolver'' ''no nameserver in /etc/resolv.conf'')
      else let g1 = (if rq_control r then countControl g iv else g);
               (g2, l0) = lookup g1 e name; l = redactLookup g1 l0 in
        (\<lparr>rv_id = i, rv_decision = DecisionSent, rv_detail = [], rv_excluded_by = lk_excluded_by l, rv_lookup = l\<rparr>, g2))"

section \<open>Records\<close>

text \<open>\<open>strings.EqualFold\<close> against \<open>v=spf1\<close>: U+017F folds to the \<open>s\<close>.\<close>

definition v_spf1 :: "string \<Rightarrow> bool" where
  "v_spf1 t =
     (equal_fold t ''v=spf1'' \<or>
      equal_fold (take 2 t) ''v='' \<and> take 2 (drop 2 t) = [CHR 0xC5, CHR 0xBF] \<and> equal_fold (drop 4 t) ''pf1'')"

definition isSPFRecord :: "string \<Rightarrow> bool" where
  "isSPFRecord record0 = (case str_fields record0 of [] \<Rightarrow> False | t # _ \<Rightarrow> v_spf1 t)"

definition spf_term :: "lower_rune \<Rightarrow> string \<Rightarrow> (string \<times> string) option" where
  "spf_term lr trm =
     (let lower = go_lower lr trm;
          mechanism = (if hd lower \<in> {CHR ''+'', CHR ''-'', CHR ''~'', CHR ''?''} then tl lower else lower);
          via_target = (if has_prefix mechanism ''include:'' then Some (''include'', trim_prefix mechanism ''include:'')
            else if has_prefix lower ''redirect='' then Some (''redirect'', trim_prefix lower ''redirect='')
            else None) in
      case via_target of
        None \<Rightarrow> None
      | Some (via, txt0) \<Rightarrow>
          (let target = trim_suffix txt0 ''.'' in
           if answerName lr target = Some target then Some (via, target) else None))"

definition spfTargets :: "lower_rune \<Rightarrow> string \<Rightarrow> (string \<times> string) list" where
  "spfTargets lr record0 =
     (if isSPFRecord record0 then List.map_filter (spf_term lr) (tl (str_fields record0)) else [])"

record RecordSet =
  rset_id :: string
  rset_decision :: string
  rset_detail :: string
  rset_excluded_by :: string
  rset_chain :: "string list"
  rset_outcome :: Outcome
  rset_txt :: "string list"
  rset_mx :: "(16 word \<times> string) list"
  rset_ns :: "string list"
  rset_targets :: "(string \<times> string) list"
  rset_addrs :: "addr list"
  rset_final_in_root :: bool

definition new_recordset :: "string \<Rightarrow> string \<Rightarrow> RecordSet" where
  "new_recordset i decision = \<lparr>rset_id = i, rset_decision = decision, rset_detail = [], rset_excluded_by = [],
     rset_chain = [], rset_outcome = OutcomeNone, rset_txt = [], rset_mx = [], rset_ns = [], rset_targets = [],
     rset_addrs = [], rset_final_in_root = False\<rparr>"

definition rset_insufficient :: "RecordSet \<Rightarrow> bool" where
  "rset_insufficient r = (rset_outcome r \<notin> {OutcomeRecords, OutcomeAddresses, OutcomeNXDomain, OutcomeNoData})"

definition recordTypes :: "string \<rightharpoonup> dnsType" where
  "recordTypes = [''TXT'' \<mapsto> typeTXT, ''MX'' \<mapsto> typeMX, ''NS'' \<mapsto> typeNS]"

definition maxSPFLookups :: nat where "maxSPFLookups = 10"

definition joinTXT :: "gate \<Rightarrow> string list \<Rightarrow> string" where
  "joinTXT g strs = g_redact g (concat strs)"

text \<open>
  The loop over the records read: the set with what they add, and the names they point at with the way
  they do; \<open>None\<close> where a target is not a name.
\<close>

fun collect_records ::
    "gate \<Rightarrow> bool \<Rightarrow> dnsRR list \<Rightarrow> RecordSet \<times> (string \<times> string) list \<Rightarrow> (RecordSet \<times> (string \<times> string) list) option" where
  "collect_records g spf [] acc = Some acc"
| "collect_records g spf (rr # rrs) (out, ps) =
     (if dr_typ rr = typeTXT then
        (let new = (if spf then map (\<lambda>(via, n). (n, via)) (spfTargets (g_lower g) (concat (dr_txt rr))) else []) in
         collect_records g spf rrs
           (out\<lparr>rset_targets := rset_targets out @ map (\<lambda>(n, via). (g_redact g n, via)) new,
                rset_txt := rset_txt out @ [joinTXT g (dr_txt rr)]\<rparr>, ps @ new))
      else if dr_typ rr = typeMX \<or> dr_typ rr = typeNS then
        (let t = dr_target rr in
         if answerName (g_lower g) t \<noteq> Some t \<and> (dr_typ rr \<noteq> typeMX \<or> t \<noteq> []) then None
         else if dr_typ rr = typeMX then
           (let new = (if t \<noteq> [] then [(t, ''mx'')] else []) in
            collect_records g spf rrs
              (out\<lparr>rset_mx := rset_mx out @ [(dr_pref rr, g_redact g t)],
                   rset_targets := rset_targets out @ map (\<lambda>(n, via). (g_redact g n, via)) new\<rparr>, ps @ new))
         else
           collect_records g spf rrs
             (out\<lparr>rset_ns := rset_ns out @ [g_redact g t],
                  rset_targets := rset_targets out @ [(g_redact g t, ''ns'')]\<rparr>, ps @ [(t, ''ns'')]))
      else collect_records g spf rrs (out, ps))"

definition readRecords :: "gate \<Rightarrow> dns_entry \<Rightarrow> string \<Rightarrow> dnsType \<Rightarrow> string \<Rightarrow> RecordSet \<times> gate" where
  "readRecords g e name t eval =
     (let (g1, l, records) = chase g e name OutcomeRecords [t];
          out = (new_recordset (en_id e) DecisionSent)
            \<lparr>rset_excluded_by := lk_excluded_by l, rset_outcome := lk_outcome l,
             rset_final_in_root := st_root (sc_subject (g_scope g) (en_asset e) (''domain:'' @ Final l)) \<noteq> []\<rparr>;
          spf = length (filter (\<lambda>rr. dr_typ rr = typeTXT \<and> isSPFRecord (concat (dr_txt rr))) records) in
      case collect_records g (eval \<noteq> [] \<and> spf = 1) records (out, []) of
        None \<Rightarrow>
          ((new_recordset (en_id e) DecisionSent)\<lparr>rset_outcome := OutcomeError, rset_chain := lk_chain (redactLookup g l)\<rparr>, g1)
      | Some (out1, ps) \<Rightarrow>
          (out1\<lparr>rset_chain := lk_chain (redactLookup g l)\<rparr>,
           if ps = [] then g1
           else g1\<lparr>g_pointed := (g_pointed g1)(en_id e \<mapsto>
             \<lparr>pt_asset = en_asset e, pt_eval = eval, pt_names = map fst ps, pt_via = map snd ps, pt_followed = {}\<rparr>)\<rparr>))"

definition records_refused :: "gate \<Rightarrow> dns_entry \<Rightarrow> string \<Rightarrow> string \<Rightarrow> string \<Rightarrow> RecordSet \<times> gate" where
  "records_refused g e name decision detail =
     ((new_recordset (en_id e) decision)
        \<lparr>rset_detail := detail, rset_excluded_by := (if decision = ''refused:excluded'' then detail else [])\<rparr>,
      dns_record g e ''refused'' name [] decision detail)"

record Records =
  rd_asset :: string
  rd_name :: string
  rd_type :: string

definition gate_read_records :: "gate \<Rightarrow> Records \<Rightarrow> bool \<Rightarrow> RecordSet \<times> gate" where
  "gate_read_records g0 r late =
     (let (i, g) = nextID g0; e = \<lparr>en_id = i, en_op = ''dns.records'', en_asset = rd_asset r\<rparr>;
          refuse = records_refused g e (rd_name r) in
      case recordTypes (rd_type r) of
        None \<Rightarrow> refuse ''refused:bind'' ''not TXT, MX or NS''
      | Some t \<Rightarrow>
          (let name = trim_suffix (rd_name r) ''.'' in
           if recordName (g_lower g) name \<noteq> Some name then
             refuse ''refused:bind'' ''not a lowercase DNS name scheck reads records at''
           else let (rule0, detail0) = placeSubject g (rd_asset r) (''domain:'' @ name); x = sc_name (g_scope g) name;
                    (rule, detail) = (if rule0 = [] \<and> x \<noteq> [] then (''excluded'', x) else (rule0, detail0)) in
           if rule \<noteq> [] then refuse (''refused:'' @ rule) detail
           else if late then refuse ''refused:deadline'' ''limits.timeout passed''
           else if \<not> is_valid (g_nameserver g) then refuse ''unavailable:no_resolver'' ''no nameserver in /etc/resolv.conf''
           else let eval = (if t = typeTXT \<and> \<not> has_prefix name ''_'' \<and> \<not> str_contains name ''._domainkey.''
                  then rd_asset r @ '' '' @ name else []) in
             readRecords g e name t eval))"

section \<open>Following a target\<close>

record Follow =
  fo_asset :: string
  fo_from :: string
  fo_index :: int

definition spf_via :: "string \<Rightarrow> bool" where
  "spf_via via = (via = ''include'' \<or> via = ''redirect'')"

text \<open>
  What the gate decides under its lock: the target and its evaluation, or the refusal, with the mark
  and the count it leaves.
\<close>

definition claim_target ::
    "gate \<Rightarrow> Follow \<Rightarrow> (string + (string \<times> string \<times> string)) \<times> gate" where
  "claim_target g f =
     (case g_pointed g (fo_from f) of
        None \<Rightarrow> (Inl ''bind'', g)
      | Some p \<Rightarrow>
          (if pt_asset p \<noteq> fo_asset f \<or> fo_index f < 0 \<or> int (length (pt_names p)) \<le> fo_index f
              \<or> nat (fo_index f) \<in> pt_followed p then (Inl ''bind'', g)
           else let k = nat (fo_index f); name = pt_names p ! k; via = pt_via p ! k;
                    budget = (\<not> spf_via via \<or> g_spf g (pt_eval p) < maxSPFLookups) in
           if \<not> budget then (Inl ''spf_budget'', g)
           else (Inr (name, via, pt_eval p),
             g\<lparr>g_spf := (if spf_via via then (g_spf g)(pt_eval p := g_spf g (pt_eval p) + 1) else g_spf g),
               g_pointed := (g_pointed g)(fo_from f \<mapsto> p\<lparr>pt_followed := insert k (pt_followed p)\<rparr>)\<rparr>)))"

definition spf_budget_text :: string where
  "spf_budget_text = ''SPF's limit of '' @ show_nat maxSPFLookups @ '' lookups per evaluation is reached''"

definition not_a_target :: string where
  "not_a_target = ''from and index name no target of an answer this gate gave for the asset, or one already followed''"

definition gate_follow :: "gate \<Rightarrow> Follow \<Rightarrow> bool \<Rightarrow> RecordSet \<times> gate" where
  "gate_follow g0 f late =
     (let (i, ga) = nextID g0; e = \<lparr>en_id = i, en_op = ''dns.follow'', en_asset = fo_asset f\<rparr>;
          (claim, g) = claim_target ga f in
      case claim of
        Inl rule \<Rightarrow>
          if rule = ''bind'' then records_refused g e [] ''refused:bind'' not_a_target
          else records_refused g e [] ''refused:spf_budget'' spf_budget_text
      | Inr (name, via, eval) \<Rightarrow>
          (let x = sc_name (g_scope g) name in
           if x \<noteq> [] then records_refused g e name ''refused:excluded'' x
           else if late then records_refused g e name ''refused:deadline'' ''limits.timeout passed''
           else if \<not> is_valid (g_nameserver g) then
             records_refused g e name ''unavailable:no_resolver'' ''no nameserver in /etc/resolv.conf''
           else if spf_via via then readRecords g e name typeTXT eval
           else let (g1, l0) = lookup g e name; l = redactLookup g l0 in
             ((new_recordset i DecisionSent)
                \<lparr>rset_excluded_by := lk_excluded_by l, rset_outcome := lk_outcome l, rset_chain := lk_chain l,
                 rset_addrs := lk_addrs l, rset_final_in_root := lk_final_in_root l\<rparr>, g1)))"

end
