(* ===== verification/Dns_Safety.thy ===== *)
theory Dns_Safety
  imports Dns_Client
begin

text \<open>
  What the DNS client promises over any sequence of its operations: no query for a name an exclude
  covers, chains and queries bounded, SPF's limit of lookups, each target followed once, and
  NXDOMAIN only after the chain's end was asked for its CNAME.
\<close>

section \<open>What a query changes\<close>

text \<open>
  \<open>asks P g g'\<close>: \<open>g'\<close> is \<open>g\<close> after queries for names of \<open>P\<close> only; the scope, the targets and the counts
  of SPF lookups are untouched.
\<close>

definition asks :: "(string \<Rightarrow> bool) \<Rightarrow> gate \<Rightarrow> gate \<Rightarrow> bool" where
  "asks P g g' =
     (g_scope g' = g_scope g \<and> g_lower g' = g_lower g \<and> g_seq g' = g_seq g \<and> g_session g' = g_session g \<and>
      g_pointed g' = g_pointed g \<and> g_spf g' = g_spf g \<and>
      (\<exists>ls. g_log g' = g_log g @ ls \<and> (\<forall>l\<in>set ls. P (dl_name l))))"

lemma asks_refl [simp]: "asks P g g"
  by (simp add: asks_def)

lemma asks_trans: "asks P a b \<Longrightarrow> asks P b c \<Longrightarrow> asks P a c"
  by (auto simp: asks_def)

lemma asks_mono: "asks P g g' \<Longrightarrow> (\<And>n. P n \<Longrightarrow> Q n) \<Longrightarrow> asks Q g g'"
  by (auto simp: asks_def)

lemma asks_scope: "asks P g g' \<Longrightarrow> g_scope g' = g_scope g"
  by (simp add: asks_def)

definition asked_line :: "gate \<Rightarrow> string \<Rightarrow> dnsType \<Rightarrow> bool" where
  "asked_line g n t = (\<exists>l\<in>set (g_log g). dl_event l = ''dns'' \<and> dl_name l = n \<and> dl_type l = type_string t)"

lemma asked_line_mono: "asks P g g' \<Longrightarrow> asked_line g n t \<Longrightarrow> asked_line g' n t"
  by (auto simp: asks_def asked_line_def)

lemma exchange_loop_outcome:
  "exchange_loop lr i n t m xs = (m', out) \<Longrightarrow>
   out \<in> {OutcomeNone, OutcomeDeadline, OutcomeCanceled, OutcomeTimeout, OutcomeError}"
  by (induction lr i n t m xs rule: exchange_loop.induct) (auto split: sum.splits if_splits net_err.splits)

lemma query_cases:
  assumes "query g e n t = (m, out, g')"
  shows "asks (\<lambda>x. x = n) g g'" "out \<notin> {OutcomeAddresses, OutcomeRecords, OutcomeNXDomain}"
    "out = OutcomeNone \<Longrightarrow> asked_line g' n t"
proof -
  let ?w = "g_world g (g_queries g)"
  let ?g2 = "countDNS (dns_record (g\<lparr>g_queries := g_queries g + 1\<rparr>) e ''dns'' n (type_string t) DecisionSent []) n"
  obtain m0 out0 where x: "exchange_loop (g_lower g) (w_id ?w) n t zero_msg (w_attempts ?w) = (m0, out0)"
    by (rule prod.exhaust)
  note out0 = exchange_loop_outcome [OF x]
  have two: "asks (\<lambda>x. x = n) g ?g2" "asked_line ?g2 n t"
    by (auto simp: asks_def asked_line_def countDNS_def dns_record_def)
  have three: "asks (\<lambda>x. x = n) g (dns_record ?g2 e ev n ty d de)" "asked_line (dns_record ?g2 e ev n ty d de) n t" for ev ty d de
    by (auto simp: asks_def asked_line_def countDNS_def dns_record_def)
  have one: "asks (\<lambda>x. x = n) g (g\<lparr>g_queries := g_queries g + 1\<rparr>)" by (simp add: asks_def)
  show "asks (\<lambda>x. x = n) g g'"
    using assms one two three x by (auto simp: query_def Let_def split: if_splits option.splits sum.splits)
  show "out \<notin> {OutcomeAddresses, OutcomeRecords, OutcomeNXDomain}"
    using assms out0 x by (auto simp: query_def Let_def rcode_outcome_def split: if_splits option.splits sum.splits)
  show "out = OutcomeNone \<Longrightarrow> asked_line g' n t"
    using assms two three x by (auto simp: query_def Let_def split: if_splits option.splits sum.splits)
qed

section \<open>The chain\<close>

text \<open>
  The names seen are the lookup's name and its chain, all distinct, and the chain is at most
  \<open>maxChain\<close> long; \<open>clear\<close>: no exclude covers a hop.
\<close>

definition chain_inv :: "Lookup \<Rightarrow> string set \<Rightarrow> bool" where
  "chain_inv l seen =
     (seen = insert (lk_name l) (set (lk_chain l)) \<and> distinct (lk_name l # lk_chain l) \<and> length (lk_chain l) \<le> maxChain)"

definition clear :: "Scope \<Rightarrow> Lookup \<Rightarrow> bool" where
  "clear sc l = (\<forall>h\<in>set (lk_chain l). sc_name sc h = [])"

lemma extend_chain_inv:
  assumes "extend_chain g l m seen = (l', seen', stop)" "chain_inv l seen"
  shows "chain_inv l' seen'"
proof -
  have "chain_inv l seen \<longrightarrow> chain_inv (fst (extend_chain g l m seen)) (fst (snd (extend_chain g l m seen)))"
    by (induction rule: extend_induct [of "\<lambda>l seen r. chain_inv l seen \<longrightarrow> chain_inv (fst r) (fst (snd r))" g l seen m])
      (auto simp: chain_inv_def)
  with assms show ?thesis by simp
qed

lemma extend_clear:
  assumes "extend_chain g l m seen = (l', seen', False)" "clear (g_scope g) l"
  shows "clear (g_scope g) l'"
proof -
  have "clear (g_scope g) l \<longrightarrow> \<not> snd (snd (extend_chain g l m seen)) \<longrightarrow> clear (g_scope g) (fst (extend_chain g l m seen))"
    by (induction rule: extend_induct
        [of "\<lambda>l seen r. clear (g_scope g) l \<longrightarrow> \<not> snd (snd r) \<longrightarrow> clear (g_scope g) (fst r)" g l seen m])
      (auto simp: clear_def)
  with assms show ?thesis by simp
qed

lemma extend_outcome:
  assumes "extend_chain g l m seen = (l', seen', True)"
  shows "lk_outcome l' \<in> {OutcomeLoop, OutcomeError, OutcomeExcluded}"
proof -
  have "snd (snd (extend_chain g l m seen)) \<longrightarrow> lk_outcome (fst (extend_chain g l m seen)) \<in> {OutcomeLoop, OutcomeError, OutcomeExcluded}"
    by (induction rule: extend_induct
        [of "\<lambda>l seen r. snd (snd r) \<longrightarrow> lk_outcome (fst r) \<in> {OutcomeLoop, OutcomeError, OutcomeExcluded}" g l seen m])
      auto
  with assms show ?thesis by simp
qed

lemma extend_keeps: "extend_chain g l m seen = (l', seen', stop) \<Longrightarrow> lk_name l' = lk_name l \<and> lk_queries l' = lk_queries l"
proof -
  have "lk_name (fst (extend_chain g l m seen)) = lk_name l \<and> lk_queries (fst (extend_chain g l m seen)) = lk_queries l"
    by (induction rule: extend_induct [of "\<lambda>l seen r. lk_name (fst r) = lk_name l \<and> lk_queries (fst r) = lk_queries l" g l seen m])
      auto
  then show "extend_chain g l m seen = (l', seen', stop) \<Longrightarrow> lk_name l' = lk_name l \<and> lk_queries l' = lk_queries l" by simp
qed

lemma count_query_simps [simp]:
  "lk_name (count_query l) = lk_name l" "lk_chain (count_query l) = lk_chain l"
  "lk_queries (count_query l) = Suc (lk_queries l)" "Final (count_query l) = Final l"
  "chain_inv (count_query l) seen = chain_inv l seen" "clear sc (count_query l) = clear sc l"
  by (simp_all add: count_query_def Final_def chain_inv_def clear_def)

lemma chain_inv_outcome [simp]: "chain_inv (l\<lparr>lk_outcome := o'\<rparr>) seen = chain_inv l seen"
  by (simp add: chain_inv_def)

lemma Final_outcome [simp]: "Final (l\<lparr>lk_outcome := o'\<rparr>) = Final l"
  by (simp add: Final_def)

text \<open>The names a chase may ask about: the one it starts at, and names no exclude covers.\<close>

definition may_ask :: "Scope \<Rightarrow> string \<Rightarrow> string \<Rightarrow> bool" where
  "may_ask sc nm n = (n = nm \<or> sc_name sc n = [])"

lemma may_ask_Final: "clear sc l \<Longrightarrow> may_ask sc (lk_name l) (Final l)"
  by (auto simp: may_ask_def clear_def Final_def)

lemma query_asks: "query g e n t = (m, out, g') \<Longrightarrow> P n \<Longrightarrow> asks P g g'"
  using query_cases(1) by (rule asks_mono) auto

section \<open>A round of the chase\<close>

text \<open>
  Going on: at most \<open>k\<close> queries were sent, all for names that may be asked, and the chain is well formed
  and clear.  Ended: the same, except that the last hop may be one the lookup stopped at.
\<close>

definition ended :: "nat \<Rightarrow> gate \<Rightarrow> Lookup \<Rightarrow> gate \<Rightarrow> Lookup \<Rightarrow> bool" where
  "ended k g l g' l' =
     (asks (may_ask (g_scope g) (lk_name l)) g g' \<and> lk_name l' = lk_name l \<and> (\<exists>seen. chain_inv l' seen) \<and>
      lk_queries l' \<le> lk_queries l + k)"

definition going :: "nat \<Rightarrow> gate \<Rightarrow> Lookup \<Rightarrow> gate \<Rightarrow> Lookup \<Rightarrow> string set \<Rightarrow> bool" where
  "going k g l g' l' seen' = (ended k g l g' l' \<and> chain_inv l' seen' \<and> clear (g_scope g) l')"

lemma going_refl: "chain_inv l seen \<Longrightarrow> clear (g_scope g) l \<Longrightarrow> going k g l g l seen"
  by (auto simp: going_def ended_def)

lemma asks_on: "asks (may_ask (g_scope a) nm) a b \<Longrightarrow> asks (may_ask (g_scope b) nm) b c \<Longrightarrow> asks (may_ask (g_scope a) nm) a c"
  by (frule asks_scope) (auto intro: asks_trans)

lemma ended_trans: "going k g l g1 l1 seen1 \<Longrightarrow> ended j g1 l1 g2 l2 \<Longrightarrow> ended (k + j) g l g2 l2"
  by (auto simp: going_def ended_def dest: asks_scope intro: asks_on)

lemma going_trans: "going k g l g1 l1 seen1 \<Longrightarrow> going j g1 l1 g2 l2 seen2 \<Longrightarrow> going (k + j) g l g2 l2 seen2"
  by (auto simp: going_def ended_def dest: asks_scope intro: asks_on)

lemma ended_outcome [simp]: "ended k g l g' (l'\<lparr>lk_outcome := o'\<rparr>) = ended k g l g' l'"
  by (simp add: ended_def chain_inv_def)

lemma going_ended: "going k g l g' l' seen' \<Longrightarrow> ended k g l g' l'"
  by (simp add: going_def)

lemma ended_mono: "ended k g l g' l' \<Longrightarrow> k \<le> j \<Longrightarrow> ended j g l g' l'"
  by (auto simp: ended_def)

lemma going_mono: "going k g l g' l' s \<Longrightarrow> k \<le> j \<Longrightarrow> going j g l g' l' s"
  by (auto simp: going_def intro: ended_mono)

text \<open>One query and the chain it answers with.\<close>

lemma one_query:
  assumes q: "query g e n t = (m, out, g1)" and x: "extend_chain g1 (count_query l) m seen = (l2, seen2, stop)"
    and l: "chain_inv l seen" "clear (g_scope g) l" "may_ask (g_scope g) (lk_name l) n"
  shows "ended 1 g l g1 (count_query l)" "ended 1 g l g1 l2" "\<not> stop \<Longrightarrow> going 1 g l g1 l2 seen2"
proof -
  have a: "asks (may_ask (g_scope g) (lk_name l)) g g1" using query_asks [OF q, where P = "may_ask (g_scope g) (lk_name l)"] l(3) .
  have i: "chain_inv l2 seen2" using extend_chain_inv [OF x] l(1) by simp
  show e: "ended 1 g l g1 (count_query l)" using a l(1) by (auto simp: ended_def)
  show "ended 1 g l g1 l2" using a i extend_keeps [OF x] by (auto simp: ended_def)
  show "going 1 g l g1 l2 seen2" if "\<not> stop"
    using a i extend_keeps [OF x] extend_clear [of g1 "count_query l" m seen l2 seen2] x that asks_scope [OF a] l(2)
    by (auto simp: going_def ended_def)
qed

lemma query_types_effect:
  assumes "chain_inv l seen" "clear (g_scope g) l" "may_ask (g_scope g) (lk_name l) cur"
  shows "case query_types ts g e cur l seen recs of
      Inl (g', l') \<Rightarrow> ended (length ts) g l g' l' \<and> lk_outcome l' \<notin> {OutcomeNone, OutcomeAddresses, OutcomeRecords, OutcomeNXDomain}
    | Inr (g', l', seen', recs', nx) \<Rightarrow> going (length ts) g l g' l' seen'"
  using assms
proof (induction ts arbitrary: g l seen recs)
  case Nil
  then show ?case by (simp add: going_refl)
next
  case (Cons t ts)
  obtain m out g1 where q: "query g e cur t = (m, out, g1)" by (rule prod_cases3)
  obtain l2 seen2 stop where x: "extend_chain g1 (count_query l) m seen = (l2, seen2, stop)" by (rule prod_cases3)
  note one = one_query [OF q x Cons.prems]
  consider (out) "out \<noteq> OutcomeNone" | (stop) "out = OutcomeNone" stop | (nx) "out = OutcomeNone" "\<not> stop" "m_rcode m = rcodeNXDomain"
    | (more) "out = OutcomeNone" "\<not> stop" "m_rcode m \<noteq> rcodeNXDomain" by blast
  then show ?case
  proof cases
    case out
    then show ?thesis using ended_mono [OF one(1), of "length (t # ts)"] query_cases(2) [OF q] q by simp
  next
    case stop
    then show ?thesis using ended_mono [OF one(2), of "length (t # ts)"] extend_outcome [of g1 "count_query l" m seen l2 seen2] q x
      by auto
  next
    case nx
    then show ?thesis using going_mono [OF one(3), of "length (t # ts)"] q x by simp
  next
    case more
    then have g: "going 1 g l g1 l2 seen2" using one(3) by blast
    then have sc: "g_scope g1 = g_scope g" "lk_name l2 = lk_name l" by (auto simp: going_def ended_def dest: asks_scope)
    let ?recs = "recs @ filter (\<lambda>rr. dr_typ rr = t \<and> dr_name rr = Final l2) (m_answers m)"
    have eq: "query_types (t # ts) g e cur l seen recs = query_types ts g1 e cur l2 seen2 ?recs"
      using more q x by simp
    have "case query_types ts g1 e cur l2 seen2 ?recs of
        Inl (g', l') \<Rightarrow> ended (length ts) g1 l2 g' l' \<and> lk_outcome l' \<notin> {OutcomeNone, OutcomeAddresses, OutcomeRecords, OutcomeNXDomain}
      | Inr (g', l', seen', recs', nx) \<Rightarrow> going (length ts) g1 l2 g' l' seen'"
      using Cons.IH [of l2 seen2 g1 ?recs] g sc Cons.prems(3) by (auto simp: going_def)
    then show ?thesis
      unfolding eq using ended_trans [OF g, of "length ts"] going_trans [OF g, of "length ts"]
      by (auto split: sum.splits)
  qed
qed

text \<open>
  A round asks at most one query more than its types.  When it goes on, the chain has grown or its end
  was not asked before; when it ends in NXDOMAIN, the chain's end has been asked for its CNAME.
\<close>

definition cnames_asked :: "gate \<Rightarrow> string set \<Rightarrow> bool" where
  "cnames_asked g cn = (\<forall>n\<in>cn. asked_line g n typeCNAME)"

lemma cnames_asked_mono: "asks P g g' \<Longrightarrow> cnames_asked g cn \<Longrightarrow> cnames_asked g' cn"
  by (auto simp: cnames_asked_def intro: asked_line_mono)

lemma ended_asks: "ended k g l g' l' \<Longrightarrow> asks (may_ask (g_scope g) (lk_name l)) g g'"
  by (simp add: ended_def)

definition round_ok :: "nat \<Rightarrow> Outcome \<Rightarrow> gate \<Rightarrow> Lookup \<Rightarrow> chase_step \<Rightarrow> bool" where
  "round_ok k found g l st =
     (case st of
        Done g' l' rs \<Rightarrow> ended k g l g' l' \<and> (lk_outcome l' = found \<longleftrightarrow> rs \<noteq> []) \<and>
          (lk_outcome l' = OutcomeNXDomain \<longrightarrow> asked_line g' (Final l') typeCNAME)
      | Next g' l' seen' cn' \<Rightarrow> going k g l g' l' seen' \<and> cnames_asked g' cn')"

lemma settle_ok:
  assumes "going k g l g1 l1 seen1" "cnames_asked g1 cn" "recs = [] \<Longrightarrow> nx \<Longrightarrow> asked_line g1 (Final l1) typeCNAME"
    "found \<in> {OutcomeAddresses, OutcomeRecords}"
  shows "round_ok k found g l (settle found g1 l1 seen1 recs nx asked cn)"
  using assms going_ended [OF assms(1)] by (auto simp: round_ok_def settle_def)

lemma chase_round_ok:
  assumes "chain_inv l seen" "clear (g_scope g) l" "may_ask (g_scope g) (lk_name l) cur" "cnames_asked g cn"
    and found: "found \<in> {OutcomeAddresses, OutcomeRecords}"
  shows "round_ok (length types + 1) found g l (chase_round g e cur found types l seen asked cn)"
proof -
  note qt = query_types_effect [OF assms(1-3), of types e "[]"]
  show ?thesis
  proof (cases "query_types types g e cur l seen []")
    case (Inl a)
    obtain g1 l1 where a: "a = (g1, l1)" by (rule prod.exhaust)
    then have "ended (length types) g l g1 l1" "lk_outcome l1 \<notin> {OutcomeNone, OutcomeAddresses, OutcomeRecords, OutcomeNXDomain}"
      using qt Inl by auto
    then show ?thesis
      using Inl a found ended_mono [of "length types" g l g1 l1 "length types + 1"] by (auto simp: chase_round_def round_ok_def)
  next
    case (Inr b)
    obtain g1 l1 seen1 recs nx where b: "b = (g1, l1, seen1, recs, nx)" by (rule prod_cases5)
    note t = Inr [unfolded b]
    have g1: "going (length types) g l g1 l1 seen1" using qt t by simp
    then have sc: "g_scope g1 = g_scope g" "lk_name l1 = lk_name l" and inv: "chain_inv l1 seen1" "clear (g_scope g1) l1"
      and cn1: "cnames_asked g1 cn"
      using assms(4) by (auto simp: going_def ended_def dest: asks_scope intro: cnames_asked_mono)
    let ?en = "Final l1"
    show ?thesis
    proof (cases "recs = [] \<and> ?en \<notin> cn \<and> (?en = cur \<or> nx)")
      case False
      have eq: "chase_round g e cur found types l seen asked cn = settle found g1 l1 seen1 recs nx asked cn"
        unfolding chase_round_def t sum.case prod.case Let_def if_not_P [OF False] ..
      have "recs = [] \<Longrightarrow> nx \<Longrightarrow> asked_line g1 ?en typeCNAME" using False cn1 by (auto simp: cnames_asked_def)
      then show ?thesis unfolding eq using going_mono [OF g1] cn1 found by (intro settle_ok) auto
    next
      case True
      obtain m out g2 where q: "query g1 e ?en typeCNAME = (m, out, g2)" by (rule prod_cases3)
      obtain l3 seen3 stop where x: "extend_chain g2 (count_query l1) m seen1 = (l3, seen3, stop)" by (rule prod_cases3)
      have eq: "chase_round g e cur found types l seen asked cn =
          (if out \<noteq> OutcomeNone then Done g2 ((count_query l1)\<lparr>lk_outcome := out\<rparr>) []
           else if stop then Done g2 l3 []
           else if Final l3 \<noteq> ?en then Next g2 l3 seen3 (insert ?en cn)
           else settle found g2 l3 seen3 recs nx asked (insert ?en cn))"
        unfolding chase_round_def t sum.case prod.case Let_def if_P [OF True] q x ..
      have en: "may_ask (g_scope g1) (lk_name l1) ?en" using inv(2) by (rule may_ask_Final)
      note one = one_query [OF q x inv en]
      show ?thesis
      proof (cases "out = OutcomeNone")
        case False
        then show ?thesis unfolding eq round_ok_def using ended_trans [OF g1 one(1)] query_cases(2) [OF q] found by auto
      next
        case out: True
        then have asked: "asked_line g2 ?en typeCNAME" using query_cases(3) [OF q] by simp
        have cn2: "cnames_asked g2 (insert ?en cn)"
          using asked cnames_asked_mono [OF query_cases(1) [OF q] cn1] by (simp add: cnames_asked_def)
        show ?thesis
        proof (cases stop)
          case stop: True
          then show ?thesis
            unfolding eq round_ok_def using out ended_trans [OF g1 one(2)] extend_outcome [of g2 "count_query l1" m seen1 l3 seen3] x found by auto
        next
          case go: False
          then have g3: "going (length types + 1) g l g2 l3 seen3" using going_trans [OF g1 one(3)] by blast
          show ?thesis
          proof (cases "Final l3 = ?en")
            case same: True
            then show ?thesis unfolding eq using out go settle_ok [OF g3 cn2 _ found] asked by simp
          next
            case False
            then show ?thesis unfolding eq round_ok_def using out go g3 cn2 by simp
          qed
        qed
      qed
    qed
  qed
qed

text \<open>
  The whole chase: every round that goes on has made the chain longer, so there are at most
  \<open>maxChain + 1\<close> of them.
\<close>

lemma chase_loop_effect:
  assumes "chain_inv l seen" "clear (g_scope g) l" "cur = Final l" "cnames_asked g cn"
    and found: "found \<in> {OutcomeAddresses, OutcomeRecords}"
    and res: "chase_loop g e cur found types l seen asked cn = (g', l', rs)"
  shows "ended ((length types + 1) * (maxChain + 1 - length (lk_chain l))) g l g' l' \<and> (lk_outcome l' = found \<longleftrightarrow> rs \<noteq> []) \<and>
    (lk_outcome l' = OutcomeNXDomain \<longrightarrow> asked_line g' (Final l') typeCNAME)"
  using assms
proof (induction g e cur found types l seen asked cn arbitrary: g' l' rs rule: chase_loop.induct)
  case (1 g e cur found types l seen asked cn)
  let ?n = "length types + 1"
  let ?k = "\<lambda>l. ?n * (maxChain + 1 - length (lk_chain l))"
  have len: "length (lk_chain l) \<le> maxChain" using "1.prems"(1) by (simp add: chain_inv_def)
  have ok: "round_ok ?n found g l (chase_round g e cur found types l seen (insert cur asked) cn)"
    using "1.prems" may_ask_Final by (intro chase_round_ok) auto
  show ?case
  proof (cases "chase_round g e cur found types l seen (insert cur asked) cn")
    case (Done g1 l1 rs1)
    then have "(g', l', rs) = (g1, l1, rs1)" using "1.prems"(6) by (simp add: chase_loop.simps)
    moreover have "?n \<le> ?k l" using len by (simp add: Suc_diff_le)
    ultimately show ?thesis using ok Done ended_mono [of ?n g l g1 l1 "?k l"] by (auto simp: round_ok_def)
  next
    case (Next g1 l1 seen1 cn1)
    from ok Next have g1: "going ?n g l g1 l1 seen1" and cn1: "cnames_asked g1 cn1" by (auto simp: round_ok_def)
    from g1 have inv: "chain_inv l1 seen1" "clear (g_scope g1) l1" by (auto simp: going_def ended_def dest: asks_scope)
    have grow: "length (lk_chain l) < length (lk_chain l1)"
    proof -
      from chase_round_Next [OF Next] have r: "grows l l1" "lk_chain l1 = lk_chain l \<Longrightarrow> Final l1 \<noteq> cur" by auto
      then have "lk_chain l1 \<noteq> lk_chain l" using Final_same "1.prems"(3) by blast
      with r(1) show ?thesis by (auto simp: grows_def)
    qed
    have "chase_loop g1 e (Final l1) found types l1 seen1 (insert cur asked) cn1 = (g', l', rs)"
      using "1.prems"(6) Next by (simp add: chase_loop.simps [of g])
    from "1.IH" [OF Next inv refl cn1 "1.prems"(5) this]
    have r: "ended (?k l1) g1 l1 g' l' \<and> (lk_outcome l' = found \<longleftrightarrow> rs \<noteq> []) \<and>
      (lk_outcome l' = OutcomeNXDomain \<longrightarrow> asked_line g' (Final l') typeCNAME)" .
    have "length (lk_chain l1) \<le> maxChain" using inv(1) by (simp add: chain_inv_def)
    then have "?n + ?k l1 \<le> ?n * (maxChain - length (lk_chain l1) + 1 + 1)" by (simp add: Suc_diff_le)
    also have "\<dots> \<le> ?k l" using grow \<open>length (lk_chain l1) \<le> maxChain\<close> by (intro mult_le_mono2) simp
    finally show ?thesis using ended_mono [OF ended_trans [OF g1]] r by blast
  qed
qed

lemma chase_effect:
  assumes "chase g e n found types = (g', l, rs)" "found \<in> {OutcomeAddresses, OutcomeRecords}"
  shows "asks (may_ask (g_scope g) n) g g'" "lk_name l = n" "distinct (n # lk_chain l)" "length (lk_chain l) \<le> maxChain"
    "lk_queries l \<le> (length types + 1) * (maxChain + 1)" "lk_outcome l = found \<longleftrightarrow> rs \<noteq> []"
    "lk_outcome l = OutcomeNXDomain \<Longrightarrow> asked_line g' (Final l) typeCNAME"
proof -
  have "ended ((length types + 1) * (maxChain + 1 - length (lk_chain (new_lookup n)))) g (new_lookup n) g' l \<and>
      (lk_outcome l = found \<longleftrightarrow> rs \<noteq> []) \<and> (lk_outcome l = OutcomeNXDomain \<longrightarrow> asked_line g' (Final l) typeCNAME)"
    using assms
    by (intro chase_loop_effect [where seen = "{n}" and cn = "{}"])
      (auto simp: chase_def chain_inv_def clear_def cnames_asked_def new_lookup_def Final_def)
  then show "asks (may_ask (g_scope g) n) g g'" "lk_name l = n" "distinct (n # lk_chain l)" "length (lk_chain l) \<le> maxChain"
    "lk_queries l \<le> (length types + 1) * (maxChain + 1)" "lk_outcome l = found \<longleftrightarrow> rs \<noteq> []"
    "lk_outcome l = OutcomeNXDomain \<Longrightarrow> asked_line g' (Final l) typeCNAME"
    by (auto simp: ended_def chain_inv_def new_lookup_def)
qed

lemma lookup_chase:
  assumes "lookup g e n = (g', l)"
  shows "\<exists>l0 rs. chase g e n OutcomeAddresses [typeA, typeAAAA] = (g', l0, rs) \<and> lk_name l = lk_name l0 \<and>
    lk_chain l = lk_chain l0 \<and> lk_queries l = lk_queries l0 \<and>
    (lk_outcome l = lk_outcome l0 \<and> lk_addrs l = map dr_addr rs \<or> lk_outcome l = OutcomeError \<and> lk_addrs l = [])"
proof -
  obtain g1 l0 rs where c: "chase g e n OutcomeAddresses [typeA, typeAAAA] = (g1, l0, rs)" by (rule prod_cases3)
  with assms show ?thesis by (auto simp: lookup_def Let_def)
qed

section \<open>The operations\<close>

datatype dns_op = DoResolve Resolve bool | DoRead Records bool | DoFollow Follow bool

primrec dns_step :: "gate \<Rightarrow> dns_op \<Rightarrow> gate" where
  "dns_step g (DoResolve r late) = snd (gate_resolve g r late)"
| "dns_step g (DoRead r late) = snd (gate_read_records g r late)"
| "dns_step g (DoFollow f late) = snd (gate_follow g f late)"

definition dns_run :: "gate \<Rightarrow> dns_op list \<Rightarrow> gate" where
  "dns_run = foldl dns_step"

definition queried :: "gate \<Rightarrow> string list" where
  "queried g = map dl_name (filter (\<lambda>l. dl_event l = ''dns'') (g_log g))"

text \<open>
  What the operations share: the scope stays, the new \<open>dns\<close> lines are for allowed names, and the
  targets pointed at change only in \<open>moves\<close>.
\<close>

definition allowed :: "Scope \<Rightarrow> string \<Rightarrow> bool" where
  "allowed sc n = (sc_name sc n = [] \<or> has_suffix n ''.invalid'')"

definition lines_ok :: "gate \<Rightarrow> gate \<Rightarrow> bool" where
  "lines_ok g g' =
     (g_scope g' = g_scope g \<and>
      (\<exists>ls. g_log g' = g_log g @ ls \<and> (\<forall>l\<in>set ls. dl_event l = ''dns'' \<longrightarrow> allowed (g_scope g) (dl_name l))))"

lemma lines_ok_refl [simp]: "lines_ok g g"
  by (simp add: lines_ok_def)

lemma lines_ok_trans: "lines_ok a b \<Longrightarrow> lines_ok b c \<Longrightarrow> lines_ok a c"
  by (auto simp: lines_ok_def)

lemma asks_lines_ok: "asks (may_ask (g_scope g) n) g g' \<Longrightarrow> allowed (g_scope g) n \<Longrightarrow> lines_ok g g'"
  by (auto simp: asks_def lines_ok_def may_ask_def allowed_def)

lemma refused_line_ok [simp]: "lines_ok g (dns_record g e ''refused'' n t d x)"
  by (simp add: lines_ok_def dns_record_def)

lemma lookup_lines_ok: "lookup g e n = (g', l) \<Longrightarrow> allowed (g_scope g) n \<Longrightarrow> lines_ok g g'"
  by (drule lookup_chase) (auto dest!: chase_effect(1) intro: asks_lines_ok)

lemma readRecords_lines_ok: "allowed (g_scope g) n \<Longrightarrow> lines_ok g (snd (readRecords g e n t eval))"
proof -
  assume n: "allowed (g_scope g) n"
  obtain g1 l rs where c: "chase g e n OutcomeRecords [t] = (g1, l, rs)" by (rule prod_cases3)
  have "lines_ok g g1" using chase_effect(1) [OF c] n by (auto intro: asks_lines_ok)
  moreover have "lines_ok g1 (g1\<lparr>g_pointed := q\<rparr>)" for q by (simp add: lines_ok_def)
  ultimately show ?thesis
    using c by (auto simp: readRecords_def Let_def intro: lines_ok_trans split: option.splits)
qed

lemma nextID_lines_ok: "nextID g = (i, g') \<Longrightarrow> lines_ok g g'"
  by (auto simp: nextID_def Let_def lines_ok_def)

lemma countControl_lines_ok: "lines_ok g (countControl g iv)" "g_scope (countControl g iv) = g_scope g"
  by (simp_all add: countControl_def lines_ok_def)

lemma records_refused_ok [simp]: "lines_ok g (snd (records_refused g e n d x))"
  by (simp add: records_refused_def)

lemma resolve_refused_ok [simp]: "lines_ok g (snd (resolve_refused g e n d x))"
  by (simp add: resolve_refused_def)

lemma claim_target_ok: "claim_target g f = (c, g') \<Longrightarrow> lines_ok g g'"
  by (auto simp: claim_target_def Let_def lines_ok_def split: option.splits if_splits)

lemma lines_ok_step:
  assumes "lines_ok a b" and "g_scope b = g_scope a \<Longrightarrow> lines_ok b c"
  shows "lines_ok a c"
  using assms by (auto intro: lines_ok_trans simp: lines_ok_def)

lemma gate_resolve_lines_ok: "lines_ok g (snd (gate_resolve g r late))"
proof -
  obtain i g1 where n: "nextID g = (i, g1)" by (rule prod.exhaust)
  let ?name = "trim_suffix (rq_name r) ''.''" and ?iv = "has_suffix (trim_suffix (rq_name r) ''.'') ''.invalid''"
  let ?e = "\<lparr>en_id = i, en_op = ''dns.lookup'', en_asset = rq_asset r\<rparr>"
  obtain rule0 detail0 where p: "placeSubject g1 (rq_asset r) (''domain:'' @ ?name) = (rule0, detail0)" by (rule prod.exhaust)
  have look: "lines_ok g1 (fst (lookup (if rq_control r then countControl g1 ?iv else g1) ?e ?name))"
    if "?iv \<or> sc_name (g_scope g1) ?name = []"
  proof -
    let ?g2 = "if rq_control r then countControl g1 ?iv else g1"
    obtain g3 l where l: "lookup ?g2 ?e ?name = (g3, l)" by (rule prod.exhaust)
    have sc: "lines_ok g1 ?g2" "g_scope ?g2 = g_scope g1" by (simp_all add: countControl_lines_ok)
    have "allowed (g_scope ?g2) ?name" using that unfolding allowed_def sc(2) by blast
    from lines_ok_trans [OF sc(1) lookup_lines_ok [OF l this]] l show ?thesis by simp
  qed
  have "lines_ok g1 (snd (gate_resolve g r late))"
    using look by (cases ?iv) (auto simp: gate_resolve_def n p Let_def case_prod_beta)
  with nextID_lines_ok [OF n] show ?thesis by (rule lines_ok_trans)
qed

lemma gate_read_records_lines_ok: "lines_ok g (snd (gate_read_records g r late))"
proof -
  obtain i g1 where n: "nextID g = (i, g1)" by (rule prod.exhaust)
  obtain rule0 detail0 where p: "placeSubject g1 (rd_asset r) (''domain:'' @ trim_suffix (rd_name r) ''.'') = (rule0, detail0)"
    by (rule prod.exhaust)
  have "lines_ok g1 (snd (gate_read_records g r late))"
    by (auto simp: gate_read_records_def n p Let_def case_prod_beta allowed_def intro!: readRecords_lines_ok split: option.splits)
  with nextID_lines_ok [OF n] show ?thesis by (rule lines_ok_trans)
qed

lemma gate_follow_lines_ok: "lines_ok g (snd (gate_follow g f late))"
proof -
  obtain i ga where n: "nextID g = (i, ga)" by (rule prod.exhaust)
  obtain c g1 where cl: "claim_target ga f = (c, g1)" by (rule prod.exhaust)
  have "lines_ok g1 (snd (gate_follow g f late))"
  proof (cases c)
    case (Inl rule)
    then show ?thesis by (simp add: gate_follow_def n cl Let_def)
  next
    case (Inr x)
    obtain name via eval where x: "x = (name, via, eval)" by (rule prod_cases3)
    let ?e = "\<lparr>en_id = i, en_op = ''dns.follow'', en_asset = fo_asset f\<rparr>"
    obtain g2 l where l: "lookup g1 ?e name = (g2, l)" by (rule prod.exhaust)
    have ok: "sc_name (g_scope g1) name = [] \<Longrightarrow> lines_ok g1 g2" using lookup_lines_ok [OF l] by (simp add: allowed_def)
    have rd: "sc_name (g_scope g1) name = [] \<Longrightarrow> lines_ok g1 (snd (readRecords g1 ?e name typeTXT eval))"
      by (rule readRecords_lines_ok) (simp add: allowed_def)
    show ?thesis using Inr x l ok rd by (simp add: gate_follow_def n cl Let_def)
  qed
  with nextID_lines_ok [OF n] claim_target_ok [OF cl] show ?thesis using lines_ok_trans by blast
qed

lemma dns_step_lines_ok: "lines_ok g (dns_step g op)"
  by (cases op) (simp_all add: gate_resolve_lines_ok gate_read_records_lines_ok gate_follow_lines_ok)

lemma dns_run_lines_ok: "lines_ok g (dns_run g ops)"
  by (induction ops arbitrary: g) (auto simp: dns_run_def intro: lines_ok_trans dns_step_lines_ok)

section \<open>Targets are followed once, within SPF's limit\<close>



definition spf_reads :: "string \<Rightarrow> (string \<times> nat \<times> string \<times> string) list \<Rightarrow> nat" where
  "spf_reads ev cs = length (filter (\<lambda>(from0, k, via, eval). spf_via via \<and> eval = ev) cs)"

lemma spf_reads_append [simp]: "spf_reads ev (a @ b) = spf_reads ev a + spf_reads ev b"
  by (simp add: spf_reads_def)







text \<open>
  \<open>moves\<close>: what an operation after its claim may do to the targets: add the answer of its own request.
\<close>

definition moves :: "string \<Rightarrow> gate \<Rightarrow> gate \<Rightarrow> bool" where
  "moves i g g' =
     (g_seq g' = g_seq g \<and> g_session g' = g_session g \<and> g_spf g' = g_spf g \<and>
      (g_pointed g' = g_pointed g \<or> (\<exists>p. g_pointed g' = (g_pointed g)(i \<mapsto> p))))"

lemma moves_refl [simp]: "moves i g g"
  by (simp add: moves_def)


lemma dns_record_moves [simp]: "moves i g (dns_record g e ev n t d x)"
  by (simp add: moves_def dns_record_def)

lemma records_refused_moves [simp]: "moves i g (snd (records_refused g e n d x))"
  by (simp add: records_refused_def)

lemma resolve_refused_moves [simp]: "moves i g (snd (resolve_refused g e n d x))"
  by (simp add: resolve_refused_def)
















section \<open>Properties\<close>

text \<open>
  Over any sequence of lookups, records reads and follows, whatever the resolver answers, the gate
  sends no query for a name an exclude covers: not the name asked for, not the name a chain enters,
  not a target a record points at.  The control names under \<open>.invalid\<close> are the one exception.
\<close>
theorem excluded_never_queried:
  assumes "g_log g = []" and "n \<in> set (queried (dns_run g ops))"
  shows "sc_name (g_scope g) n = [] \<or> has_suffix n ''.invalid''"
proof -
  obtain ls where "g_log (dns_run g ops) = ls" "\<forall>l\<in>set ls. dl_event l = ''dns'' \<longrightarrow> allowed (g_scope g) (dl_name l)"
    using dns_run_lines_ok [of g ops] assms(1) by (auto simp: lines_ok_def)
  with assms(2) show ?thesis by (auto simp: queried_def allowed_def)
qed

text \<open>
  C16: A lookup ends, and within its bounds: the chain holds at most \<open>maxChain\<close> names, never the same
  twice nor the one asked for, and three queries per name are enough, 27 at most.
\<close>
theorem lookup_bounds:
  "distinct (n # lk_chain (snd (lookup g e n))) \<and> length (lk_chain (snd (lookup g e n))) \<le> 8 \<and>
   lk_queries (snd (lookup g e n)) \<le> 27"
proof -
  obtain g' l where "lookup g e n = (g', l)" by (rule prod.exhaust)
  moreover from lookup_chase [OF this] obtain l0 rs where
    c: "chase g e n OutcomeAddresses [typeA, typeAAAA] = (g', l0, rs)" "lk_chain l = lk_chain l0" "lk_queries l = lk_queries l0"
    by auto
  ultimately show ?thesis
    using chase_effect(3-5) [OF c(1)] by (simp add: maxChain_def)
qed

text \<open>
  C15: A lookup that says the name does not exist has asked for the CNAME of the chain's end: a dangling
  record that an address query hides behind NXDOMAIN is not missed.
\<close>
theorem nxdomain_asks_cname:
  assumes "lookup g e n = (g', l)" and "lk_outcome l = OutcomeNXDomain"
  shows "asked_line g' (Final l) typeCNAME"
proof -
  from lookup_chase [OF assms(1)] assms(2) obtain l0 rs where
    c: "chase g e n OutcomeAddresses [typeA, typeAAAA] = (g', l0, rs)" "lk_name l = lk_name l0" "lk_chain l = lk_chain l0"
    "lk_outcome l0 = OutcomeNXDomain" by auto
  have "Final l = Final l0" using c(2,3) by (simp add: Final_def)
  with chase_effect(7) [OF c(1) _ c(4)] show ?thesis by simp
qed


section \<open>Samples\<close>

text \<open>A gate whose scope excludes \<open>x.example.com\<close> and whose resolver answers from a list.\<close>

definition sample_scope :: Scope where
  "sample_scope = \<lparr>sc_subject = (\<lambda>a s. \<lparr>st_under_asset = True, st_root = ''domain:example.com'', st_excluded_by = []\<rparr>),
     sc_name = (\<lambda>n. if n = ''x.example.com'' then ''exclude[0]'' else [])\<rparr>"

definition sample_gate :: "(nat \<Rightarrow> (net_err + bytes) \<times> bool) \<Rightarrow> gate" where
  "sample_gate answers = \<lparr>g_lower = id, g_scope = sample_scope, g_redactor = \<lparr>red_rules = []\<rparr>,
     g_nameserver = V4 1, g_session = 1,
     g_world = (\<lambda>k. \<lparr>w_acquire = None, w_late = False, w_recorded = True, w_id = 0, w_attempts = [answers k]\<rparr>),
     g_queries = 0, g_seq = 0, g_log = [], g_dns = 0, g_invalid_queries = 0, g_controls = 0, g_invalid = False,
     g_pointed = Map.empty, g_spf = (\<lambda>_. 0)\<rparr>"

theorem excluded_never_queried_witness:
  "''a.example.com'' \<in> set (queried (dns_run (sample_gate (\<lambda>_. (Inl TimedOut, False)))
     [DoResolve \<lparr>rq_asset = ''domain:example.com'', rq_name = ''a.example.com'', rq_control = False\<rparr> False])) \<and>
   (sc_name sample_scope ''a.example.com'' = [] \<or> has_suffix ''a.example.com'' ''.invalid'')"
proof -
  have "''a.example.com'' \<in> set (queried (dns_run (sample_gate (\<lambda>_. (Inl TimedOut, False)))
     [DoResolve \<lparr>rq_asset = ''domain:example.com'', rq_name = ''a.example.com'', rq_control = False\<rparr> False]))"
    by code_simp
  with excluded_never_queried [OF _ this] show ?thesis by (simp add: sample_gate_def)
qed


definition sample_nx :: "dnsType \<Rightarrow> bytes" where
  "sample_nx t =
     [CHR 0x00, CHR 0x00, CHR 0x81, CHR 0x83, CHR 0x00, CHR 0x01, CHR 0x00, CHR 0x00, CHR 0x00, CHR 0x00, CHR 0x00, CHR 0x00,
      CHR 0x01, CHR ''n'', CHR 0x03, CHR ''c'', CHR ''o'', CHR ''m'', CHR 0x00, CHR 0x00, char_of (unat t), CHR 0x00, CHR 0x01]"

theorem nxdomain_asks_cname_witness:
  "\<exists>g g' l e. lookup g e ''n.com'' = (g', l) \<and> lk_outcome l = OutcomeNXDomain \<and> asked_line g' (Final l) typeCNAME"
proof -
  let ?g = "sample_gate (\<lambda>k. (Inr (sample_nx (if k = 0 then typeA else typeCNAME)), False))"
  let ?e = "\<lparr>en_id = [], en_op = [], en_asset = []\<rparr>"
  obtain g' l where l: "lookup ?g ?e ''n.com'' = (g', l)" by (rule prod.exhaust)
  have "lk_outcome (snd (lookup ?g ?e ''n.com'')) = OutcomeNXDomain" by code_simp
  then have "lk_outcome l = OutcomeNXDomain" using l by simp
  with nxdomain_asks_cname [OF l] l show ?thesis by blast
qed

end
