(* ===== verification/Locator.thy ===== *)
theory Locator
  imports Dns_Wire Gate_Addr Path_Policy
begin

text \<open>
  Asset locators (\<open>internal/engagement/locator.go\<close>): their canonical form, what falls under a root
  and what an exclude covers.  A locator that does not parse is \<open>None\<close>; the texts of the errors are
  left out.  \<open>net/url\<close>'s \<open>Parse\<close> is a parameter, as are the Unicode lower-case tables; \<open>Hostname\<close>,
  \<open>Port\<close> and the escaping of a path are modelled.
\<close>

section \<open>Parsed URLs\<close>

record url =
  u_scheme :: string
  u_opaque :: string
  u_user :: bool
  u_host :: string
  u_path :: string
  u_raw_query :: string
  u_force_query :: bool
  u_fragment :: string

record text_env =
  te_lower :: lower_rune
  te_url :: "string \<Rightarrow> url option"

text \<open>\<open>validOptionalPort\<close>, \<open>splitHostPort\<close>: the last colon starts a port when only digits follow it.\<close>

definition split_host_port :: "string \<Rightarrow> string \<times> string" where
  "split_host_port hp =
     (let (h, p) = (case last_index hp '':'' of
          None \<Rightarrow> (hp, [])
        | Some i \<Rightarrow> if list_all is_digit (drop (Suc i) hp) then (take i hp, drop (Suc i) hp) else (hp, []))
      in (if has_prefix h ''['' \<and> has_suffix h '']'' then butlast (tl h) else h, p))"

definition url_hostname :: "url \<Rightarrow> string" where "url_hostname u = fst (split_host_port (u_host u))"
definition url_port :: "url \<Rightarrow> string" where "url_port u = snd (split_host_port (u_host u))"

text \<open>\<open>EscapedPath\<close> of a URL that has only a path.\<close>

definition path_byte_ok :: "char \<Rightarrow> bool" where
  "path_byte_ok c = (is_upper c \<or> is_lower c \<or> is_digit c \<or> c \<in> set ''-_.~$&+,/:;=@'')"

definition upper_hex :: "nat \<Rightarrow> char" where
  "upper_hex n = char_of (if n < 10 then 48 + n else 55 + n)"

definition escape_byte :: "char \<Rightarrow> string" where
  "escape_byte c =
     (if path_byte_ok c then [c]
      else [CHR ''%'', upper_hex (of_char c div 16), upper_hex (of_char c mod 16)])"

definition escaped_path :: "string \<Rightarrow> string" where
  "escaped_path p = (if p = ''*'' then ''*'' else concat (map escape_byte p))"

section \<open>References\<close>

type_synonym Kind = string

definition KindDomain :: Kind where "KindDomain = ''domain''"
definition KindURL :: Kind where "KindURL = ''url''"
definition KindHost :: Kind where "KindHost = ''host''"
definition KindNetwork :: Kind where "KindNetwork = ''network''"
definition KindSaaS :: Kind where "KindSaaS = ''saas''"
definition KindRepo :: Kind where "KindRepo = ''repo''"
definition KindCloud :: Kind where "KindCloud = ''cloud''"

lemmas kinds = KindDomain_def KindURL_def KindHost_def KindNetwork_def KindSaaS_def KindRepo_def KindCloud_def

definition ProviderGitHub :: string where "ProviderGitHub = ''github''"
definition ProviderGoogleWorkspace :: string where "ProviderGoogleWorkspace = ''google-workspace''"
definition ProviderGCP :: string where "ProviderGCP = ''gcp''"
definition LocalHost :: string where "LocalHost = ''local''"

record Ref =
  r_kind :: Kind
  r_id :: string
  r_written :: string
  r_org_unit :: string
  r_user :: string
  r_port :: int
  r_name :: string
  r_addr :: addr
  r_prefix :: net_prefix
  r_scheme :: string
  r_path :: string
  r_provider :: string
  r_tenant :: string
  r_repo :: string

definition no_ref :: Ref where
  "no_ref = \<lparr>r_kind = [], r_id = [], r_written = [], r_org_unit = [], r_user = [], r_port = 0, r_name = [],
     r_addr = NoAddr, r_prefix = no_prefix, r_scheme = [], r_path = [], r_provider = [], r_tenant = [], r_repo = []\<rparr>"

definition Local :: "Ref \<Rightarrow> bool" where
  "Local r = (r_kind r = KindHost \<and> r_name r = LocalHost)"

definition Address :: "Ref \<Rightarrow> string" where
  "Address r = (if is_valid (r_addr r) then addr_string (r_addr r) else r_name r)"

section \<open>The locator of an entry\<close>

record locator_entry =
  l_domain :: string
  l_network :: string
  l_host :: string
  l_url :: string
  l_cloud :: string
  l_saas :: string
  l_repo :: string
  l_org_unit :: string

text \<open>The one kind key that is set, or which of the two errors.\<close>

datatype kind_error = NoKind | ManyKinds

definition kindOf :: "locator_entry \<Rightarrow> kind_error + (Kind \<times> string)" where
  "kindOf l =
     (case filter (\<lambda>(k, v). v \<noteq> [])
         [(KindDomain, l_domain l), (KindURL, l_url l), (KindHost, l_host l), (KindNetwork, l_network l),
          (KindSaaS, l_saas l), (KindRepo, l_repo l), (KindCloud, l_cloud l)] of
        [] \<Rightarrow> Inl NoKind
      | [kv] \<Rightarrow> Inr kv
      | _ \<Rightarrow> Inl ManyKinds)"

section \<open>Parsing\<close>

definition sshUser :: "string \<Rightarrow> bool" where
  "sshUser s =
     (s \<noteq> [] \<and> length s \<le> 32 \<and> (is_upper (hd s) \<or> alnum (hd s) \<or> hd s = CHR ''_'') \<and>
      list_all (\<lambda>c. is_upper c \<or> alnum c \<or> c \<in> {CHR ''_'', CHR ''.'', CHR ''-''}) s)"

definition githubName :: "string \<Rightarrow> bool" where
  "githubName s =
     (s \<noteq> [] \<and> length s \<le> 39 \<and> alnum (hd s) \<and> alnum (last s) \<and> list_all (\<lambda>c. alnum c \<or> c = CHR ''-'') s)"

definition repoName :: "string \<Rightarrow> bool" where
  "repoName s = (s \<noteq> [] \<and> length s \<le> 100 \<and> list_all (\<lambda>c. alnum c \<or> c \<in> {CHR ''.'', CHR ''_'', CHR ''-''}) s)"

definition gcpProject :: "string \<Rightarrow> bool" where
  "gcpProject s =
     (6 \<le> length s \<and> length s \<le> 30 \<and> is_lower (hd s) \<and> alnum (last s) \<and> list_all (\<lambda>c. alnum c \<or> c = CHR ''-'') s)"

definition gcpOrg :: "string \<Rightarrow> bool" where
  "gcpOrg s =
     (has_prefix s ''organizations/'' \<and>
      (let d = trim_prefix s ''organizations/'' in d \<noteq> [] \<and> length d \<le> 20 \<and> list_all is_digit d))"

text \<open>\<open>checkLabels\<close>; the label pattern is that of a host name.\<close>

definition checkLabels :: "string \<Rightarrow> nat \<Rightarrow> bool" where
  "checkLabels d least =
     (let labels = split_on CHR ''.'' d in
      length d \<le> 253 \<and> least \<le> length labels \<and> trim_set (last labels) (set digits_text) \<noteq> [] \<and> list_all labelRE labels)"

definition parseDomain :: "text_env \<Rightarrow> string \<Rightarrow> string option" where
  "parseDomain v s =
     (let d = trim_suffix (go_lower (te_lower v) s) ''.'' in
      if parse_addr d \<noteq> None then None
      else if index_set d {CHR ''/'', CHR '':'', CHR ''@'', CHR ''*''} \<noteq> None then None
      else if \<not> checkLabels d 2 then None
      else Some d)"

definition parseHostName :: "text_env \<Rightarrow> string \<Rightarrow> (string \<times> addr) option" where
  "parseHostName v s =
     (case parse_addr s of
        Some a \<Rightarrow>
          if addr_zone a \<noteq> [] then None
          else if is4in6 a then None
          else if pfx_contains NAT64Local a then None
          else Some ([], a)
      | None \<Rightarrow>
          (let name = go_lower (te_lower v) s in
           if checkLabels name 1 then Some (name, NoAddr) else None))"

definition host_text :: "string \<Rightarrow> addr \<Rightarrow> string" where
  "host_text name a =
     (if is_valid a then (if is6 a then ''['' @ addr_string a @ '']'' else addr_string a) else name)"

definition read_port :: "string \<Rightarrow> int option" where
  "read_port p =
     (case atoi p of
        None \<Rightarrow> None
      | Some n \<Rightarrow> if n < 1 \<or> 65535 < n \<or> show_int n \<noteq> p then None else Some n)"

text \<open>The address and the port of a host locator, the user taken off.\<close>

definition split_host :: "string \<Rightarrow> (string \<times> string) option" where
  "split_host rst =
     (if has_prefix rst ''['' then
        (case index_byte rst CHR '']'' of
           None \<Rightarrow> None
         | Some en \<Rightarrow>
             (let addr = drop 1 (take en rst); tail = drop (Suc en) rst in
              if tail \<noteq> [] \<and> \<not> has_prefix tail '':'' then None
              else case parse_addr addr of
                None \<Rightarrow> None
              | Some a \<Rightarrow> if is6 a then Some (addr, tl tail) else None))
      else if 1 < count_byte rst CHR '':'' then None
      else let (addr, port, _) = str_cut rst '':'' in Some (addr, port))"

definition parseHost :: "text_env \<Rightarrow> string \<Rightarrow> Ref option" where
  "parseHost v s =
     (if s = LocalHost then Some (no_ref\<lparr>r_id := ''host:'' @ LocalHost, r_name := LocalHost\<rparr>)
      else let (user, after, ok) = str_cut s ''@'' in
      if ok \<and> (str_contains user '':'' \<or> \<not> sshUser user) then None
      else let usr = (if ok then user else []); rst = (if ok then after else s) in
      case split_host rst of
        None \<Rightarrow> None
      | Some (addr, port) \<Rightarrow>
          (case (if port = [] then Some 22 else read_port port) of
             None \<Rightarrow> None
           | Some p \<Rightarrow>
               (case parseHostName v addr of
                  None \<Rightarrow> None
                | Some (name, a) \<Rightarrow>
                    if name = LocalHost then None
                    else Some (no_ref\<lparr>r_user := usr, r_port := p, r_name := name, r_addr := a,
                      r_id := ''host:'' @ host_text name a @ '':'' @ show_int p\<rparr>))))"

definition parseNetwork :: "string \<Rightarrow> net_prefix option" where
  "parseNetwork s =
     (case parse_prefix s of
        None \<Rightarrow> None
      | Some p \<Rightarrow>
          if addr_zone (pfx_addr p) \<noteq> [] then None
          else if is4in6 (pfx_addr p) then None
          else if pfx_bits NAT64Local \<le> pfx_bits p \<and> pfx_contains NAT64Local (pfx_addr p) then None
          else if pfx_masked p \<noteq> p then None
          else Some p)"

definition default_port :: "string \<Rightarrow> int" where
  "default_port scheme = (if scheme = ''https'' then 443 else if scheme = ''http'' then 80 else 0)"

text \<open>The port a parsed URL keeps: 0 for its scheme's default or none.\<close>

definition url_kept_port :: "string \<Rightarrow> string \<Rightarrow> int option" where
  "url_kept_port scheme p =
     (if p = [] then Some 0
      else case atoi p of
        None \<Rightarrow> None
      | Some n \<Rightarrow> if n < 1 \<or> 65535 < n then None else Some (if n \<noteq> default_port scheme then n else 0))"

definition clean_url_path :: "string \<Rightarrow> string" where
  "clean_url_path p =
     (if p = [] then ''/''
      else let c = path_clean p in if has_suffix p ''/'' \<and> c \<noteq> ''/'' then c @ ''/'' else c)"

definition url_id :: "string \<Rightarrow> string \<Rightarrow> addr \<Rightarrow> int \<Rightarrow> string \<Rightarrow> string" where
  "url_id scheme name a port pth =
     ''url:'' @ scheme @ ''://'' @ host_text name a @ (if port \<noteq> 0 then '':'' @ show_int port else []) @ pth"

definition parseURL :: "text_env \<Rightarrow> string \<Rightarrow> Ref option" where
  "parseURL v s =
     (case te_url v s of
        None \<Rightarrow> None
      | Some u \<Rightarrow>
          (let scheme = go_lower (te_lower v) (u_scheme u) in
           if u_user u \<or> str_contains (u_opaque u) ''@'' then None
           else if scheme \<noteq> ''http'' \<and> scheme \<noteq> ''https'' then None
           else if u_opaque u \<noteq> [] \<or> u_host u = [] then None
           else if u_raw_query u \<noteq> [] \<or> u_force_query u then None
           else if u_fragment u \<noteq> [] then None
           else case parseHostName v (url_hostname u) of
             None \<Rightarrow> None
           | Some (name, a) \<Rightarrow>
               (case url_kept_port scheme (url_port u) of
                  None \<Rightarrow> None
                | Some port \<Rightarrow>
                    (let pth = escaped_path (clean_url_path (u_path u)) in
                     Some (no_ref\<lparr>r_scheme := scheme, r_name := name, r_addr := a, r_port := port, r_path := pth,
                       r_id := url_id scheme name a port pth\<rparr>)))))"

definition parseSaaS :: "text_env \<Rightarrow> string \<Rightarrow> Ref option" where
  "parseSaaS v s =
     (let (provider, tenant, ok) = str_cut s '':'' in
      if \<not> ok then None
      else if provider = ProviderGitHub then
        (let t = go_lower (te_lower v) tenant in
         if githubName t
         then Some (no_ref\<lparr>r_provider := provider, r_tenant := t, r_id := ''saas:'' @ provider @ '':'' @ t\<rparr>) else None)
      else if provider = ProviderGoogleWorkspace then
        map_option (\<lambda>d. no_ref\<lparr>r_provider := provider, r_tenant := d, r_name := d,
          r_id := ''saas:'' @ provider @ '':'' @ d\<rparr>) (parseDomain v tenant)
      else None)"

definition parseRepo :: "text_env \<Rightarrow> string \<Rightarrow> Ref option" where
  "parseRepo v s =
     (if has_prefix s ''.'' \<or> has_prefix s ''/'' \<or> has_prefix s ''~'' then None
      else let (provider, full, ok) = str_cut s '':'' in
      if \<not> ok \<or> provider \<noteq> ProviderGitHub then None
      else let (owner, name, ok2) = str_cut (go_lower (te_lower v) full) ''/'' in
      if \<not> ok2 \<or> \<not> githubName owner \<or> \<not> repoName name \<or> name = ''.'' \<or> name = ''..'' then None
      else Some (no_ref\<lparr>r_id := ''repo:github:'' @ owner @ ''/'' @ name, r_provider := provider, r_tenant := owner,
        r_repo := name\<rparr>))"

definition parseCloud :: "string \<Rightarrow> Ref option" where
  "parseCloud s =
     (let (provider, i, ok) = str_cut s '':'' in
      if \<not> ok \<or> provider \<noteq> ProviderGCP then None
      else if \<not> gcpProject i \<and> \<not> gcpOrg i then None
      else Some (no_ref\<lparr>r_id := ''cloud:'' @ provider @ '':'' @ i, r_provider := provider, r_tenant := i\<rparr>))"

text \<open>A kind that is none of the seven parses to an empty reference, as the source's switch does.\<close>

definition parse_kind :: "text_env \<Rightarrow> Kind \<Rightarrow> string \<Rightarrow> Ref option" where
  "parse_kind v kind s =
     (if kind = KindDomain then map_option (\<lambda>d. no_ref\<lparr>r_name := d, r_id := ''domain:'' @ d\<rparr>) (parseDomain v s)
      else if kind = KindURL then parseURL v s
      else if kind = KindHost then parseHost v s
      else if kind = KindNetwork then
        map_option (\<lambda>p. no_ref\<lparr>r_prefix := p, r_id := ''network:'' @ prefix_string p\<rparr>) (parseNetwork s)
      else if kind = KindSaaS then parseSaaS v s
      else if kind = KindRepo then parseRepo v s
      else if kind = KindCloud then parseCloud s
      else Some no_ref)"

definition parseLocator :: "text_env \<Rightarrow> Kind \<Rightarrow> string \<Rightarrow> Ref option" where
  "parseLocator v kind s = map_option (\<lambda>r. r\<lparr>r_kind := kind, r_written := s\<rparr>) (parse_kind v kind s)"

definition ParseID :: "text_env \<Rightarrow> string \<Rightarrow> Ref option" where
  "ParseID v i =
     (let (kind, rst, ok) = str_cut i '':'' in
      if \<not> ok then None
      else case parseLocator v kind rst of
        None \<Rightarrow> None
      | Some r \<Rightarrow> if r_id r = i then Some r else None)"

section \<open>Falling under a root\<close>

definition cloudOrg :: "Ref \<Rightarrow> bool" where
  "cloudOrg r = (r_kind r = KindCloud \<and> has_prefix (r_tenant r) ''organizations/'')"

definition domainUnder :: "string \<Rightarrow> string \<Rightarrow> bool" where
  "domainUnder name d = (name \<noteq> [] \<and> (name = d \<or> has_suffix name (CHR ''.'' # d)))"

definition pathUnder :: "string \<Rightarrow> string \<Rightarrow> bool" where
  "pathUnder p pre =
     (p = pre \<or> has_suffix pre ''/'' \<and> has_prefix p pre \<or> has_prefix p (pre @ ''/''))"

definition Under :: "Ref \<Rightarrow> Ref \<Rightarrow> bool" where
  "Under c root =
     (r_id c = r_id root \<or>
      (if r_kind root = KindDomain then
         r_kind c \<in> {KindDomain, KindURL, KindHost} \<and> domainUnder (r_name c) (r_name root)
       else if r_kind root = KindNetwork then
         (if r_kind c = KindHost \<or> r_kind c = KindURL then is_valid (r_addr c) \<and> pfx_contains (r_prefix root) (r_addr c)
          else r_kind c = KindNetwork \<and> pfx_bits (r_prefix root) \<le> pfx_bits (r_prefix c) \<and>
            pfx_contains (r_prefix root) (pfx_addr (r_prefix c)))
       else if r_kind root = KindHost then r_kind c = KindURL \<and> Address root = Address c
       else if r_kind root = KindURL then
         r_kind c = KindURL \<and> r_scheme c = r_scheme root \<and> Address c = Address root \<and> r_port c = r_port root \<and>
         pathUnder (r_path c) (r_path root)
       else if r_kind root = KindSaaS then
         r_kind c = KindRepo \<and> r_provider root = ProviderGitHub \<and> r_tenant c = r_tenant root
       else if r_kind root = KindCloud then
         r_kind c = KindCloud \<and> \<not> cloudOrg c \<and> cloudOrg root \<and> r_provider c = r_provider root
       else False))"

section \<open>Excludes\<close>

definition urlPort :: "Ref \<Rightarrow> int" where
  "urlPort r = (if r_port r \<noteq> 0 then r_port r else default_port (r_scheme r))"

definition excludePrefix :: "Ref \<Rightarrow> net_prefix option" where
  "excludePrefix x =
     (if r_kind x = KindNetwork then Some (r_prefix x)
      else if r_kind x = KindHost \<and> is_valid (r_addr x) then Some (prefix_from (r_addr x) (int (bit_len (r_addr x))))
      else None)"

definition addressExcluded :: "Ref \<Rightarrow> addr \<Rightarrow> bool" where
  "addressExcluded x a =
     (case excludePrefix x of
        None \<Rightarrow> False
      | Some p \<Rightarrow>
          list_ex (\<lambda>f. pfx_contains p f \<or> (case Carried p of None \<Rightarrow> False | Some c \<Rightarrow> pfx_contains c f)) (Forms a))"

definition with_carried :: "net_prefix \<Rightarrow> net_prefix list" where
  "with_carried p = p # (case Carried p of None \<Rightarrow> [] | Some c \<Rightarrow> [c])"

definition networkExcluded :: "net_prefix \<Rightarrow> net_prefix \<Rightarrow> bool" where
  "networkExcluded x n =
     list_ex (\<lambda>ou. list_ex (\<lambda>i. pfx_bits ou \<le> pfx_bits i \<and> pfx_contains ou (pfx_addr i)) (with_carried n)) (with_carried x)"

definition Excludes :: "Ref \<Rightarrow> Ref \<Rightarrow> bool" where
  "Excludes x c =
     (if r_org_unit x \<noteq> [] then False
      else if r_kind x = KindURL \<and> r_kind c = KindURL then
        (let pre = trim_suffix (r_path x) ''/'' in
         Address x = Address c \<and> (r_port x = r_port c \<or> urlPort x = urlPort c) \<and>
         (pre = [] \<or> r_path c = pre \<or> has_prefix (r_path c) (pre @ ''/'')))
      else if is_valid (r_addr c) \<and> addressExcluded x (r_addr c) then True
      else if r_kind x = KindHost \<and> r_kind c = KindHost \<and> Address x = Address c then True
      else if r_kind c = KindNetwork \<and> (case excludePrefix x of None \<Rightarrow> False | Some p \<Rightarrow> networkExcluded p (r_prefix c)) then True
      else Under c x)"

definition excludesName :: "Ref \<Rightarrow> string \<Rightarrow> bool" where
  "excludesName x n =
     (if r_org_unit x \<noteq> [] then False
      else if r_kind x = KindDomain then domainUnder n (r_name x)
      else if r_kind x = KindHost then r_name x = n
      else if r_kind x = KindURL then r_name x = n \<and> r_port x = 0 \<and> trim_suffix (r_path x) ''/'' = []
      else False)"

definition excludeOf :: "Ref list \<Rightarrow> Ref \<Rightarrow> nat option" where
  "excludeOf xs c = index_where (\<lambda>x. Excludes x c) xs"

definition excludeEntry :: "nat \<Rightarrow> string" where
  "excludeEntry i = ''exclude['' @ show_nat i @ '']''"

end
