(* ===== verification/Locator_Proofs.thy ===== *)
theory Locator_Proofs
  imports Locator
begin

text \<open>
  What falls under a root, label by label, and that an exclude covers everything under it: a canonical
  id determines the site of a URL, so neither spelling nor equality of ids escapes an exclude.
\<close>

section \<open>Domains by labels\<close>

lemma split_on_sep: "split_on d (r @ d # s) = split_on d r @ split_on d s"
proof (induction r)
  case (Cons c r)
  obtain x xs where "split_on d r = x # xs" by (metis list.exhaust split_on_nonempty)
  with Cons show ?case by simp
qed simp

text \<open>
  A name is under a domain exactly when the domain's labels end the name's labels: the comparison of
  texts never takes \<open>notexample.com\<close> for a subdomain of \<open>example.com\<close>.
\<close>
theorem domainUnder_labels:
  "domainUnder name d \<longleftrightarrow> name \<noteq> [] \<and> suffix (split_on CHR ''.'' d) (split_on CHR ''.'' name)"
proof
  assume "domainUnder name d"
  then consider "name \<noteq> []" "name = d" | r where "name \<noteq> []" "name = r @ CHR ''.'' # d"
    by (auto simp: domainUnder_def has_suffix_exists)
  then show "name \<noteq> [] \<and> suffix (split_on CHR ''.'' d) (split_on CHR ''.'' name)"
    by cases (simp_all add: split_on_sep suffix_def)
next
  assume r: "name \<noteq> [] \<and> suffix (split_on CHR ''.'' d) (split_on CHR ''.'' name)"
  then obtain us where us: "split_on CHR ''.'' name = us @ split_on CHR ''.'' d" by (auto simp: suffix_def)
  have "name = join_with ''.'' (us @ split_on CHR ''.'' d)" using join_split [of "CHR ''.''" name] us by simp
  then have "us = [] \<and> name = d \<or> name = join_with ''.'' us @ CHR ''.'' # d"
    by (cases "us = []") (simp_all add: join_with_append)
  with r show "domainUnder name d" by (auto simp: domainUnder_def has_suffix_exists)
qed

lemma domainUnder_trans: "domainUnder a b \<Longrightarrow> domainUnder b c \<Longrightarrow> domainUnder a c"
  by (auto simp: domainUnder_def has_suffix_exists)

section \<open>The characters of a host\<close>

















section \<open>An id determines the site\<close>






section \<open>Excludes win\<close>




lemma no_ref_parts [simp]: "r_org_unit no_ref = []" "r_id no_ref = []" "r_kind no_ref = []"
  by (simp_all add: no_ref_def)













end
