(* ===== verification/Scope_File.thy ===== *)
theory Scope_File
  imports Locator_Proofs Dns_Safety Operator_Context
begin

text \<open>
  The engagement file's scope as the gate reads it (\<open>internal/engagement/scope.go\<close>): where a subject
  stands, which names and addresses an exclude covers, and which paths of an origin may be read on which
  evidence.  The file is validated and resolved already: its roots, excludes and assets are references.
  Instants are nanoseconds; \<open>rs_day\<close> is the instant a day begins in the engagement's timezone.
\<close>

section \<open>The resolved file\<close>

record FirstParty =
  fp_confirmed_by :: string
  fp_date :: string
  fp_target :: string

record ResolvedAsset =
  ra_ref :: Ref
  ra_first_party :: "FirstParty option"

record ResolvedFile =
  rs_roots :: "Ref list"
  rs_exclude :: "Ref list"
  rs_assets :: "ResolvedAsset list"
  rs_day :: "int \<Rightarrow> int"

record scope =
  so_env :: text_env
  so_res :: ResolvedFile
  so_at :: int
  so_intent :: "Ref list"
  so_suspended :: "string list"

definition wellKnown :: "string list" where
  "wellKnown = [''/robots.txt'', ''/.well-known/security.txt'']"

text \<open>The intent URLs are those of the exposed and the not exposed entries, in the file's order.\<close>

definition GateScope :: "text_env \<Rightarrow> ResolvedFile \<Rightarrow> string list \<Rightarrow> string list \<Rightarrow> int \<Rightarrow> scope" where
  "GateScope v res exposed not_exposed at =
     \<lparr>so_env = v, so_res = res, so_at = at, so_intent = List.map_filter (parseURL v) (exposed @ not_exposed),
      so_suspended = []\<rparr>"

section \<open>Subjects\<close>

definition recordDomain :: "string \<Rightarrow> bool" where
  "recordDomain d =
     (let labels = split_on CHR ''.'' d in
      length d \<le> 253 \<and> 2 \<le> length labels \<and> trim_set (last labels) (set digits_text) \<noteq> [] \<and> list_all answerLabelRE labels)"

definition parseSubject :: "text_env \<Rightarrow> string \<Rightarrow> Ref option" where
  "parseSubject v i =
     (let (kind, rst0, ok) = str_cut i '':''; (tenant, user, found) = str_cut rst0 ''/users/'';
          saas = (kind = KindSaaS \<and> has_prefix rst0 (ProviderGoogleWorkspace @ '':'') \<and> found) in
      if \<not> ok then None
      else if saas \<and> (user = [] \<or> index_set user {CHR ''/'', CHR ''?'', CHR ''#''} \<noteq> None) then None
      else let rst = (if saas then tenant else rst0) in
      case parseLocator v kind rst of
        Some r \<Rightarrow> Some r
      | None \<Rightarrow>
          (let d = trim_suffix (go_lower (te_lower v) rst) ''.'' in
           if kind = KindDomain \<and> recordDomain d
           then Some (no_ref\<lparr>r_kind := KindDomain, r_id := ''domain:'' @ d, r_written := rst, r_name := d\<rparr>)
           else None))"

definition sameOrigin :: "Ref \<Rightarrow> Ref \<Rightarrow> bool" where
  "sameOrigin a b = (r_scheme a = r_scheme b \<and> Address a = Address b \<and> r_port a = r_port b)"

definition under :: "Ref \<Rightarrow> Ref \<Rightarrow> bool" where
  "under c root =
     (Under c root \<or>
      r_kind c = KindURL \<and> r_kind root = KindURL \<and> sameOrigin c root \<and> r_path c \<in> set wellKnown)"

definition first_entry :: "(Ref \<Rightarrow> bool) \<Rightarrow> Ref list \<Rightarrow> string" where
  "first_entry P xs = (case index_where P xs of None \<Rightarrow> [] | Some i \<Rightarrow> excludeEntry i)"

definition excludedBy :: "scope \<Rightarrow> Ref \<Rightarrow> string" where
  "excludedBy s c = (case excludeOf (rs_exclude (so_res s)) c of None \<Rightarrow> [] | Some i \<Rightarrow> excludeEntry i)"

definition no_standing :: Standing where
  "no_standing = \<lparr>st_under_asset = False, st_root = [], st_excluded_by = []\<rparr>"

definition Subject :: "scope \<Rightarrow> string \<Rightarrow> string \<Rightarrow> Standing" where
  "Subject s asset i =
     (case (ParseID (so_env s) asset, parseSubject (so_env s) i) of
        (Some a, Some c) \<Rightarrow>
          \<lparr>st_under_asset = under c a,
           st_root = (case find (\<lambda>root. under c root) (rs_roots (so_res s)) of None \<Rightarrow> [] | Some root \<Rightarrow> r_id root),
           st_excluded_by = excludedBy s c\<rparr>
      | _ \<Rightarrow> no_standing)"

definition scope_name :: "scope \<Rightarrow> string \<Rightarrow> string" where
  "scope_name s n = first_entry (\<lambda>x. excludesName x n) (rs_exclude (so_res s))"

definition networkRoot :: "ResolvedFile \<Rightarrow> addr \<Rightarrow> string" where
  "networkRoot r a =
     (case find (\<lambda>root. r_kind root = KindNetwork \<and> list_ex (pfx_contains (r_prefix root)) (Forms a)) (rs_roots r) of
        None \<Rightarrow> [] | Some root \<Rightarrow> r_id root)"

definition scope_address :: "scope \<Rightarrow> addr \<Rightarrow> string \<times> bool" where
  "scope_address s a =
     (first_entry (\<lambda>x. addressExcluded x a) (rs_exclude (so_res s)), networkRoot (so_res s) a \<noteq> [])"

definition allowAddress :: "ResolvedFile \<Rightarrow> addr \<Rightarrow> nat option" where
  "allowAddress r a = index_where (\<lambda>x. addressExcluded x a) (rs_exclude r)"

text \<open>The interface the DNS client asks.\<close>

definition gate_scope :: "scope \<Rightarrow> Scope" where
  "gate_scope s = \<lparr>sc_subject = Subject s, sc_name = scope_name s\<rparr>"

section \<open>Evidence\<close>

record Evidence =
  ev_kind :: string
  ev_root :: string
  ev_confirmed_by :: string
  ev_date :: string
  ev_target :: string

definition root_evidence :: "string \<Rightarrow> Ref \<Rightarrow> Evidence" where
  "root_evidence kind root = \<lparr>ev_kind = kind, ev_root = r_id root, ev_confirmed_by = [], ev_date = [], ev_target = []\<rparr>"

definition counts :: "Evidence option \<Rightarrow> bool" where
  "counts ev = (case ev of None \<Rightarrow> False
     | Some e \<Rightarrow> ev_kind e \<noteq> ''expired'' \<and> ev_kind e \<noteq> ''future'' \<and> ev_kind e \<noteq> ''moved'' \<and> ev_kind e \<noteq> ''suspended'')"

definition current :: "ResolvedFile \<Rightarrow> FirstParty \<Rightarrow> int \<Rightarrow> bool" where
  "current r fp t =
     (case parse_date (fp_date fp) of
        None \<Rightarrow> False
      | Some (y, m, d) \<Rightarrow> rs_day r (day_number y m d) \<le> t \<and> t < rs_day r (day_number y m d + 366))"

fun parse_addrs :: "string list \<Rightarrow> addr list option" where
  "parse_addrs [] = Some []"
| "parse_addrs (p # ps) =
     (case parse_addr (trim_space p) of
        None \<Rightarrow> None
      | Some a \<Rightarrow> map_option (\<lambda>as. a # as) (parse_addrs ps))"

definition canonicalTarget :: "text_env \<Rightarrow> string \<Rightarrow> string option" where
  "canonicalTarget v t =
     (case parse_addrs (split_on CHR '','' t) of
        Some addrs \<Rightarrow> Some (JoinAddrs addrs)
      | None \<Rightarrow>
          (let d = trim_suffix (go_lower (te_lower v) t) ''.'' in if checkLabels d 2 then Some d else None))"

text \<open>A declared URL inside a URL root contributes its path and nothing else.\<close>

definition url_rooted :: "scope \<Rightarrow> Ref \<Rightarrow> Ref \<Rightarrow> bool" where
  "url_rooted s o' a =
     (r_kind a = KindURL \<and> sameOrigin a o' \<and>
      list_ex (\<lambda>root. r_kind root = KindURL \<and> Under a root) (rs_roots (so_res s)))"

definition operator_evidence :: "scope \<Rightarrow> FirstParty \<Rightarrow> Evidence" where
  "operator_evidence s fp =
     \<lparr>ev_kind = ''operator'', ev_root = [], ev_confirmed_by = fp_confirmed_by fp, ev_date = fp_date fp,
      ev_target = (case canonicalTarget (so_env s) (fp_target fp) of None \<Rightarrow> [] | Some t \<Rightarrow> t)\<rparr>"

text \<open>What one asset adds for an origin: an entry path and a confirmation.\<close>

definition asset_evidence :: "scope \<Rightarrow> Ref \<Rightarrow> ResolvedAsset \<Rightarrow> string list \<times> Evidence list" where
  "asset_evidence s o' a =
     (let r = ra_ref a in
      if url_rooted s o' r then ([r_path r], [])
      else case ra_first_party a of
        None \<Rightarrow> ([], [])
      | Some fp \<Rightarrow>
          if \<not> current (so_res s) fp (so_at s) then ([], [])
          else if r_kind r = KindURL \<and> sameOrigin r o' then ([r_path r], [operator_evidence s fp])
          else if r_port o' \<noteq> 0 \<or> r_kind r \<noteq> KindDomain \<and> r_kind r \<noteq> KindHost \<or> Address r \<noteq> Address o' then ([], [])
          else ([], [operator_evidence s fp]))"

definition host_rooted :: "Ref \<Rightarrow> Ref \<Rightarrow> bool" where
  "host_rooted o' root = (r_kind root = KindHost \<and> \<not> Local root \<and> Address root = Address o')"

definition network_rooted :: "Ref \<Rightarrow> Ref \<Rightarrow> bool" where
  "network_rooted o' root = (r_kind root = KindNetwork \<and> is_valid (r_addr o') \<and> pfx_contains (r_prefix root) (r_addr o'))"

definition evidence :: "scope \<Rightarrow> Ref \<Rightarrow> Evidence option \<times> string list" where
  "evidence s o' =
     (let roots = rs_roots (so_res s);
          urls = filter (\<lambda>root. r_kind root = KindURL \<and> sameOrigin root o') roots;
          hosts = (if r_port o' = 0 then filter (host_rooted o') roots else []);
          nets = (if r_port o' = 0 then filter (network_rooted o') roots else []);
          from_assets = map (asset_evidence s o') (rs_assets (so_res s));
          found = map (root_evidence ''url_root'') urls @ map (root_evidence ''host_root'') hosts @
            map (root_evidence ''network_root'') nets @ concat (map snd from_assets)
      in (if found = [] then None else Some (hd found), map r_path urls @ concat (map fst from_assets)))"

section \<open>Admission of a path\<close>

record sitePaths =
  sp_paths :: "string list"
  sp_first_party :: bool
  sp_network :: "string list"
  sp_confirmed :: "string list"
  sp_ev :: "Evidence option"

definition no_paths :: sitePaths where
  "no_paths = \<lparr>sp_paths = [], sp_first_party = False, sp_network = [], sp_confirmed = [], sp_ev = None\<rparr>"

definition sort_compact :: "string list \<Rightarrow> string list" where
  "sort_compact xs = remdups_adj (sort xs)"

definition front_page :: "scope \<Rightarrow> Ref \<Rightarrow> bool" where
  "front_page s o' =
     (r_port o' = 0 \<and>
      list_ex (\<lambda>root. r_kind root = KindDomain \<and> domainUnder (r_name o') (r_name root) \<or> network_rooted o' root \<or> host_rooted o' root)
        (rs_roots (so_res s)))"

definition site_at :: "scope \<Rightarrow> Ref \<Rightarrow> sitePaths" where
  "site_at s o' =
     (let front = front_page s o'; (ev0, entries0) = evidence s o';
          gone = (case ev0 of Some e \<Rightarrow> ev_kind e = ''operator'' \<and> r_name o' \<in> set (so_suspended s) | None \<Rightarrow> False);
          ev = (if gone then None else ev0); entries = (if gone then [] else entries0) in
      if \<not> front \<and> ev = None then no_paths
      else let more0 = wellKnown @ entries @ map r_path (filter (\<lambda>u. sameOrigin u o') (so_intent s));
               oper = (case ev of Some e \<Rightarrow> ev_kind e = ''operator'' | None \<Rightarrow> False);
               rooted = (ev \<noteq> None \<and> \<not> oper);
               nets = list_ex (\<lambda>r. r_kind r = KindNetwork) (rs_roots (so_res s)) in
        \<lparr>sp_paths = sort_compact ((if front then [''/''] else []) @ (if rooted then more0 else [])),
         sp_first_party = rooted,
         sp_network = (if (ev = None \<or> oper) \<and> nets then sort_compact more0 else []),
         sp_confirmed = (if oper then sort_compact more0 else []),
         sp_ev = ev\<rparr>)"

definition site :: "scope \<Rightarrow> string \<Rightarrow> sitePaths" where
  "site s origin =
     (case parseURL (so_env s) (origin @ ''/'') of
        None \<Rightarrow> no_paths
      | Some o' \<Rightarrow> if r_path o' \<noteq> ''/'' \<or> r_id o' \<noteq> ''url:'' @ origin @ ''/'' then no_paths else site_at s o')"

fun held_by :: "ResolvedFile \<Rightarrow> string \<Rightarrow> addr list \<Rightarrow> string option" where
  "held_by r held [] = Some held"
| "held_by r held (a # as) =
     (let root = networkRoot r a in
      if root = [] then None else held_by r (if held = [] then root else held) as)"

definition resolvedEvidence :: "ResolvedFile \<Rightarrow> Evidence option \<Rightarrow> Lookup \<Rightarrow> Evidence option" where
  "resolvedEvidence r ev0 l =
     (let ev = (case ev0 of
          Some e \<Rightarrow> if ev_kind e = ''operator'' \<and> \<not> PointsAt l (ev_target e) then Some (e\<lparr>ev_kind := ''moved'', ev_root := []\<rparr>) else ev0
        | None \<Rightarrow> None) in
      if counts ev \<or> lk_addrs l = [] then ev
      else case held_by r [] (lk_addrs l) of
        None \<Rightarrow> ev
      | Some root \<Rightarrow> Some \<lparr>ev_kind = ''network_root'', ev_root = root, ev_confirmed_by = [], ev_date = [], ev_target = []\<rparr>)"

record Admission =
  ad_refused :: string
  ad_resolve :: bool
  ad_first_party :: bool

definition refuse_path :: "string \<Rightarrow> Admission" where
  "refuse_path rule = \<lparr>ad_refused = rule, ad_resolve = False, ad_first_party = False\<rparr>"

definition Admits :: "scope \<Rightarrow> string \<Rightarrow> string \<Rightarrow> Lookup option \<Rightarrow> Admission" where
  "Admits s origin pth lk =
     (let sp = site s origin in
      if pth \<in> set (sp_paths sp) then \<lparr>ad_refused = [], ad_resolve = False, ad_first_party = sp_first_party sp\<rparr>
      else if pth \<notin> set (sp_network sp) \<and> pth \<notin> set (sp_confirmed sp) then refuse_path ''entry_point''
      else case lk of
        None \<Rightarrow> \<lparr>ad_refused = [], ad_resolve = True, ad_first_party = False\<rparr>
      | Some l \<Rightarrow>
          (let ev = (if pth \<in> set (sp_confirmed sp) then sp_ev sp else None) in
           if counts (resolvedEvidence (so_res s) ev l) then \<lparr>ad_refused = [], ad_resolve = False, ad_first_party = True\<rparr>
           else refuse_path ''address_moved''))"

section \<open>What the report and the gate ask besides\<close>

text \<open>The organizational units excluded under a tenant, with the exclude entry.\<close>

definition OrgUnits :: "scope \<Rightarrow> string \<Rightarrow> (string \<times> string) list" where
  "OrgUnits s asset =
     (case ParseID (so_env s) asset of
        None \<Rightarrow> []
      | Some ref \<Rightarrow>
          map (\<lambda>(i, x). (r_org_unit x, excludeEntry i))
            (filter (\<lambda>(i, x). r_org_unit x \<noteq> [] \<and> r_id x = r_id ref) (enumerate 0 (rs_exclude (so_res s)))))"

text \<open>The origins an asset's evidence is looked for at: its own, or a name's two default ones.\<close>

definition asset_origins :: "Ref \<Rightarrow> Ref list" where
  "asset_origins a =
     (if r_kind a = KindURL then [a]
      else if r_kind a = KindHost \<or> r_kind a = KindDomain then
        map (\<lambda>scheme. no_ref\<lparr>r_kind := KindURL, r_scheme := scheme, r_name := r_name a, r_addr := r_addr a\<rparr>) [''https'', ''http'']
      else [])"

definition firstParty :: "scope \<Rightarrow> ResolvedAsset \<Rightarrow> string \<Rightarrow> Evidence option" where
  "firstParty s a root =
     (if r_kind (ra_ref a) = KindHost \<and> Local (ra_ref a) then
        Some \<lparr>ev_kind = ''host_root'', ev_root = root, ev_confirmed_by = [], ev_date = [], ev_target = []\<rparr>
      else case List.map_filter (\<lambda>o'. fst (evidence s o')) (asset_origins (ra_ref a)) of
        e # _ \<Rightarrow> Some e
      | [] \<Rightarrow>
          (case ra_first_party a of
             None \<Rightarrow> None
           | Some fp \<Rightarrow>
               if current (so_res s) fp (so_at s) then None
               else Some \<lparr>ev_kind = (case parse_date (fp_date fp) of
                     None \<Rightarrow> ''expired''
                   | Some (y, m, d) \<Rightarrow> if so_at s < rs_day (so_res s) (day_number y m d) then ''future'' else ''expired''),
                 ev_root = [], ev_confirmed_by = fp_confirmed_by fp, ev_date = fp_date fp, ev_target = []\<rparr>))"

end
