(* ===== verification/Scope_Proofs.thy ===== *)
theory Scope_Proofs
  imports Scope_File
begin

text \<open>
  What the engagement's scope guarantees the gate, end to end with the DNS client: excludes win over
  every subject and every query, and no path beyond a front page is read without evidence.
\<close>

section \<open>Excludes\<close>

lemma excludeEntry_nonempty [simp]: "excludeEntry i \<noteq> []"
  by (simp add: excludeEntry_def)

lemma first_entry_Nil: "first_entry P xs = [] \<longleftrightarrow> (\<forall>x\<in>set xs. \<not> P x)"
  by (auto simp: first_entry_def index_where_None [symmetric] split: option.splits)


text \<open>
  C6: The file's excludes hold for every DNS query: over any sequence of operations of a gate built on
  the file's scope, no query is sent for a name under an excluded domain, for an excluded host's name
  or for the name of an excluded site, except control names under \<open>.invalid\<close>.
\<close>
theorem file_excludes_never_queried:
  assumes "g_scope g = gate_scope s" and "g_log g = []" and "n \<in> set (queried (dns_run g ops))"
    and "x \<in> set (rs_exclude (so_res s))"
  shows "\<not> excludesName x n \<or> has_suffix n ''.invalid''"
proof -
  obtain ls where "g_log (dns_run g ops) = ls" "\<forall>l\<in>set ls. dl_event l = ''dns'' \<longrightarrow> allowed (g_scope g) (dl_name l)"
    using dns_run_lines_ok [of g ops] assms(2) by (auto simp: lines_ok_def)
  with assms(3) have "allowed (gate_scope s) n" using assms(1) by (auto simp: queried_def)
  then show ?thesis using assms(4) by (auto simp: allowed_def gate_scope_def scope_name_def first_entry_Nil)
qed


section \<open>Evidence\<close>

text \<open>What each kind of evidence rests on.\<close>

definition rooted_at :: "scope \<Rightarrow> Ref \<Rightarrow> bool" where
  "rooted_at s o' =
     (\<exists>root\<in>set (rs_roots (so_res s)).
        r_kind root = KindURL \<and> sameOrigin root o' \<or> r_port o' = 0 \<and> (host_rooted o' root \<or> network_rooted o' root))"

definition confirmed_at :: "scope \<Rightarrow> Ref \<Rightarrow> string \<Rightarrow> bool" where
  "confirmed_at s o' target =
     (\<exists>a\<in>set (rs_assets (so_res s)). \<exists>fp. ra_first_party a = Some fp \<and> current (so_res s) fp (so_at s) \<and>
        Address (ra_ref a) = Address o' \<and> canonicalTarget (so_env s) (fp_target fp) = Some target)"

lemma asset_evidence_operator:
  assumes "e \<in> set (snd (asset_evidence s o' a))"
  shows "ev_kind e = ''operator'' \<and> (\<exists>fp. ra_first_party a = Some fp \<and> current (so_res s) fp (so_at s) \<and>
    Address (ra_ref a) = Address o' \<and> ev_target e = (case canonicalTarget (so_env s) (fp_target fp) of None \<Rightarrow> [] | Some t \<Rightarrow> t))"
  using assms
  by (auto simp: asset_evidence_def operator_evidence_def sameOrigin_def Let_def split: if_splits option.splits)

lemma evidence_sound:
  assumes "evidence s o' = (Some e, entries)"
  shows "ev_kind e \<in> {''url_root'', ''host_root'', ''network_root''} \<and> rooted_at s o' \<or>
    ev_kind e = ''operator'' \<and> (ev_target e \<noteq> [] \<longrightarrow> confirmed_at s o' (ev_target e))"
proof -
  from assms have "e \<in> set (let roots = rs_roots (so_res s);
          urls = filter (\<lambda>root. r_kind root = KindURL \<and> sameOrigin root o') roots;
          hosts = (if r_port o' = 0 then filter (host_rooted o') roots else []);
          nets = (if r_port o' = 0 then filter (network_rooted o') roots else [])
      in map (root_evidence ''url_root'') urls @ map (root_evidence ''host_root'') hosts @
            map (root_evidence ''network_root'') nets @ concat (map snd (map (asset_evidence s o') (rs_assets (so_res s)))))"
    by (auto simp: evidence_def Let_def simp del: set_append split: if_splits intro: list.set_sel(1))
  then consider
      root where "root \<in> set (rs_roots (so_res s))" "r_kind root = KindURL" "sameOrigin root o'" "e = root_evidence ''url_root'' root"
    | root where "root \<in> set (rs_roots (so_res s))" "r_port o' = 0" "host_rooted o' root" "e = root_evidence ''host_root'' root"
    | root where "root \<in> set (rs_roots (so_res s))" "r_port o' = 0" "network_rooted o' root" "e = root_evidence ''network_root'' root"
    | a where "a \<in> set (rs_assets (so_res s))" "e \<in> set (snd (asset_evidence s o' a))"
    by (auto simp: Let_def split: if_splits)
  then show ?thesis
  proof cases
    case 4
    from asset_evidence_operator [OF 4(2)] 4(1) show ?thesis
      by (auto simp: confirmed_at_def split: option.splits)
  qed (auto simp: rooted_at_def root_evidence_def)
qed

lemma held_by_Some:
  "held_by r held as = Some root \<Longrightarrow> a \<in> set as \<Longrightarrow> networkRoot r a \<noteq> []"
  by (induction r held as rule: held_by.induct) (auto simp: Let_def split: if_splits)

definition in_network_root :: "ResolvedFile \<Rightarrow> addr \<Rightarrow> bool" where
  "in_network_root r a =
     (\<exists>root\<in>set (rs_roots r). r_kind root = KindNetwork \<and> (\<exists>f\<in>set (Forms a). pfx_contains (r_prefix root) f))"

lemma networkRoot_sound: "networkRoot r a \<noteq> [] \<Longrightarrow> in_network_root r a"
  by (auto simp: networkRoot_def in_network_root_def list_ex_iff split: option.splits dest!: find_SomeD)

lemma resolved_sound:
  assumes "counts (resolvedEvidence r ev l)"
  shows "(\<exists>e. ev = Some e \<and> (ev_kind e = ''operator'' \<longrightarrow> PointsAt l (ev_target e))) \<or>
    lk_addrs l \<noteq> [] \<and> (\<forall>a\<in>set (lk_addrs l). in_network_root r a)"
proof -
  let ?ev = "case ev of
      Some e \<Rightarrow> if ev_kind e = ''operator'' \<and> \<not> PointsAt l (ev_target e) then Some (e\<lparr>ev_kind := ''moved'', ev_root := []\<rparr>) else ev
    | None \<Rightarrow> None"
  show ?thesis
  proof (cases "counts ?ev")
    case True
    then show ?thesis by (auto simp: counts_def split: option.splits if_splits)
  next
    case False
    then have "lk_addrs l \<noteq> []" "\<exists>root. held_by r [] (lk_addrs l) = Some root"
      using assms by (auto simp: resolvedEvidence_def Let_def split: if_splits option.splits)
    then show ?thesis using held_by_Some networkRoot_sound by blast
  qed
qed

lemma sort_compact_set [simp]: "set (sort_compact xs) = set xs"
  by (simp add: sort_compact_def)

text \<open>
  C5: No path is read without evidence.  When a path is admitted for an origin once its name has been
  looked up, it is the front page of a name a root covers, or a root holds the origin, or the
  operator's confirmation of that name is in its year, not suspended, and the name still points
  at its target, or every address of the name is inside a network root.
\<close>
theorem admission_needs_evidence:
  assumes "ad_refused (Admits s origin pth (Some l)) = []"
  shows "\<exists>o'. parseURL (so_env s) (origin @ ''/'') = Some o' \<and>
    (pth = ''/'' \<and> front_page s o' \<or> rooted_at s o' \<or>
     (\<exists>target. confirmed_at s o' target \<and> PointsAt l target \<and> r_name o' \<notin> set (so_suspended s)) \<or>
     lk_addrs l \<noteq> [] \<and> (\<forall>a\<in>set (lk_addrs l). in_network_root (so_res s) a))"
proof -
  let ?sp = "site s origin"
  have adm: "pth \<in> set (sp_paths ?sp) \<or>
      (pth \<in> set (sp_network ?sp) \<or> pth \<in> set (sp_confirmed ?sp)) \<and>
      counts (resolvedEvidence (so_res s) (if pth \<in> set (sp_confirmed ?sp) then sp_ev ?sp else None) l)"
    using assms by (auto simp: Admits_def refuse_path_def Let_def split: if_splits)
  then have "?sp \<noteq> no_paths" by (auto simp: no_paths_def)
  then obtain o' where o': "parseURL (so_env s) (origin @ ''/'') = Some o'" "?sp = site_at s o'"
    by (auto simp: site_def split: option.splits if_splits)
  obtain ev0 entries0 where e: "evidence s o' = (ev0, entries0)" by (rule prod.exhaust)
  have ev: "sp_ev ?sp = None \<or> sp_ev ?sp = ev0 \<and> (\<forall>x. ev0 = Some x \<longrightarrow> ev_kind x = ''operator'' \<longrightarrow> r_name o' \<notin> set (so_suspended s))"
    using o'(2) e by (auto simp: site_at_def no_paths_def Let_def split: option.splits if_splits)
  have paths: "pth \<in> set (sp_paths ?sp) \<Longrightarrow> pth = ''/'' \<and> front_page s o' \<or> (\<exists>x. ev0 = Some x \<and> ev_kind x \<noteq> ''operator'')"
    using o'(2) e by (auto simp: site_at_def no_paths_def Let_def split: option.splits if_splits)
  from adm show ?thesis
  proof
    assume "pth \<in> set (sp_paths ?sp)"
    from paths [OF this] show ?thesis using evidence_sound [of s o'] e o'(1) by auto
  next
    assume "(pth \<in> set (sp_network ?sp) \<or> pth \<in> set (sp_confirmed ?sp)) \<and>
      counts (resolvedEvidence (so_res s) (if pth \<in> set (sp_confirmed ?sp) then sp_ev ?sp else None) l)"
    from resolved_sound [OF conjunct2 [OF this]] show ?thesis
    proof
      assume "\<exists>x. (if pth \<in> set (sp_confirmed ?sp) then sp_ev ?sp else None) = Some x \<and>
        (ev_kind x = ''operator'' \<longrightarrow> PointsAt l (ev_target x))"
      then obtain x where x: "ev0 = Some x" "ev_kind x = ''operator'' \<longrightarrow> PointsAt l (ev_target x)"
        "ev_kind x = ''operator'' \<longrightarrow> r_name o' \<notin> set (so_suspended s)"
        using ev by (auto split: if_splits)
      then show ?thesis
        using evidence_sound [of s o' x entries0] e o'(1) by (auto simp: PointsAt_def)
    qed (use o'(1) in blast)
  qed
qed

section \<open>Samples\<close>

text \<open>
  A file with the root \<open>example.com\<close>, an exclude under it and one asset that the
  operator confirmed at a name of another domain.
\<close>

definition a_domain :: "string \<Rightarrow> Ref" where
  "a_domain d = no_ref\<lparr>r_kind := KindDomain, r_id := ''domain:'' @ d, r_written := d, r_name := d\<rparr>"

definition sample_file :: ResolvedFile where
  "sample_file = \<lparr>rs_roots = [a_domain ''example.com''], rs_exclude = [a_domain ''x.example.com''],
     rs_assets = [\<lparr>ra_ref = a_domain ''shop.example.com'',
       ra_first_party = Some \<lparr>fp_confirmed_by = ''ops'', fp_date = ''0001-01-01'', fp_target = ''cdn.example.net''\<rparr>\<rparr>],
     rs_day = id\<rparr>"

definition site_env :: text_env where
  "site_env = \<lparr>te_lower = id, te_url = (\<lambda>s. Some \<lparr>u_scheme = ''https'', u_opaque = [], u_user = False,
     u_host = ''shop.example.com'', u_path = ''/'', u_raw_query = [], u_force_query = False, u_fragment = []\<rparr>)\<rparr>"

definition sample_scope_file :: scope where
  "sample_scope_file = \<lparr>so_env = site_env, so_res = sample_file, so_at = day_number 1 6 1, so_intent = [], so_suspended = []\<rparr>"

abbreviation file_gate :: gate where
  "file_gate \<equiv> (sample_gate (\<lambda>_. (Inl TimedOut, False)))\<lparr>g_scope := gate_scope sample_scope_file\<rparr>"

theorem file_excludes_never_queried_witness:
  "''a.example.com'' \<in> set (queried (dns_run file_gate
     [DoResolve \<lparr>rq_asset = ''domain:example.com'', rq_name = ''a.example.com'', rq_control = False\<rparr> False])) \<and>
   \<not> excludesName (a_domain ''x.example.com'') ''a.example.com''"
proof -
  have q: "''a.example.com'' \<in> set (queried (dns_run file_gate
     [DoResolve \<lparr>rq_asset = ''domain:example.com'', rq_name = ''a.example.com'', rq_control = False\<rparr> False]))"
    by code_simp
  have x: "a_domain ''x.example.com'' \<in> set (rs_exclude (so_res sample_scope_file))"
    by (simp add: sample_scope_file_def sample_file_def)
  have "g_scope file_gate = gate_scope sample_scope_file" "g_log file_gate = []" by (simp_all add: sample_gate_def)
  moreover have "\<not> has_suffix ''a.example.com'' ''.invalid''" by code_simp
  ultimately show ?thesis using file_excludes_never_queried [OF _ _ q x] q by blast
qed


definition sample_answer :: Lookup where
  "sample_answer = (new_lookup ''shop.example.com'')\<lparr>lk_chain := [''cdn.example.net''], lk_addrs := [V4 1], lk_outcome := OutcomeAddresses,
     lk_target := ''cdn.example.net''\<rparr>"

theorem admission_needs_evidence_witness:
  "\<exists>o'. parseURL site_env ''https://shop.example.com/'' = Some o' \<and>
    (''/robots.txt'' = ''/'' \<and> front_page sample_scope_file o' \<or> rooted_at sample_scope_file o' \<or>
     (\<exists>target. confirmed_at sample_scope_file o' target \<and>
        PointsAt sample_answer target \<and> r_name o' \<notin> set (so_suspended sample_scope_file)))"
proof -
  have "ad_refused (Admits sample_scope_file ''https://shop.example.com'' ''/robots.txt'' (Some sample_answer)) = []" by code_simp
  from admission_needs_evidence [OF this]
  show ?thesis by (simp add: sample_scope_file_def sample_file_def in_network_root_def a_domain_def kinds sample_answer_def)
qed

end
