(* ===== verification/Spec2Isabelle.thy ===== *)
theory Spec2Isabelle
  imports Path_Policy Ssh_Quote Redact_Proofs Redact_Leak Check_Tables Check_Parse Runner_Shipped
    Severity_Table Operator_Context Posture_Proofs Grading Store_Proofs Baseline Finding_Invariants
    Gate_Addr Ufw_Proofs Host_Access Dns_Proofs Dns_Safety Scope_Proofs
begin

text \<open>
  scheck reads the security posture of a host (and of an organisation's accounts) with read-only
  commands and turns what it reads into findings.  A language model may take part, and everything it
  does goes through a small trusted core.  This development models that core and proves the promises
  the repository's documents make of it.

  \<^bold>\<open>The program's parts and how they meet.\<close>
  A host run goes through these parts, in this order:

  \<^enum> \<open>internal/check\<close> holds a compiled-in catalog of checks.  A check is a template of an argument
    vector with typed parameters; \<open>Bind\<close> fills it in.  \<open>Validate\<close> rejects a catalog that names a
    shell, a mutating flag or an unsafe parameter.
  \<^enum> \<open>internal/runner\<close> is the only way to a target.  For one request it looks the check up, binds it,
    asks the target where a path really leads, asks \<open>internal/policy\<close> whether the content may be
    read, elevates or skips, executes, redacts, cuts to the output budget, parses, keeps the result
    as an observation with a reference, and writes the audit log.
  \<^enum> \<open>internal/policy\<close> decides on paths (\<open>path.go\<close>) and hides secrets (\<open>redact.go\<close>).
  \<^enum> \<open>internal/target/ssh\<close> sends an argument vector through a remote shell by quoting it.
  \<^enum> \<open>internal/baseline\<close> runs the fixed plan of checks through the runner into a fact sheet.
  \<^enum> \<open>internal/finding\<close> evaluates the posture rules on the fact sheet, seeds the finding store with
    their findings, and lets a model add to the store, which validates, merges and grades.
  \<^enum> \<open>internal/operator\<close> supplies what the operator declares about the host; the grader reads it.
  \<^enum> \<open>internal/engagement/severity\<close> is the grader's counterpart for an engagement over many systems.
  \<^enum> \<open>internal/engagement/rules\<close> judges a host in an engagement by rules over several facts; what it
    judges goes to the severity table.
  \<^enum> \<open>internal/engagement\<close> reads the file that declares an engagement: its roots, excludes and assets are
    locators, and its scope answers what the gate asks.
  \<^enum> \<open>internal/engagement/gate\<close> is the only way to the network in an engagement; which addresses it may
    contact is decided by their class, which names it may query by the scope, and its DNS client sends
    and reads the queries.

  \<^bold>\<open>Theories, source files and what is shown.\<close>

  \<^descr>[\<open>Prelude\<close>] the Go library functions the sources use (\<open>strings\<close>, \<open>path\<close>, \<open>strconv\<close>,
    \<open>sort\<close>), with the lemmas and the collections \<open>go_defs\<close> and \<open>policy_simps\<close> the components share.
  \<^descr>[\<open>Regexp\<close>] Go's leftmost-first regular expressions.  The backtracking matcher is executable and
    total, and equivalent to a step relation: it fails exactly when no match exists.
  \<^descr>[\<open>Path_Policy\<close>] \<open>internal/policy/path.go\<close>.  What \<open>Decide\<close> allows, exactly; key material is never
    readable; dot-dot components change nothing; deny paths only restrict; on macOS the two spellings
    of a path get the same verdict; the order of a Go map does not matter.
  \<^descr>[\<open>Ssh_Quote\<close>] \<open>internal/target/ssh/quote.go\<close>.  A POSIX shell splits the quoted line back into
    exactly the argument vector.
  \<^descr>[\<open>Redact\<close>, \<open>Redact_Proofs\<close>, \<open>Redact_Leak\<close>] \<open>internal/policy/redact.go\<close>, \<open>budgets.go\<close>,
    \<open>locations.go\<close>.  The one-pass loop refines a per-byte reference; what every match hides; the cut to
    the budget splits no marker and accounts for what it drops; an input on which a private key is
    only partly hidden.
  \<^descr>[\<open>Check_Catalog\<close>] \<open>internal/check/check.go\<close>, \<open>bind.go\<close>, \<open>catalog.go\<close>, \<open>shells.go\<close>.  What \<open>Bind\<close>
    accepts and returns; lookup after registration; the registration order does not matter.
  \<^descr>[\<open>Check_Invariants\<close>] \<open>internal/check/invariants.go\<close>.  A validated catalog binds to argument
    vectors of literal characters only.
  \<^descr>[\<open>Check_Tables\<close>] \<open>internal/check/common\<close>, \<open>linux\<close>, \<open>macos\<close>, \<open>all\<close>, entry by entry.  The
    compiled-in catalog is valid and no binding of it leaves the closed set of commands.
  \<^descr>[\<open>Check_Parse\<close>] \<open>internal/check/parse.go\<close>, \<open>typed.go\<close>, \<open>summary.go\<close>.  A typed fact accounts for
    every line it was read from.
  \<^descr>[\<open>Runner\<close>, \<open>Runner_Proofs\<close>, \<open>Runner_Records\<close>, \<open>Runner_Shipped\<close>] \<open>internal/runner\<close> and the audit
    log.  Whatever the target answers: which commands are sent; that a denied call runs nothing; that
    protected content is not read; that only redactor output leaves the runner; that the audit log is
    complete; that observations are unique and never change; and that no session on the compiled-in
    catalog sends a mutating command.
  \<^descr>[\<open>Baseline\<close>] \<open>internal/baseline/baseline.go\<close>.  The fact sheet holds the results of a prefix of the
    plan, all of it unless marked incomplete, each the observation its reference names.
  \<^descr>[\<open>Severity\<close>, \<open>Severity_Table\<close>] \<open>internal/finding/finding.go\<close>, \<open>chain.go\<close>, \<open>judgment.go\<close>,
    \<open>catalog.go\<close> and \<open>internal/engagement/severity/severity.go\<close>.  A chain of moves leads without a gap
    from the base to the result; it stays below the ceiling; what may pass high; exposure on purpose
    ends at info; a row counts once.
  \<^descr>[\<open>Operator_Context\<close>] \<open>internal/operator/operator.go\<close>.  The byte budget, the merge of sources, and
    how long an accepted risk lasts.
  \<^descr>[\<open>Posture\<close>, \<open>Posture_Proofs\<close>] \<open>internal/finding/rule.go\<close>, \<open>join.go\<close>, \<open>evaluate.go\<close>, \<open>facts.go\<close>.
    Incomplete evidence never disproves (with one exception, shown); the join of two checks decides
    logins exactly; one assessment per rule; a finding exactly for a matched rule.
  \<^descr>[\<open>Grading\<close>] \<open>internal/finding/grade.go\<close>.  Bounds, attribution, status, and that grading twice is
    grading once.
  \<^descr>[\<open>Finding_Store\<close>, \<open>Store_Proofs\<close>] \<open>internal/finding/store.go\<close>.  Through any sequence of reports and
    rulings-out: the invariant of the store, the rules' findings as a floor, quoted evidence, and that
    what a rule disproved stays disproved.
  \<^descr>[\<open>Finding_Defs\<close>, \<open>Finding_Invariants\<close>] the definition tables of \<open>internal/finding\<close> (\<open>catalog.go\<close>,
    \<open>web.go\<close>, \<open>github*.go\<close>, \<open>multifact.go\<close>) and of the workspace collector, text by text, and
    \<open>invariants.go\<close>.  Registration never panics and ids are unique; the tables of the package satisfy
    every invariant; one definition of the workspace collector does not.
  \<^descr>[\<open>Host_View\<close>, \<open>Host_Listeners\<close>, \<open>Host_Firewall\<close>, \<open>Host_Rules\<close>] \<open>internal/engagement/rules\<close>: the view
    that answers declared reads, the listeners, the firewall, and the three rules with their table.
  \<^descr>[\<open>Regexp_Groups\<close>, \<open>Ufw_Proofs\<close>] the reading of ufw's listing is sound for a packet semantics of ufw.
  \<^descr>[\<open>Host_Rules_Proofs\<close>, \<open>Host_Verdicts\<close>, \<open>Host_Access\<close>] the rules read only what they declare, cite only
    what the host holds and disprove only on complete facts; when the database rule fires and
    disproves; what must hold for the SSH and service rules to fire.
  \<^descr>[\<open>Netip\<close>, \<open>Gate_Addr\<close>] Go's \<open>net/netip\<close> as far as the sources use it, and
    \<open>internal/engagement/gate/addr.go\<close>.  Networks and classes see through the IPv6 forms that carry an
    IPv4 address; zones are not dropped.
  \<^descr>[\<open>Addr_Text\<close>, \<open>Dns_Wire\<close>, \<open>Dns_Proofs\<close>] the text of addresses, and the messages and names of
    \<open>internal/engagement/gate/dns.go\<close> and \<open>op.go\<close>.  An answer to a query reads back as what was
    answered; a name read ends inside the message; what the pointers and the Unicode lower-casing of a
    name allow beyond what the comments say.
  \<^descr>[\<open>Dns_Client\<close>, \<open>Dns_Safety\<close>] the operations of the DNS client.  Over any sequence of them: no query
    for an excluded name, a bounded lookup, NXDOMAIN only after the chain's end was asked for its CNAME,
    every target followed once and SPF's limit kept.
  \<^descr>[\<open>Locator\<close>, \<open>Locator_Proofs\<close>] \<open>internal/engagement/locator.go\<close>.  A domain covers names by whole
    labels; an exclude covers all that falls under it.
  \<^descr>[\<open>Scope_File\<close>, \<open>Scope_Proofs\<close>] \<open>internal/engagement/scope.go\<close>.  The file's excludes hold for every
    query the gate sends and every subject it places; a path beyond a front page is read only on
    evidence that holds.

  \<^bold>\<open>State and errors.\<close>
  A Go struct is a record and an enumeration a datatype.  A method that changes its receiver returns
  it changed; the runner's state (observations, audit log, and the commands that reached the target)
  and the store are passed along.  An error return is the left of a sum or a value of an error
  datatype that keeps the values its message is formatted from.  A Go map is a map or, where it is
  ranged over, an association list with distinct keys; theorems on such loops say when the order
  matters.  Go strings are lists of characters, read as bytes.  Integers in the sources count bytes,
  lines and entries of values held in memory and do not come near \<open>2 ^ 63\<close>; they are \<open>nat\<close> or \<open>int\<close>.

  \<^bold>\<open>Parameters.\<close>
  What is not the repository's code is an argument: the target's \<open>Exec\<close> (a function of all commands
  sent so far, so it may answer differently each time), the JSON and YAML decoders, the compiler of
  patterns given as text, the hash of outputs, whether the run's context has ended, the calendar of the
  operator's time zone, the bytes a resolver answers and what the clock, the limiter and the audit log say
  around a query, \<open>url.Parse\<close>, and Unicode's lower case outside ASCII.  The theorems quantify over all of them.

  \<^bold>\<open>Interfaces.\<close>
  \<open>check_registry\<close> is the contract of a registry, interpreted on the list model of \<open>catalog.go\<close>.
  \<open>run_steps\<close> carries a relation that holds across the steps of the runner to whole runs, interpreted
  on "every command is logged" and on "observations only grow".  \<open>closed_commands\<close> is what a catalog
  promises the runner, interpreted on the compiled-in catalog.  \<open>view_steps\<close> carries a relation that
  holds across the reads of a view to whole rules, interpreted on "reads only what is declared" and on
  "reads only facts of the host".

  \<^bold>\<open>Termination and bounds.\<close>
  The loops of the sources are structural recursions on their input; those that are not (the search
  loop of \<open>Regexp\<close>, and the splitting and trimming functions of \<open>Prelude\<close> and
  \<open>Operator_Context\<close>) have a measure, the bytes left.  One loop carries a bound: the repetition of
  the matcher may go round once more than there are bytes left.  An iteration that reads nothing is
  dropped, as in Go, so every iteration kept reads a byte and the bound is never reached;
  \<open>re_match_None_iff\<close>, which compares the matcher with an unbounded relation, shows it.

  \<^bold>\<open>Not modelled.\<close>
  Verbose messages, locks and timestamps of the modelled packages; \<open>check.Decode\<close>, which reads stored
  results back from JSON; reading files and flags in \<open>internal/operator\<close>.  Of the other packages: the transports of
  \<open>internal/target\<close>, the clients of \<open>internal/llm\<close> and the command line are I/O and wiring;
  \<open>internal/report\<close>, \<open>internal/engagement/report\<close> and the rendering files lay out text.

  \<^bold>\<open>What is left.\<close>
  The JSON redactor, the sudoers fragment, the gate's HTTP operations (admission, sending, retries,
  throttling), the validation of the engagement file, the SPF and DMARC evaluators of the web collector
  and the permission logic of the GitHub collector are not modelled yet.
\<close>

end
